(* ===== verification/Prelude.thy ===== *)
theory Prelude
  imports Complex_Main "HOL-Library.Word" "HOL-Library.AList"
begin

text \<open>
  Shared vocabulary of the development: machine integers, Rust's \<open>Result\<close> as a sum with the
  error on the left, hash maps as association lists with distinct keys, and the generic lemmas
  the components use. A Rust \<open>String\<close> is the list of its UTF-8 bytes.
\<close>

named_theorems hmap_simps \<open>reading a hash map after an operation\<close>
named_theorems res_simps \<open>evaluation of fallible computations\<close>

section \<open>Names of the machine types\<close>

type_synonym u64 = "64 word"
type_synonym str = string
type_synonym nanos = nat

text \<open>An \<open>i64\<close> is an integer within these bounds.\<close>

definition i64_max :: int where
  "i64_max = 9223372036854775807"

definition i64_min :: int where
  "i64_min = - 9223372036854775808"

definition is_i64 :: "int \<Rightarrow> bool" where
  "is_i64 i \<longleftrightarrow> i64_min \<le> i \<and> i \<le> i64_max"

text \<open>\<open>i64::try_from\<close> on an unsigned word: \<open>None\<close> is the conversion error.\<close>

definition i64_try_from :: "u64 \<Rightarrow> int option" where
  "i64_try_from w = (if uint w \<le> i64_max then Some (uint w) else None)"

lemma i64_try_from_Some: "i64_try_from w = Some i \<Longrightarrow> is_i64 i \<and> 0 \<le> i \<and> i = uint w"
proof -
  assume "i64_try_from w = Some i"
  then have "uint w \<le> i64_max" and "i = uint w"
    by (auto simp: i64_try_from_def split: if_splits)
  moreover have "0 \<le> uint w" by simp
  ultimately show ?thesis
    by (simp add: is_i64_def i64_min_def order_trans [of "- 9223372036854775808" 0])
qed

section \<open>Results\<close>

text \<open>\<open>?\<close> on a \<open>Result\<close>: the error returns early, the value goes on.\<close>

definition rbind :: "'e + 'a \<Rightarrow> ('a \<Rightarrow> 'e + 'b) \<Rightarrow> 'e + 'b" where
  "rbind r f = (case r of Inl e \<Rightarrow> Inl e | Inr a \<Rightarrow> f a)"

lemma rbind_simps [simp, res_simps]:
  "rbind (Inl e) f = Inl e"
  "rbind (Inr a) f = f a"
  by (simp_all add: rbind_def)

lemma rbind_eq_Inr: "rbind r f = Inr b \<longleftrightarrow> (\<exists>a. r = Inr a \<and> f a = Inr b)"
  by (cases r) auto

lemma rbind_eq_Inl: "rbind r f = Inl e \<longleftrightarrow> r = Inl e \<or> (\<exists>a. r = Inr a \<and> f a = Inl e)"
  by (cases r) auto

text \<open>\<open>Option::ok_or\<close>.\<close>

definition ok_or :: "'e \<Rightarrow> 'a option \<Rightarrow> 'e + 'a" where
  "ok_or e x = (case x of None \<Rightarrow> Inl e | Some a \<Rightarrow> Inr a)"

lemma ok_or_simps [simp, res_simps]:
  "ok_or e None = Inl e"
  "ok_or e (Some a) = Inr a"
  by (simp_all add: ok_or_def)

lemma ok_or_eq_Inr [simp]: "ok_or e x = Inr a \<longleftrightarrow> x = Some a"
  by (cases x) auto

text \<open>\<open>iter().map(f).collect::<Result<Vec<_>, _>>()\<close>: the first error wins.\<close>

fun map_res :: "('a \<Rightarrow> 'e + 'b) \<Rightarrow> 'a list \<Rightarrow> 'e + 'b list" where
  "map_res f [] = Inr []"
| "map_res f (x # xs) =
     (case f x of Inl e \<Rightarrow> Inl e
      | Inr y \<Rightarrow> (case map_res f xs of Inl e \<Rightarrow> Inl e | Inr ys \<Rightarrow> Inr (y # ys)))"

lemma map_res_Inr_iff: "map_res f xs = Inr ys \<longleftrightarrow> list_all2 (\<lambda>x y. f x = Inr y) xs ys"
proof (induction xs arbitrary: ys)
  case Nil
  then show ?case by auto
next
  case (Cons x xs)
  show ?case
    by (cases ys) (auto simp: Cons.IH [symmetric] split: sum.splits)
qed

lemma map_res_length: "map_res f xs = Inr ys \<Longrightarrow> length ys = length xs"
  by (auto simp: map_res_Inr_iff dest: list_all2_lengthD)

lemma map_res_total: "(\<And>x. x \<in> set xs \<Longrightarrow> f x = Inr (g x)) \<Longrightarrow> map_res f xs = Inr (map g xs)"
  by (induction xs) auto

section \<open>Hash maps\<close>

text \<open>
  A \<open>HashMap\<close> is an association list whose keys are distinct; the order of the list stands for
  the unspecified iteration order. \<open>insert\<close> replaces in place or appends.
\<close>

type_synonym ('k, 'v) hmap = "('k \<times> 'v) list"

definition hm_wf :: "('k, 'v) hmap \<Rightarrow> bool" where
  "hm_wf m \<longleftrightarrow> distinct (map fst m)"

abbreviation hm_get :: "('k, 'v) hmap \<Rightarrow> 'k \<Rightarrow> 'v option" where
  "hm_get m k \<equiv> map_of m k"

definition hm_insert :: "'k \<Rightarrow> 'v \<Rightarrow> ('k, 'v) hmap \<Rightarrow> ('k, 'v) hmap" where
  "hm_insert k v m = AList.update k v m"

definition hm_remove :: "'k \<Rightarrow> ('k, 'v) hmap \<Rightarrow> ('k, 'v) hmap" where
  "hm_remove k m = AList.delete k m"

definition hm_retain :: "('k \<Rightarrow> 'v \<Rightarrow> bool) \<Rightarrow> ('k, 'v) hmap \<Rightarrow> ('k, 'v) hmap" where
  "hm_retain p m = filter (\<lambda>(k, v). p k v) m"

definition hm_contains :: "('k, 'v) hmap \<Rightarrow> 'k \<Rightarrow> bool" where
  "hm_contains m k \<longleftrightarrow> hm_get m k \<noteq> None"

definition hm_values :: "('k, 'v) hmap \<Rightarrow> 'v list" where
  "hm_values m = map snd m"

lemma hm_wf_Nil [simp]: "hm_wf []"
  by (simp add: hm_wf_def)

lemma hm_get_insert [simp, hmap_simps]:
  "hm_get (hm_insert k v m) k' = (if k' = k then Some v else hm_get m k')"
  by (simp add: hm_insert_def update_conv')

lemma hm_get_remove [simp, hmap_simps]:
  "hm_get (hm_remove k m) k' = (if k' = k then None else hm_get m k')"
  by (simp add: hm_remove_def delete_conv')

lemma hm_wf_insert [simp, intro]: "hm_wf m \<Longrightarrow> hm_wf (hm_insert k v m)"
  by (simp add: hm_wf_def hm_insert_def distinct_update)

lemma hm_wf_remove [simp, intro]: "hm_wf m \<Longrightarrow> hm_wf (hm_remove k m)"
  by (simp add: hm_wf_def hm_remove_def distinct_delete)

lemma hm_wf_retain [simp, intro]: "hm_wf m \<Longrightarrow> hm_wf (hm_retain p m)"
  by (auto simp: hm_wf_def hm_retain_def intro: distinct_map_filter)

lemma hm_get_retain [hmap_simps]:
  assumes "hm_wf m"
  shows "hm_get (hm_retain p m) k =
    (case hm_get m k of Some v \<Rightarrow> if p k v then Some v else None | None \<Rightarrow> None)"
proof -
  have "distinct (map fst m) \<Longrightarrow> ?thesis"
    by (induction m) (force simp: hm_retain_def split: option.splits if_splits)+
  with assms show ?thesis
    by (simp add: hm_wf_def)
qed

lemma hm_get_Some_in: "hm_get m k = Some v \<Longrightarrow> (k, v) \<in> set m"
  by (rule map_of_SomeD)

lemma hm_get_iff_in: "hm_wf m \<Longrightarrow> hm_get m k = Some v \<longleftrightarrow> (k, v) \<in> set m"
  by (simp add: hm_wf_def)

lemma hm_values_iff: "hm_wf m \<Longrightarrow> v \<in> set (hm_values m) \<longleftrightarrow> (\<exists>k. hm_get m k = Some v)"
  by (force simp: hm_values_def hm_get_iff_in)

lemma length_hm_insert:
  "length (hm_insert k v m) = (if hm_contains m k then length m else Suc (length m))"
proof (induction m)
  case Nil
  then show ?case by (simp add: hm_insert_def hm_contains_def)
next
  case (Cons a m)
  then show ?case by (cases a) (auto simp: hm_insert_def hm_contains_def)
qed

lemma length_hm_insert_le: "length (hm_insert k v m) \<le> Suc (length m)"
  by (simp add: length_hm_insert)

lemma length_hm_retain_le: "length (hm_retain p m) \<le> length m"
  by (simp add: hm_retain_def)

lemma length_hm_remove_le: "length (hm_remove k m) \<le> length m"
  by (simp add: hm_remove_def length_delete_le)

lemma length_hm_remove_less: "hm_contains m k \<Longrightarrow> length (hm_remove k m) < length m"
proof (induction m)
  case Nil
  then show ?case by (simp add: hm_contains_def)
next
  case (Cons a m)
  then show ?case
    using length_hm_remove_le [of k m]
    by (cases a) (auto simp: hm_contains_def hm_remove_def split: if_splits)
qed

lemma set_hm_values_insert: "set (hm_values (hm_insert k v m)) \<subseteq> insert v (set (hm_values m))"
  by (induction m) (auto simp: hm_values_def hm_insert_def)

lemma set_hm_values_remove: "set (hm_values (hm_remove k m)) \<subseteq> set (hm_values m)"
  by (auto simp: hm_values_def hm_remove_def AList.delete_eq)

lemma set_hm_retain: "set (hm_retain p m) = {(k, v) \<in> set m. p k v}"
  by (auto simp: hm_retain_def)

lemma hm_insert_Cons: "hm_insert k v ((k', v') # m) = (if k' = k then (k, v) # m else (k', v') # hm_insert k v m)"
  by (simp add: hm_insert_def)

lemma hm_insert_Nil [simp]: "hm_insert k v [] = [(k, v)]"
  by (simp add: hm_insert_def)

lemma hm_insert_fresh: "hm_get m k = None \<Longrightarrow> hm_insert k v m = m @ [(k, v)]"
  by (induction m) (auto simp: hm_insert_Cons split: if_splits)

section \<open>The keyed store interface\<close>

text \<open>
  What a client of a keyed store relies on: hash maps of the daemon and primary-key tables of
  the database provide it.
\<close>

locale keyed_store =
  fixes get :: "'s \<Rightarrow> 'k \<Rightarrow> 'v option"
    and put :: "'k \<Rightarrow> 'v \<Rightarrow> 's \<Rightarrow> 's"
    and del :: "'k \<Rightarrow> 's \<Rightarrow> 's"
    and wf :: "'s \<Rightarrow> bool"
  assumes get_put: "get (put k v s) k' = (if k' = k then Some v else get s k')"
    and get_del: "get (del k s) k' = (if k' = k then None else get s k')"
    and wf_put: "wf s \<Longrightarrow> wf (put k v s)"
    and wf_del: "wf s \<Longrightarrow> wf (del k s)"
begin

lemma get_put_same: "get (put k v s) k = Some v"
  by (simp add: get_put)

lemma get_put_other: "k' \<noteq> k \<Longrightarrow> get (put k v s) k' = get s k'"
  by (simp add: get_put)

lemma put_put_get: "get (put k v (put k u s)) k' = get (put k v s) k'"
  by (simp add: get_put)

lemma del_put_get: "get (del k (put k v s)) k' = get (del k s) k'"
  by (simp add: get_put get_del)

lemma dom_put: "{j. get (put k v s) j \<noteq> None} = insert k {j. get s j \<noteq> None}"
  by (auto simp: get_put)

lemma dom_del: "{j. get (del k s) j \<noteq> None} = {j. get s j \<noteq> None} - {k}"
  by (auto simp: get_del)

end

interpretation hm: keyed_store "hm_get :: ('k, 'v) hmap \<Rightarrow> 'k \<Rightarrow> 'v option" hm_insert hm_remove hm_wf
  by unfold_locales auto

section \<open>Eviction of the oldest entries\<close>

text \<open>
  \<open>iter().min_by_key(..)\<close> returns the first entry of least key; the loops
  \<open>while map.len() > max\<close> of the rate limiter and of the deduplication cache remove it.
\<close>

fun oldest :: "('v \<Rightarrow> nat) \<Rightarrow> ('k, 'v) hmap \<Rightarrow> 'k option" where
  "oldest t [] = None"
| "oldest t ((k, v) # m) =
     (case oldest t m of
        None \<Rightarrow> Some k
      | Some k' \<Rightarrow> (case hm_get m k' of
           Some v' \<Rightarrow> if t v \<le> t v' then Some k else Some k'
         | None \<Rightarrow> Some k))"

lemma oldest_None_iff: "oldest t m = None \<longleftrightarrow> m = []"
  by (cases m) (auto split: option.splits)

lemma oldest_contains: "oldest t m = Some k \<Longrightarrow> hm_contains m k"
proof (induction m arbitrary: k)
  case Nil
  then show ?case by simp
next
  case (Cons a m)
  obtain j u where a: "a = (j, u)" by (cases a)
  show ?case
    using Cons by (auto simp: a hm_contains_def split: option.splits if_splits)
qed

lemma oldest_min:
  assumes "hm_wf m" and "oldest t m = Some k"
  shows "\<exists>v. hm_get m k = Some v \<and> (\<forall>k' v'. hm_get m k' = Some v' \<longrightarrow> t v \<le> t v')"
  using assms
proof (induction m arbitrary: k)
  case Nil
  then show ?case by simp
next
  case (Cons a m)
  obtain j u where a: "a = (j, u)" by (cases a)
  have wf: "hm_wf m" and notin: "j \<notin> fst ` set m"
    using Cons.prems(1) by (auto simp: a hm_wf_def)
  have free: "hm_get m j = None"
    using notin by (simp add: map_of_eq_None_iff)
  show ?case
  proof (cases "oldest t m")
    case None
    with Cons.prems(2) show ?thesis
      by (auto simp: a oldest_None_iff split: if_splits)
  next
    case (Some k0)
    from Cons.IH [OF wf Some] obtain v0 where
      v0: "hm_get m k0 = Some v0" and min0: "\<forall>k' v'. hm_get m k' = Some v' \<longrightarrow> t v0 \<le> t v'"
      by blast
    have ne: "k0 \<noteq> j" using v0 free by auto
    show ?thesis
    proof (cases "t u \<le> t v0")
      case True
      then have k: "k = j" using Cons.prems(2) Some v0 by (simp add: a)
      have "\<forall>k' v'. hm_get (a # m) k' = Some v' \<longrightarrow> t u \<le> t v'"
        using True min0 by (auto simp: a intro: order_trans)
      with k show ?thesis by (simp add: a)
    next
      case False
      then have k: "k = k0" using Cons.prems(2) Some v0 by (simp add: a)
      have "\<forall>k' v'. hm_get (a # m) k' = Some v' \<longrightarrow> t v0 \<le> t v'"
        using False min0 by (auto simp: a)
      with k v0 ne show ?thesis by (simp add: a)
    qed
  qed
qed

function evict_to :: "('v \<Rightarrow> nat) \<Rightarrow> nat \<Rightarrow> ('k, 'v) hmap \<Rightarrow> ('k, 'v) hmap" where
  "evict_to t n m =
     (if n < length m
      then (case oldest t m of None \<Rightarrow> m | Some k \<Rightarrow> evict_to t n (hm_remove k m))
      else m)"
  by pat_completeness auto
termination
  by (relation "measure (\<lambda>(t, n, m). length m)")
    (auto dest: oldest_contains length_hm_remove_less)

declare evict_to.simps [simp del]

lemma evict_to_small [simp]: "length m \<le> n \<Longrightarrow> evict_to t n m = m"
  by (subst evict_to.simps) simp

lemma evict_to_step: "n < length m \<Longrightarrow> oldest t m = Some k \<Longrightarrow> evict_to t n m = evict_to t n (hm_remove k m)"
  by (subst evict_to.simps) simp

lemma length_evict_to: "length (evict_to t n m) \<le> n"
proof (induction t n m rule: evict_to.induct)
  case (1 t n m)
  show ?case
  proof (cases "n < length m")
    case True
    then obtain k where k: "oldest t m = Some k"
      by (cases "oldest t m") (auto simp: oldest_None_iff)
    with True 1 show ?thesis by (simp add: evict_to_step)
  qed simp
qed

lemma hm_wf_evict_to: "hm_wf m \<Longrightarrow> hm_wf (evict_to t n m)"
proof (induction t n m rule: evict_to.induct)
  case (1 t n m)
  then show ?case
    by (subst evict_to.simps) (auto split: option.splits)
qed

lemma set_hm_remove_subset: "set (hm_remove k m) \<subseteq> set m"
  by (auto simp: hm_remove_def AList.delete_eq)

lemma set_evict_to_subset: "set (evict_to t n m) \<subseteq> set m"
proof (induction t n m rule: evict_to.induct)
  case (1 t n m)
  show ?case
  proof (cases "n < length m")
    case True
    then obtain k where k: "oldest t m = Some k"
      by (cases "oldest t m") (auto simp: oldest_None_iff)
    have "set (evict_to t n (hm_remove k m)) \<subseteq> set (hm_remove k m)"
      using 1 True k by blast
    also have "\<dots> \<subseteq> set m" by (rule set_hm_remove_subset)
    finally show ?thesis using True k by (simp add: evict_to_step)
  qed simp
qed

text \<open>Nothing older than an evicted entry survives.\<close>

lemma evict_to_keeps_newest:
  assumes "hm_wf m" and "hm_get m k = Some v" and "hm_get (evict_to t n m) k = None"
    and "hm_get (evict_to t n m) k' = Some v'"
  shows "t v \<le> t v'"
  using assms
proof (induction t n m rule: evict_to.induct)
  case (1 t n m)
  show ?case
  proof (cases "n < length m")
    case False
    with "1.prems" show ?thesis by simp
  next
    case True
    then obtain j where j: "oldest t m = Some j"
      by (cases "oldest t m") (auto simp: oldest_None_iff)
    note step = evict_to_step [OF True j]
    show ?thesis
    proof (cases "k = j")
      case True
      from oldest_min [OF "1.prems"(1) j] "1.prems"(2) True
      have min: "\<And>i w. hm_get m i = Some w \<Longrightarrow> t v \<le> t w" by auto
      have "(k', v') \<in> set m"
        using "1.prems"(4) set_evict_to_subset hm_get_Some_in by fastforce
      then show ?thesis
        using min "1.prems"(1) by (simp add: hm_get_iff_in)
    next
      case False
      then show ?thesis
        using "1.IH" [OF True j] "1.prems" step by auto
    qed
  qed
qed

end
