(* ===== verification/Events.thy ===== *)
theory Events
  imports Prelude
begin

text \<open>
  Incoming event types and the \<open>agent.event\<close> notification (\<open>src/events.rs\<close>), with the parser
  of the wire names a registration uses (\<open>parse_event_type\<close> in \<open>src/handlers.rs\<close>).
\<close>

datatype event_type =
    DmReceived
  | MlsWelcomeReceived
  | MlsGroupMessageReceived
  | ReactionReceived
  | AttachmentReceived
  | MlsGroupReactionReceived
  | MlsGroupAttachmentReceived
  | BotUnavailable

fun as_wire_name :: "event_type \<Rightarrow> str" where
  "as_wire_name DmReceived = ''dm_received''"
| "as_wire_name MlsWelcomeReceived = ''mls_welcome_received''"
| "as_wire_name MlsGroupMessageReceived = ''mls_group_message_received''"
| "as_wire_name ReactionReceived = ''reaction_received''"
| "as_wire_name AttachmentReceived = ''attachment_received''"
| "as_wire_name MlsGroupReactionReceived = ''mls_group_reaction_received''"
| "as_wire_name MlsGroupAttachmentReceived = ''mls_group_attachment_received''"
| "as_wire_name BotUnavailable = ''bot_unavailable''"

text \<open>The match of \<open>parse_event_type\<close>; its error carries the rejected text.\<close>

definition parse_event_type_opt :: "str \<Rightarrow> event_type option" where
  "parse_event_type_opt s =
     (if s = ''dm_received'' then Some DmReceived
      else if s = ''mls_welcome_received'' then Some MlsWelcomeReceived
      else if s = ''mls_group_message_received'' then Some MlsGroupMessageReceived
      else if s = ''reaction_received'' then Some ReactionReceived
      else if s = ''attachment_received'' then Some AttachmentReceived
      else if s = ''mls_group_reaction_received'' then Some MlsGroupReactionReceived
      else if s = ''mls_group_attachment_received'' then Some MlsGroupAttachmentReceived
      else if s = ''bot_unavailable'' then Some BotUnavailable
      else None)"

lemma parse_event_type_opt_wire [simp]: "parse_event_type_opt (as_wire_name e) = Some e"
  by (cases e) (simp_all add: parse_event_type_opt_def)

lemma parse_event_type_opt_Some: "parse_event_type_opt s = Some e \<Longrightarrow> s = as_wire_name e"
  by (auto simp: parse_event_type_opt_def split: if_splits)

lemma as_wire_name_inj: "as_wire_name a = as_wire_name b \<longleftrightarrow> a = b"
  by (metis parse_event_type_opt_wire option.inject)

record reaction_payload =
  target_rumor_id :: str
  emoji :: str

record attachment_payload =
  mime_type :: str
  ap_size :: u64
  ox :: "str option"
  ap_filename :: "str option"
  ap_blurhash :: "str option"
  ap_dim :: "str option"
  ap_path :: str
  expires_at :: u64

datatype bot_unavailable_reason = StateLost | EngineUnavailable

record bot_unavailable_payload =
  reason :: bot_unavailable_reason

record agent_event =
  ev_bot_id :: str
  ev_event_id :: str
  ev_type :: event_type
  chat_id :: "str option"
  ev_content :: str
  mentions :: "str list"
  is_mentioned :: bool
  mentioned_bot_ids :: "str list"
  pacto_virtual_bucket :: "str option"
  rumor_id :: str
  author :: str
  timestamp :: u64
  reaction :: "reaction_payload option"
  attachment :: "attachment_payload option"
  bot_unavailable :: "bot_unavailable_payload option"

text \<open>\<open>AgentEvent::default()\<close>.\<close>

definition default_event :: agent_event where
  "default_event =
     \<lparr>ev_bot_id = [], ev_event_id = [], ev_type = DmReceived, chat_id = None, ev_content = [],
      mentions = [], is_mentioned = False, mentioned_bot_ids = [], pacto_virtual_bucket = None,
      rumor_id = [], author = [], timestamp = 0, reaction = None, attachment = None,
      bot_unavailable = None\<rparr>"

end
