(* ===== verification/Json.thy ===== *)
theory Json
  imports Prelude
begin

text \<open>
  JSON values as the daemon handles them (\<open>serde_json::Value\<close>), the accessors it calls on
  them, and the derived deserializers of plain strings, options and string lists.
\<close>

datatype number = PosInt u64 | NegInt int | FloatNum rat

datatype json =
    JNull
  | JBool bool
  | JNumber number
  | JString str
  | JArray "json list"
  | JObject "(str \<times> json) list"

text \<open>\<open>Value::get\<close> with a field name, \<open>as_str\<close>, \<open>as_object\<close>.\<close>

fun json_get :: "json \<Rightarrow> str \<Rightarrow> json option" where
  "json_get (JObject fs) k = map_of fs k"
| "json_get _ k = None"

fun as_str :: "json \<Rightarrow> str option" where
  "as_str (JString s) = Some s"
| "as_str _ = None"

fun as_object :: "json \<Rightarrow> (str \<times> json) list option" where
  "as_object (JObject fs) = Some fs"
| "as_object _ = None"

text \<open>\<open>params.get(k).and_then(Value::as_str)\<close>.\<close>

definition str_field :: "json \<Rightarrow> str \<Rightarrow> str option" where
  "str_field v k = Option.bind (json_get v k) as_str"

text \<open>Derived deserializers: \<open>Vec<String>\<close>, \<open>Option<T>\<close> (null and absent are \<open>None\<close>).\<close>

fun de_strings :: "json list \<Rightarrow> str list option" where
  "de_strings [] = Some []"
| "de_strings (v # vs) =
     (case as_str v of None \<Rightarrow> None | Some s \<Rightarrow> map_option (Cons s) (de_strings vs))"

fun de_string_list :: "json \<Rightarrow> str list option" where
  "de_string_list (JArray vs) = de_strings vs"
| "de_string_list _ = None"

definition de_option :: "(json \<Rightarrow> 'a option) \<Rightarrow> json option \<Rightarrow> 'a option option" where
  "de_option de v =
     (case v of None \<Rightarrow> Some None | Some JNull \<Rightarrow> Some None | Some j \<Rightarrow> map_option Some (de j))"

lemma str_field_JObject [simp]: "str_field (JObject fs) k = Option.bind (map_of fs k) as_str"
  by (simp add: str_field_def)

lemma de_strings_map_JString [simp]: "de_strings (map JString xs) = Some xs"
  by (induction xs) auto

lemma de_string_list_JArray [simp]: "de_string_list (JArray (map JString xs)) = Some xs"
  by simp

lemma de_strings_Some_iff: "de_strings vs = Some xs \<longleftrightarrow> vs = map JString xs"
proof (induction vs arbitrary: xs)
  case Nil
  then show ?case by auto
next
  case (Cons v vs)
  then show ?case by (cases v) auto
qed

end
