(* ===== verification/Decimal.thy ===== *)
theory Decimal
  imports Prelude
begin

text \<open>
  Decimal text of integers: what \<open>to_string()\<close> and \<open>format!("{}")\<close> write for integer types and
  what \<open>str::parse::<i64>()\<close> reads. The cursor table stores an \<open>i64\<close> through this text.
\<close>

definition digit_char :: "nat \<Rightarrow> char" where
  "digit_char d = char_of (48 + d)"

definition char_digit :: "char \<Rightarrow> nat option" where
  "char_digit c = (let n = of_char c :: nat in if 48 \<le> n \<and> n \<le> 57 then Some (n - 48) else None)"

fun show_nat :: "nat \<Rightarrow> str" where
  "show_nat n = (if n < 10 then [digit_char n] else show_nat (n div 10) @ [digit_char (n mod 10)])"

declare show_nat.simps [simp del]

definition show_int :: "int \<Rightarrow> str" where
  "show_int i = (if i < 0 then CHR ''-'' # show_nat (nat (- i)) else show_nat (nat i))"

fun parse_digits :: "nat \<Rightarrow> str \<Rightarrow> nat option" where
  "parse_digits acc [] = Some acc"
| "parse_digits acc (c # cs) =
     (case char_digit c of None \<Rightarrow> None | Some d \<Rightarrow> parse_digits (10 * acc + d) cs)"

definition parse_nat :: "str \<Rightarrow> nat option" where
  "parse_nat s = (if s = [] then None else parse_digits 0 s)"

text \<open>\<open>i64::from_str\<close>: an optional sign, at least one digit, and the value in range.\<close>

definition parse_i64 :: "str \<Rightarrow> int option" where
  "parse_i64 s =
     (let r = (case s of
                 [] \<Rightarrow> None
               | c # cs \<Rightarrow>
                   (if c = CHR ''-'' then map_option (\<lambda>n. - int n) (parse_nat cs)
                    else if c = CHR ''+'' then map_option int (parse_nat cs)
                    else map_option int (parse_nat s)))
      in (case r of Some i \<Rightarrow> if is_i64 i then Some i else None | None \<Rightarrow> None))"

lemma char_digit_digit_char [simp]: "d < 10 \<Longrightarrow> char_digit (digit_char d) = Some d"
  by (simp add: char_digit_def digit_char_def)

lemma digit_char_not_sign:
  assumes "d < 10"
  shows "digit_char d \<noteq> CHR ''-''" and "digit_char d \<noteq> CHR ''+''"
proof -
  have "of_char (digit_char d) = (48 + d :: nat)"
    using assms by (simp add: digit_char_def)
  then show "digit_char d \<noteq> CHR ''-''" and "digit_char d \<noteq> CHR ''+''"
    by auto
qed

lemma parse_digits_append:
  "parse_digits a (xs @ ys) = (case parse_digits a xs of None \<Rightarrow> None | Some b \<Rightarrow> parse_digits b ys)"
  by (induction xs arbitrary: a) (auto split: option.splits)

lemma show_nat_nonempty [simp]: "show_nat n \<noteq> []"
  by (subst show_nat.simps) simp

lemma hd_show_nat: "\<exists>d < 10. hd (show_nat n) = digit_char d"
proof (induction n rule: show_nat.induct)
  case (1 n)
  show ?case
    using 1 by (cases "n < 10") (auto simp: show_nat.simps [of n] hd_append)
qed

lemma parse_digits_show_nat: "parse_digits 0 (show_nat n) = Some n"
proof (induction n rule: show_nat.induct)
  case (1 n)
  show ?case
  proof (cases "n < 10")
    case True
    then show ?thesis by (simp add: show_nat.simps [of n])
  next
    case False
    with 1 have "parse_digits 0 (show_nat (n div 10)) = Some (n div 10)" by simp
    with False show ?thesis
      by (simp add: show_nat.simps [of n] parse_digits_append)
  qed
qed

lemma parse_nat_show_nat [simp]: "parse_nat (show_nat n) = Some n"
  by (simp add: parse_nat_def parse_digits_show_nat)

lemma show_nat_no_sign:
  "\<exists>c cs. show_nat n = c # cs \<and> c \<noteq> CHR ''-'' \<and> c \<noteq> CHR ''+''"
proof -
  obtain c cs where s: "show_nat n = c # cs"
    using show_nat_nonempty by (meson list.exhaust)
  then show ?thesis
    using hd_show_nat [of n] digit_char_not_sign by (metis list.sel(1))
qed

lemma parse_i64_show_int: "is_i64 i \<Longrightarrow> parse_i64 (show_int i) = Some i"
proof (cases "i < 0")
  case True
  moreover assume "is_i64 i"
  ultimately show ?thesis by (simp add: parse_i64_def show_int_def)
next
  case False
  assume i: "is_i64 i"
  obtain c cs where s: "show_nat (nat i) = c # cs" and "c \<noteq> CHR ''-''" and "c \<noteq> CHR ''+''"
    using show_nat_no_sign by blast
  moreover have "parse_nat (c # cs) = Some (nat i)"
    unfolding s [symmetric] by simp
  ultimately show ?thesis
    using False i by (simp add: parse_i64_def show_int_def)
qed

lemma parse_i64_range: "parse_i64 s = Some i \<Longrightarrow> is_i64 i"
  by (auto simp: parse_i64_def Let_def split: option.splits if_splits list.splits)

end
