(* ===== verification/Errors.thy ===== *)
theory Errors
  imports Json Decimal
begin

text \<open>
  The daemon's error type, its JSON-RPC codes and its conversions (\<open>src/errors.rs\<close>, and
  \<open>MlsError\<close> of \<open>src/mls.rs\<close>). An error of another crate is carried by the text that crate
  prints for it; of an SQLite failure the code also reads whether it is a constraint violation.
\<close>

record json_rpc_error =
  code :: int
  message :: str
  data :: "json option"

definition json_rpc_error_new :: "int \<Rightarrow> str \<Rightarrow> json_rpc_error" where
  "json_rpc_error_new c m = \<lparr>code = c, message = m, data = None\<rparr>"

definition with_data :: "json_rpc_error \<Rightarrow> json \<Rightarrow> json_rpc_error" where
  "with_data e d = e\<lparr>data := Some d\<rparr>"

definition json_rpc_error_to_string :: "json_rpc_error \<Rightarrow> str" where
  "json_rpc_error_to_string e = ''JSON-RPC error '' @ show_int (code e) @ '': '' @ message e"

datatype sqlite_error = ConstraintViolation str | SqliteOther str

fun sqlite_text :: "sqlite_error \<Rightarrow> str" where
  "sqlite_text (ConstraintViolation m) = m"
| "sqlite_text (SqliteOther m) = m"

text \<open>The event a failed restoration still has to publish is named by its id.\<close>

datatype mls_error =
    Storage str
  | MlsIo str
  | Rusqlite str
  | Engine str
  | GroupNotFound
  | NotInitialized
  | GroupPoisoned
  | CryptoError
  | MlsInvalidKeyPackage
  | MlsPeerVersionMismatch
  | RestorationIncomplete str
  | InsecurePath str
  | WorkerDisconnected
  | Key str

fun mls_error_to_string :: "mls_error \<Rightarrow> str" where
  "mls_error_to_string (Storage _) = ''MLS storage error''"
| "mls_error_to_string (MlsIo _) = ''MLS filesystem error''"
| "mls_error_to_string (Rusqlite _) = ''MLS sqlite error''"
| "mls_error_to_string (Engine m) = ''MLS engine error: '' @ m"
| "mls_error_to_string GroupNotFound = ''MLS group not found''"
| "mls_error_to_string NotInitialized = ''no MLS group or pending welcome''"
| "mls_error_to_string GroupPoisoned = ''MLS group poisoned''"
| "mls_error_to_string CryptoError = ''MLS crypto error''"
| "mls_error_to_string MlsInvalidKeyPackage = ''invalid MLS key package''"
| "mls_error_to_string MlsPeerVersionMismatch =
     ''peer key package or welcome uses a version-mismatched wire format''"
| "mls_error_to_string (RestorationIncomplete _) =
     ''MLS restoration incomplete: member removed but not re-added''"
| "mls_error_to_string (InsecurePath p) = ''MLS database path is insecure: '' @ p"
| "mls_error_to_string WorkerDisconnected = ''MLS worker communication error''"
| "mls_error_to_string (Key _) = ''MLS store key error''"

datatype daemon_error =
    Io str
  | Config str
  | Toml str
  | JsonErr str
  | Nostr str
  | Bunker str
  | Sqlite sqlite_error
  | Migration str
  | JsonRpc json_rpc_error
  | JsonRpcParseError str
  | InvalidJsonRpcRequest str
  | MlsEngineNotConfigured
  | MlsGroupAlreadyExists
  | MlsGroupNotFound
  | Mls mls_error
  | UnknownBot str
  | HandlerNotRegistered
  | HandlerBackpressure
  | OperationTimedOut
  | InvalidEventType str
  | StaleKeyPackage
  | KeyPackageNotFound str
  | InvalidKeyPackage
  | RateLimited
  | HandlerAlreadyConnected
  | InvalidReconnectToken
  | UnauthorizedBot
  | MethodNotFound
  | HandlerNotDispatched
  | MethodNotSupported str
  | FrameTooLarge
  | AttachmentTooLarge u64
  | AttachmentPathRejected
  | AttachmentInvalid str
  | BlobUploadFailed str
  | InvalidReaction
  | SpoolEntryMissing
  | TokenGeneration str
  | MlsGroupStateLost
  | MlsEngineUnavailable
  | PeerVersionMismatch
  | MlsRestorationIncomplete str
  | MlsGroupRepairPrerequisite str

type_synonym 'a res = "daemon_error + 'a"

fun to_json_rpc_code :: "daemon_error \<Rightarrow> int" where
  "to_json_rpc_code (UnknownBot _) = -32000"
| "to_json_rpc_code HandlerNotRegistered = -32001"
| "to_json_rpc_code HandlerBackpressure = -32011"
| "to_json_rpc_code (InvalidEventType _) = -32002"
| "to_json_rpc_code (Bunker _) = -32003"
| "to_json_rpc_code (Nostr _) = -32004"
| "to_json_rpc_code RateLimited = -32005"
| "to_json_rpc_code OperationTimedOut = -32012"
| "to_json_rpc_code StaleKeyPackage = -32016"
| "to_json_rpc_code (KeyPackageNotFound _) = -32017"
| "to_json_rpc_code InvalidKeyPackage = -32018"
| "to_json_rpc_code (AttachmentTooLarge _) = -32019"
| "to_json_rpc_code AttachmentPathRejected = -32020"
| "to_json_rpc_code (AttachmentInvalid _) = -32021"
| "to_json_rpc_code (BlobUploadFailed _) = -32022"
| "to_json_rpc_code InvalidReaction = -32023"
| "to_json_rpc_code SpoolEntryMissing = -32024"
| "to_json_rpc_code MlsGroupStateLost = -32026"
| "to_json_rpc_code PeerVersionMismatch = -32025"
| "to_json_rpc_code MlsEngineUnavailable = -32028"
| "to_json_rpc_code (MlsRestorationIncomplete _) = -32027"
| "to_json_rpc_code (MlsGroupRepairPrerequisite _) = -32029"
| "to_json_rpc_code MlsEngineNotConfigured = -32013"
| "to_json_rpc_code MlsGroupAlreadyExists = -32014"
| "to_json_rpc_code MlsGroupNotFound = -32015"
| "to_json_rpc_code UnauthorizedBot = -32006"
| "to_json_rpc_code HandlerAlreadyConnected = -32007"
| "to_json_rpc_code InvalidReconnectToken = -32008"
| "to_json_rpc_code HandlerNotDispatched = -32010"
| "to_json_rpc_code (JsonRpc e) = code e"
| "to_json_rpc_code (JsonRpcParseError _) = -32700"
| "to_json_rpc_code (InvalidJsonRpcRequest _) = -32600"
| "to_json_rpc_code MethodNotFound = -32601"
| "to_json_rpc_code (MethodNotSupported _) = -32009"
| "to_json_rpc_code FrameTooLarge = -32600"
| "to_json_rpc_code (JsonErr _) = -32600"
| "to_json_rpc_code (Io _) = -32600"
| "to_json_rpc_code (TokenGeneration _) = -32603"
| "to_json_rpc_code (Config _) = -32602"
| "to_json_rpc_code (Toml _) = -32602"
| "to_json_rpc_code (Sqlite _) = -32603"
| "to_json_rpc_code (Mls _) = -32603"
| "to_json_rpc_code (Migration _) = -32603"

fun daemon_error_to_string :: "daemon_error \<Rightarrow> str" where
  "daemon_error_to_string (Io m) = ''io error: '' @ m"
| "daemon_error_to_string (Config m) = ''config error: '' @ m"
| "daemon_error_to_string (Toml m) = ''toml parse error: '' @ m"
| "daemon_error_to_string (JsonErr m) = ''json error: '' @ m"
| "daemon_error_to_string (Nostr m) = ''nostr relay error: '' @ m"
| "daemon_error_to_string (Bunker m) = ''bunker error: '' @ m"
| "daemon_error_to_string (Sqlite e) = ''sqlite error: '' @ sqlite_text e"
| "daemon_error_to_string (Migration m) = ''migration error: '' @ m"
| "daemon_error_to_string (JsonRpc e) = ''json-rpc error: '' @ json_rpc_error_to_string e"
| "daemon_error_to_string (JsonRpcParseError m) = ''json-rpc parse error: '' @ m"
| "daemon_error_to_string (InvalidJsonRpcRequest m) = ''invalid json-rpc request: '' @ m"
| "daemon_error_to_string MlsEngineNotConfigured = ''MLS engine not configured for this bot''"
| "daemon_error_to_string MlsGroupAlreadyExists = ''MLS group already exists''"
| "daemon_error_to_string MlsGroupNotFound = ''MLS group not found''"
| "daemon_error_to_string (Mls e) = ''MLS engine error: '' @ mls_error_to_string e"
| "daemon_error_to_string (UnknownBot b) = ''unknown bot: '' @ b"
| "daemon_error_to_string HandlerNotRegistered = ''handler not registered''"
| "daemon_error_to_string HandlerBackpressure = ''handler backpressure''"
| "daemon_error_to_string OperationTimedOut = ''operation timed out''"
| "daemon_error_to_string (InvalidEventType t) = ''invalid event type: '' @ t"
| "daemon_error_to_string StaleKeyPackage = ''stale key package''"
| "daemon_error_to_string (KeyPackageNotFound r) =
     ''no key package found for recipient '' @ r @
     '' within the freshness window; ensure the recipient has published a fresh kind:443 KeyPackage''"
| "daemon_error_to_string InvalidKeyPackage = ''invalid key package''"
| "daemon_error_to_string RateLimited = ''rate limited''"
| "daemon_error_to_string HandlerAlreadyConnected = ''handler already connected''"
| "daemon_error_to_string InvalidReconnectToken = ''invalid reconnect token''"
| "daemon_error_to_string UnauthorizedBot = ''unauthorized bot''"
| "daemon_error_to_string MethodNotFound = ''method not found''"
| "daemon_error_to_string HandlerNotDispatched = ''handler not dispatched this event''"
| "daemon_error_to_string (MethodNotSupported m) =
     ''method '' @ m @ '' not supported over this transport''"
| "daemon_error_to_string FrameTooLarge = ''frame too large''"
| "daemon_error_to_string (AttachmentTooLarge n) =
     ''attachment exceeds the configured maximum of '' @ show_nat (unat n) @ '' bytes''"
| "daemon_error_to_string AttachmentPathRejected =
     ''attachment path rejected: outside the outbound spool root''"
| "daemon_error_to_string (AttachmentInvalid c) = ''invalid attachment: '' @ c"
| "daemon_error_to_string (BlobUploadFailed r) = ''blob upload failed: '' @ r"
| "daemon_error_to_string InvalidReaction = ''reaction content must be exactly one emoji''"
| "daemon_error_to_string SpoolEntryMissing = ''spool entry not found''"
| "daemon_error_to_string (TokenGeneration m) = ''failed to generate reconnect token: '' @ m"
| "daemon_error_to_string MlsGroupStateLost =
     ''MLS group state lost to a reset; awaiting re-invitation''"
| "daemon_error_to_string MlsEngineUnavailable =
     ''MLS engine unavailable: bot store failed a fail-closed classification''"
| "daemon_error_to_string PeerVersionMismatch =
     ''peer key package or welcome uses a version-mismatched wire format''"
| "daemon_error_to_string (MlsRestorationIncomplete r) =
     ''MLS restoration incomplete: '' @ r @ '' is now outside the group''"
| "daemon_error_to_string (MlsGroupRepairPrerequisite p) =
     ''MLS group repair refused: state was lost; '' @ p @ '' required first''"

text \<open>\<open>impl From<MlsError> for DaemonError\<close>.\<close>

fun from_mls_error :: "mls_error \<Rightarrow> daemon_error" where
  "from_mls_error GroupNotFound = MlsGroupNotFound"
| "from_mls_error MlsInvalidKeyPackage = InvalidKeyPackage"
| "from_mls_error MlsPeerVersionMismatch = PeerVersionMismatch"
| "from_mls_error other = Mls other"

text \<open>\<open>impl From<DaemonError> for JsonRpcError\<close>.\<close>

fun to_json_rpc_error :: "daemon_error \<Rightarrow> json_rpc_error" where
  "to_json_rpc_error (JsonRpc e) = e"
| "to_json_rpc_error other =
     json_rpc_error_new (to_json_rpc_code other) (daemon_error_to_string other)"

text \<open>Values of a \<open>Result\<close> that came from the MLS engine, with \<open>?\<close>.\<close>

definition mls_res :: "mls_error + 'a \<Rightarrow> 'a res" where
  "mls_res r = (case r of Inl e \<Rightarrow> Inl (from_mls_error e) | Inr a \<Rightarrow> Inr a)"

lemma mls_res_simps [simp, res_simps]:
  "mls_res (Inl e) = Inl (from_mls_error e)"
  "mls_res (Inr a) = Inr a"
  by (simp_all add: mls_res_def)

lemma to_json_rpc_error_code: "code (to_json_rpc_error e) = to_json_rpc_code e"
  by (cases e) (simp_all add: json_rpc_error_new_def)

lemma to_json_rpc_error_data:
  "(\<And>j. e \<noteq> JsonRpc j) \<Longrightarrow> data (to_json_rpc_error e) = None"
  by (cases e) (auto simp: json_rpc_error_new_def)

text \<open>The daemon's own codes, outside the range JSON-RPC reserves for its predefined errors.\<close>

definition is_predefined_code :: "int \<Rightarrow> bool" where
  "is_predefined_code c \<longleftrightarrow> c \<in> {-32700, -32600, -32601, -32602, -32603}"

definition is_daemon_code :: "int \<Rightarrow> bool" where
  "is_daemon_code c \<longleftrightarrow> -32099 \<le> c \<and> c \<le> -32000"

text \<open>
  A client tells the daemon's own failures apart by their code alone: the code gives back the
  variant (its payload erased).
\<close>

fun erase :: "daemon_error \<Rightarrow> daemon_error" where
  "erase (UnknownBot _) = UnknownBot []"
| "erase (InvalidEventType _) = InvalidEventType []"
| "erase (Bunker _) = Bunker []"
| "erase (Nostr _) = Nostr []"
| "erase (KeyPackageNotFound _) = KeyPackageNotFound []"
| "erase (MethodNotSupported _) = MethodNotSupported []"
| "erase (AttachmentTooLarge _) = AttachmentTooLarge 0"
| "erase (AttachmentInvalid _) = AttachmentInvalid []"
| "erase (BlobUploadFailed _) = BlobUploadFailed []"
| "erase (MlsRestorationIncomplete _) = MlsRestorationIncomplete []"
| "erase (MlsGroupRepairPrerequisite _) = MlsGroupRepairPrerequisite []"
| "erase e = e"

definition daemon_code_table :: "(int \<times> daemon_error) list" where
  "daemon_code_table = map (\<lambda>e. (to_json_rpc_code e, e))
     [UnknownBot [], HandlerNotRegistered, InvalidEventType [], Bunker [], Nostr [], RateLimited,
      UnauthorizedBot, HandlerAlreadyConnected, InvalidReconnectToken, MethodNotSupported [],
      HandlerNotDispatched, HandlerBackpressure, OperationTimedOut, MlsEngineNotConfigured,
      MlsGroupAlreadyExists, MlsGroupNotFound, StaleKeyPackage, KeyPackageNotFound [],
      InvalidKeyPackage, AttachmentTooLarge 0, AttachmentPathRejected, AttachmentInvalid [],
      BlobUploadFailed [], InvalidReaction, SpoolEntryMissing, PeerVersionMismatch,
      MlsGroupStateLost, MlsRestorationIncomplete [], MlsEngineUnavailable,
      MlsGroupRepairPrerequisite []]"

lemma daemon_code_lookup:
  assumes "is_daemon_code (to_json_rpc_code e)" and "\<And>j. e \<noteq> JsonRpc j"
  shows "map_of daemon_code_table (to_json_rpc_code e) = Some (erase e)"
  using assms by (cases e) (auto simp: daemon_code_table_def is_daemon_code_def)

lemma daemon_code_erase_inj:
  assumes "to_json_rpc_code a = to_json_rpc_code b" and "is_daemon_code (to_json_rpc_code a)"
    and "\<And>j. a \<noteq> JsonRpc j" and "\<And>j. b \<noteq> JsonRpc j"
  shows "erase a = erase b"
  using daemon_code_lookup [of a] daemon_code_lookup [of b] assms by simp

lemma code_classes:
  assumes "\<And>j. e \<noteq> JsonRpc j"
  shows "is_daemon_code (to_json_rpc_code e) \<or> is_predefined_code (to_json_rpc_code e)"
  using assms by (cases e) (auto simp: is_daemon_code_def is_predefined_code_def)

end
