(* ===== verification/Protocol.thy ===== *)
theory Protocol
  imports Errors
begin

text \<open>
  JSON-RPC messages and the method catalogue (\<open>src/transport/protocol.rs\<close>). JSON text parsing
  and UTF-8 validation belong to other code and are parameters; the daemon's own checks on the
  parsed value, the untagged choice of the message variant and the frame bound are modelled.
\<close>

definition MAX_FRAME_BYTES :: nat where
  "MAX_FRAME_BYTES = 1048576"

definition INLINE_ENVELOPE_RESERVE :: nat where
  "INLINE_ENVELOPE_RESERVE = 8192"

definition MAX_INLINE_ATTACHMENT_BYTES :: nat where
  "MAX_INLINE_ATTACHMENT_BYTES = (MAX_FRAME_BYTES - INLINE_ENVELOPE_RESERVE) * 3 div 4"

datatype message =
    Request str json str "json option"
  | Error str json json_rpc_error
  | Response str json "json option"
  | Notification str str "json option"

definition mk_request :: "json \<Rightarrow> str \<Rightarrow> json option \<Rightarrow> message" where
  "mk_request i m p = Request ''2.0'' i m p"

definition mk_notification :: "str \<Rightarrow> json option \<Rightarrow> message" where
  "mk_notification m p = Notification ''2.0'' m p"

definition mk_response :: "json \<Rightarrow> json option \<Rightarrow> message" where
  "mk_response i r = Response ''2.0'' i r"

definition mk_error :: "json \<Rightarrow> json_rpc_error \<Rightarrow> message" where
  "mk_error i e = Error ''2.0'' i e"

fun msg_id :: "message \<Rightarrow> json option" where
  "msg_id (Request _ i _ _) = Some i"
| "msg_id (Response _ i _) = Some i"
| "msg_id (Error _ i _) = Some i"
| "msg_id (Notification _ _ _) = None"

fun msg_as_error :: "message \<Rightarrow> json_rpc_error option" where
  "msg_as_error (Error _ _ e) = Some e"
| "msg_as_error _ = None"

fun msg_method :: "message \<Rightarrow> str option" where
  "msg_method (Request _ _ m _) = Some m"
| "msg_method (Notification _ m _) = Some m"
| "msg_method _ = None"

fun msg_params :: "message \<Rightarrow> json option" where
  "msg_params (Request _ _ _ p) = p"
| "msg_params (Notification _ _ p) = p"
| "msg_params _ = None"

section \<open>Reading a message from a JSON value\<close>

text \<open>
  The derived untagged deserializer tries the variants in declaration order. A \<open>Value\<close> field
  must be present, an \<open>Option<Value>\<close> field is \<open>None\<close> when absent or null, an \<open>i32\<close> must be an
  integer in range, and fields the variant does not name are ignored.
\<close>

fun de_i32 :: "json \<Rightarrow> int option" where
  "de_i32 (JNumber (PosInt w)) = (if uint w \<le> 2147483647 then Some (uint w) else None)"
| "de_i32 (JNumber (NegInt i)) = (if - 2147483648 \<le> i \<and> i \<le> 2147483647 then Some i else None)"
| "de_i32 _ = None"

definition opt_value :: "json option \<Rightarrow> json option" where
  "opt_value v = (case v of Some JNull \<Rightarrow> None | _ \<Rightarrow> v)"

definition de_json_rpc_error :: "json \<Rightarrow> json_rpc_error option" where
  "de_json_rpc_error v =
     (case (Option.bind (json_get v ''code'') de_i32, str_field v ''message'') of
        (Some c, Some m) \<Rightarrow> Some \<lparr>code = c, message = m, data = opt_value (json_get v ''data'')\<rparr>
      | _ \<Rightarrow> None)"

definition de_request :: "json \<Rightarrow> message option" where
  "de_request v =
     (case (str_field v ''jsonrpc'', json_get v ''id'', str_field v ''method'') of
        (Some j, Some i, Some m) \<Rightarrow> Some (Request j i m (opt_value (json_get v ''params'')))
      | _ \<Rightarrow> None)"

definition de_error :: "json \<Rightarrow> message option" where
  "de_error v =
     (case (str_field v ''jsonrpc'', json_get v ''id'',
            Option.bind (json_get v ''error'') de_json_rpc_error) of
        (Some j, Some i, Some e) \<Rightarrow> Some (Error j i e)
      | _ \<Rightarrow> None)"

definition de_response :: "json \<Rightarrow> message option" where
  "de_response v =
     (case (str_field v ''jsonrpc'', json_get v ''id'') of
        (Some j, Some i) \<Rightarrow> Some (Response j i (opt_value (json_get v ''result'')))
      | _ \<Rightarrow> None)"

definition de_notification :: "json \<Rightarrow> message option" where
  "de_notification v =
     (case (str_field v ''jsonrpc'', str_field v ''method'') of
        (Some j, Some m) \<Rightarrow> Some (Notification j m (opt_value (json_get v ''params'')))
      | _ \<Rightarrow> None)"

definition de_message :: "json \<Rightarrow> message option" where
  "de_message v =
     (case de_request v of Some m \<Rightarrow> Some m | None \<Rightarrow>
     (case de_error v of Some m \<Rightarrow> Some m | None \<Rightarrow>
     (case de_response v of Some m \<Rightarrow> Some m | None \<Rightarrow> de_notification v)))"

text \<open>\<open>parse_message\<close> after the text has been read as \<open>value\<close> (or rejected with a text).\<close>

definition no_variant_text :: str where
  "no_variant_text = ''data did not match any variant of untagged enum JsonRpcMessage''"

definition parse_message :: "(json \<Rightarrow> str) \<Rightarrow> str + json \<Rightarrow> message res" where
  "parse_message show_json read =
     (case read of
        Inl e \<Rightarrow> Inl (JsonRpcParseError e)
      | Inr value \<Rightarrow>
          (case as_object value of
             None \<Rightarrow> Inl (InvalidJsonRpcRequest ''message is not a JSON object'')
           | Some obj \<Rightarrow>
               (case map_of obj ''jsonrpc'' of
                  None \<Rightarrow> Inl (InvalidJsonRpcRequest ''jsonrpc field is missing'')
                | Some v \<Rightarrow>
                    (if v = JString ''2.0''
                     then ok_or (InvalidJsonRpcRequest no_variant_text) (de_message value)
                     else Inl (InvalidJsonRpcRequest
                       (''jsonrpc field must be exactly '' @ [CHR 0x27] @ ''2.0'' @ [CHR 0x27]
                        @ '', got '' @ show_json v))))))"

definition validate_frame_size :: "nat \<Rightarrow> unit res" where
  "validate_frame_size n = (if n > MAX_FRAME_BYTES then Inl FrameTooLarge else Inr ())"

text \<open>
  \<open>parse_frame\<close>: the byte bound first, then UTF-8, then the message. \<open>utf8\<close> and \<open>read_json\<close> stand
  for \<open>std::str::from_utf8\<close> and \<open>serde_json::from_str\<close>.
\<close>

definition parse_frame ::
    "(str \<Rightarrow> bool) \<Rightarrow> (str \<Rightarrow> str + json) \<Rightarrow> (json \<Rightarrow> str) \<Rightarrow> str \<Rightarrow> message res" where
  "parse_frame utf8 read_json show_json frame =
     rbind (validate_frame_size (length frame)) (\<lambda>_.
       if utf8 frame then parse_message show_json (read_json frame)
       else Inl (Config ''frame is not valid UTF-8''))"

section \<open>The value a message serializes to\<close>

definition opt_field :: "str \<Rightarrow> json option \<Rightarrow> (str \<times> json) list" where
  "opt_field k v = (case v of None \<Rightarrow> [] | Some j \<Rightarrow> [(k, j)])"

fun ser_i32 :: "int \<Rightarrow> json" where
  "ser_i32 i = JNumber (if i < 0 then NegInt i else PosInt (word_of_int i))"

definition ser_json_rpc_error :: "json_rpc_error \<Rightarrow> json" where
  "ser_json_rpc_error e =
     JObject ([(''code'', ser_i32 (code e)), (''message'', JString (message e))]
              @ opt_field ''data'' (data e))"

fun ser_message :: "message \<Rightarrow> json" where
  "ser_message (Request j i m p) =
     JObject ([(''jsonrpc'', JString j), (''id'', i), (''method'', JString m)] @ opt_field ''params'' p)"
| "ser_message (Error j i e) =
     JObject [(''jsonrpc'', JString j), (''id'', i), (''error'', ser_json_rpc_error e)]"
| "ser_message (Response j i r) =
     JObject [(''jsonrpc'', JString j), (''id'', i),
              (''result'', (case r of None \<Rightarrow> JNull | Some v \<Rightarrow> v))]"
| "ser_message (Notification j m p) =
     JObject ([(''jsonrpc'', JString j), (''method'', JString m)] @ opt_field ''params'' p)"

text \<open>
  The messages that survive the wire: an explicit null in an optional position reads back as
  absent, and an error code is an \<open>i32\<close>.
\<close>

definition is_i32 :: "int \<Rightarrow> bool" where
  "is_i32 i \<longleftrightarrow> - 2147483648 \<le> i \<and> i \<le> 2147483647"

fun wire_ok :: "message \<Rightarrow> bool" where
  "wire_ok (Request j i m p) = (j = ''2.0'' \<and> p \<noteq> Some JNull)"
| "wire_ok (Error j i e) = (j = ''2.0'' \<and> is_i32 (code e) \<and> data e \<noteq> Some JNull)"
| "wire_ok (Response j i r) = (j = ''2.0'' \<and> r \<noteq> Some JNull)"
| "wire_ok (Notification j m p) = (j = ''2.0'' \<and> p \<noteq> Some JNull)"

lemma opt_value_id: "v \<noteq> Some JNull \<Longrightarrow> opt_value v = v"
  by (auto simp: opt_value_def split: option.splits json.splits)

lemma map_of_opt_field [simp]: "map_of (opt_field k v) k' = (if k' = k then v else None)"
  by (auto simp: opt_field_def split: option.splits)

lemma de_i32_ser_i32: "is_i32 i \<Longrightarrow> de_i32 (ser_i32 i) = Some i"
proof -
  assume i: "is_i32 i"
  have "0 \<le> i \<Longrightarrow> uint (word_of_int i :: u64) = i"
    using i by (simp add: is_i32_def unsigned_of_int take_bit_int_eq_self)
  then show ?thesis
    using i by (auto simp: is_i32_def)
qed

lemma de_json_rpc_error_ser:
  "is_i32 (code e) \<Longrightarrow> data e \<noteq> Some JNull \<Longrightarrow> de_json_rpc_error (ser_json_rpc_error e) = Some e"
  by (cases e)
    (simp add: de_json_rpc_error_def ser_json_rpc_error_def opt_value_id de_i32_ser_i32
      map_add_def del: ser_i32.simps)

lemmas de_message_defs = de_message_def de_request_def de_error_def de_response_def de_notification_def

lemma de_message_ser: "wire_ok m \<Longrightarrow> de_message (ser_message m) = Some m"
  by (cases m)
    (auto simp: de_message_defs opt_value_id de_json_rpc_error_ser opt_value_def map_add_def
      split: option.splits json.splits)

lemma parse_message_ser: "wire_ok m \<Longrightarrow> parse_message sj (Inr (ser_message m)) = Inr m"
proof -
  assume ok: "wire_ok m"
  obtain fs where fs: "ser_message m = JObject fs" and ver: "map_of fs ''jsonrpc'' = Some (JString ''2.0'')"
    using ok by (cases m) auto
  show ?thesis
    using de_message_ser [OF ok] fs ver by (simp add: parse_message_def)
qed

section \<open>The method catalogue\<close>

datatype rpc_method =
    M_HandlerRegister
  | M_HandlerReconnect
  | M_HandlerUnregister
  | M_AgentSendDm
  | M_AgentSendReaction
  | M_AgentSendAttachment
  | M_AgentSetProfile
  | M_AgentError
  | M_HandlerResponse
  | M_AgentEvent
  | M_AgentStatus
  | M_AgentMetrics
  | M_AgentListHandlers
  | M_AgentUnregisterHandler
  | M_SystemVersion
  | M_SystemHealth
  | M_AgentVersion
  | M_AgentRateLimited
  | M_AgentIsSquadMember
  | M_AgentExitMlsGroup
  | M_AgentDeleteMlsGroup
  | M_AgentSendGroupMessage
  | M_AgentSendGroupReaction
  | M_AgentSendGroupAttachment
  | M_AgentPublishKeyPackage
  | M_AdminSendTestDm
  | M_AdminCreateMlsGroup
  | M_AdminInviteToMlsGroup
  | M_AgentCreateMlsGroup
  | M_AgentInviteToMlsGroup
  | M_AdminRepairMlsGroupAdmins

fun method_name :: "rpc_method \<Rightarrow> str" where
  "method_name M_HandlerRegister = ''handler.register''"
| "method_name M_HandlerReconnect = ''handler.reconnect''"
| "method_name M_HandlerUnregister = ''handler.unregister''"
| "method_name M_AgentSendDm = ''agent.send_dm''"
| "method_name M_AgentSendReaction = ''agent.send_reaction''"
| "method_name M_AgentSendAttachment = ''agent.send_attachment''"
| "method_name M_AgentSetProfile = ''agent.set_profile''"
| "method_name M_AgentError = ''agent.error''"
| "method_name M_HandlerResponse = ''handler.response''"
| "method_name M_AgentEvent = ''agent.event''"
| "method_name M_AgentStatus = ''agent.status''"
| "method_name M_AgentMetrics = ''agent.metrics''"
| "method_name M_AgentListHandlers = ''agent.list_handlers''"
| "method_name M_AgentUnregisterHandler = ''agent.unregister_handler''"
| "method_name M_SystemVersion = ''system.version''"
| "method_name M_SystemHealth = ''system.health''"
| "method_name M_AgentVersion = ''agent.version''"
| "method_name M_AgentRateLimited = ''agent.rate_limited''"
| "method_name M_AgentIsSquadMember = ''agent.is_squad_member''"
| "method_name M_AgentExitMlsGroup = ''agent.exit_mls_group''"
| "method_name M_AgentDeleteMlsGroup = ''agent.delete_mls_group''"
| "method_name M_AgentSendGroupMessage = ''agent.send_group_message''"
| "method_name M_AgentSendGroupReaction = ''agent.send_group_reaction''"
| "method_name M_AgentSendGroupAttachment = ''agent.send_group_attachment''"
| "method_name M_AgentPublishKeyPackage = ''agent.publish_key_package''"
| "method_name M_AdminSendTestDm = ''admin.send_test_dm''"
| "method_name M_AdminCreateMlsGroup = ''admin.create_mls_group''"
| "method_name M_AdminInviteToMlsGroup = ''admin.invite_to_mls_group''"
| "method_name M_AgentCreateMlsGroup = ''agent.create_mls_group''"
| "method_name M_AgentInviteToMlsGroup = ''agent.invite_to_mls_group''"
| "method_name M_AdminRepairMlsGroupAdmins = ''admin.repair_mls_group_admins''"

definition method_all :: "rpc_method list" where
  "method_all =
     [M_HandlerRegister,
      M_HandlerReconnect,
      M_HandlerUnregister,
      M_AgentSendDm,
      M_AgentSendReaction,
      M_AgentSendAttachment,
      M_AgentSetProfile,
      M_AgentError,
      M_HandlerResponse,
      M_AgentEvent,
      M_AgentStatus,
      M_AgentMetrics,
      M_AgentListHandlers,
      M_AgentUnregisterHandler,
      M_SystemVersion,
      M_SystemHealth,
      M_AgentVersion,
      M_AgentRateLimited,
      M_AgentIsSquadMember,
      M_AgentExitMlsGroup,
      M_AgentDeleteMlsGroup,
      M_AgentSendGroupMessage,
      M_AgentSendGroupReaction,
      M_AgentSendGroupAttachment,
      M_AgentPublishKeyPackage,
      M_AdminSendTestDm,
      M_AdminCreateMlsGroup,
      M_AdminInviteToMlsGroup,
      M_AgentCreateMlsGroup,
      M_AgentInviteToMlsGroup,
      M_AdminRepairMlsGroupAdmins]"

definition parse_method :: "str \<Rightarrow> rpc_method res" where
  "parse_method s =
     (if s = ''handler.register'' then Inr M_HandlerRegister
      else if s = ''handler.reconnect'' then Inr M_HandlerReconnect
      else if s = ''handler.unregister'' then Inr M_HandlerUnregister
      else if s = ''agent.send_dm'' then Inr M_AgentSendDm
      else if s = ''agent.send_reaction'' then Inr M_AgentSendReaction
      else if s = ''agent.send_attachment'' then Inr M_AgentSendAttachment
      else if s = ''agent.set_profile'' then Inr M_AgentSetProfile
      else if s = ''agent.error'' then Inr M_AgentError
      else if s = ''handler.response'' then Inr M_HandlerResponse
      else if s = ''agent.event'' then Inr M_AgentEvent
      else if s = ''agent.status'' then Inr M_AgentStatus
      else if s = ''agent.metrics'' then Inr M_AgentMetrics
      else if s = ''agent.list_handlers'' then Inr M_AgentListHandlers
      else if s = ''agent.unregister_handler'' then Inr M_AgentUnregisterHandler
      else if s = ''system.version'' then Inr M_SystemVersion
      else if s = ''system.health'' then Inr M_SystemHealth
      else if s = ''agent.version'' then Inr M_AgentVersion
      else if s = ''agent.rate_limited'' then Inr M_AgentRateLimited
      else if s = ''agent.is_squad_member'' then Inr M_AgentIsSquadMember
      else if s = ''agent.delete_mls_group'' then Inr M_AgentDeleteMlsGroup
      else if s = ''agent.exit_mls_group'' then Inr M_AgentExitMlsGroup
      else if s = ''agent.send_group_message'' then Inr M_AgentSendGroupMessage
      else if s = ''agent.send_group_reaction'' then Inr M_AgentSendGroupReaction
      else if s = ''agent.send_group_attachment'' then Inr M_AgentSendGroupAttachment
      else if s = ''agent.publish_key_package'' then Inr M_AgentPublishKeyPackage
      else if s = ''admin.send_test_dm'' then Inr M_AdminSendTestDm
      else if s = ''admin.create_mls_group'' then Inr M_AdminCreateMlsGroup
      else if s = ''admin.invite_to_mls_group'' then Inr M_AdminInviteToMlsGroup
      else if s = ''agent.create_mls_group'' then Inr M_AgentCreateMlsGroup
      else if s = ''agent.invite_to_mls_group'' then Inr M_AgentInviteToMlsGroup
      else if s = ''admin.repair_mls_group_admins'' then Inr M_AdminRepairMlsGroupAdmins
      else Inl MethodNotFound)"

lemma parse_method_name: "parse_method (method_name m) = Inr m"
  by (cases m) (simp_all add: parse_method_def)

lemma parse_method_Inr: "parse_method s = Inr m \<Longrightarrow> s = method_name m"
  by (auto simp: parse_method_def split: if_splits)

lemma method_all_complete: "m \<in> set method_all"
  by (cases m) (simp_all add: method_all_def)

section \<open>Typed parameters and results\<close>

text \<open>
  The derived deserializers read an object with the fields, or a list of the fields in order, of
  which a trailing optional one may be missing.
\<close>

record reconnect_params =
  rp_handler_id :: str
  rp_reconnect_token :: str

fun de_reconnect_params :: "json \<Rightarrow> reconnect_params option" where
  "de_reconnect_params (JObject fs) =
     (case (str_field (JObject fs) ''handler_id'', str_field (JObject fs) ''reconnect_token'') of
        (Some h, Some t) \<Rightarrow> Some \<lparr>rp_handler_id = h, rp_reconnect_token = t\<rparr>
      | _ \<Rightarrow> None)"
| "de_reconnect_params (JArray [x, y]) =
     (case (as_str x, as_str y) of
        (Some h, Some t) \<Rightarrow> Some \<lparr>rp_handler_id = h, rp_reconnect_token = t\<rparr> | _ \<Rightarrow> None)"
| "de_reconnect_params _ = None"

record create_params =
  cp_bot_id :: str
  cp_group_name :: str
  cp_recipient :: str
  cp_admins :: "str list option"

definition mk_create_params :: "str option \<Rightarrow> str option \<Rightarrow> str option \<Rightarrow> str list option option \<Rightarrow> create_params option" where
  "mk_create_params b g r a =
     (case (b, g, r, a) of
        (Some b, Some g, Some r, Some a) \<Rightarrow>
          Some \<lparr>cp_bot_id = b, cp_group_name = g, cp_recipient = r, cp_admins = a\<rparr>
      | _ \<Rightarrow> None)"

fun de_create_params :: "json \<Rightarrow> create_params option" where
  "de_create_params (JObject fs) =
     mk_create_params (str_field (JObject fs) ''bot_id'') (str_field (JObject fs) ''group_name'')
       (str_field (JObject fs) ''recipient'') (de_option de_string_list (json_get (JObject fs) ''admins''))"
| "de_create_params (JArray [x, y, z]) = mk_create_params (as_str x) (as_str y) (as_str z) (Some None)"
| "de_create_params (JArray [x, y, z, w]) =
     mk_create_params (as_str x) (as_str y) (as_str z) (de_option de_string_list (Some w))"
| "de_create_params _ = None"

record invite_params =
  ip_bot_id :: str
  ip_group_name :: str
  ip_recipient :: str

fun de_invite_params :: "json \<Rightarrow> invite_params option" where
  "de_invite_params (JObject fs) =
     (case (str_field (JObject fs) ''bot_id'', str_field (JObject fs) ''group_name'', str_field (JObject fs) ''recipient'') of
        (Some b, Some g, Some r) \<Rightarrow> Some \<lparr>ip_bot_id = b, ip_group_name = g, ip_recipient = r\<rparr>
      | _ \<Rightarrow> None)"
| "de_invite_params (JArray [x, y, z]) =
     (case (as_str x, as_str y, as_str z) of
        (Some b, Some g, Some r) \<Rightarrow> Some \<lparr>ip_bot_id = b, ip_group_name = g, ip_recipient = r\<rparr>
      | _ \<Rightarrow> None)"
| "de_invite_params _ = None"

record repair_params =
  pp_bot_id :: str
  pp_group_name :: str

fun de_repair_params :: "json \<Rightarrow> repair_params option" where
  "de_repair_params (JObject fs) =
     (case (str_field (JObject fs) ''bot_id'', str_field (JObject fs) ''group_name'') of
        (Some b, Some g) \<Rightarrow> Some \<lparr>pp_bot_id = b, pp_group_name = g\<rparr>
      | _ \<Rightarrow> None)"
| "de_repair_params (JArray [x, y]) =
     (case (as_str x, as_str y) of (Some b, Some g) \<Rightarrow> Some \<lparr>pp_bot_id = b, pp_group_name = g\<rparr> | _ \<Rightarrow> None)"
| "de_repair_params _ = None"

end
