(* ===== verification/EventCodec.thy ===== *)
theory EventCodec
  imports Events Protocol
begin

text \<open>
  The JSON object an \<open>AgentEvent\<close> serializes to and the derived deserializer that reads it back
  (\<open>src/events.rs\<close>). Options marked \<open>skip_serializing_if\<close> are omitted, \<open>chat_id\<close> is written as
  null; a field with a default may be absent when reading, and two entries with one name keep
  the first, as no object the daemon writes has two.
\<close>

section \<open>Scalars\<close>

definition ser_u64 :: "u64 \<Rightarrow> json" where
  "ser_u64 w = JNumber (PosInt w)"

fun de_u64 :: "json \<Rightarrow> u64 option" where
  "de_u64 (JNumber (PosInt w)) = Some w"
| "de_u64 _ = None"

fun de_bool :: "json \<Rightarrow> bool option" where
  "de_bool (JBool b) = Some b"
| "de_bool _ = None"

definition ser_opt_str :: "str option \<Rightarrow> json" where
  "ser_opt_str s = (case s of None \<Rightarrow> JNull | Some x \<Rightarrow> JString x)"

text \<open>\<open>#[serde(default)]\<close>: an absent field takes the default, a present one must decode.\<close>

definition de_default :: "'a \<Rightarrow> (json \<Rightarrow> 'a option) \<Rightarrow> json option \<Rightarrow> 'a option" where
  "de_default d de v = (case v of None \<Rightarrow> Some d | Some j \<Rightarrow> de j)"

lemma de_u64_ser [simp]: "de_u64 (ser_u64 w) = Some w"
  by (simp add: ser_u64_def)

lemma de_option_ser_opt_str [simp]: "de_option as_str (Some (ser_opt_str s)) = Some s"
  by (cases s) (simp_all add: de_option_def ser_opt_str_def)

lemma map_of_opt_field_append [simp]:
  "map_of ys k = None \<Longrightarrow> map_of (opt_field k v @ ys) k = v"
  "k' \<noteq> k \<Longrightarrow> map_of (opt_field k v @ ys) k' = map_of ys k'"
  by (auto simp: opt_field_def split: option.splits)

lemma de_option_None [simp]: "de_option de None = Some None"
  by (simp add: de_option_def)

lemma de_option_Some:
  "j \<noteq> JNull \<Longrightarrow> de j = Some a \<Longrightarrow> de_option de (Some j) = Some (Some a)"
  by (cases j) (simp_all add: de_option_def)

lemma de_option_map:
  "(\<And>a. de (ser a) = Some a) \<Longrightarrow> (\<And>a. ser a \<noteq> JNull) \<Longrightarrow>
   de_option de (map_option ser x) = Some x"
  by (cases x) (simp_all add: de_option_Some)

lemma de_option_JString_map [simp]: "de_option as_str (map_option JString x) = Some x"
  by (rule de_option_map) simp_all

section \<open>Payloads\<close>

definition ser_reaction :: "reaction_payload \<Rightarrow> json" where
  "ser_reaction r =
     JObject [(''target_rumor_id'', JString (target_rumor_id r)), (''emoji'', JString (emoji r))]"

definition de_reaction :: "json \<Rightarrow> reaction_payload option" where
  "de_reaction v =
     (case (str_field v ''target_rumor_id'', str_field v ''emoji'') of
        (Some t, Some e) \<Rightarrow> Some \<lparr>target_rumor_id = t, emoji = e\<rparr>
      | _ \<Rightarrow> None)"

definition ser_attachment :: "attachment_payload \<Rightarrow> json" where
  "ser_attachment a =
     JObject ([(''mime_type'', JString (mime_type a)), (''size'', ser_u64 (ap_size a))]
       @ opt_field ''ox'' (map_option JString (ox a))
       @ opt_field ''filename'' (map_option JString (ap_filename a))
       @ opt_field ''blurhash'' (map_option JString (ap_blurhash a))
       @ opt_field ''dim'' (map_option JString (ap_dim a))
       @ [(''path'', JString (ap_path a)), (''expires_at'', ser_u64 (expires_at a))])"

definition de_attachment :: "json \<Rightarrow> attachment_payload option" where
  "de_attachment v =
     (case (str_field v ''mime_type'', Option.bind (json_get v ''size'') de_u64,
            de_option as_str (json_get v ''ox''), de_option as_str (json_get v ''filename''),
            de_option as_str (json_get v ''blurhash''), de_option as_str (json_get v ''dim''),
            str_field v ''path'', Option.bind (json_get v ''expires_at'') de_u64) of
        (Some m, Some s, Some x, Some f, Some b, Some d, Some p, Some e) \<Rightarrow>
          Some \<lparr>mime_type = m, ap_size = s, ox = x, ap_filename = f, ap_blurhash = b, ap_dim = d,
                ap_path = p, expires_at = e\<rparr>
      | _ \<Rightarrow> None)"

fun reason_wire :: "bot_unavailable_reason \<Rightarrow> str" where
  "reason_wire StateLost = ''state_lost''"
| "reason_wire EngineUnavailable = ''engine_unavailable''"

definition reason_of_wire :: "str \<Rightarrow> bot_unavailable_reason option" where
  "reason_of_wire s =
     (if s = ''state_lost'' then Some StateLost
      else if s = ''engine_unavailable'' then Some EngineUnavailable else None)"

definition ser_bot_unavailable :: "bot_unavailable_payload \<Rightarrow> json" where
  "ser_bot_unavailable u = JObject [(''reason'', JString (reason_wire (reason u)))]"

definition de_bot_unavailable :: "json \<Rightarrow> bot_unavailable_payload option" where
  "de_bot_unavailable v =
     map_option (\<lambda>r. \<lparr>reason = r\<rparr>) (Option.bind (str_field v ''reason'') reason_of_wire)"

lemma de_reaction_ser [simp]: "de_reaction (ser_reaction r) = Some r"
  by (simp add: de_reaction_def ser_reaction_def)

lemma de_attachment_ser [simp]: "de_attachment (ser_attachment a) = Some a"
  by (simp add: de_attachment_def ser_attachment_def del: map_of_append)

lemma reason_of_wire_wire [simp]: "reason_of_wire (reason_wire r) = Some r"
  by (cases r) (simp_all add: reason_of_wire_def)

lemma de_bot_unavailable_ser [simp]: "de_bot_unavailable (ser_bot_unavailable u) = Some u"
  by (simp add: de_bot_unavailable_def ser_bot_unavailable_def)

lemma ser_payload_neq_JNull:
  "ser_reaction r \<noteq> JNull" "ser_attachment a \<noteq> JNull" "ser_bot_unavailable u \<noteq> JNull"
  by (simp_all add: ser_reaction_def ser_attachment_def ser_bot_unavailable_def)

section \<open>The event\<close>

definition ser_agent_event :: "agent_event \<Rightarrow> json" where
  "ser_agent_event e =
     JObject ([(''bot_id'', JString (ev_bot_id e)), (''event_id'', JString (ev_event_id e)),
               (''type'', JString (as_wire_name (ev_type e))),
               (''chat_id'', ser_opt_str (chat_id e)), (''content'', JString (ev_content e)),
               (''mentions'', JArray (map JString (mentions e))),
               (''is_mentioned'', JBool (is_mentioned e)),
               (''mentioned_bot_ids'', JArray (map JString (mentioned_bot_ids e)))]
       @ opt_field ''pacto_virtual_bucket'' (map_option JString (pacto_virtual_bucket e))
       @ [(''rumor_id'', JString (rumor_id e)), (''author'', JString (author e)),
          (''timestamp'', ser_u64 (timestamp e))]
       @ opt_field ''reaction'' (map_option ser_reaction (reaction e))
       @ opt_field ''attachment'' (map_option ser_attachment (attachment e))
       @ opt_field ''bot_unavailable'' (map_option ser_bot_unavailable (bot_unavailable e)))"

definition de_agent_event :: "json \<Rightarrow> agent_event option" where
  "de_agent_event v =
     (case (str_field v ''bot_id'', str_field v ''event_id'',
            Option.bind (str_field v ''type'') parse_event_type_opt,
            de_option as_str (json_get v ''chat_id''), str_field v ''content'',
            de_default [] de_string_list (json_get v ''mentions''),
            de_default False de_bool (json_get v ''is_mentioned'')) of
        (Some b, Some i, Some t, Some c, Some x, Some ms, Some im) \<Rightarrow>
          (case (de_default [] de_string_list (json_get v ''mentioned_bot_ids''),
                 de_option as_str (json_get v ''pacto_virtual_bucket''), str_field v ''rumor_id'',
                 str_field v ''author'', Option.bind (json_get v ''timestamp'') de_u64) of
             (Some mb, Some pv, Some r, Some a, Some ts) \<Rightarrow>
               (case (de_option de_reaction (json_get v ''reaction''),
                      de_option de_attachment (json_get v ''attachment''),
                      de_option de_bot_unavailable (json_get v ''bot_unavailable'')) of
                  (Some re, Some att, Some bu) \<Rightarrow>
                    Some \<lparr>ev_bot_id = b, ev_event_id = i, ev_type = t, chat_id = c, ev_content = x,
                          mentions = ms, is_mentioned = im, mentioned_bot_ids = mb,
                          pacto_virtual_bucket = pv, rumor_id = r, author = a, timestamp = ts,
                          reaction = re, attachment = att, bot_unavailable = bu\<rparr>
                | _ \<Rightarrow> None)
           | _ \<Rightarrow> None)
      | _ \<Rightarrow> None)"

lemma de_option_payloads [simp]:
  "de_option de_reaction (map_option ser_reaction r) = Some r"
  "de_option de_attachment (map_option ser_attachment a) = Some a"
  "de_option de_bot_unavailable (map_option ser_bot_unavailable u) = Some u"
  by (simp_all add: de_option_map ser_payload_neq_JNull)

lemma de_agent_event_ser: "de_agent_event (ser_agent_event e) = Some e"
  by (simp add: de_agent_event_def ser_agent_event_def de_default_def del: map_of_append)

end
