(* ===== verification/F64.thy ===== *)
theory F64
  imports Prelude
begin

text \<open>
  Double-precision arithmetic of the rate limiter. A finite \<open>f64\<close> is a rational; every operation
  computes exactly and then rounds to the nearest 53-bit significand, ties to even. The exponent
  is not bounded: the limiter's values (token counts, seconds, rates) are far from the subnormal
  and overflow thresholds.
\<close>

fun bits :: "nat \<Rightarrow> nat" where
  "bits n = (if n = 0 then 0 else Suc (bits (n div 2)))"

declare bits.simps [simp del]

lemma bits_bounds: "0 < n \<Longrightarrow> 2 ^ (bits n - 1) \<le> n \<and> n < 2 ^ bits n \<and> 0 < bits n"
proof (induction n rule: bits.induct)
  case (1 n)
  show ?case
  proof (cases "n div 2 = 0")
    case True
    with "1.prems" have "n = 1" by auto
    then show ?thesis by (simp add: bits.simps [of "Suc 0"] bits.simps [of 0])
  next
    case False
    with 1 have ih: "2 ^ (bits (n div 2) - 1) \<le> n div 2" "n div 2 < 2 ^ bits (n div 2)"
      "0 < bits (n div 2)" by auto
    obtain k where k: "bits (n div 2) = Suc k" using ih(3) by (cases "bits (n div 2)") auto
    have b: "bits n = Suc (Suc k)" using "1.prems" k by (simp add: bits.simps [of n])
    have "2 * 2 ^ k \<le> n" and "n < 2 * 2 ^ Suc k"
      using ih(1,2) unfolding k by auto
    then show ?thesis by (simp add: b)
  qed
qed

text \<open>The exponent \<open>e\<close> of a positive value: \<open>2^e \<le> x < 2^(e+1)\<close>.\<close>

definition f64_exp :: "rat \<Rightarrow> int" where
  "f64_exp x =
     (let (a, b) = quotient_of x; k = int (bits (nat a)) - int (bits (nat b))
      in if 2 powi k \<le> x then k else k - 1)"

definition round_half_even :: "rat \<Rightarrow> int" where
  "round_half_even q =
     (let f = \<lfloor>q\<rfloor>; r = q - of_int f
      in if r < 1 / 2 then f else if 1 / 2 < r then f + 1 else if even f then f else f + 1)"

definition f64_round_pos :: "rat \<Rightarrow> rat" where
  "f64_round_pos x = (let u = 2 powi (f64_exp x - 52) in of_int (round_half_even (x / u)) * u)"

definition f64_round :: "rat \<Rightarrow> rat" where
  "f64_round x = (if x = 0 then 0 else if x < 0 then - f64_round_pos (- x) else f64_round_pos x)"

section \<open>Rounding to the nearest integer\<close>

lemma round_half_even_bounds:
  "of_int (round_half_even q) \<le> q + 1 / 2" "q - 1 / 2 \<le> of_int (round_half_even q)"
  by (auto simp: round_half_even_def Let_def) linarith+

lemma round_half_even_of_int [simp]: "round_half_even (of_int n) = n"
  by (simp add: round_half_even_def)

lemma round_half_even_mono:
  assumes "p \<le> q"
  shows "round_half_even p \<le> round_half_even q"
proof (cases "\<lfloor>p\<rfloor> = \<lfloor>q\<rfloor>")
  case True
  with assms show ?thesis by (auto simp: round_half_even_def Let_def)
next
  case False
  with assms have "\<lfloor>p\<rfloor> + 1 \<le> \<lfloor>q\<rfloor>" using floor_mono [of p q] by linarith
  moreover have "round_half_even p \<le> \<lfloor>p\<rfloor> + 1" and "\<lfloor>q\<rfloor> \<le> round_half_even q"
    by (auto simp: round_half_even_def Let_def)
  ultimately show ?thesis by linarith
qed

lemma round_half_even_le_int: "q \<le> of_int n \<Longrightarrow> round_half_even q \<le> n"
  using round_half_even_mono [of q "of_int n"] by simp

lemma round_half_even_ge_int: "of_int n \<le> q \<Longrightarrow> n \<le> round_half_even q"
  using round_half_even_mono [of "of_int n" q] by simp

section \<open>The exponent\<close>

lemma powi_two_pos [simp]: "0 < (2 :: rat) powi k"
  by (simp add: power_int_def)

lemma powi_two_add: "(2 :: rat) powi (a + b) = 2 powi a * 2 powi b"
  by (simp add: power_int_add)

lemma powi_two_mono: "a \<le> b \<Longrightarrow> (2 :: rat) powi a \<le> 2 powi b"
  by (simp add: power_int_increasing)

lemma powi_nat: "(2 :: rat) powi int n = 2 ^ n"
  by (simp add: power_int_def)

lemma f64_exp_bounds:
  assumes "0 < x"
  shows "2 powi f64_exp x \<le> x \<and> x < 2 powi (f64_exp x + 1)"
proof -
  obtain a b where q: "quotient_of x = (a, b)" by (cases "quotient_of x")
  have b: "0 < b" using quotient_of_denom_pos [OF q] .
  have x: "x = of_int a / of_int b" using quotient_of_div [OF q] .
  have a: "0 < a" using assms b by (simp add: x zero_less_divide_iff)
  define p where "p = bits (nat a)"
  define r where "r = bits (nat b)"
  have pa: "2 ^ (p - 1) \<le> nat a" "nat a < 2 ^ p" "0 < p"
    using bits_bounds [of "nat a"] a by (auto simp: p_def)
  have rb: "2 ^ (r - 1) \<le> nat b" "nat b < 2 ^ r" "0 < r"
    using bits_bounds [of "nat b"] b by (auto simp: r_def)
  have na: "rat_of_nat (nat a) = of_int a" "rat_of_nat (nat b) = of_int b"
    using a b by auto
  have A: "2 ^ (p - 1) \<le> (of_int a :: rat)" "(of_int a :: rat) < 2 ^ p"
    using pa(1,2) unfolding na(1) [symmetric]
    by (metis of_nat_le_iff of_nat_numeral of_nat_power, metis of_nat_less_iff of_nat_numeral of_nat_power)
  have B: "2 ^ (r - 1) \<le> (of_int b :: rat)" "(of_int b :: rat) < 2 ^ r"
    using rb(1,2) unfolding na(2) [symmetric]
    by (metis of_nat_le_iff of_nat_numeral of_nat_power, metis of_nat_less_iff of_nat_numeral of_nat_power)
  have bp: "0 < (of_int b :: rat)" using b by simp
  have lo: "2 powi (int p - int r - 1) \<le> x"
  proof -
    have "2 powi (int p - int r - 1) * of_int b \<le> (2 powi (int p - int r - 1) * 2 ^ r :: rat)"
      using B(2) by (intro mult_left_mono) auto
    also have "\<dots> = 2 powi (int p - 1)"
      using powi_two_add [of "int p - int r - 1" "int r"] powi_nat [of r] by simp
    also have "\<dots> = 2 ^ (p - 1)" using pa(3) powi_nat [of "p - 1"] by (simp add: of_nat_diff)
    also have "\<dots> \<le> of_int a" by (rule A(1))
    finally show ?thesis using bp by (simp add: x pos_le_divide_eq)
  qed
  have hi: "x < 2 powi (int p - int r + 1)"
  proof -
    have "of_int a < (2 ^ p :: rat)" by (rule A(2))
    also have "\<dots> = 2 powi (int p - int r + 1) * 2 ^ (r - 1)"
      using rb(3) powi_two_add [of "int p - int r + 1" "int (r - 1)"] powi_nat [of "r - 1"]
        powi_nat [of p] by (simp add: of_nat_diff)
    also have "\<dots> \<le> 2 powi (int p - int r + 1) * of_int b"
      using B(1) by (intro mult_left_mono) auto
    finally show ?thesis using bp by (simp add: x pos_divide_less_eq)
  qed
  have e: "f64_exp x = (if 2 powi (int p - int r) \<le> x then int p - int r else int p - int r - 1)"
    by (simp add: f64_exp_def q p_def r_def)
  show ?thesis
  proof (cases "2 powi (int p - int r) \<le> x")
    case True
    with e have "f64_exp x = int p - int r" by simp
    with True hi show ?thesis by simp
  next
    case False
    with e have "f64_exp x = int p - int r - 1" by simp
    with False lo show ?thesis by simp
  qed
qed

lemma f64_exp_mono:
  assumes "0 < x" and "x \<le> y"
  shows "f64_exp x \<le> f64_exp y"
proof (rule ccontr)
  assume "\<not> ?thesis"
  then have "(2 :: rat) powi (f64_exp y + 1) \<le> 2 powi f64_exp x"
    by (intro powi_two_mono) simp
  with f64_exp_bounds [of x] f64_exp_bounds [of y] assms show False by simp
qed

section \<open>Rounding is monotone and exact on small integers\<close>

lemma f64_round_pos_bounds:
  assumes "0 < x"
  shows "2 powi f64_exp x \<le> f64_round_pos x \<and> f64_round_pos x \<le> 2 powi (f64_exp x + 1)"
proof -
  define u :: rat where "u = 2 powi (f64_exp x - 52)"
  have u: "0 < u" by (simp add: u_def)
  have s: "2 powi f64_exp x = of_int (2 ^ 52) * u" "2 powi (f64_exp x + 1) = of_int (2 ^ 53) * u"
    using powi_two_add [of "f64_exp x - 52" 52] powi_two_add [of "f64_exp x - 52" 53]
    by (simp_all add: u_def add.commute mult.commute)
  have "of_int (2 ^ 52) \<le> x / u" and "x / u \<le> of_int (2 ^ 53)"
    using f64_exp_bounds [OF assms] u s by (auto simp: pos_le_divide_eq pos_divide_le_eq)
  then have "2 ^ 52 \<le> round_half_even (x / u)" and "round_half_even (x / u) \<le> 2 ^ 53"
    by (blast intro: round_half_even_ge_int round_half_even_le_int)+
  then have "of_int (2 ^ 52) * u \<le> of_int (round_half_even (x / u)) * u"
    and "of_int (round_half_even (x / u)) * u \<le> of_int (2 ^ 53) * u"
    using u by (simp_all only: mult_le_cancel_right_pos of_int_le_iff)
  then show ?thesis by (simp add: s f64_round_pos_def u_def [symmetric])
qed

lemma f64_round_pos_mono:
  assumes "0 < x" and "x \<le> y"
  shows "f64_round_pos x \<le> f64_round_pos y"
proof (cases "f64_exp x = f64_exp y")
  case True
  have "x / 2 powi (f64_exp y - 52) \<le> y / 2 powi (f64_exp y - 52)"
    using assms by (intro divide_right_mono) auto
  then show ?thesis
    unfolding f64_round_pos_def True Let_def
    by (intro mult_right_mono) (auto dest: round_half_even_mono)
next
  case False
  with f64_exp_mono [OF assms] have "(2 :: rat) powi (f64_exp x + 1) \<le> 2 powi f64_exp y"
    by (intro powi_two_mono) simp
  with f64_round_pos_bounds [of x] f64_round_pos_bounds [of y] assms show ?thesis by simp
qed

lemma f64_round_pos_of_nat:
  assumes "0 < n" and "n \<le> 2 ^ 53"
  shows "f64_round_pos (of_int n) = of_int n"
proof -
  define e where "e = f64_exp (of_int n :: rat)"
  have b: "2 powi e \<le> (of_int n :: rat)" "(of_int n :: rat) < 2 powi (e + 1)"
    using f64_exp_bounds [of "of_int n"] assms by (auto simp: e_def)
  have e0: "0 \<le> e"
  proof (rule ccontr)
    assume "\<not> 0 \<le> e"
    then have "(2 :: rat) powi (e + 1) \<le> 2 powi 0" by (intro powi_two_mono) simp
    with b(2) assms(1) show False by simp
  qed
  have nle: "(of_int n :: rat) \<le> 2 powi 53"
    using assms(2) by (metis of_int_le_iff of_int_numeral of_int_power power_int_numeral)
  have e53: "e \<le> 53"
  proof (rule ccontr)
    assume "\<not> e \<le> 53"
    then have "(2 :: rat) powi 54 \<le> 2 powi e" by (intro powi_two_mono) simp
    with b(1) nle show False by simp
  qed
  show ?thesis
  proof (cases "e = 53")
    case True
    then have "(of_int n :: rat) = 2 powi 53" using b(1) nle by simp
    then have n: "n = 2 ^ 53" by (metis of_int_eq_iff of_int_numeral of_int_power power_int_numeral)
    have half: "round_half_even (of_int n / 2) = n div 2"
    proof -
      have "(of_int n / 2 :: rat) = of_int (n div 2)" by (simp add: n)
      then show ?thesis by (simp only: round_half_even_of_int)
    qed
    have twice: "of_int (n div 2) * 2 = (of_int n :: rat)" by (simp add: n)
    have "f64_exp (of_int n :: rat) = 53" using True by (simp only: e_def)
    then show ?thesis using half twice by (simp add: f64_round_pos_def)
  next
    case False
    with e53 have le: "e \<le> 52" by simp
    have "(of_int n / 2 powi (e - 52) :: rat) = of_int (n * 2 ^ nat (52 - e))"
    proof -
      have "(2 powi (e - 52) :: rat) = inverse (2 ^ nat (52 - e))"
        using le by (cases "e = 52") (auto simp: power_int_def nat_diff_distrib power_inverse inverse_eq_divide power_one_over)
      then show ?thesis by (simp add: field_simps)
    qed
    then have "round_half_even (of_int n / 2 powi (e - 52) :: rat) = n * 2 ^ nat (52 - e)"
      by (simp only: round_half_even_of_int)
    moreover have "(2 ^ nat (52 - e) * 2 powi (e - 52) :: rat) = 1"
      using le powi_two_add [of "52 - e" "e - 52"] by (simp add: power_int_def)
    ultimately show ?thesis
      by (simp add: f64_round_pos_def Let_def e_def [symmetric] mult.assoc)
  qed
qed

lemma f64_round_mono: "x \<le> y \<Longrightarrow> f64_round x \<le> f64_round y"
proof -
  assume xy: "x \<le> y"
  have pos: "0 < z \<Longrightarrow> 0 < f64_round_pos z" for z
    using f64_round_pos_bounds [of z] powi_two_pos [of "f64_exp z"] by linarith
  show ?thesis
    using xy pos [of y] pos [of "- x"] f64_round_pos_mono [of x y] f64_round_pos_mono [of "- y" "- x"]
    by (auto simp: f64_round_def)
qed

lemma f64_round_of_int: "\<bar>n\<bar> \<le> 2 ^ 53 \<Longrightarrow> f64_round (of_int n) = of_int n"
  using f64_round_pos_of_nat [of n] f64_round_pos_of_nat [of "- n"]
  by (auto simp: f64_round_def)

section \<open>The rounding interface\<close>

text \<open>What the token buckets need of floating-point rounding, and nothing more.\<close>

locale rounding =
  fixes fl :: "rat \<Rightarrow> rat"
  assumes fl_mono: "x \<le> y \<Longrightarrow> fl x \<le> fl y"
    and fl_of_int: "\<bar>n\<bar> \<le> 2 ^ 53 \<Longrightarrow> fl (of_int n) = of_int n"
begin

lemma fl_zero [simp]: "fl 0 = 0"
  using fl_of_int [of 0] by simp

lemma fl_one [simp]: "fl 1 = 1"
  using fl_of_int [of 1] by simp

lemma fl_nonneg: "0 \<le> x \<Longrightarrow> 0 \<le> fl x"
  using fl_mono [of 0 x] by simp

lemma fl_ge_one: "1 \<le> x \<Longrightarrow> 1 \<le> fl x"
  using fl_mono [of 1 x] by simp

lemma fl_le_nat: "x \<le> of_nat n \<Longrightarrow> n \<le> 2 ^ 53 \<Longrightarrow> fl x \<le> of_nat n"
proof -
  assume x: "x \<le> of_nat n" and n: "n \<le> 2 ^ 53"
  have "int n \<le> 2 ^ 53" using n by (metis of_nat_le_iff of_nat_numeral of_nat_power)
  then have "fl (of_int (int n)) = of_int (int n)" by (intro fl_of_int) simp
  with fl_mono [OF x] show ?thesis by simp
qed

end

interpretation f64: rounding f64_round
  by unfold_locales (fact f64_round_mono, fact f64_round_of_int)

section \<open>Durations in seconds\<close>

text \<open>
  \<open>Duration::as_secs_f64\<close>: the whole seconds plus the nanoseconds over a billion, each
  operation rounded.
\<close>

definition NANOS_PER_SEC :: nat where
  "NANOS_PER_SEC = 1000000000"

definition as_secs_f64 :: "nanos \<Rightarrow> rat" where
  "as_secs_f64 d =
     f64_round (f64_round (of_nat (d div NANOS_PER_SEC))
                + f64_round (of_nat (d mod NANOS_PER_SEC) / of_nat NANOS_PER_SEC))"

lemma as_secs_f64_nonneg: "0 \<le> as_secs_f64 d"
  by (auto simp: as_secs_f64_def intro!: f64.fl_nonneg add_nonneg_nonneg)

lemma as_secs_f64_zero [simp]: "as_secs_f64 0 = 0"
  by (simp add: as_secs_f64_def)

end
