(* ===== verification/RateLimit.thy ===== *)
theory RateLimit
  imports F64
begin

text \<open>
  Token buckets (\<open>src/dispatch.rs\<close>): \<open>Bucket\<close>, \<open>BucketMap\<close> with its stale sweep and its size
  bound, and the \<open>RateLimiter\<close> that guards every mutating request (bot aggregate first, then the
  handler) and every group-message notification. Instants and durations are nanoseconds;
  \<open>duration_since\<close> and \<open>saturating_duration_since\<close> are the truncated subtraction of naturals.
\<close>

section \<open>The interface of a gate that spends a budget\<close>

text \<open>
  A gate grants or refuses a request at an instant. While time stands still each grant lowers
  the budget by at least one, so a burst at one instant is bounded by the budget. \<open>grants_at\<close>
  counts what \<open>k\<close> requests at one instant are granted.
\<close>

primrec grants_at :: "(nanos \<Rightarrow> 's \<Rightarrow> bool \<times> 's) \<Rightarrow> nanos \<Rightarrow> nat \<Rightarrow> 's \<Rightarrow> nat" where
  "grants_at step now 0 s = 0"
| "grants_at step now (Suc k) s =
     (if fst (step now s) then 1 else 0) + grants_at step now k (snd (step now s))"

locale spending_gate =
  fixes step :: "nanos \<Rightarrow> 's \<Rightarrow> bool \<times> 's"
    and ok :: "'s \<Rightarrow> bool"
    and budget :: "'s \<Rightarrow> nanos \<Rightarrow> nat \<Rightarrow> bool"
  assumes ok_step: "ok s \<Longrightarrow> ok (snd (step now s))"
    and refuse_at_zero: "ok s \<Longrightarrow> budget s now 0 \<Longrightarrow> \<not> fst (step now s)"
    and grant_spends: "ok s \<Longrightarrow> budget s now (Suc n) \<Longrightarrow> fst (step now s) \<Longrightarrow>
      budget (snd (step now s)) now n"
    and refuse_keeps: "ok s \<Longrightarrow> budget s now n \<Longrightarrow> \<not> fst (step now s) \<Longrightarrow>
      budget (snd (step now s)) now n"
begin

lemma grants_bounded: "ok s \<Longrightarrow> budget s now n \<Longrightarrow> grants_at step now k s \<le> n"
proof (induction k arbitrary: s n)
  case 0
  then show ?case by simp
next
  case (Suc k)
  note ok' = ok_step [OF Suc.prems(1), of now]
  show ?case
  proof (cases "fst (step now s)")
    case True
    with Suc.prems refuse_at_zero obtain n' where n: "n = Suc n'" by (cases n) auto
    have "budget (snd (step now s)) now n'"
      using grant_spends Suc.prems True n by blast
    with Suc.IH [OF ok'] True n show ?thesis by simp
  next
    case False
    with Suc.IH [OF ok' refuse_keeps [OF Suc.prems False]] show ?thesis by simp
  qed
qed

end

section \<open>One bucket\<close>

record bucket =
  tokens :: rat
  last_replenished :: nanos
  rate :: rat
  burst :: rat

definition bucket_new :: "rat \<Rightarrow> rat \<Rightarrow> nanos \<Rightarrow> bucket" where
  "bucket_new r b clock = \<lparr>tokens = b, last_replenished = clock, rate = r, burst = b\<rparr>"

text \<open>The token count after the refill, capped at the burst.\<close>

definition bucket_refill :: "nanos \<Rightarrow> bucket \<Rightarrow> rat" where
  "bucket_refill now b =
     min (f64_round (tokens b + f64_round (as_secs_f64 (now - last_replenished b) * rate b))) (burst b)"

definition bucket_check :: "nanos \<Rightarrow> bucket \<Rightarrow> bool \<times> bucket" where
  "bucket_check now b =
     (let t = bucket_refill now b
      in if 1 \<le> t
         then (True, b\<lparr>tokens := f64_round (t - 1), last_replenished := now\<rparr>)
         else (False, b\<lparr>tokens := t, last_replenished := now\<rparr>))"

text \<open>Well-formed buckets: a non-negative refill rate, and between none and \<open>burst\<close> tokens.\<close>

definition bucket_ok :: "bucket \<Rightarrow> bool" where
  "bucket_ok b \<longleftrightarrow> 0 \<le> rate b \<and> 0 \<le> tokens b \<and> tokens b \<le> burst b"

lemma bucket_check_frame [simp]:
  "rate (snd (bucket_check now b)) = rate b"
  "burst (snd (bucket_check now b)) = burst b"
  "last_replenished (snd (bucket_check now b)) = now"
  by (simp_all add: bucket_check_def Let_def)

lemma bucket_refill_bounds:
  assumes "bucket_ok b"
  shows "0 \<le> bucket_refill now b" and "bucket_refill now b \<le> burst b"
proof -
  have "0 \<le> f64_round (tokens b + f64_round (as_secs_f64 (now - last_replenished b) * rate b))"
    using assms by (auto simp: bucket_ok_def as_secs_f64_nonneg
        intro!: f64.fl_nonneg add_nonneg_nonneg mult_nonneg_nonneg)
  with assms show "0 \<le> bucket_refill now b" and "bucket_refill now b \<le> burst b"
    by (simp_all add: bucket_refill_def bucket_ok_def)
qed

text \<open>Spending one token from a count below \<open>2 ^ 53\<close> never rounds above the count.\<close>

lemma f64_round_spend:
  assumes "0 \<le> t" and "t \<le> 2 ^ 53"
  shows "f64_round (t - 1) \<le> t"
proof -
  have fl: "0 \<le> \<lfloor>t\<rfloor>" using assms(1) by simp
  have "(of_int \<lfloor>t\<rfloor> :: rat) \<le> of_int (2 ^ 53)"
    using assms(2) of_int_floor_le [of t] by simp
  then have "\<lfloor>t\<rfloor> \<le> 2 ^ 53" by (simp only: of_int_le_iff)
  with fl have ex: "f64_round (of_int \<lfloor>t\<rfloor>) = of_int \<lfloor>t\<rfloor>" by (intro f64_round_of_int) simp
  have "t - 1 \<le> of_int \<lfloor>t\<rfloor>" by linarith
  then have "f64_round (t - 1) \<le> of_int \<lfloor>t\<rfloor>" using f64_round_mono ex by metis
  then show ?thesis using of_int_floor_le [of t] by linarith
qed

lemma bucket_check_ok:
  assumes ok: "bucket_ok b" and le: "burst b \<le> 2 ^ 53"
  shows "bucket_ok (snd (bucket_check now b))"
proof -
  have "f64_round (bucket_refill now b - 1) \<le> burst b"
    using f64_round_spend [of "bucket_refill now b"] bucket_refill_bounds [OF ok, of now] le by linarith
  moreover have "1 \<le> bucket_refill now b \<Longrightarrow> 0 \<le> f64_round (bucket_refill now b - 1)"
    by (intro f64.fl_nonneg) simp
  ultimately show ?thesis
    using ok bucket_refill_bounds [OF ok, of now] by (auto simp: bucket_check_def Let_def bucket_ok_def)
qed

lemma bucket_new_ok: "0 \<le> r \<Longrightarrow> 0 \<le> b \<Longrightarrow> bucket_ok (bucket_new r b clock)"
  by (simp add: bucket_ok_def bucket_new_def)

text \<open>
  What a bucket can still grant while the clock stands at \<open>now\<close>: if it was already touched at
  \<open>now\<close> its tokens, otherwise its burst.
\<close>

definition bucket_within :: "bucket \<Rightarrow> nanos \<Rightarrow> nat \<Rightarrow> bool" where
  "bucket_within b now n \<longleftrightarrow>
     n \<le> 2 ^ 53 \<and> burst b \<le> 2 ^ 53 \<and>
     (burst b \<le> of_nat n \<or> (now \<le> last_replenished b \<and> tokens b \<le> of_nat n))"

lemma bucket_refill_level:
  assumes "bucket_within b now n"
  shows "bucket_refill now b \<le> of_nat n"
proof (cases "burst b \<le> of_nat n")
  case True
  then show ?thesis by (simp add: bucket_refill_def min_le_iff_disj)
next
  case False
  with assms have now: "now \<le> last_replenished b" and t: "tokens b \<le> of_nat n" and n: "n \<le> 2 ^ 53"
    by (auto simp: bucket_within_def)
  from now have "now - last_replenished b = 0" by simp
  then show ?thesis
    using f64.fl_le_nat [OF t n] by (simp add: bucket_refill_def min_le_iff_disj)
qed

definition bucket_gate_ok :: "bucket \<Rightarrow> bool" where
  "bucket_gate_ok b \<longleftrightarrow> bucket_ok b \<and> burst b \<le> 2 ^ 53"

interpretation bucket_gate: spending_gate bucket_check bucket_gate_ok bucket_within
proof unfold_locales
  fix s now
  assume "bucket_gate_ok s"
  then show "bucket_gate_ok (snd (bucket_check now s))"
    by (simp add: bucket_gate_ok_def bucket_check_ok)
next
  fix s now
  assume "bucket_within s now 0"
  from bucket_refill_level [OF this] show "\<not> fst (bucket_check now s)"
    by (simp add: bucket_check_def Let_def)
next
  fix s now n
  assume w: "bucket_within s now (Suc n)" and g: "fst (bucket_check now s)"
  have n: "n \<le> 2 ^ 53" using w by (auto simp: bucket_within_def)
  have "bucket_refill now s - 1 \<le> of_nat n" using bucket_refill_level [OF w] by simp
  then have "f64_round (bucket_refill now s - 1) \<le> of_nat n" by (rule f64.fl_le_nat [OF _ n])
  then show "bucket_within (snd (bucket_check now s)) now n"
    using w n g by (auto simp: bucket_within_def bucket_check_def Let_def split: if_splits)
next
  fix s now n
  assume w: "bucket_within s now n" and g: "\<not> fst (bucket_check now s)"
  then show "bucket_within (snd (bucket_check now s)) now n"
    using bucket_refill_level [OF w]
    by (auto simp: bucket_within_def bucket_check_def Let_def split: if_splits)
qed

text \<open>Enough elapsed time always buys one request.\<close>

lemma bucket_check_refilled:
  assumes "bucket_ok b" and "1 \<le> burst b"
    and "1 \<le> as_secs_f64 (now - last_replenished b) * rate b"
  shows "fst (bucket_check now b)"
proof -
  have "1 \<le> f64_round (as_secs_f64 (now - last_replenished b) * rate b)"
    using assms(3) by (rule f64.fl_ge_one)
  then have "1 \<le> f64_round (tokens b + f64_round (as_secs_f64 (now - last_replenished b) * rate b))"
    using assms(1) by (intro f64.fl_ge_one) (simp add: bucket_ok_def)
  with assms(2) show ?thesis by (simp add: bucket_check_def bucket_refill_def Let_def)
qed

section \<open>Maps of buckets\<close>

record bucket_map =
  bm_map :: "(str, bucket) hmap"
  last_sweep :: nanos

definition bucket_map_new :: "nanos \<Rightarrow> bucket_map" where
  "bucket_map_new clock = \<lparr>bm_map = [], last_sweep = clock\<rparr>"

definition needs_sweep :: "bucket_map \<Rightarrow> nanos \<Rightarrow> nat \<Rightarrow> nanos \<Rightarrow> bool" where
  "needs_sweep bm now max_buckets stale_after \<longleftrightarrow>
     max_buckets < length (bm_map bm) \<or> stale_after \<le> now - last_sweep bm"

definition sweep :: "bucket_map \<Rightarrow> nanos \<Rightarrow> nat \<Rightarrow> nanos \<Rightarrow> bucket_map" where
  "sweep bm now max_buckets stale_after =
     \<lparr>bm_map = evict_to last_replenished max_buckets
        (hm_retain (\<lambda>_ b. now - last_replenished b \<le> stale_after) (bm_map bm)),
      last_sweep = now\<rparr>"

text \<open>
  The four statements \<open>check\<close> and \<open>check_group\<close> run on one map: sweep when due, take or create
  the bucket of the key, check it.
\<close>

definition bm_check ::
    "nat \<Rightarrow> nanos \<Rightarrow> rat \<Rightarrow> rat \<Rightarrow> str \<Rightarrow> nanos \<Rightarrow> nanos \<Rightarrow> bucket_map \<Rightarrow> bool \<times> bucket_map" where
  "bm_check max_buckets stale_after r b key now clock bm =
     (let bm1 = (if needs_sweep bm now max_buckets stale_after
                 then sweep bm now max_buckets stale_after else bm);
          bucket = (case hm_get (bm_map bm1) key of Some x \<Rightarrow> x | None \<Rightarrow> bucket_new r b clock);
          (granted, bucket') = bucket_check now bucket
      in (granted, bm1\<lparr>bm_map := hm_insert key bucket' (bm_map bm1)\<rparr>))"

definition bm_ok :: "nat \<Rightarrow> bucket_map \<Rightarrow> bool" where
  "bm_ok max_buckets bm \<longleftrightarrow>
     hm_wf (bm_map bm) \<and> length (bm_map bm) \<le> Suc max_buckets \<and>
     (\<forall>b \<in> set (hm_values (bm_map bm)). bucket_gate_ok b)"

lemma length_sweep: "length (bm_map (sweep bm now m st)) \<le> m"
  by (simp add: sweep_def length_evict_to)

lemma set_sweep: "set (bm_map (sweep bm now m st)) \<subseteq> {(k, b) \<in> set (bm_map bm). now - last_replenished b \<le> st}"
  using set_evict_to_subset by (fastforce simp: sweep_def set_hm_retain)

lemma bm_ok_sweep: "bm_ok m bm \<Longrightarrow> bm_ok m (sweep bm now m st)"
  using length_sweep [of bm now m st] set_sweep [of bm now m st]
  by (fastforce simp: bm_ok_def hm_values_def sweep_def intro: hm_wf_evict_to)

lemma bm_check_ok:
  assumes ok: "bm_ok m bm" and r: "0 \<le> r" and b: "0 \<le> b" "b \<le> 2 ^ 53"
  shows "bm_ok m (snd (bm_check m st r b key now clock bm))"
proof -
  define bm1 where "bm1 = (if needs_sweep bm now m st then sweep bm now m st else bm)"
  define x where "x = (case hm_get (bm_map bm1) key of Some x \<Rightarrow> x | None \<Rightarrow> bucket_new r b clock)"
  have ok1: "bm_ok m bm1" and len: "length (bm_map bm1) \<le> m"
    using ok bm_ok_sweep length_sweep [of bm now m st]
    by (auto simp: bm1_def needs_sweep_def)
  have "bucket_gate_ok x"
  proof (cases "hm_get (bm_map bm1) key")
    case None
    then show ?thesis using r b bucket_new_ok [of r b clock]
      by (simp add: x_def bucket_gate_ok_def bucket_new_def)
  next
    case (Some y)
    with ok1 show ?thesis by (force simp: x_def bm_ok_def hm_values_iff)
  qed
  then have "bucket_gate_ok (snd (bucket_check now x))" by (rule bucket_gate.ok_step)
  then have "bm_ok m (bm1\<lparr>bm_map := hm_insert key (snd (bucket_check now x)) (bm_map bm1)\<rparr>)"
    using ok1 len set_hm_values_insert [of key "snd (bucket_check now x)" "bm_map bm1"]
      length_hm_insert_le [of key "snd (bucket_check now x)" "bm_map bm1"]
    by (auto simp: bm_ok_def)
  then show ?thesis
    by (simp add: bm_check_def Let_def bm1_def [symmetric] x_def [symmetric] case_prod_beta)
qed

lemma bm_check_other:
  assumes "k \<noteq> key" and "\<not> needs_sweep bm now m st"
  shows "hm_get (bm_map (snd (bm_check m st r b key now clock bm))) k = hm_get (bm_map bm) k"
  using assms by (simp add: bm_check_def Let_def case_prod_beta)

lemma bm_check_new:
  assumes "hm_get (bm_map bm) key = None" and "\<not> needs_sweep bm now m st"
  shows "bm_check m st r b key now clock bm =
    (fst (bucket_check now (bucket_new r b clock)),
     bm\<lparr>bm_map := hm_insert key (snd (bucket_check now (bucket_new r b clock))) (bm_map bm)\<rparr>)"
  using assms by (simp add: bm_check_def Let_def case_prod_beta)

section \<open>The rate limiter\<close>

record rate_limiter =
  rl_handlers :: bucket_map
  rl_bots :: bucket_map
  rl_groups :: bucket_map
  handler_rate :: rat
  handler_burst :: rat
  bot_rate :: rat
  bot_burst :: rat
  group_rate :: rat
  group_burst :: rat
  rl_stale_after :: nanos
  max_buckets :: nat

definition HANDLER_RATE :: rat where "HANDLER_RATE = 10"
definition HANDLER_BURST :: rat where "HANDLER_BURST = 20"
definition BOT_RATE :: rat where "BOT_RATE = 20"
definition BOT_BURST :: rat where "BOT_BURST = 40"
definition BUCKET_STALE_TIMEOUT :: nanos where "BUCKET_STALE_TIMEOUT = 300 * NANOS_PER_SEC"
definition MAX_BUCKETS :: nat where "MAX_BUCKETS = 10000"
definition GROUP_RATE_WINDOW :: nanos where "GROUP_RATE_WINDOW = 60 * NANOS_PER_SEC"
definition GROUP_RATE :: rat where "GROUP_RATE = f64_round (1 / 60)"
definition GROUP_RATE_BURST :: rat where "GROUP_RATE_BURST = 1"

definition rate_limiter_new :: "rat \<Rightarrow> rat \<Rightarrow> rat \<Rightarrow> rat \<Rightarrow> nanos \<Rightarrow> rate_limiter" where
  "rate_limiter_new hr hb br bb clock =
     \<lparr>rl_handlers = bucket_map_new clock, rl_bots = bucket_map_new clock,
      rl_groups = bucket_map_new clock, handler_rate = hr, handler_burst = hb, bot_rate = br,
      bot_burst = bb, group_rate = GROUP_RATE, group_burst = GROUP_RATE_BURST,
      rl_stale_after = BUCKET_STALE_TIMEOUT, max_buckets = MAX_BUCKETS\<rparr>"

definition rate_limiter_default :: "nanos \<Rightarrow> rate_limiter" where
  "rate_limiter_default = rate_limiter_new HANDLER_RATE HANDLER_BURST BOT_RATE BOT_BURST"

definition set_group_limits :: "rat \<Rightarrow> rat \<Rightarrow> rate_limiter \<Rightarrow> rate_limiter" where
  "set_group_limits r b rl = rl\<lparr>group_rate := r, group_burst := b\<rparr>"

definition rl_remove_handler :: "str \<Rightarrow> rate_limiter \<Rightarrow> rate_limiter" where
  "rl_remove_handler h rl =
     rl\<lparr>rl_handlers := (rl_handlers rl)\<lparr>bm_map := hm_remove h (bm_map (rl_handlers rl))\<rparr>\<rparr>"

definition rl_check :: "str \<Rightarrow> str \<Rightarrow> nanos \<Rightarrow> nanos \<Rightarrow> rate_limiter \<Rightarrow> bool \<times> rate_limiter" where
  "rl_check handler_id bot_id now clock rl =
     (let (bot_ok, bots) = bm_check (max_buckets rl) (rl_stale_after rl) (bot_rate rl)
            (bot_burst rl) bot_id now clock (rl_bots rl);
          rl1 = rl\<lparr>rl_bots := bots\<rparr>
      in if \<not> bot_ok then (False, rl1)
         else (let (ok, handlers) = bm_check (max_buckets rl) (rl_stale_after rl)
                     (handler_rate rl) (handler_burst rl) handler_id now clock (rl_handlers rl1)
               in (ok, rl1\<lparr>rl_handlers := handlers\<rparr>)))"

definition group_key :: "str \<Rightarrow> str \<Rightarrow> str" where
  "group_key bot_id group_id = bot_id @ '':'' @ group_id"

definition rl_check_group :: "str \<Rightarrow> str \<Rightarrow> nanos \<Rightarrow> nanos \<Rightarrow> rate_limiter \<Rightarrow> bool \<times> rate_limiter" where
  "rl_check_group bot_id group_id now clock rl =
     (let (ok, groups) = bm_check (max_buckets rl) (rl_stale_after rl) (group_rate rl)
            (group_burst rl) (group_key bot_id group_id) now clock (rl_groups rl)
      in (ok, rl\<lparr>rl_groups := groups\<rparr>))"

definition rl_params_ok :: "rate_limiter \<Rightarrow> bool" where
  "rl_params_ok rl \<longleftrightarrow>
     0 \<le> handler_rate rl \<and> 0 \<le> handler_burst rl \<and> handler_burst rl \<le> 2 ^ 53 \<and>
     0 \<le> bot_rate rl \<and> 0 \<le> bot_burst rl \<and> bot_burst rl \<le> 2 ^ 53 \<and>
     0 \<le> group_rate rl \<and> 0 \<le> group_burst rl \<and> group_burst rl \<le> 2 ^ 53"

definition rl_ok :: "rate_limiter \<Rightarrow> bool" where
  "rl_ok rl \<longleftrightarrow> rl_params_ok rl \<and> bm_ok (max_buckets rl) (rl_handlers rl) \<and>
     bm_ok (max_buckets rl) (rl_bots rl) \<and> bm_ok (max_buckets rl) (rl_groups rl)"

lemma rl_check_frame:
  "max_buckets (snd (rl_check h b now c rl)) = max_buckets rl"
  "rl_params_ok (snd (rl_check h b now c rl)) = rl_params_ok rl"
  "rl_groups (snd (rl_check h b now c rl)) = rl_groups rl"
  by (simp_all add: rl_check_def Let_def case_prod_beta rl_params_ok_def)

lemma rl_check_ok: "rl_ok rl \<Longrightarrow> rl_ok (snd (rl_check h b now c rl))"
  by (simp add: rl_ok_def rl_check_frame)
    (simp add: rl_check_def Let_def case_prod_beta bm_check_ok rl_params_ok_def)

lemma rl_check_group_ok: "rl_ok rl \<Longrightarrow> rl_ok (snd (rl_check_group b g now c rl))"
  by (simp add: rl_ok_def rl_check_group_def Let_def case_prod_beta bm_check_ok rl_params_ok_def)

lemma bm_ok_remove: "bm_ok m bm \<Longrightarrow> bm_ok m (bm\<lparr>bm_map := hm_remove k (bm_map bm)\<rparr>)"
  using set_hm_values_remove [of k "bm_map bm"] length_hm_remove_le [of k "bm_map bm"]
  by (auto simp: bm_ok_def)

lemma rl_remove_handler_ok: "rl_ok rl \<Longrightarrow> rl_ok (rl_remove_handler h rl)"
  by (simp add: rl_ok_def rl_remove_handler_def rl_params_ok_def bm_ok_remove)

lemma rl_new_ok:
  assumes "0 \<le> hr" "0 \<le> hb" "hb \<le> 2 ^ 53" "0 \<le> br" "0 \<le> bb" "bb \<le> 2 ^ 53"
  shows "rl_ok (rate_limiter_new hr hb br bb clock)"
  using assms f64.fl_nonneg [of "1 / 60"]
  by (simp add: rl_ok_def rate_limiter_new_def rl_params_ok_def bm_ok_def bucket_map_new_def
      hm_values_def GROUP_RATE_def GROUP_RATE_BURST_def)

text \<open>Keys of different groups differ, as long as bot ids hold no colon.\<close>

lemma colon_split:
  "c \<notin> set xs \<Longrightarrow> c \<notin> set ys \<Longrightarrow> xs @ c # us = ys @ c # vs \<longleftrightarrow> xs = ys \<and> us = vs"
proof (induction xs arbitrary: ys)
  case Nil
  then show ?case by (cases ys) auto
next
  case (Cons x xs)
  then show ?case by (cases ys) auto
qed

lemma group_key_inj:
  "CHR '':'' \<notin> set b \<Longrightarrow> CHR '':'' \<notin> set b' \<Longrightarrow> group_key b g = group_key b' g' \<longleftrightarrow> b = b' \<and> g = g'"
  using colon_split [of "CHR '':''" b b' g g'] by (simp add: group_key_def)

end
