(* ===== verification/Config.thy ===== *)
theory Config
  imports RateLimit Errors "HOL-Library.Sublist"
begin

text \<open>
  The daemon's configuration (\<open>src/config.rs\<close>): the records the configuration file fills, the
  checks that reject a file, the redaction of bunker URIs in error texts and the expansion of
  \<open>${VAR:-default}\<close> placeholders. The Unicode case and whitespace tables, percent decoding, URL
  parsing and the canonicalization of database paths are arguments of the checks that call them.
\<close>

section \<open>The configuration records\<close>

datatype signing_config = Nsec str | BunkerLocal str | BunkerRemote str

fun backend_label :: "signing_config \<Rightarrow> str" where
  "backend_label (Nsec _) = ''nsec''"
| "backend_label (BunkerLocal _) = ''bunker_local''"
| "backend_label (BunkerRemote _) = ''bunker_remote''"

record bot_config =
  bc_id :: str
  bc_npub :: str
  bc_signing :: signing_config
  bc_relays :: "str list"
  bc_capabilities :: "str list"
  bc_display_name :: "str option"
  bc_about :: "str option"
  bc_picture :: "str option"
  mls_dedup_window_secs :: "u64 option"
  mls_db_path :: "str option"
  mls_key_package_freshness_secs :: "u64 option"

text \<open>An \<open>f64\<close> read from the file may also be infinite or not a number.\<close>

datatype f64_value = Finite rat | Infinite bool | NotANumber

fun f64_positive :: "f64_value \<Rightarrow> bool" where
  "f64_positive (Finite x) = (0 < x)"
| "f64_positive _ = False"

record global_config =
  data_dir :: str
  socket_path :: str
  http_bind :: str
  http_max_connections :: u64
  http_idle_timeout_secs :: u64
  handler_stale_timeout_secs :: u64
  handler_reap_interval_secs :: u64
  attachment_max_bytes :: u64
  spool_outbound_retention_secs :: u64
  blob_servers :: "str list"
  mls_archive_retention_days :: "32 word"
  stuck_bot_warning_min_age_secs :: u64
  group_message_rate :: f64_value
  group_message_burst :: f64_value

definition default_global_config :: global_config where
  "default_global_config =
     \<lparr>data_dir = ''~/.local/share/pacto-bot-api'',
      socket_path = ''~/.local/share/pacto-bot-api/pacto-bot-api.sock'',
      http_bind = ''127.0.0.1:9800'', http_max_connections = 100, http_idle_timeout_secs = 60,
      handler_stale_timeout_secs = 30, handler_reap_interval_secs = 5,
      attachment_max_bytes = 10485760, spool_outbound_retention_secs = 86400,
      blob_servers = [''https://nostr.download''], mls_archive_retention_days = 0,
      stuck_bot_warning_min_age_secs = 3600, group_message_rate = Finite (f64_round (1 / 60)),
      group_message_burst = Finite 1\<rparr>"

definition dedup_window :: "bot_config \<Rightarrow> u64" where
  "dedup_window b = (case mls_dedup_window_secs b of Some w \<Rightarrow> w | None \<Rightarrow> 900)"

section \<open>Text helpers of the standard library\<close>

definition starts_with :: "str \<Rightarrow> str \<Rightarrow> bool" where
  "starts_with s p \<longleftrightarrow> prefix p s"

fun split_once :: "char \<Rightarrow> str \<Rightarrow> (str \<times> str) option" where
  "split_once c [] = None"
| "split_once c (x # xs) =
     (if x = c then Some ([], xs) else map_option (\<lambda>(a, b). (x # a, b)) (split_once c xs))"

fun split_on :: "char \<Rightarrow> str \<Rightarrow> str list" where
  "split_on c [] = [[]]"
| "split_on c (x # xs) =
     (if x = c then [] # split_on c xs
      else (case split_on c xs of [] \<Rightarrow> [[x]] | p # ps \<Rightarrow> (x # p) # ps))"

fun join_with :: "str \<Rightarrow> str list \<Rightarrow> str" where
  "join_with sep [] = []"
| "join_with sep [x] = x"
| "join_with sep (x # y # ys) = x @ sep @ join_with sep (y # ys)"

lemma split_once_append:
  "c \<notin> set a \<Longrightarrow> split_once c (a @ c # b) = Some (a, b)"
  by (induction a) auto

lemma split_once_None: "c \<notin> set s \<Longrightarrow> split_once c s = None"
  by (induction s) auto

lemma split_on_no_sep: "c \<notin> set s \<Longrightarrow> split_on c s = [s]"
  by (induction s) auto

lemma split_on_append: "c \<notin> set a \<Longrightarrow> split_on c (a @ c # b) = a # split_on c b"
  by (induction a) auto

lemma split_on_join:
  "ps \<noteq> [] \<Longrightarrow> (\<And>p. p \<in> set ps \<Longrightarrow> c \<notin> set p) \<Longrightarrow> split_on c (join_with [c] ps) = ps"
  by (induction "[c]" ps rule: join_with.induct) (auto simp: split_on_no_sep split_on_append)

section \<open>Daemon settings\<close>

definition is_http_url :: "str \<Rightarrow> bool" where
  "is_http_url s \<longleftrightarrow> starts_with s ''http://'' \<or> starts_with s ''https://''"

fun check_blob_servers :: "(str \<Rightarrow> bool) \<Rightarrow> str list \<Rightarrow> unit res" where
  "check_blob_servers url_ok [] = Inr ()"
| "check_blob_servers url_ok (s # ss) =
     (if \<not> is_http_url s then
        Inl (Config (''daemon.blob_servers entry '' @ s @ '' must be an absolute http or https URL''))
      else if \<not> url_ok s then
        Inl (Config (''daemon.blob_servers entry '' @ s @ '' is not a valid URL''))
      else check_blob_servers url_ok ss)"

definition positive_text :: "str \<Rightarrow> daemon_error" where
  "positive_text k = Config (''daemon.'' @ k @ '' must be greater than 0'')"

definition validate_daemon_config :: "(str \<Rightarrow> bool) \<Rightarrow> global_config \<Rightarrow> unit res" where
  "validate_daemon_config url_ok d =
     (if handler_reap_interval_secs d = 0 then Inl (positive_text ''handler_reap_interval_secs'')
      else if handler_stale_timeout_secs d = 0
        then Inl (positive_text ''handler_stale_timeout_secs'')
      else if blob_servers d = []
        then Inl (Config ''daemon.blob_servers must list at least one Blossom host'')
      else rbind (check_blob_servers url_ok (blob_servers d)) (\<lambda>_.
        if attachment_max_bytes d = 0 then Inl (positive_text ''attachment_max_bytes'')
        else if spool_outbound_retention_secs d = 0
          then Inl (positive_text ''spool_outbound_retention_secs'')
        else if \<not> f64_positive (group_message_rate d) then Inl (positive_text ''group_message_rate'')
        else if \<not> f64_positive (group_message_burst d)
          then Inl (positive_text ''group_message_burst'')
        else Inr ()))"


section \<open>Capabilities\<close>

definition VALID_CAPABILITIES :: "str list" where
  "VALID_CAPABILITIES =
     [''ReadMessages'', ''SendMessages'', ''ManageProfile'', ''SendGroupMessages'',
      ''ReceiveGroupMessages'', ''CreateMlsGroup'', ''InviteToMlsGroup'', ''ExitMlsGroup'',
      ''SendReactions'', ''SendAttachments'', ''SendGroupReactions'', ''SendGroupAttachments'',
      ''Admin'']"

definition MLS_CAPABILITIES :: "str list" where
  "MLS_CAPABILITIES =
     [''SendGroupMessages'', ''ReceiveGroupMessages'', ''CreateMlsGroup'', ''InviteToMlsGroup'',
      ''ExitMlsGroup'', ''SendGroupReactions'', ''SendGroupAttachments'']"

section \<open>Bunker URIs\<close>

definition redact_param :: "str \<Rightarrow> str" where
  "redact_param p = (case split_once (CHR ''='') p of Some (k, _) \<Rightarrow> k @ ''=[REDACTED]'' | None \<Rightarrow> p)"

definition redact_bunker_uri :: "str \<Rightarrow> str" where
  "redact_bunker_uri uri =
     (case split_once (CHR ''?'') uri of
        None \<Rightarrow> uri
      | Some (base, query) \<Rightarrow>
          base @ ''?'' @ join_with ''&'' (map redact_param (split_on (CHR ''&'') query)))"

text \<open>The loop over the parameters; \<open>percent_decode\<close> is the decoder of another crate.\<close>

fun relay_params :: "(str \<Rightarrow> str + str) \<Rightarrow> str list \<Rightarrow> str list res" where
  "relay_params percent_decode [] = Inr []"
| "relay_params percent_decode (p # ps) =
     (case split_once (CHR ''='') p of
        Some (key, value) \<Rightarrow>
          (if p \<noteq> [] \<and> key = ''relay'' then
             (case percent_decode value of
                Inl e \<Rightarrow> Inl (Config (''bunker uri relay param is not valid UTF-8: '' @ e))
              | Inr decoded \<Rightarrow>
                  (if decoded = [] then Inl (Config ''bunker uri relay param is empty'')
                   else rbind (relay_params percent_decode ps) (\<lambda>rs. Inr (decoded # rs))))
           else relay_params percent_decode ps)
      | None \<Rightarrow> relay_params percent_decode ps)"

definition parse_bunker_relays :: "(str \<Rightarrow> str + str) \<Rightarrow> str \<Rightarrow> str list res" where
  "parse_bunker_relays percent_decode uri =
     (if \<not> starts_with uri ''bunker://'' then
        Inl (Config (''bunker uri missing bunker:// scheme: '' @ redact_bunker_uri uri))
      else (let query = (case split_once (CHR ''?'') (drop 9 uri) of Some (_, q) \<Rightarrow> q | None \<Rightarrow> [])
            in relay_params percent_decode (split_on (CHR ''&'') query)))"

text \<open>
  A query parameter is a key with an optional value; a URI is a base with its parameters. The
  redacted text of such a URI is built from the base and the keys alone.
\<close>

fun render_param :: "str \<times> str option \<Rightarrow> str" where
  "render_param (k, None) = k"
| "render_param (k, Some v) = k @ ''='' @ v"

fun render_redacted :: "str \<times> str option \<Rightarrow> str" where
  "render_redacted (k, None) = k"
| "render_redacted (k, Some v) = k @ ''=[REDACTED]''"

definition render_uri :: "(str \<times> str option \<Rightarrow> str) \<Rightarrow> str \<Rightarrow> (str \<times> str option) list \<Rightarrow> str" where
  "render_uri f base ps = base @ ''?'' @ join_with ''&'' (map f ps)"

definition param_ok :: "str \<times> str option \<Rightarrow> bool" where
  "param_ok p \<longleftrightarrow> CHR ''='' \<notin> set (fst p) \<and> CHR ''&'' \<notin> set (fst p) \<and>
     (case snd p of None \<Rightarrow> True | Some v \<Rightarrow> CHR ''&'' \<notin> set v)"

lemma redact_param_render: "param_ok p \<Longrightarrow> redact_param (render_param p) = render_redacted p"
  by (cases p rule: render_param.cases)
    (auto simp: redact_param_def param_ok_def split_once_append split_once_None)

lemma amp_render_param: "param_ok p \<Longrightarrow> CHR ''&'' \<notin> set (render_param p)"
  by (cases p rule: render_param.cases) (auto simp: param_ok_def)

lemma redact_render_uri:
  assumes base: "CHR ''?'' \<notin> set base" and ps: "ps \<noteq> []" "\<And>p. p \<in> set ps \<Longrightarrow> param_ok p"
  shows "redact_bunker_uri (render_uri render_param base ps) = render_uri render_redacted base ps"
proof -
  have "split_on (CHR ''&'') (join_with ''&'' (map render_param ps)) = map render_param ps"
    using ps by (intro split_on_join) (auto dest: amp_render_param)
  moreover have "map (redact_param \<circ> render_param) ps = map render_redacted ps"
    using ps by (simp add: redact_param_render)
  ultimately show ?thesis
    using base
    by (simp add: redact_bunker_uri_def render_uri_def split_once_append cong: map_cong)
qed

section \<open>Bot identities\<close>

definition is_ascii_lowercase :: "char \<Rightarrow> bool" where
  "is_ascii_lowercase c \<longleftrightarrow> 97 \<le> (of_char c :: nat) \<and> (of_char c :: nat) \<le> 122"

definition is_ascii_digit :: "char \<Rightarrow> bool" where
  "is_ascii_digit c \<longleftrightarrow> 48 \<le> (of_char c :: nat) \<and> (of_char c :: nat) \<le> 57"

definition slug_char :: "char \<Rightarrow> bool" where
  "slug_char c \<longleftrightarrow>
     is_ascii_lowercase c \<or> is_ascii_digit c \<or> c = CHR ''-'' \<or> c = CHR ''_''"

definition bot_id_text :: "str \<Rightarrow> str \<Rightarrow> daemon_error" where
  "bot_id_text b t = Config (''bot_id '' @ [CHR 0x27] @ b @ [CHR 0x27] @ '' must '' @ t)"

definition validate_bot_id :: "str \<Rightarrow> unit res" where
  "validate_bot_id b =
     (if b = [] then Inl (Config ''bot_id must not be empty'')
      else if length b > 64 then Inl (Config ''bot_id must be 64 characters or fewer'')
      else if \<not> (is_ascii_lowercase (hd b) \<or> is_ascii_digit (hd b))
        then Inl (bot_id_text b ''start with a lowercase letter or digit'')
      else if \<not> (is_ascii_lowercase (b ! (length b - 1)) \<or> is_ascii_digit (b ! (length b - 1)))
        then Inl (bot_id_text b ''end with a lowercase letter or digit'')
      else if \<exists>c \<in> set b. \<not> slug_char c
        then Inl (bot_id_text b ''be a slug: lowercase letters, digits, hyphens, and underscores only'')
      else Inr ())"

lemma validate_bot_id_Inr_iff:
  "validate_bot_id b = Inr () \<longleftrightarrow>
     b \<noteq> [] \<and> length b \<le> 64 \<and> (\<forall>c \<in> set b. slug_char c) \<and>
     (\<forall>c \<in> {hd b, List.last b}. is_ascii_lowercase c \<or> is_ascii_digit c)"
  by (auto simp: validate_bot_id_def last_conv_nth)

lemma slug_char_safe: "slug_char c \<Longrightarrow> c \<notin> {CHR '':'', CHR ''/'', CHR ''.'', CHR '' ''}"
  by (auto simp: slug_char_def is_ascii_lowercase_def is_ascii_digit_def)

lemma validate_bot_id_safe:
  "validate_bot_id b = Inr () \<Longrightarrow> CHR '':'' \<notin> set b \<and> CHR ''/'' \<notin> set b \<and> CHR ''.'' \<notin> set b"
  using slug_char_safe by (auto simp: validate_bot_id_Inr_iff)


text \<open>Light validation of a picture URL; \<open>lower\<close> is the Unicode \<open>str::to_lowercase\<close>.\<close>

definition validate_picture_url :: "(str \<Rightarrow> str) \<Rightarrow> str \<Rightarrow> unit res" where
  "validate_picture_url lower url =
     (if url = [] then Inl (Config ''picture URL must not be empty when configured'')
      else if \<not> is_http_url (lower url)
        then Inl (Config (''picture URL must start with http:// or https://, got: '' @ url))
      else Inr ())"

text \<open>What the checks of the bots take from other code.\<close>

record config_env =
  to_lowercase :: "str \<Rightarrow> str"
  is_blank :: "str \<Rightarrow> bool"
  percent_decode :: "str \<Rightarrow> str + str"
  canonical_mls_path :: "bot_config \<Rightarrow> str res"

fun check_bot_ids :: "str list \<Rightarrow> bot_config list \<Rightarrow> unit res" where
  "check_bot_ids ids [] = Inr ()"
| "check_bot_ids ids (b # bs) =
     rbind (validate_bot_id (bc_id b)) (\<lambda>_.
       if bc_id b \<in> set ids then Inl (Config (''duplicate bot_id: '' @ bc_id b))
       else check_bot_ids (bc_id b # ids) bs)"

definition bot_text :: "bot_config \<Rightarrow> str \<Rightarrow> daemon_error" where
  "bot_text b t = Config (''bot '' @ bc_id b @ '': '' @ t)"

fun check_display_names :: "config_env \<Rightarrow> str list \<Rightarrow> bot_config list \<Rightarrow> unit res" where
  "check_display_names env names [] = Inr ()"
| "check_display_names env names (b # bs) =
     (case bc_display_name b of
        None \<Rightarrow> Inl (bot_text b ''display_name is required'')
      | Some d \<Rightarrow>
          (if is_blank env d then Inl (bot_text b ''display_name must be non-empty'')
           else if to_lowercase env d \<in> set names
             then Inl (Config (''duplicate display_name: '' @ d))
           else check_display_names env (to_lowercase env d # names) bs))"

definition check_signing :: "config_env \<Rightarrow> bot_config \<Rightarrow> unit res" where
  "check_signing env b =
     (case bc_signing b of
        Nsec nsec \<Rightarrow>
          if nsec = [] then Inl (bot_text b ''nsec backend requires a non-empty nsec value'')
          else Inr ()
      | BunkerLocal uri \<Rightarrow>
          if uri = [] then Inl (bot_text b ''bunker_local backend requires a non-empty uri'')
          else Inr ()
      | BunkerRemote uri \<Rightarrow>
          if uri = [] then Inl (bot_text b ''bunker_remote backend requires a non-empty uri'')
          else rbind (parse_bunker_relays (percent_decode env) uri) (\<lambda>relays.
            if \<exists>r \<in> set relays. \<not> starts_with r ''wss://''
            then Inl (bot_text b (''bunker_remote backend must use wss://, got ''
                   @ redact_bunker_uri uri))
            else Inr ()))"

fun unknown_capability :: "str list \<Rightarrow> str option" where
  "unknown_capability [] = None"
| "unknown_capability (c # cs) =
     (if c \<notin> set VALID_CAPABILITIES then Some c else unknown_capability cs)"

definition check_bot :: "config_env \<Rightarrow> bot_config \<Rightarrow> bot_config res" where
  "check_bot env b =
     (case unknown_capability (bc_capabilities b) of
        Some c \<Rightarrow> Inl (bot_text b (''unknown capability '' @ c @ ''; expected one of: ''
                        @ join_with '', '' VALID_CAPABILITIES))
      | None \<Rightarrow>
          (if (\<exists>c \<in> set (bc_capabilities b). c \<in> set MLS_CAPABILITIES) \<and> mls_db_path b = None
           then Inl (bot_text b ''MLS capability requires mls_db_path'')
           else rbind (case mls_db_path b of
                         None \<Rightarrow> Inr b
                       | Some _ \<Rightarrow> rbind (canonical_mls_path env b) (\<lambda>p. Inr (b\<lparr>mls_db_path := Some p\<rparr>)))
             (\<lambda>b1. rbind (case bc_picture b1 of
                            None \<Rightarrow> Inr ()
                          | Some u \<Rightarrow>
                              (case validate_picture_url (to_lowercase env) u of
                                 Inr _ \<Rightarrow> Inr ()
                               | Inl e \<Rightarrow> Inl (bot_text b1 (daemon_error_to_string e))))
                   (\<lambda>_. rbind (check_signing env b1) (\<lambda>_. Inr b1)))))"

definition validate_bots :: "config_env \<Rightarrow> bot_config list \<Rightarrow> bot_config list res" where
  "validate_bots env bots =
     rbind (check_bot_ids [] bots) (\<lambda>_.
     rbind (check_display_names env [] bots) (\<lambda>_. map_res (check_bot env) bots))"

lemma check_bot_ids_distinct:
  "check_bot_ids ids bs = Inr () \<Longrightarrow>
     distinct (map bc_id bs) \<and> set (map bc_id bs) \<inter> set ids = {} \<and>
     (\<forall>b \<in> set bs. validate_bot_id (bc_id b) = Inr ())"
proof (induction bs arbitrary: ids)
  case Nil
  then show ?case by simp
next
  case (Cons b bs)
  then have "validate_bot_id (bc_id b) = Inr ()" "bc_id b \<notin> set ids"
      "check_bot_ids (bc_id b # ids) bs = Inr ()"
    by (auto simp: rbind_eq_Inr split: if_splits)
  with Cons.IH [OF this(3)] show ?case by auto
qed

lemma check_display_names_distinct:
  "check_display_names env names bs = Inr () \<Longrightarrow>
     distinct (map (map_option (to_lowercase env) \<circ> bc_display_name) bs) \<and>
     (\<forall>b \<in> set bs. \<exists>d. bc_display_name b = Some d \<and> \<not> is_blank env d \<and>
        to_lowercase env d \<notin> set names)"
  by (induction bs arbitrary: names) (force split: option.splits if_splits)+

lemma unknown_capability_None:
  "unknown_capability cs = None \<longleftrightarrow> set cs \<subseteq> set VALID_CAPABILITIES"
  by (induction cs) auto

lemma check_bot_Inr:
  assumes "check_bot env b = Inr b'"
  shows "bc_id b' = bc_id b" and "bc_npub b' = bc_npub b" and "bc_capabilities b' = bc_capabilities b"
    and "bc_display_name b' = bc_display_name b"
    and "set (bc_capabilities b') \<subseteq> set VALID_CAPABILITIES"
    and "set (bc_capabilities b') \<inter> set MLS_CAPABILITIES \<noteq> {} \<Longrightarrow> mls_db_path b' \<noteq> None"
    and "check_signing env b' = Inr ()"
  using assms
  by (auto simp: check_bot_def rbind_eq_Inr unknown_capability_None split: option.splits if_splits)

lemma validate_bots_Inr:
  assumes "validate_bots env bs = Inr bs'"
  shows "list_all2 (\<lambda>b b'. check_bot env b = Inr b') bs bs'"
    and "distinct (map bc_id bs)" and "distinct (map (map_option (to_lowercase env) \<circ> bc_display_name) bs)"
    and "\<And>b. b \<in> set bs \<Longrightarrow> validate_bot_id (bc_id b) = Inr ()"
  using assms check_bot_ids_distinct [of "[]" bs] check_display_names_distinct [of env "[]" bs]
  by (auto simp: validate_bots_def rbind_eq_Inr map_res_Inr_iff)

lemma list_all2_map_eq: "list_all2 (\<lambda>a b. f b = f a) xs ys \<Longrightarrow> map f ys = map f xs"
  by (induction rule: list_all2_induct) auto

lemma validate_bots_ids:
  assumes "validate_bots env bs = Inr bs'"
  shows "map bc_id bs' = map bc_id bs"
  using validate_bots_Inr(1) [OF assms]
  by (intro list_all2_map_eq) (auto elim!: list_all2_mono dest: check_bot_Inr(1))


section \<open>Environment placeholders\<close>

text \<open>
  The inner loop of \<open>expand_env_vars_with_lookup\<close>, after the opening brace was consumed: it
  returns whether the closing brace was found, the name, the default, whether \<open>:-\<close> was seen, and
  the rest of the input. A \<open>:-\<close> is dropped wherever it stands.
\<close>

fun scan_placeholder ::
    "str \<Rightarrow> str \<Rightarrow> str \<Rightarrow> bool \<Rightarrow> bool \<times> str \<times> str \<times> bool \<times> str" where
  "scan_placeholder [] var dflt in_default = (False, var, dflt, in_default, [])"
| "scan_placeholder (c # cs) var dflt in_default =
     (if c = CHR ''}'' then (True, var, dflt, in_default, cs)
      else if c = CHR '':'' \<and> cs \<noteq> [] \<and> hd cs = CHR ''-'' then scan_placeholder (tl cs) var dflt True
      else if in_default then scan_placeholder cs var (dflt @ [c]) in_default
      else scan_placeholder cs (var @ [c]) dflt in_default)"

lemma scan_placeholder_rest:
  "scan_placeholder s v d i = (found, var, dflt, in_def, rest) \<Longrightarrow> length rest \<le> length s"
proof (induction s v d i rule: scan_placeholder.induct)
  case (1 var dflt in_default)
  then show ?case by simp
next
  case (2 c cs var dflt in_default)
  show ?case
    using 2 by (cases cs) (fastforce split: if_splits)+
qed

lemma scan_placeholder_less:
  "scan_placeholder (tl s) v d i = (found, var, dflt, in_def, rest) \<Longrightarrow> length rest < Suc (length s)"
  using scan_placeholder_rest [of "tl s" v d i found var dflt in_def rest]
  by (cases s) auto

text \<open>The outer loop; \<open>lookup\<close> is the environment (\<open>None\<close>: not set).\<close>

function expand_env_vars_with_lookup :: "(str \<Rightarrow> str option) \<Rightarrow> str \<Rightarrow> str" where
  "expand_env_vars_with_lookup lookup s =
     (case s of
        [] \<Rightarrow> []
      | c # cs \<Rightarrow>
          (if c = CHR ''$'' \<and> cs \<noteq> [] \<and> hd cs = CHR ''{'' then
             (case scan_placeholder (tl cs) [] [] False of
                (found, var, dflt, in_default, rest) \<Rightarrow>
                  (if found then
                     (let value = (case lookup var of Some v \<Rightarrow> v | None \<Rightarrow> [])
                      in if value = [] then dflt else value)
                   else ''${'' @ var @ (if in_default then '':-'' else []) @ dflt)
                  @ expand_env_vars_with_lookup lookup rest)
           else c # expand_env_vars_with_lookup lookup cs))"
  by pat_completeness auto
termination
  by (relation "measure (length \<circ> snd)") (auto dest: scan_placeholder_less [OF sym])

declare expand_env_vars_with_lookup.simps [simp del]

definition expand_path :: "(str \<Rightarrow> str option) \<Rightarrow> str \<Rightarrow> str" where
  "expand_path env s =
     expand_env_vars_with_lookup env
       (if starts_with s ''~/'' \<or> s = ''~'' then
          (case env ''HOME'' of
             Some home \<Rightarrow> if s = ''~'' then home else home @ drop 1 s
           | None \<Rightarrow> s)
        else s)"

lemma expand_no_dollar:
  "CHR ''$'' \<notin> set p \<Longrightarrow>
     expand_env_vars_with_lookup env (p @ s) = p @ expand_env_vars_with_lookup env s"
  by (induction p) (auto simp: expand_env_vars_with_lookup.simps [of env "_ # _"])

lemma expand_env_vars_Nil [simp]: "expand_env_vars_with_lookup env [] = []"
  by (simp add: expand_env_vars_with_lookup.simps)

lemma scan_placeholder_default:
  "CHR ''}'' \<notin> set d \<Longrightarrow> CHR '':'' \<notin> set d \<Longrightarrow>
     scan_placeholder (d @ CHR ''}'' # s) var acc True = (True, var, acc @ d, True, s)"
  by (induction d arbitrary: acc) auto

lemma scan_placeholder_var:
  assumes "CHR ''}'' \<notin> set v" and "CHR '':'' \<notin> set v"
  shows "scan_placeholder (v @ CHR ''}'' # s) acc [] False = (True, acc @ v, [], False, s)"
    and "CHR ''}'' \<notin> set d \<Longrightarrow> CHR '':'' \<notin> set d \<Longrightarrow>
         scan_placeholder (v @ '':-'' @ d @ CHR ''}'' # s) acc [] False = (True, acc @ v, d, True, s)"
  using assms by (induction v arbitrary: acc) (auto simp: scan_placeholder_default)

lemma expand_placeholder:
  assumes "CHR ''$'' \<notin> set p" and "CHR ''}'' \<notin> set v" "CHR '':'' \<notin> set v"
    and "CHR ''}'' \<notin> set d" "CHR '':'' \<notin> set d"
  shows "expand_env_vars_with_lookup env (p @ ''${'' @ v @ '':-'' @ d @ CHR ''}'' # s) =
    p @ (case env v of Some x \<Rightarrow> if x = [] then d else x | None \<Rightarrow> d)
      @ expand_env_vars_with_lookup env s"
  using scan_placeholder_var(2) [OF assms(2,3,4,5), of s "[]"] assms(1)
  by (simp add: expand_no_dollar expand_env_vars_with_lookup.simps [of env "CHR ''$'' # _"] Let_def
      split: option.splits)

end
