(* ===== verification/WireProperties.thy ===== *)
theory WireProperties
  imports EventCodec Config RateLimit
begin

text \<open>
  Properties of what crosses the wire and of what the configuration may hold: error codes, the
  method catalogue, messages, frames and events, bot ids, bunker URIs and placeholders.
\<close>

section \<open>Errors, methods, messages\<close>

text \<open>
  C34: A client tells the daemon's own failures apart by the code alone. Every error the daemon
  makes itself is sent with a code of the JSON-RPC range, and one outside the five predefined
  codes identifies the error up to its payload text.
\<close>

theorem error_code_identifies:
  assumes "\<And>j. a \<noteq> JsonRpc j" and "\<And>j. b \<noteq> JsonRpc j"
    and "code (to_json_rpc_error a) = code (to_json_rpc_error b)"
  shows "is_predefined_code (to_json_rpc_code a) \<or> (is_daemon_code (to_json_rpc_code a) \<and> erase a = erase b)"
  using assms code_classes [of a] daemon_code_erase_inj [of a b]
  by (auto simp: to_json_rpc_error_code)

theorem error_code_identifies_witness:
  "is_predefined_code (to_json_rpc_code (UnknownBot ''a'')) \<or>
   (is_daemon_code (to_json_rpc_code (UnknownBot ''a'')) \<and> erase (UnknownBot ''a'') = erase (UnknownBot ''b''))"
  by (rule error_code_identifies) (simp_all add: json_rpc_error_new_def)

text \<open>
  C36: The method catalogue is exact: a name parses to a method only if it is that method's name,
  every method's name parses back to it, and the catalogue lists every method once.
\<close>

theorem method_catalogue:
  "(parse_method s = Inr m \<longleftrightarrow> s = method_name m) \<and> m \<in> set method_all \<and> distinct method_all"
proof -
  have "distinct method_all" by (simp add: method_all_def)
  then show ?thesis
    using parse_method_name [of m] parse_method_Inr [of s m] method_all_complete [of m] by auto
qed

text \<open>
  C35: A frame that carries a well-formed message and is within the byte bound is read back as that
  message, and a longer one is refused before its text is looked at.
\<close>

theorem frame_round_trip:
  assumes "wire_ok m" and "utf8 frame" and "read_json frame = Inr (ser_message m)"
  shows "parse_frame utf8 read_json show_json frame =
    (if length frame \<le> MAX_FRAME_BYTES then Inr m else Inl FrameTooLarge)"
  using assms by (simp add: parse_frame_def validate_frame_size_def parse_message_ser)

theorem frame_round_trip_witness:
  "parse_frame (\<lambda>_. True) (\<lambda>_. Inr (ser_message (mk_request (JString ''1'') ''agent.version'' None)))
     (\<lambda>_. []) ''{}'' = Inr (mk_request (JString ''1'') ''agent.version'' None)"
  using frame_round_trip [of "mk_request (JString ''1'') ''agent.version'' None" "\<lambda>_. True" "''{}''"
      "\<lambda>_. Inr (ser_message (mk_request (JString ''1'') ''agent.version'' None))" "\<lambda>_. []"]
  by (simp add: mk_request_def MAX_FRAME_BYTES_def)

text \<open>
  A handler that deserializes an event notification gets the event the daemon sent, and event
  types have distinct wire names.
\<close>

theorem event_round_trip:
  "de_agent_event (ser_agent_event e) = Some e \<and>
   (parse_event_type_opt s = Some t \<longleftrightarrow> s = as_wire_name t)"
  using parse_event_type_opt_Some by (auto simp: de_agent_event_ser)

section \<open>Configuration\<close>



text \<open>
  C38: An accepted configuration gives the bots distinct ids and distinct display names (compared
  without case), grants only known capabilities, and a bot with a group capability has a store
  path; the checks keep every id, key, name and capability as they were written.
\<close>

theorem accepted_bots:
  assumes "validate_bots env bs = Inr bs'"
  shows "map bc_id bs' = map bc_id bs \<and> distinct (map bc_id bs') \<and>
    distinct (map (map_option (to_lowercase env) \<circ> bc_display_name) bs) \<and>
    (\<forall>b \<in> set bs'. set (bc_capabilities b) \<subseteq> set VALID_CAPABILITIES \<and>
       (set (bc_capabilities b) \<inter> set MLS_CAPABILITIES \<noteq> {} \<longrightarrow> mls_db_path b \<noteq> None))"
proof -
  have "\<exists>c. check_bot env c = Inr b" if "b \<in> set bs'" for b
    using validate_bots_Inr(1) [OF assms] that
    by (auto simp: list_all2_conv_all_nth in_set_conv_nth)
  then have "set (bc_capabilities b) \<subseteq> set VALID_CAPABILITIES \<and>
      (set (bc_capabilities b) \<inter> set MLS_CAPABILITIES \<noteq> {} \<longrightarrow> mls_db_path b \<noteq> None)"
    if "b \<in> set bs'" for b
    using check_bot_Inr(5,6) that by blast
  then show ?thesis
    using validate_bots_ids [OF assms] validate_bots_Inr(2,3) [OF assms] by simp
qed


definition example_bot :: "str \<Rightarrow> str \<Rightarrow> bot_config" where
  "example_bot i npub =
     \<lparr>bc_id = i, bc_npub = npub, bc_signing = Nsec ''k'', bc_relays = [''wss://r''],
      bc_capabilities = [''SendMessages'', ''CreateMlsGroup''], bc_display_name = Some i,
      bc_about = None, bc_picture = None, mls_dedup_window_secs = None,
      mls_db_path = Some ''vector-mls.db'', mls_key_package_freshness_secs = None\<rparr>"

definition example_env :: config_env where
  "example_env = \<lparr>to_lowercase = id, is_blank = (\<lambda>s. s = []), percent_decode = Inr,
     canonical_mls_path = (\<lambda>b. Inr (''/data/'' @ bc_id b))\<rparr>"

lemma validate_example:
  "validate_bots example_env [example_bot ''a'' ''n1'', example_bot ''b'' ''n2''] =
     Inr [(example_bot ''a'' ''n1'')\<lparr>mls_db_path := Some ''/data/a''\<rparr>,
          (example_bot ''b'' ''n2'')\<lparr>mls_db_path := Some ''/data/b''\<rparr>]"
  by (simp add: validate_bots_def example_bot_def example_env_def check_bot_def check_signing_def
      validate_bot_id_def VALID_CAPABILITIES_def MLS_CAPABILITIES_def slug_char_def
      is_ascii_lowercase_def is_ascii_digit_def)

theorem accepted_bots_witness:
  "distinct (map bc_id [(example_bot ''a'' ''n1'')\<lparr>mls_db_path := Some ''/data/a''\<rparr>,
                        (example_bot ''b'' ''n2'')\<lparr>mls_db_path := Some ''/data/b''\<rparr>])"
  using accepted_bots [OF validate_example] by blast

text \<open>
  C39: An error text never shows the secrets of a bunker URI: two URIs with the same base and the
  same parameter keys have the same redacted text, whatever their parameter values.
\<close>

theorem bunker_redaction_hides_values:
  assumes "CHR ''?'' \<notin> set base" and "ps \<noteq> []" and "map fst qs = map fst ps"
    and "map (\<lambda>p. snd p = None) qs = map (\<lambda>p. snd p = None) ps"
    and "\<And>p. p \<in> set ps \<union> set qs \<Longrightarrow> param_ok p"
  shows "redact_bunker_uri (render_uri render_param base ps) =
    redact_bunker_uri (render_uri render_param base qs)"
proof -
  have "render_redacted p = render_redacted q"
    if "fst p = fst q" "(snd p = None) = (snd q = None)" for p q
    using that by (cases p rule: render_redacted.cases; cases q rule: render_redacted.cases) auto
  then have "list_all2 (\<lambda>p q. render_redacted p = render_redacted q) ps qs"
    using assms(3,4) by (auto simp: list_all2_conv_all_nth list_eq_iff_nth_eq)
  then have "map render_redacted ps = map render_redacted qs"
    by (simp add: list_all2_conv_all_nth list_eq_iff_nth_eq)
  moreover have "qs \<noteq> []" using assms(2,3) by auto
  ultimately show ?thesis
    using assms(1,2,5) by (simp add: redact_render_uri) (simp add: render_uri_def)
qed

theorem bunker_redaction_hides_values_witness:
  "redact_bunker_uri (render_uri render_param ''bunker://pk'' [(''relay'', Some ''wss://r''), (''secret'', Some ''s3cr3t'')]) =
   redact_bunker_uri (render_uri render_param ''bunker://pk'' [(''relay'', Some ''wss://r''), (''secret'', Some ''other'')])"
  by (rule bunker_redaction_hides_values) (auto simp: param_ok_def)

text \<open>
  A placeholder with a default expands to the variable's value when it is set and not empty,
  and to the default otherwise; the text before it is kept and the text after it is expanded in
  turn, while inserted values are not expanded again.
\<close>

theorem placeholder_expansion:
  assumes "CHR ''$'' \<notin> set p" and "CHR ''}'' \<notin> set v" "CHR '':'' \<notin> set v"
    and "CHR ''}'' \<notin> set d" "CHR '':'' \<notin> set d" and "CHR ''$'' \<notin> set q"
  shows "expand_env_vars_with_lookup env (p @ ''${'' @ v @ '':-'' @ d @ ''}'' @ q) =
    p @ (case env v of Some x \<Rightarrow> if x = [] then d else x | None \<Rightarrow> d) @ q"
  using expand_placeholder [OF assms(1-5), of env q] expand_no_dollar [OF assms(6), of env "[]"]
  by simp

theorem placeholder_expansion_witness:
  "expand_env_vars_with_lookup (\<lambda>_. Some ''${B}'') ''/d/${HOME:-x}/y'' = ''/d/${B}/y''"
  using placeholder_expansion [of "''/d/''" "''HOME''" "''x''" "''/y''" "\<lambda>_. Some ''${B}''"] by simp

end
