(* ===== verification/Dedup.thy ===== *)
theory Dedup
  imports RateLimit
begin

text \<open>
  The time-bounded deduplication cache of group-message wrappers (\<open>DedupCache\<close> in
  \<open>src/dispatch.rs\<close>) and the sharded lock pools keyed by name (\<open>MlsGroupLockPool\<close>).
\<close>

section \<open>The deduplication cache\<close>

record dedup_cache =
  seen :: "(str, nanos) hmap"
  dedup_max :: nat

definition MLS_DEDUP_MAX_SIZE :: nat where "MLS_DEDUP_MAX_SIZE = 1000"
definition MLS_DEDUP_CLEANUP_THRESHOLD :: nat where "MLS_DEDUP_CLEANUP_THRESHOLD = 1000"

definition dedup_new :: "nat \<Rightarrow> dedup_cache" where
  "dedup_new n = \<lparr>seen = [], dedup_max = n\<rparr>"

definition dedup_cleanup :: "nanos \<Rightarrow> nanos \<Rightarrow> dedup_cache \<Rightarrow> dedup_cache" where
  "dedup_cleanup now window c =
     c\<lparr>seen := evict_to id (dedup_max c) (hm_retain (\<lambda>_ t. now - t < window) (seen c))\<rparr>"

definition is_duplicate :: "str \<Rightarrow> nanos \<Rightarrow> nanos \<Rightarrow> dedup_cache \<Rightarrow> bool \<times> dedup_cache" where
  "is_duplicate event_id window now c =
     (let c1 = (if MLS_DEDUP_CLEANUP_THRESHOLD \<le> length (seen c) then dedup_cleanup now window c else c)
      in case hm_get (seen c1) event_id of
           Some seen_at \<Rightarrow>
             if now - seen_at < window then (True, c1)
             else (False, c1\<lparr>seen := hm_insert event_id now (seen c1)\<rparr>)
         | None \<Rightarrow> (False, c1\<lparr>seen := hm_insert event_id now (seen c1)\<rparr>))"

definition dedup_key :: "str \<Rightarrow> str \<Rightarrow> str" where
  "dedup_key bot_id event_id = bot_id @ '':'' @ event_id"

lemma dedup_key_inj:
  "CHR '':'' \<notin> set b \<Longrightarrow> CHR '':'' \<notin> set b' \<Longrightarrow> dedup_key b e = dedup_key b' e' \<longleftrightarrow> b = b' \<and> e = e'"
  using colon_split [of "CHR '':''" b b' e e'] by (simp add: dedup_key_def)

definition dedup_ok :: "dedup_cache \<Rightarrow> bool" where
  "dedup_ok c \<longleftrightarrow> hm_wf (seen c) \<and>
     length (seen c) \<le> Suc (max (dedup_max c) MLS_DEDUP_CLEANUP_THRESHOLD)"

lemma dedup_max_cleanup [simp]: "dedup_max (dedup_cleanup now w c) = dedup_max c"
  by (simp add: dedup_cleanup_def)

lemma dedup_cleanup_wf: "hm_wf (seen c) \<Longrightarrow> hm_wf (seen (dedup_cleanup now w c))"
  by (simp add: dedup_cleanup_def hm_wf_evict_to)

lemma dedup_cleanup_length: "length (seen (dedup_cleanup now w c)) \<le> dedup_max c"
  by (simp add: dedup_cleanup_def length_evict_to)

lemma is_duplicate_max [simp]: "dedup_max (snd (is_duplicate e w now c)) = dedup_max c"
  by (simp add: is_duplicate_def Let_def split: option.splits)

lemma is_duplicate_ok: "dedup_ok c \<Longrightarrow> dedup_ok (snd (is_duplicate e w now c))"
proof -
  assume ok: "dedup_ok c"
  define c1 where "c1 = (if MLS_DEDUP_CLEANUP_THRESHOLD \<le> length (seen c)
    then dedup_cleanup now w c else c)"
  have wf: "hm_wf (seen c1)" and m: "dedup_max c1 = dedup_max c"
    using ok by (auto simp: c1_def dedup_ok_def intro: dedup_cleanup_wf)
  have len: "length (seen c1) \<le> max (dedup_max c) MLS_DEDUP_CLEANUP_THRESHOLD"
    using dedup_cleanup_length [of now w c] by (auto simp: c1_def)
  have "length (hm_insert e now (seen c1)) \<le> Suc (max (dedup_max c) MLS_DEDUP_CLEANUP_THRESHOLD)"
    using length_hm_insert_le [of e now "seen c1"] len by linarith
  then show ?thesis
    using wf m len by (auto simp: is_duplicate_def Let_def c1_def [symmetric] dedup_ok_def
        split: option.splits)
qed

lemma is_duplicate_recorded:
  assumes "dedup_ok c"
  shows "\<exists>t. hm_get (seen (snd (is_duplicate e w now c))) e = Some t \<and>
    (fst (is_duplicate e w now c) \<longrightarrow> now - t < w) \<and>
    (\<not> fst (is_duplicate e w now c) \<longrightarrow> t = now)"
  by (auto simp: is_duplicate_def Let_def split: option.splits)

text \<open>Below the clean-up threshold the cache forgets nothing: the exact state transition.\<close>

lemma is_duplicate_small:
  assumes "length (seen c) < MLS_DEDUP_CLEANUP_THRESHOLD"
  shows "is_duplicate e w now c =
    (case hm_get (seen c) e of
       Some seen_at \<Rightarrow> if now - seen_at < w then (True, c) else (False, c\<lparr>seen := hm_insert e now (seen c)\<rparr>)
     | None \<Rightarrow> (False, c\<lparr>seen := hm_insert e now (seen c)\<rparr>))"
  using assms by (simp add: is_duplicate_def)

section \<open>A run of sightings\<close>

text \<open>
  The sightings of wrappers over time, and which of them pass (are not duplicates), with their
  instants.
\<close>

fun dedup_run :: "nanos \<Rightarrow> (str \<times> nanos) list \<Rightarrow> dedup_cache \<Rightarrow> (str \<times> nanos) list \<times> dedup_cache" where
  "dedup_run w [] c = ([], c)"
| "dedup_run w ((e, t) # es) c =
     (let (dup, c') = is_duplicate e w t c; (passed, c'') = dedup_run w es c'
      in (if dup then passed else (e, t) # passed, c''))"

text \<open>
  The invariant of a run that stays below the threshold: every accepted sighting of a wrapper is
  recorded, and what is recorded is its latest accepted sighting.
\<close>

lemma length_is_duplicate_small:
  "length (seen c) < MLS_DEDUP_CLEANUP_THRESHOLD \<Longrightarrow>
   length (seen (snd (is_duplicate e w now c))) \<le> Suc (length (seen c))"
  using length_hm_insert_le [of e now "seen c"]
  by (auto simp: is_duplicate_small split: option.splits)

lemma dedup_run_Cons:
  "dedup_run w ((e, t) # es) c =
    (if fst (is_duplicate e w t c) then fst (dedup_run w es (snd (is_duplicate e w t c)))
     else (e, t) # fst (dedup_run w es (snd (is_duplicate e w t c))),
     snd (dedup_run w es (snd (is_duplicate e w t c))))"
  by (simp add: case_prod_beta Let_def)

lemma dedup_run_subset: "set (fst (dedup_run w es c)) \<subseteq> set es"
proof (induction es arbitrary: c)
  case Nil
  then show ?case by simp
next
  case (Cons x es)
  obtain e t where x: "x = (e, t)" by (cases x)
  show ?case
    using Cons.IH [of "snd (is_duplicate e w t c)"]
    by (auto simp: x dedup_run_Cons simp del: dedup_run.simps)
qed

lemma dedup_run_after_record:
  assumes "length (seen c) + length es < MLS_DEDUP_CLEANUP_THRESHOLD"
    and "hm_get (seen c) e = Some t0" and "(e, t) \<in> set (fst (dedup_run w es c))"
    and "sorted (map snd es)" and "\<forall>x \<in> set es. t0 \<le> snd x"
  shows "t0 + w \<le> t"
  using assms
proof (induction w es c rule: dedup_run.induct)
  case (1 w c)
  then show ?case by simp
next
  case (2 w e1 t1 es c)
  obtain dup c' where step: "is_duplicate e1 w t1 c = (dup, c')" by fastforce
  have small: "length (seen c) < MLS_DEDUP_CLEANUP_THRESHOLD" using "2.prems"(1) by simp
  have len: "length (seen c') + length es < MLS_DEDUP_CLEANUP_THRESHOLD"
    using length_is_duplicate_small [OF small, of e1 w t1] "2.prems"(1) step by simp
  show ?case
  proof (cases "e1 = e \<and> \<not> dup")
    case True
    then have "\<not> t1 - t0 < w"
      using step "2.prems"(2) is_duplicate_small [OF small, of e w t1] by (auto split: if_splits)
    then have "t0 + w \<le> t1" using "2.prems"(5) by auto
    moreover have "t1 \<le> t"
    proof -
      have "(e, t) \<in> set ((e1, t1) # es)"
        using "2.prems"(3) dedup_run_subset by blast
      then show ?thesis using "2.prems"(4) by auto
    qed
    ultimately show ?thesis by linarith
  next
    case False
    have "hm_get (seen c') e = Some t0"
      using step "2.prems"(2) False is_duplicate_small [OF small, of e1 w t1]
      by (auto split: if_splits option.splits)
    moreover have "(e, t) \<in> set (fst (dedup_run w es c'))"
      using "2.prems"(3) step False by (auto simp: case_prod_beta Let_def split: if_splits)
    ultimately show ?thesis
      using "2.IH" [OF step [symmetric] refl] len "2.prems"(4,5) by auto
  qed
qed

section \<open>Lock pools\<close>

text \<open>
  A pool holds a fixed number of locks; a key's lock is the one its hash selects. \<open>hash\<close> is the standard
  hasher, of which only determinism is used.
\<close>

definition DEFAULT_BUCKETS :: nat where "DEFAULT_BUCKETS = 1024"

definition lock_pool_new :: "nat \<Rightarrow> nat list" where
  "lock_pool_new n = [0..<n]"

text \<open>Out of range only for an empty pool, where the code panics on the remainder.\<close>

definition lock_acquire :: "(str \<Rightarrow> nat) \<Rightarrow> nat list \<Rightarrow> str \<Rightarrow> nat option" where
  "lock_acquire hash pool key =
     (if pool = [] then None else Some (pool ! (hash key mod length pool)))"

lemma lock_acquire_default: "\<exists>l < DEFAULT_BUCKETS. lock_acquire h (lock_pool_new DEFAULT_BUCKETS) k = Some l"
  by (simp add: lock_acquire_def lock_pool_new_def DEFAULT_BUCKETS_def)

definition mls_group_lock_key :: "str \<Rightarrow> str \<Rightarrow> str" where
  "mls_group_lock_key bot_id group_name = bot_id @ [CHR 0x00] @ group_name"

end
