(* ===== verification/Handlers.thy ===== *)
theory Handlers
  imports EventCodec Config
begin

text \<open>
  Handler connections and the handler registry (\<open>src/handlers.rs\<close>). A connection's outbound
  channel is a bounded queue in a store of channels, since clones of a handle share it. Times are
  nanoseconds since the Unix epoch. The random identifier and token of a registration and the hex
  codec are arguments.
\<close>

section \<open>Outbound channels\<close>

record channel =
  ch_queue :: "message list"
  ch_capacity :: nat
  ch_closed :: bool

type_synonym channels = "nat \<Rightarrow> channel"

record connection_handle =
  cn_sender :: nat
  cn_transport :: str

text \<open>\<open>Sender::try_send\<close>: a closed channel is reported first, then a full one.\<close>

definition conn_send :: "connection_handle \<Rightarrow> message \<Rightarrow> channels \<Rightarrow> unit res \<times> channels" where
  "conn_send c msg chs =
     (let ch = chs (cn_sender c)
      in if ch_closed ch then (Inl HandlerNotRegistered, chs)
         else if ch_capacity ch \<le> length (ch_queue ch) then (Inl HandlerBackpressure, chs)
         else (Inr (), chs(cn_sender c := ch\<lparr>ch_queue := ch_queue ch @ [msg]\<rparr>)))"

definition is_alive :: "channels \<Rightarrow> connection_handle \<Rightarrow> bool" where
  "is_alive chs c \<longleftrightarrow> \<not> ch_closed (chs (cn_sender c))"

definition channel_ok :: "channel \<Rightarrow> bool" where
  "channel_ok ch \<longleftrightarrow> length (ch_queue ch) \<le> ch_capacity ch"

lemma conn_send_ok:
  assumes "\<And>c. channel_ok (chs c)"
  shows "channel_ok (snd (conn_send c m chs) d)"
  using assms [of d] by (auto simp: conn_send_def Let_def channel_ok_def)

lemma conn_send_other: "d \<noteq> cn_sender c \<Longrightarrow> snd (conn_send c m chs) d = chs d"
  by (simp add: conn_send_def Let_def)

lemma conn_send_closed [simp]: "ch_closed (snd (conn_send c m chs) d) = ch_closed (chs d)"
  by (simp add: conn_send_def Let_def)

lemma conn_send_result:
  "fst (conn_send c m chs) = Inr () \<longleftrightarrow> snd (conn_send c m chs) (cn_sender c) =
     (chs (cn_sender c))\<lparr>ch_queue := ch_queue (chs (cn_sender c)) @ [m]\<rparr>"
  by (auto simp: conn_send_def Let_def dest!: arg_cong [where f = ch_queue])

lemma conn_send_failed: "fst (conn_send c m chs) = Inl e \<Longrightarrow> snd (conn_send c m chs) = chs"
  by (auto simp: conn_send_def Let_def split: if_splits)

section \<open>Handler references\<close>

record handler_ref =
  h_id :: str
  connection :: "connection_handle option"
  bot_ids :: "str list"
  event_types :: "event_type list"
  capabilities :: "str list"
  reconnect_token :: str
  registered_at :: int
  last_seen :: int
  h_transport :: str

definition is_connected :: "channels \<Rightarrow> handler_ref \<Rightarrow> bool" where
  "is_connected chs h = (case connection h of Some c \<Rightarrow> is_alive chs c | None \<Rightarrow> False)"

definition disconnect :: "int \<Rightarrow> handler_ref \<Rightarrow> handler_ref" where
  "disconnect now h = h\<lparr>connection := None, last_seen := now\<rparr>"

text \<open>
  \<open>chrono::Duration\<close> counts at most \<open>i64::MAX\<close> milliseconds: a longer timeout becomes that bound.
\<close>

definition CHRONO_MAX :: int where
  "CHRONO_MAX = 9223372036854775807 * 1000000"

definition is_stale :: "channels \<Rightarrow> int \<Rightarrow> nanos \<Rightarrow> handler_ref \<Rightarrow> bool" where
  "is_stale chs now timeout h \<longleftrightarrow>
     \<not> is_connected chs h \<and> now - last_seen h > min (int timeout) CHRONO_MAX"

definition matches :: "handler_ref \<Rightarrow> str \<Rightarrow> event_type \<Rightarrow> bool" where
  "matches h bot_id ty \<longleftrightarrow> bot_id \<in> set (bot_ids h) \<and> ty \<in> set (event_types h)"

definition h_is_authorized :: "handler_ref \<Rightarrow> str \<Rightarrow> str \<Rightarrow> bool" where
  "h_is_authorized h bot_id capability \<longleftrightarrow>
     bot_id \<in> set (bot_ids h) \<and> capability \<in> set (capabilities h)"

definition VERSION :: str where "VERSION = ''0.10.0''"
definition MLS_WIRE_GENERATION :: str where "MLS_WIRE_GENERATION = ''mdk-0.8-base64-encoding-tag''"

text \<open>The notifications: an event to a handler without a connection is an error, the others not.\<close>

definition send_event :: "handler_ref \<Rightarrow> agent_event \<Rightarrow> channels \<Rightarrow> unit res \<times> channels" where
  "send_event h e chs =
     (case connection h of
        Some c \<Rightarrow> conn_send c (mk_notification ''agent.event'' (Some (ser_agent_event e))) chs
      | None \<Rightarrow> (Inl HandlerNotRegistered, chs))"

definition ser_agent_status :: "str \<Rightarrow> str option \<Rightarrow> str list \<Rightarrow> json" where
  "ser_agent_status state identity caps =
     JObject ([(''state'', JString state)]
       @ opt_field ''identity'' (map_option JString identity)
       @ (if caps = [] then [] else [(''capabilities'', JArray (map JString caps))])
       @ [(''daemon_version'', JString VERSION),
          (''mls_wire_generation'', JString MLS_WIRE_GENERATION)])"

definition send_optional :: "handler_ref \<Rightarrow> message \<Rightarrow> channels \<Rightarrow> unit res \<times> channels" where
  "send_optional h msg chs =
     (case connection h of Some c \<Rightarrow> conn_send c msg chs | None \<Rightarrow> (Inr (), chs))"

definition send_status ::
    "handler_ref \<Rightarrow> str \<Rightarrow> str option \<Rightarrow> channels \<Rightarrow> unit res \<times> channels" where
  "send_status h state identity chs =
     send_optional h (mk_notification ''agent.status''
       (Some (ser_agent_status state identity (capabilities h)))) chs"

definition rate_limited_params :: "str \<Rightarrow> str \<Rightarrow> u64 \<Rightarrow> json" where
  "rate_limited_params bot_id group_id window =
     JObject [(''bot_id'', JString bot_id), (''group_id'', JString group_id),
              (''window_seconds'', ser_u64 window)]"

definition send_rate_limited ::
    "handler_ref \<Rightarrow> str \<Rightarrow> str \<Rightarrow> u64 \<Rightarrow> channels \<Rightarrow> unit res \<times> channels" where
  "send_rate_limited h bot_id group_id window chs =
     send_optional h (mk_notification ''agent.rate_limited''
       (Some (rate_limited_params bot_id group_id window))) chs"

definition send_metrics :: "handler_ref \<Rightarrow> json \<Rightarrow> channels \<Rightarrow> unit res \<times> channels" where
  "send_metrics h response chs =
     send_optional h (mk_notification ''agent.metrics'' (Some response)) chs"

lemma is_connected_disconnect [simp]: "\<not> is_connected chs (disconnect now h)"
  by (simp add: is_connected_def disconnect_def)

lemma is_stale_disconnect: "is_stale chs t2 timeout (disconnect t1 h) \<longleftrightarrow> t2 - t1 > min (int timeout) CHRONO_MAX"
  by (simp add: is_stale_def) (simp add: disconnect_def)

lemma send_event_connected:
  "fst (send_event h e chs) = Inr () \<Longrightarrow> is_connected chs h"
  by (auto simp: send_event_def is_connected_def is_alive_def conn_send_def Let_def
      split: option.splits if_splits)


section \<open>The registry\<close>

type_synonym registry = "(str, handler_ref) hmap"

fun first_ungranted :: "str list \<Rightarrow> str list \<Rightarrow> str option" where
  "first_ungranted granted [] = None"
| "first_ungranted granted (c # cs) =
     (if c \<notin> set granted then Some c else first_ungranted granted cs)"

fun validate_request_bots :: "bot_config list \<Rightarrow> str list \<Rightarrow> str list \<Rightarrow> unit res" where
  "validate_request_bots cfgs caps [] = Inr ()"
| "validate_request_bots cfgs caps (b # bs) =
     (case find (\<lambda>c. bc_id c = b) cfgs of
        None \<Rightarrow> Inl (UnknownBot b)
      | Some cfg \<Rightarrow>
          (case first_ungranted (bc_capabilities cfg) caps of
             Some c \<Rightarrow> Inl (Config (''capability '' @ c @ '' not granted to bot '' @ b))
           | None \<Rightarrow> validate_request_bots cfgs caps bs))"

definition parse_event_type :: "str \<Rightarrow> event_type res" where
  "parse_event_type s = ok_or (InvalidEventType s) (parse_event_type_opt s)"

definition validate_request ::
    "str list \<Rightarrow> str list \<Rightarrow> str list \<Rightarrow> bot_config list \<Rightarrow> (str list \<times> event_type list \<times> str list) res" where
  "validate_request bids tys caps cfgs =
     rbind (validate_request_bots cfgs caps bids) (\<lambda>_.
     rbind (map_res parse_event_type tys) (\<lambda>evs. Inr (bids, evs, caps)))"

text \<open>
  \<open>register\<close>: \<open>uuid\<close> is the fresh identifier, \<open>token\<close> the outcome of the random token generator,
  \<open>now\<close> the clock.
\<close>

definition reg_register ::
    "str \<Rightarrow> str res \<Rightarrow> int \<Rightarrow> connection_handle \<Rightarrow> str list \<Rightarrow> str list \<Rightarrow> str list \<Rightarrow>
     bot_config list \<Rightarrow> registry \<Rightarrow> (str \<times> str) res \<times> registry" where
  "reg_register uuid token now conn bids tys caps cfgs reg =
     (case validate_request bids tys caps cfgs of
        Inl e \<Rightarrow> (Inl e, reg)
      | Inr (bs, evs, cs) \<Rightarrow>
          (case token of
             Inl e \<Rightarrow> (Inl e, reg)
           | Inr t \<Rightarrow>
               (Inr (uuid, t),
                hm_insert uuid
                  \<lparr>h_id = uuid, connection = Some conn, bot_ids = bs, event_types = evs,
                   capabilities = cs, reconnect_token = t, registered_at = now, last_seen = now,
                   h_transport = cn_transport conn\<rparr> reg)))"

text \<open>\<open>reconnect\<close>: \<open>hex_decode\<close> is \<open>hex::decode\<close>; the comparison is on the decoded bytes.\<close>

definition reg_reconnect ::
    "(str \<Rightarrow> str option) \<Rightarrow> channels \<Rightarrow> int \<Rightarrow> str \<Rightarrow> str \<Rightarrow> connection_handle \<Rightarrow> registry \<Rightarrow>
     str res \<times> registry" where
  "reg_reconnect hex_decode chs now hid token conn reg =
     (case hm_get reg hid of
        None \<Rightarrow> (Inl HandlerNotRegistered, reg)
      | Some h \<Rightarrow>
          if is_connected chs h then (Inl HandlerAlreadyConnected, reg)
          else (case (hex_decode token, hex_decode (reconnect_token h)) of
                  (Some given, Some stored) \<Rightarrow>
                    if given \<noteq> stored then (Inl InvalidReconnectToken, reg)
                    else (Inr hid,
                          hm_insert hid (h\<lparr>connection := Some conn, last_seen := now,
                                           h_transport := cn_transport conn\<rparr>) reg)
                | _ \<Rightarrow> (Inl InvalidReconnectToken, reg)))"

definition reg_restore :: "handler_ref \<Rightarrow> registry \<Rightarrow> registry" where
  "reg_restore h reg =
     (let h1 = h\<lparr>last_seen := registered_at h, h_transport := ''unknown''\<rparr>
      in if hm_contains reg (h_id h) then reg else hm_insert (h_id h) h1 reg)"

definition reg_unregister :: "str \<Rightarrow> registry \<Rightarrow> unit res \<times> registry" where
  "reg_unregister hid reg =
     (if hm_contains reg hid then (Inr (), hm_remove hid reg) else (Inl HandlerNotRegistered, reg))"

text \<open>\<open>get_handler_mut\<close> followed by an update of the handler it found.\<close>

definition reg_update :: "str \<Rightarrow> (handler_ref \<Rightarrow> handler_ref) \<Rightarrow> registry \<Rightarrow> registry" where
  "reg_update hid f reg =
     (case hm_get reg hid of Some h \<Rightarrow> hm_insert hid (f h) reg | None \<Rightarrow> reg)"

definition reg_find :: "channels \<Rightarrow> str \<Rightarrow> event_type \<Rightarrow> registry \<Rightarrow> handler_ref list" where
  "reg_find chs bot_id ty reg =
     filter (\<lambda>h. is_connected chs h \<and> matches h bot_id ty) (hm_values reg)"

definition all_handlers :: "registry \<Rightarrow> handler_ref list" where
  "all_handlers reg = hm_values reg"

definition reg_is_authorized :: "str \<Rightarrow> str \<Rightarrow> str \<Rightarrow> registry \<Rightarrow> bool res" where
  "reg_is_authorized hid bot_id capability reg =
     (case hm_get reg hid of
        None \<Rightarrow> Inl HandlerNotRegistered
      | Some h \<Rightarrow> Inr (h_is_authorized h bot_id capability))"

section \<open>What the registry guarantees\<close>

text \<open>
  Every entry is stored under its own id, and every capability it holds over a bot it named is
  one the configuration grants that bot.
\<close>

definition grants_ok :: "bot_config list \<Rightarrow> handler_ref \<Rightarrow> bool" where
  "grants_ok cfgs h \<longleftrightarrow>
     (\<forall>b \<in> set (bot_ids h). \<exists>c. find (\<lambda>c. bc_id c = b) cfgs = Some c \<and>
        set (capabilities h) \<subseteq> set (bc_capabilities c))"

definition registry_ok :: "bot_config list \<Rightarrow> registry \<Rightarrow> bool" where
  "registry_ok cfgs reg \<longleftrightarrow> hm_wf reg \<and>
     (\<forall>hid h. hm_get reg hid = Some h \<longrightarrow> h_id h = hid \<and> grants_ok cfgs h)"

lemma first_ungranted_None: "first_ungranted granted caps = None \<longleftrightarrow> set caps \<subseteq> set granted"
  by (induction caps) auto

lemma validate_request_bots_Inr:
  "validate_request_bots cfgs caps bids = Inr () \<longleftrightarrow>
     (\<forall>b \<in> set bids. \<exists>c. find (\<lambda>c. bc_id c = b) cfgs = Some c \<and> set caps \<subseteq> set (bc_capabilities c))"
  by (induction bids) (auto simp: first_ungranted_None [symmetric] split: option.splits)

lemma parse_event_type_Inr: "parse_event_type s = Inr t \<longleftrightarrow> s = as_wire_name t"
  by (auto simp: parse_event_type_def dest: parse_event_type_opt_Some)

lemma list_all2_map_right: "list_all2 (\<lambda>x y. x = f y) xs ys \<longleftrightarrow> xs = map f ys"
  by (induction xs arbitrary: ys) (auto simp: list_all2_Cons1 Cons_eq_map_conv)

lemma validate_request_Inr:
  "validate_request bids tys caps cfgs = Inr r \<longleftrightarrow>
     (\<exists>evs. r = (bids, evs, caps) \<and> tys = map as_wire_name evs \<and>
       (\<forall>b \<in> set bids. \<exists>c. find (\<lambda>c. bc_id c = b) cfgs = Some c \<and> set caps \<subseteq> set (bc_capabilities c)))"
proof -
  have "map_res parse_event_type tys = Inr evs \<longleftrightarrow> tys = map as_wire_name evs" for evs
    by (simp add: map_res_Inr_iff parse_event_type_Inr list_all2_map_right)
  then show ?thesis
    by (auto simp: validate_request_def rbind_eq_Inr validate_request_bots_Inr)
qed

lemma reg_register_ok:
  assumes "registry_ok cfgs reg"
  shows "registry_ok cfgs (snd (reg_register uuid token now conn bids tys caps cfgs reg))"
  using assms
  by (auto simp: reg_register_def registry_ok_def grants_ok_def validate_request_Inr
      split: sum.splits)

lemma reg_reconnect_ok:
  "registry_ok cfgs reg \<Longrightarrow> registry_ok cfgs (snd (reg_reconnect hex chs now hid tok conn reg))"
  by (auto simp: reg_reconnect_def registry_ok_def grants_ok_def split: option.splits)

lemma reg_restore_ok:
  "registry_ok cfgs reg \<Longrightarrow> grants_ok cfgs h \<Longrightarrow> registry_ok cfgs (reg_restore h reg)"
  by (auto simp: reg_restore_def registry_ok_def grants_ok_def Let_def)

lemma reg_unregister_ok: "registry_ok cfgs reg \<Longrightarrow> registry_ok cfgs (snd (reg_unregister hid reg))"
  by (auto simp: reg_unregister_def registry_ok_def split: if_splits)

lemma reg_update_ok:
  assumes "registry_ok cfgs reg" and "\<And>h. h_id (f h) = h_id h"
    and "\<And>h. bot_ids (f h) = bot_ids h" and "\<And>h. capabilities (f h) = capabilities h"
  shows "registry_ok cfgs (reg_update hid f reg)"
  using assms by (auto simp: reg_update_def registry_ok_def grants_ok_def split: option.splits)

lemma reg_authorized_granted:
  assumes "registry_ok cfgs reg" and "reg_is_authorized hid b cap reg = Inr True"
  shows "\<exists>c. find (\<lambda>c. bc_id c = b) cfgs = Some c \<and> cap \<in> set (bc_capabilities c)"
  using assms
  by (fastforce simp: reg_is_authorized_def h_is_authorized_def registry_ok_def grants_ok_def
      split: option.splits)

lemma reg_find_iff:
  assumes "registry_ok cfgs reg"
  shows "h \<in> set (reg_find chs b ty reg) \<longleftrightarrow>
    hm_get reg (h_id h) = Some h \<and> is_connected chs h \<and> b \<in> set (bot_ids h) \<and> ty \<in> set (event_types h)"
  using assms by (auto simp: reg_find_def registry_ok_def hm_values_iff matches_def)

lemma reg_reconnect_Inr:
  "fst (reg_reconnect hex chs now hid tok conn reg) = Inr r \<longleftrightarrow>
     r = hid \<and> (\<exists>h bytes. hm_get reg hid = Some h \<and> \<not> is_connected chs h \<and>
       hex tok = Some bytes \<and> hex (reconnect_token h) = Some bytes)"
  by (auto simp: reg_reconnect_def split: option.splits)

lemma reg_reconnect_failed:
  "fst (reg_reconnect hex chs now hid tok conn reg) = Inl e \<Longrightarrow>
     snd (reg_reconnect hex chs now hid tok conn reg) = reg"
  by (auto simp: reg_reconnect_def split: option.splits if_splits)

end
