(* ===== verification/Database.thy ===== *)
theory Database
  imports Handlers "HOL-Library.Char_ord" "HOL-Library.List_Lexorder"
begin

text \<open>
  The SQLite persistence of the daemon (\<open>src/db.rs\<close>): the tables as values, one operation per
  method of \<open>Database\<close>. A table with a primary key is a map from that key to the row; the tables
  without other columns are lists of keys; the event trace is a list in row-id order. A statement
  that fails leaves the tables as they were, since every group of writes is a transaction. Text
  order is the byte order.
\<close>

section \<open>Tables\<close>

record cursor_row =
  cr_npub :: str
  cr_last_event_id :: "str option"
  cr_updated_at :: int

record handler_row =
  hr_bot_ids :: str
  hr_event_types :: str
  hr_capabilities :: str
  hr_token :: str
  hr_registered_at :: int

record trace_row =
  tr_bot_id :: str
  tr_event_id :: str
  tr_author :: str
  content_preview :: str
  tr_action :: str
  reply_event_id :: "str option"
  tr_created_at :: int

record group_rec =
  g_wire_id :: str
  g_creator_npub :: str
  g_relay :: str
  g_invited_bots :: str
  g_state_lost_at :: "int option"

record reset_marker =
  marked_at :: int
  reset_at :: "int option"
  archive_path :: "str option"

record database =
  cursors :: "(str, cursor_row) hmap"
  handler_rows :: "(str, handler_row) hmap"
  trace :: "trace_row list"
  groups :: "(str \<times> str, group_rec) hmap"
  members :: "(str \<times> str \<times> str) list"
  resets :: "(str, reset_marker) hmap"
  reset_admins :: "(str \<times> str \<times> str) list"

definition empty_db :: database where
  "empty_db = \<lparr>cursors = [], handler_rows = [], trace = [], groups = [], members = [], resets = [],
               reset_admins = []\<rparr>"

text \<open>A row of \<open>mls_groups\<close> together with its members, as the methods exchange it.\<close>

record mls_group_row =
  mg_bot_id :: str
  mg_group_name :: str
  mg_wire_id :: str
  mg_creator_npub :: str
  mg_relay :: str
  mg_invited_bots :: "str list"
  mg_state_lost_at :: "int option"

text \<open>
  \<open>INSERT OR IGNORE\<close> and \<open>INSERT OR REPLACE\<close> into a table whose columns are all key columns.
\<close>

definition row_insert_ignore :: "'a \<Rightarrow> 'a list \<Rightarrow> 'a list" where
  "row_insert_ignore r t = (if r \<in> set t then t else t @ [r])"

definition row_insert_replace :: "'a \<Rightarrow> 'a list \<Rightarrow> 'a list" where
  "row_insert_replace r t = filter (\<lambda>x. x \<noteq> r) t @ [r]"

lemma row_insert_ignore_simps [simp]:
  "set (row_insert_ignore r t) = insert r (set t)"
  "distinct (row_insert_ignore r t) \<longleftrightarrow> distinct t"
  by (auto simp: row_insert_ignore_def)

lemma row_insert_replace_simps [simp]:
  "set (row_insert_replace r t) = insert r (set t)"
  "distinct t \<Longrightarrow> distinct (row_insert_replace r t)"
  by (auto simp: row_insert_replace_def)

lemma fold_row_insert:
  "set (fold (\<lambda>m. row_insert_ignore (f m)) ms t) = set t \<union> f ` set ms"
  "distinct t \<Longrightarrow> distinct (fold (\<lambda>m. row_insert_ignore (f m)) ms t)"
  "set (fold (\<lambda>m. row_insert_replace (f m)) ms t) = set t \<union> f ` set ms"
  "distinct t \<Longrightarrow> distinct (fold (\<lambda>m. row_insert_replace (f m)) ms t)"
  by (induction ms arbitrary: t) auto

text \<open>
  \<open>Db::run\<close>: the closure runs on a worker under the lock, and a poisoned lock, a failed task or
  an SQLite failure (\<open>fault\<close>) is reported without a change.
\<close>

definition db_run :: "daemon_error option \<Rightarrow> (database \<Rightarrow> 'a res \<times> database) \<Rightarrow> database \<Rightarrow> 'a res \<times> database" where
  "db_run fault f db = (case fault of Some e \<Rightarrow> (Inl e, db) | None \<Rightarrow> f db)"

section \<open>Cursors\<close>

definition save_cursor :: "int \<Rightarrow> str \<Rightarrow> str \<Rightarrow> int \<Rightarrow> database \<Rightarrow> unit res \<times> database" where
  "save_cursor now bot_id npub cursor db =
     (Inr (), db\<lparr>cursors := hm_insert bot_id
        \<lparr>cr_npub = npub, cr_last_event_id = Some (show_int cursor), cr_updated_at = now\<rparr>
        (cursors db)\<rparr>)"

text \<open>\<open>parse_error\<close> is the text of the integer parser's error.\<close>

definition load_cursor :: "(str \<Rightarrow> str) \<Rightarrow> str \<Rightarrow> database \<Rightarrow> (str \<times> int) option res" where
  "load_cursor parse_error bot_id db =
     (case hm_get (cursors db) bot_id of
        None \<Rightarrow> Inr None
      | Some r \<Rightarrow>
          (case cr_last_event_id r of
             None \<Rightarrow> Inr (Some (cr_npub r, 0))
           | Some t \<Rightarrow>
               (case parse_i64 t of
                  Some c \<Rightarrow> Inr (Some (cr_npub r, c))
                | None \<Rightarrow> Inl (Config (''invalid cursor in database: '' @ parse_error t)))))"

definition validate_npub :: "str \<Rightarrow> str \<Rightarrow> database \<Rightarrow> bool res" where
  "validate_npub bot_id npub db =
     (case hm_get (cursors db) bot_id of Some r \<Rightarrow> Inr (cr_npub r = npub) | None \<Rightarrow> Inr True)"

definition reset_cursor :: "str \<Rightarrow> database \<Rightarrow> unit res \<times> database" where
  "reset_cursor bot_id db = (Inr (), db\<lparr>cursors := hm_remove bot_id (cursors db)\<rparr>)"

section \<open>Handlers\<close>

text \<open>The JSON text codec of string lists and event types, and \<open>DateTime::from_timestamp\<close>.\<close>

record json_codec =
  enc_strings :: "str list \<Rightarrow> str"
  dec_strings :: "str \<Rightarrow> str + str list"
  enc_events :: "event_type list \<Rightarrow> str"
  dec_events :: "str \<Rightarrow> str + event_type list"
  from_timestamp :: "int \<Rightarrow> int option"

definition timestamp_secs :: "int \<Rightarrow> int" where
  "timestamp_secs t = t div 1000000000"

definition save_handler :: "json_codec \<Rightarrow> handler_ref \<Rightarrow> database \<Rightarrow> unit res \<times> database" where
  "save_handler cd h db =
     (Inr (), db\<lparr>handler_rows := hm_insert (h_id h)
        \<lparr>hr_bot_ids = enc_strings cd (bot_ids h), hr_event_types = enc_events cd (event_types h),
         hr_capabilities = enc_strings cd (capabilities h), hr_token = reconnect_token h,
         hr_registered_at = timestamp_secs (registered_at h)\<rparr> (handler_rows db)\<rparr>)"

definition json_res :: "str + 'a \<Rightarrow> 'a res" where
  "json_res r = (case r of Inl e \<Rightarrow> Inl (JsonErr e) | Inr a \<Rightarrow> Inr a)"

definition load_handler :: "json_codec \<Rightarrow> int \<Rightarrow> str \<times> handler_row \<Rightarrow> handler_ref res" where
  "load_handler cd now ir =
     (case ir of (i, r) \<Rightarrow>
        (let t0 = (case from_timestamp cd (hr_registered_at r) of Some t \<Rightarrow> t | None \<Rightarrow> now) in
         rbind (json_res (dec_strings cd (hr_bot_ids r))) (\<lambda>bs.
         rbind (json_res (dec_events cd (hr_event_types r))) (\<lambda>evs.
         rbind (json_res (dec_strings cd (hr_capabilities r))) (\<lambda>cs.
           Inr \<lparr>h_id = i, connection = None, bot_ids = bs, event_types = evs, capabilities = cs,
                reconnect_token = hr_token r, registered_at = t0, last_seen = t0,
                h_transport = ''unknown''\<rparr>)))))"

definition load_handlers :: "json_codec \<Rightarrow> int \<Rightarrow> database \<Rightarrow> handler_ref list res" where
  "load_handlers cd now db = map_res (load_handler cd now) (handler_rows db)"

definition delete_handler :: "str \<Rightarrow> database \<Rightarrow> unit res \<times> database" where
  "delete_handler hid db = (Inr (), db\<lparr>handler_rows := hm_remove hid (handler_rows db)\<rparr>)"

section \<open>The event trace\<close>

definition save_event_trace ::
    "int \<Rightarrow> str \<Rightarrow> str \<Rightarrow> str \<Rightarrow> str \<Rightarrow> str \<Rightarrow> str option \<Rightarrow> database \<Rightarrow> unit res \<times> database" where
  "save_event_trace now b e a p act reply db =
     (Inr (), db\<lparr>trace := trace db @
        [\<lparr>tr_bot_id = b, tr_event_id = e, tr_author = a, content_preview = p, tr_action = act,
          reply_event_id = reply, tr_created_at = now\<rparr>]\<rparr>)"

text \<open>\<open>LIMIT\<close> of a \<open>usize\<close> cast to \<open>i64\<close>: a negative limit is none.\<close>

definition sql_limit :: "u64 \<Rightarrow> 'a list \<Rightarrow> 'a list" where
  "sql_limit n xs = (if sint n < 0 then xs else take (unat n) xs)"

definition load_event_trace :: "str \<Rightarrow> int \<Rightarrow> u64 \<Rightarrow> database \<Rightarrow> trace_row list" where
  "load_event_trace bot_id since limit db =
     sql_limit limit
       (sort_key (\<lambda>r. - tr_created_at r)
         (rev (filter (\<lambda>r. tr_bot_id r = bot_id \<and> timestamp_secs since \<le> tr_created_at r) (trace db))))"


section \<open>MLS groups\<close>

definition group_text :: "str \<Rightarrow> daemon_error" where
  "group_text cols = Sqlite (ConstraintViolation (''UNIQUE constraint failed: '' @ cols))"

definition group_key_failed :: daemon_error where
  "group_key_failed = group_text ''mls_groups.bot_id, mls_groups.group_name''"

definition group_wire_failed :: daemon_error where
  "group_wire_failed = group_text ''mls_groups.bot_id, mls_groups.wire_id''"

definition member_key_failed :: daemon_error where
  "member_key_failed = group_text
     ''mls_group_members.bot_id, mls_group_members.group_name, mls_group_members.member_npub''"

text \<open>The first row with this bot and wire id: its key and the rest of the row.\<close>

definition group_by_wire :: "str \<Rightarrow> str \<Rightarrow> database \<Rightarrow> ((str \<times> str) \<times> group_rec) option" where
  "group_by_wire bot_id wire_id db =
     find (\<lambda>((b, n), g). b = bot_id \<and> g_wire_id g = wire_id) (groups db)"

text \<open>The strict \<open>INSERT INTO mls_groups\<close>.\<close>

definition insert_group :: "str \<times> str \<Rightarrow> group_rec \<Rightarrow> database \<Rightarrow> unit res \<times> database" where
  "insert_group k g db =
     (if hm_contains (groups db) k then (Inl group_key_failed, db)
      else if group_by_wire (fst k) (g_wire_id g) db \<noteq> None then (Inl group_wire_failed, db)
      else (Inr (), db\<lparr>groups := hm_insert k g (groups db)\<rparr>))"

definition group_members :: "str \<Rightarrow> str \<Rightarrow> database \<Rightarrow> str list" where
  "group_members bot_id group_name db =
     sort (map (\<lambda>(_, _, m). m) (filter (\<lambda>(b, n, _). b = bot_id \<and> n = group_name) (members db)))"

definition mk_group_row :: "str \<Rightarrow> str \<Rightarrow> group_rec \<Rightarrow> str list \<Rightarrow> mls_group_row" where
  "mk_group_row b n g ms =
     \<lparr>mg_bot_id = b, mg_group_name = n, mg_wire_id = g_wire_id g,
      mg_creator_npub = g_creator_npub g, mg_relay = g_relay g, mg_invited_bots = ms,
      mg_state_lost_at = g_state_lost_at g\<rparr>"

definition load_mls_group :: "str \<Rightarrow> str \<Rightarrow> database \<Rightarrow> mls_group_row option" where
  "load_mls_group b n db =
     map_option (\<lambda>g. mk_group_row b n g (group_members b n db)) (hm_get (groups db) (b, n))"

text \<open>
  \<open>GROUP_CONCAT\<close> joins the sorted members with commas (null when there is none), and the caller
  splits the text at commas again.
\<close>

definition concat_members :: "str \<Rightarrow> str \<Rightarrow> database \<Rightarrow> str option" where
  "concat_members b n db =
     (case group_members b n db of [] \<Rightarrow> None | ms \<Rightarrow> Some (join_with '','' ms))"

definition load_all_mls_groups :: "str \<Rightarrow> database \<Rightarrow> mls_group_row list" where
  "load_all_mls_groups bot_id db =
     map (\<lambda>((b, n), g). mk_group_row b n g
            (case concat_members b n db of None \<Rightarrow> [] | Some t \<Rightarrow> split_on (CHR '','') t))
       (sort_key (\<lambda>((b, n), g). n) (filter (\<lambda>((b, n), g). b = bot_id) (groups db)))"

definition row_of :: "json_codec \<Rightarrow> mls_group_row \<Rightarrow> group_rec" where
  "row_of cd r =
     \<lparr>g_wire_id = mg_wire_id r, g_creator_npub = mg_creator_npub r, g_relay = mg_relay r,
      g_invited_bots = enc_strings cd (mg_invited_bots r), g_state_lost_at = mg_state_lost_at r\<rparr>"

definition insert_mls_group :: "json_codec \<Rightarrow> mls_group_row \<Rightarrow> database \<Rightarrow> unit res \<times> database" where
  "insert_mls_group cd r db =
     (case insert_group (mg_bot_id r, mg_group_name r) (row_of cd r) db of
        (Inl e, _) \<Rightarrow> (Inl e, db)
      | (Inr _, db1) \<Rightarrow>
          (Inr (), db1\<lparr>members :=
             fold (\<lambda>m. row_insert_ignore (mg_bot_id r, mg_group_name r, m)) (mg_invited_bots r)
               (members db1)\<rparr>))"

definition insert_mls_group_export ::
    "json_codec \<Rightarrow> mls_group_row \<Rightarrow> database \<Rightarrow> unit res \<times> database" where
  "insert_mls_group_export cd r db =
     (case insert_group (mg_bot_id r, mg_group_name r) (row_of cd r) db of
        (Inl e, _) \<Rightarrow> (Inl e, db)
      | (Inr _, db1) \<Rightarrow>
          (Inr (), db1\<lparr>members :=
             fold (\<lambda>m. row_insert_replace (mg_bot_id r, mg_group_name r, m)) (mg_invited_bots r)
               (members db1)\<rparr>))"

text \<open>
  The rename of a group found by its wire id: the update of \<open>mls_groups\<close> fails on another group
  of that name, the update of the members on a member row already under the new name.
\<close>

definition rename_group :: "str \<Rightarrow> str \<Rightarrow> str \<Rightarrow> group_rec \<Rightarrow> database \<Rightarrow> unit res \<times> database" where
  "rename_group bot_id old new g db =
     (if hm_contains (groups db) (bot_id, new) then (Inl group_key_failed, db)
      else if \<exists>(b, n, m) \<in> set (members db). b = bot_id \<and> n = old \<and> (bot_id, new, m) \<in> set (members db)
        then (Inl member_key_failed, db)
      else (Inr (),
            db\<lparr>groups := hm_insert (bot_id, new) g (hm_remove (bot_id, old) (groups db)),
               members := map (\<lambda>(b, n, m). if b = bot_id \<and> n = old then (b, new, m) else (b, n, m))
                            (members db)\<rparr>))"

definition upsert_mls_group_from_reconciliation ::
    "json_codec \<Rightarrow> str \<Rightarrow> str \<Rightarrow> str \<Rightarrow> str \<Rightarrow> str list \<Rightarrow> database \<Rightarrow> unit res \<times> database" where
  "upsert_mls_group_from_reconciliation cd bot_id bot_npub wire_id group_name ms db =
     (case group_by_wire bot_id wire_id db of
        Some ((_, old), g) \<Rightarrow>
          if old \<noteq> group_name then rename_group bot_id old group_name g db else (Inr (), db)
      | None \<Rightarrow>
          (case hm_get (groups db) (bot_id, group_name) of
             Some c \<Rightarrow>
               (Inl (Config (''MLS group '' @ [CHR 0x27] @ group_name @ [CHR 0x27] @ '' has wire id ''
                  @ g_wire_id c @ '', but engine reports '' @ wire_id)), db)
           | None \<Rightarrow>
               insert_mls_group cd
                 \<lparr>mg_bot_id = bot_id, mg_group_name = group_name, mg_wire_id = wire_id,
                  mg_creator_npub = bot_npub, mg_relay = [], mg_invited_bots = ms,
                  mg_state_lost_at = None\<rparr> db))"

definition update_mls_group_invite :: "str \<Rightarrow> str \<Rightarrow> str \<Rightarrow> database \<Rightarrow> bool res \<times> database" where
  "update_mls_group_invite bot_id group_name recipient db =
     (if \<not> hm_contains (groups db) (bot_id, group_name) then (Inr False, db)
      else (Inr True,
            db\<lparr>members := row_insert_ignore (bot_id, group_name, recipient) (members db)\<rparr>))"

definition is_bot_invited :: "str \<Rightarrow> str \<Rightarrow> str \<Rightarrow> database \<Rightarrow> bool" where
  "is_bot_invited bot_id group_name recipient db \<longleftrightarrow>
     (bot_id, group_name, recipient) \<in> set (members db)"

definition delete_mls_group_member :: "str \<Rightarrow> str \<Rightarrow> str \<Rightarrow> database \<Rightarrow> bool res \<times> database" where
  "delete_mls_group_member bot_id group_name recipient db =
     (Inr ((bot_id, group_name, recipient) \<in> set (members db)),
      db\<lparr>members := filter (\<lambda>r. r \<noteq> (bot_id, group_name, recipient)) (members db)\<rparr>)"

definition delete_mls_group_by_wire_id :: "str \<Rightarrow> str \<Rightarrow> database \<Rightarrow> bool res \<times> database" where
  "delete_mls_group_by_wire_id bot_id wire_id db =
     (case group_by_wire bot_id wire_id db of
        None \<Rightarrow> (Inr False, db)
      | Some ((_, name), _) \<Rightarrow>
          (Inr True,
           db\<lparr>members := filter (\<lambda>(b, n, _). \<not> (b = bot_id \<and> n = name)) (members db),
              groups := hm_retain (\<lambda>(b, n) g. \<not> (b = bot_id \<and> g_wire_id g = wire_id)) (groups db)\<rparr>))"

section \<open>Store resets and lost group state\<close>

definition mark_mls_store_reset_start :: "str \<Rightarrow> int \<Rightarrow> database \<Rightarrow> unit res \<times> database" where
  "mark_mls_store_reset_start bot_id t db =
     (Inr (), db\<lparr>resets := hm_insert bot_id
        \<lparr>marked_at = t, reset_at = None, archive_path = None\<rparr> (resets db)\<rparr>)"

definition complete_mls_store_reset ::
    "str \<Rightarrow> int \<Rightarrow> str option \<Rightarrow> database \<Rightarrow> unit res \<times> database" where
  "complete_mls_store_reset bot_id t path db =
     (Inr (), case hm_get (resets db) bot_id of
        None \<Rightarrow> db
      | Some m \<Rightarrow> db\<lparr>resets := hm_insert bot_id (m\<lparr>reset_at := Some t, archive_path := path\<rparr>)
                                 (resets db)\<rparr>)"

definition load_mls_store_reset_marker :: "str \<Rightarrow> database \<Rightarrow> reset_marker option" where
  "load_mls_store_reset_marker bot_id db = hm_get (resets db) bot_id"

definition upsert_mls_store_reset_admin :: "str \<Rightarrow> str \<Rightarrow> str \<Rightarrow> database \<Rightarrow> unit res \<times> database" where
  "upsert_mls_store_reset_admin bot_id wire_id npub db =
     (Inr (), db\<lparr>reset_admins := row_insert_ignore (bot_id, wire_id, npub) (reset_admins db)\<rparr>)"

definition load_mls_store_reset_admins :: "str \<Rightarrow> str \<Rightarrow> database \<Rightarrow> str list" where
  "load_mls_store_reset_admins bot_id wire_id db =
     sort (map (\<lambda>(_, _, a). a)
       (filter (\<lambda>(b, w, _). b = bot_id \<and> w = wire_id) (reset_admins db)))"

definition set_state_lost :: "str \<Rightarrow> str \<Rightarrow> int option \<Rightarrow> database \<Rightarrow> database" where
  "set_state_lost bot_id group_name t db =
     (case hm_get (groups db) (bot_id, group_name) of
        None \<Rightarrow> db
      | Some g \<Rightarrow> db\<lparr>groups := hm_insert (bot_id, group_name) (g\<lparr>g_state_lost_at := t\<rparr>) (groups db)\<rparr>)"

definition mark_mls_group_state_lost :: "str \<Rightarrow> str \<Rightarrow> int \<Rightarrow> database \<Rightarrow> unit res \<times> database" where
  "mark_mls_group_state_lost bot_id group_name t db =
     (Inr (), set_state_lost bot_id group_name (Some t) db)"

definition clear_mls_group_state_lost :: "str \<Rightarrow> str \<Rightarrow> database \<Rightarrow> unit res \<times> database" where
  "clear_mls_group_state_lost bot_id group_name db =
     (Inr (), set_state_lost bot_id group_name None db)"

definition load_mls_group_state_lost_at :: "str \<Rightarrow> str \<Rightarrow> database \<Rightarrow> int option" where
  "load_mls_group_state_lost_at bot_id wire_id db =
     (case group_by_wire bot_id wire_id db of Some (_, g) \<Rightarrow> g_state_lost_at g | None \<Rightarrow> None)"

end
