(* ===== verification/DatabaseSpec.thy ===== *)
theory DatabaseSpec
  imports Database
begin

text \<open>
  What the persistence promises: the invariant of the tables (keys, one row per bot and wire id,
  no member of a group that does not exist), and the abstract squad directory that the
  statements on \<open>mls_groups\<close> and \<open>mls_group_members\<close> implement together.
\<close>

section \<open>The invariant of the tables\<close>

definition wire_unique :: "(str \<times> str, group_rec) hmap \<Rightarrow> bool" where
  "wire_unique gs \<longleftrightarrow>
     (\<forall>b n g n' g'. hm_get gs (b, n) = Some g \<longrightarrow> hm_get gs (b, n') = Some g' \<longrightarrow>
        g_wire_id g = g_wire_id g' \<longrightarrow> n = n')"

definition members_known :: "database \<Rightarrow> bool" where
  "members_known db \<longleftrightarrow> (\<forall>r \<in> set (members db). hm_contains (groups db) (fst r, fst (snd r)))"

definition db_ok :: "database \<Rightarrow> bool" where
  "db_ok db \<longleftrightarrow> hm_wf (cursors db) \<and> hm_wf (handler_rows db) \<and> hm_wf (groups db) \<and>
     hm_wf (resets db) \<and> wire_unique (groups db) \<and> distinct (members db) \<and>
     distinct (reset_admins db) \<and> members_known db"

lemmas db_ok_defs = db_ok_def wire_unique_def members_known_def

lemma db_ok_empty: "db_ok empty_db"
  by (simp add: db_ok_defs empty_db_def)

lemma hm_contains_insert [simp]: "hm_contains (hm_insert k v m) k' \<longleftrightarrow> k' = k \<or> hm_contains m k'"
  by (auto simp: hm_contains_def)

lemma hm_contains_remove [simp]: "hm_contains (hm_remove k m) k' \<longleftrightarrow> k' \<noteq> k \<and> hm_contains m k'"
  by (auto simp: hm_contains_def)

lemma group_by_wire_Some:
  assumes "db_ok db"
  shows "group_by_wire b w db = Some ((b', n), g) \<longleftrightarrow>
    b' = b \<and> hm_get (groups db) (b, n) = Some g \<and> g_wire_id g = w"
proof -
  have wf: "hm_wf (groups db)" and uniq: "wire_unique (groups db)"
    using assms by (simp_all add: db_ok_def)
  have sound: "b' = b \<and> hm_get (groups db) (b, n) = Some g \<and> g_wire_id g = w"
    if "group_by_wire b w db = Some ((b', n), g)" for b' n g
    using that wf by (auto simp: group_by_wire_def find_Some_iff hm_get_iff_in) (metis nth_mem)+
  have complete: "group_by_wire b w db = Some ((b, n), g)"
    if get: "hm_get (groups db) (b, n) = Some g" and w: "g_wire_id g = w"
  proof -
    have "((b, n), g) \<in> set (groups db)" using get by (rule hm_get_Some_in)
    then have "group_by_wire b w db \<noteq> None"
      using w by (auto simp: group_by_wire_def find_None_iff)
    then obtain n' g' where found: "group_by_wire b w db = Some ((b, n'), g')"
      using sound by (metis option.exhaust prod.exhaust)
    with sound [OF found] get w uniq have "n' = n" unfolding wire_unique_def by metis
    with sound [OF found] get found show ?thesis by simp
  qed
  show ?thesis using sound complete by blast
qed

lemma group_by_wire_None:
  assumes "db_ok db"
  shows "group_by_wire b w db = None \<longleftrightarrow> (\<forall>n g. hm_get (groups db) (b, n) = Some g \<longrightarrow> g_wire_id g \<noteq> w)"
  using group_by_wire_Some [OF assms, of b w] by (metis not_None_eq old.prod.exhaust)

lemma insert_group_ok:
  assumes ok: "db_ok db"
  shows "db_ok (snd (insert_group k g db))"
proof (cases "hm_contains (groups db) k \<or> group_by_wire (fst k) (g_wire_id g) db \<noteq> None")
  case True
  with ok show ?thesis by (auto simp: insert_group_def)
next
  case False
  then have "\<forall>n h. hm_get (groups db) (fst k, n) = Some h \<longrightarrow> g_wire_id h \<noteq> g_wire_id g"
    using group_by_wire_None [OF ok] by blast
  with ok False show ?thesis
    by (cases k) (auto simp: insert_group_def db_ok_defs split: if_splits; metis)
qed

lemma insert_group_Inr:
  "insert_group k g db = (Inr u, db') \<longleftrightarrow>
     \<not> hm_contains (groups db) k \<and> group_by_wire (fst k) (g_wire_id g) db = None \<and>
     db' = db\<lparr>groups := hm_insert k g (groups db)\<rparr>"
  by (auto simp: insert_group_def simp del: not_None_eq)

lemma insert_group_Inl: "insert_group k g db = (Inl e, db') \<Longrightarrow> db' = db"
  by (auto simp: insert_group_def split: if_splits)

text \<open>Adding member rows of a group that exists keeps the invariant.\<close>

lemma db_ok_add_members:
  assumes "db_ok db" and "hm_contains (groups db) (b, n)"
    and "distinct ms" and "set ms \<subseteq> set (members db) \<union> Pair b ` Pair n ` UNIV"
  shows "db_ok (db\<lparr>members := ms\<rparr>)"
  using assms by (auto simp: db_ok_def members_known_def)

lemma db_ok_filter_members: "db_ok db \<Longrightarrow> db_ok (db\<lparr>members := filter p (members db)\<rparr>)"
  by (simp add: db_ok_def members_known_def)

lemma insert_mls_group_ok: "db_ok db \<Longrightarrow> db_ok (snd (insert_mls_group cd r db))"
proof -
  assume ok: "db_ok db"
  show ?thesis
  proof (cases "insert_group (mg_bot_id r, mg_group_name r) (row_of cd r) db")
    case (Pair x db1)
    have ok1: "db_ok db1"
      using insert_group_ok [OF ok, of "(mg_bot_id r, mg_group_name r)" "row_of cd r"] Pair by simp
    show ?thesis
    proof (cases x)
      case (Inl e)
      with Pair ok show ?thesis by (simp add: insert_mls_group_def)
    next
      case (Inr u)
      with Pair have "hm_contains (groups db1) (mg_bot_id r, mg_group_name r)"
        by (auto simp: insert_group_Inr)
      with ok1 show ?thesis
        using Pair Inr ok1 [unfolded db_ok_def]
        by (auto simp: insert_mls_group_def fold_row_insert intro!: db_ok_add_members [OF ok1])
    qed
  qed
qed


lemma insert_mls_group_export_ok: "db_ok db \<Longrightarrow> db_ok (snd (insert_mls_group_export cd r db))"
proof -
  assume ok: "db_ok db"
  show ?thesis
  proof (cases "insert_group (mg_bot_id r, mg_group_name r) (row_of cd r) db")
    case (Pair x db1)
    have ok1: "db_ok db1"
      using insert_group_ok [OF ok, of "(mg_bot_id r, mg_group_name r)" "row_of cd r"] Pair by simp
    show ?thesis
    proof (cases x)
      case (Inl e)
      with Pair ok show ?thesis by (simp add: insert_mls_group_export_def)
    next
      case (Inr u)
      with Pair have "hm_contains (groups db1) (mg_bot_id r, mg_group_name r)"
        by (auto simp: insert_group_Inr)
      with ok1 show ?thesis
        using Pair Inr ok1 [unfolded db_ok_def]
        by (auto simp: insert_mls_group_export_def fold_row_insert intro!: db_ok_add_members [OF ok1])
    qed
  qed
qed

definition moved :: "str \<Rightarrow> str \<Rightarrow> str \<Rightarrow> str \<times> str \<times> str \<Rightarrow> str \<times> str \<times> str" where
  "moved bot_id old new = (\<lambda>(b, n, m). if b = bot_id \<and> n = old then (b, new, m) else (b, n, m))"

lemma rename_group_Inr:
  "rename_group b old new g db = (Inr u, db') \<longleftrightarrow>
     \<not> hm_contains (groups db) (b, new) \<and>
     \<not> (\<exists>m. (b, old, m) \<in> set (members db) \<and> (b, new, m) \<in> set (members db)) \<and>
     db' = db\<lparr>groups := hm_insert (b, new) g (hm_remove (b, old) (groups db)),
              members := map (moved b old new) (members db)\<rparr>"
  by (auto simp: rename_group_def moved_def case_prod_beta)

lemma rename_group_fresh:
  assumes "db_ok db" and "\<not> hm_contains (groups db) (b, new)"
  shows "(b, new, m) \<notin> set (members db)"
  using assms by (force simp: db_ok_def members_known_def)

lemma distinct_map_moved:
  assumes "distinct ms" and "\<And>m. (b, new, m) \<notin> set ms"
  shows "distinct (map (moved b old new) ms)"
  using assms by (auto simp: distinct_map inj_on_def moved_def split: if_splits)

lemma rename_group_ok:
  assumes ok: "db_ok db" and g: "hm_get (groups db) (b, old) = Some g"
  shows "db_ok (snd (rename_group b old new g db))"
proof (cases "rename_group b old new g db")
  case (Pair r db')
  show ?thesis
  proof (cases r)
    case (Inl e)
    with Pair ok show ?thesis by (auto simp: rename_group_def split: if_splits)
  next
    case (Inr u)
    with Pair have fresh: "\<not> hm_contains (groups db) (b, new)"
      and db': "db' = db\<lparr>groups := hm_insert (b, new) g (hm_remove (b, old) (groups db)),
              members := map (moved b old new) (members db)\<rparr>"
      by (simp_all add: rename_group_Inr)
    have "wire_unique (hm_insert (b, new) g (hm_remove (b, old) (groups db)))"
      using ok g fresh by (auto simp: db_ok_def wire_unique_def hm_contains_def split: if_splits)
    moreover have "distinct (map (moved b old new) (members db))"
      using ok rename_group_fresh [OF ok fresh] by (intro distinct_map_moved) (auto simp: db_ok_def)
    moreover have "members_known db'"
      using ok db' by (auto simp: db_ok_def members_known_def moved_def split: if_splits)
    ultimately show ?thesis
      using ok db' Pair by (simp add: db_ok_def)
  qed
qed

lemma upsert_reconciliation_ok:
  assumes ok: "db_ok db"
  shows "db_ok (snd (upsert_mls_group_from_reconciliation cd b npub w n ms db))"
proof -
  have "db_ok (snd (rename_group b old n g db))" if "group_by_wire b w db = Some ((b', old), g)" for b' old g
    using that ok by (intro rename_group_ok) (simp_all add: group_by_wire_Some)
  then show ?thesis
    using ok
    by (auto simp: upsert_mls_group_from_reconciliation_def insert_mls_group_ok split: option.splits)
qed

lemma update_invite_ok: "db_ok db \<Longrightarrow> db_ok (snd (update_mls_group_invite b n m db))"
  by (auto simp: update_mls_group_invite_def db_ok_def members_known_def)

lemma delete_member_ok: "db_ok db \<Longrightarrow> db_ok (snd (delete_mls_group_member b n m db))"
  by (simp add: delete_mls_group_member_def db_ok_filter_members)

text \<open>Deleting by wire id removes exactly the group found by it.\<close>

lemma retain_wire:
  assumes ok: "db_ok db" and g: "hm_get (groups db) (b, n) = Some g" and w: "g_wire_id g = w"
  shows "hm_get (hm_retain (\<lambda>(b', n') g'. \<not> (b' = b \<and> g_wire_id g' = w)) (groups db)) k =
    (if k = (b, n) then None else hm_get (groups db) k)"
proof -
  have wf: "hm_wf (groups db)" using ok by (simp add: db_ok_def)
  have only: "n' = n" if "hm_get (groups db) (b, n') = Some g'" "g_wire_id g' = w" for n' g'
    using ok that g w unfolding db_ok_def wire_unique_def by metis
  obtain b' n' where k: "k = (b', n')" by (cases k)
  show ?thesis
  proof (cases "hm_get (groups db) k")
    case None
    then show ?thesis by (simp add: hm_get_retain [OF wf])
  next
    case (Some g')
    then have "b' = b \<and> g_wire_id g' = w \<longleftrightarrow> b' = b \<and> n' = n"
      using only [of n' g'] g w unfolding k by auto
    then show ?thesis using Some unfolding k by (auto simp: hm_get_retain [OF wf])
  qed
qed

lemma delete_by_wire_ok:
  assumes ok: "db_ok db"
  shows "db_ok (snd (delete_mls_group_by_wire_id b w db))"
proof (cases "group_by_wire b w db")
  case None
  with ok show ?thesis by (simp add: delete_mls_group_by_wire_id_def)
next
  case (Some r)
  obtain b' n g where r: "r = ((b', n), g)" by (metis prod.exhaust)
  with Some ok have g: "hm_get (groups db) (b, n) = Some g" "g_wire_id g = w"
    by (simp_all add: group_by_wire_Some)
  note gone = retain_wire [OF ok g]
  have "wire_unique (hm_retain (\<lambda>(b', n') g'. \<not> (b' = b \<and> g_wire_id g' = w)) (groups db))"
    using ok unfolding wire_unique_def gone db_ok_def by auto
  with ok gone show ?thesis
    by (auto simp: delete_mls_group_by_wire_id_def Some r db_ok_def members_known_def hm_contains_def)
qed

lemma set_state_lost_ok: "db_ok db \<Longrightarrow> db_ok (set_state_lost b n t db)"
  by (auto simp: set_state_lost_def db_ok_def wire_unique_def members_known_def split: option.splits if_splits)

lemma small_ops_ok:
  assumes "db_ok db"
  shows "db_ok (snd (save_cursor t b npub c db))" "db_ok (snd (reset_cursor b db))"
    "db_ok (snd (save_handler cd h db))" "db_ok (snd (delete_handler hid db))"
    "db_ok (snd (save_event_trace t b e a p act r db))"
    "db_ok (snd (mark_mls_store_reset_start b t db))"
    "db_ok (snd (complete_mls_store_reset b t path db))"
    "db_ok (snd (upsert_mls_store_reset_admin b w npub db))"
    "db_ok (snd (mark_mls_group_state_lost b n t db))"
    "db_ok (snd (clear_mls_group_state_lost b n db))"
  using assms set_state_lost_ok [OF assms]
  by (auto simp: save_cursor_def reset_cursor_def save_handler_def delete_handler_def
      save_event_trace_def mark_mls_store_reset_start_def complete_mls_store_reset_def
      upsert_mls_store_reset_admin_def mark_mls_group_state_lost_def clear_mls_group_state_lost_def
      db_ok_def members_known_def split: option.splits)


section \<open>The squad directory\<close>

text \<open>
  The contract of the two tables: a finite map from (bot, squad name) to the squad's wire id,
  creator, relay, set of invited members and lost-state mark.
\<close>

record squad =
  sq_wire :: str
  sq_creator :: str
  sq_relay :: str
  sq_members :: "str set"
  sq_lost :: "int option"

type_synonym directory = "str \<times> str \<Rightarrow> squad option"

definition squads :: "database \<Rightarrow> directory" where
  "squads db k =
     map_option (\<lambda>g. \<lparr>sq_wire = g_wire_id g, sq_creator = g_creator_npub g, sq_relay = g_relay g,
                      sq_members = {m. (fst k, snd k, m) \<in> set (members db)},
                      sq_lost = g_state_lost_at g\<rparr>) (hm_get (groups db) k)"

definition spec_insert :: "mls_group_row \<Rightarrow> directory \<Rightarrow> directory" where
  "spec_insert r d = d((mg_bot_id r, mg_group_name r) \<mapsto>
     \<lparr>sq_wire = mg_wire_id r, sq_creator = mg_creator_npub r, sq_relay = mg_relay r,
      sq_members = set (mg_invited_bots r), sq_lost = mg_state_lost_at r\<rparr>)"

definition spec_invite :: "str \<Rightarrow> str \<Rightarrow> str \<Rightarrow> directory \<Rightarrow> directory" where
  "spec_invite b n m d =
     d((b, n) := map_option (\<lambda>s. s\<lparr>sq_members := insert m (sq_members s)\<rparr>) (d (b, n)))"

definition spec_uninvite :: "str \<Rightarrow> str \<Rightarrow> str \<Rightarrow> directory \<Rightarrow> directory" where
  "spec_uninvite b n m d =
     d((b, n) := map_option (\<lambda>s. s\<lparr>sq_members := sq_members s - {m}\<rparr>) (d (b, n)))"

definition spec_rename :: "str \<Rightarrow> str \<Rightarrow> str \<Rightarrow> directory \<Rightarrow> directory" where
  "spec_rename b old new d = d((b, old) := None, (b, new) := d (b, old))"

definition spec_drop :: "str \<Rightarrow> str \<Rightarrow> directory \<Rightarrow> directory" where
  "spec_drop b n d = d((b, n) := None)"

definition spec_lost :: "str \<Rightarrow> str \<Rightarrow> int option \<Rightarrow> directory \<Rightarrow> directory" where
  "spec_lost b n t d = d((b, n) := map_option (\<lambda>s. s\<lparr>sq_lost := t\<rparr>) (d (b, n)))"

lemma squads_None: "squads db k = None \<longleftrightarrow> \<not> hm_contains (groups db) k"
  by (simp add: squads_def hm_contains_def)

lemma no_members:
  "db_ok db \<Longrightarrow> \<not> hm_contains (groups db) (b, n) \<Longrightarrow> (b, n, m) \<notin> set (members db)"
  by (rule rename_group_fresh)

lemma squads_insert_group:
  assumes ok: "db_ok db" and fresh: "\<not> hm_contains (groups db) (mg_bot_id r, mg_group_name r)"
    and ms: "set ms = set (members db) \<union> (\<lambda>m. (mg_bot_id r, mg_group_name r, m)) ` set (mg_invited_bots r)"
  shows "squads (db\<lparr>groups := hm_insert (mg_bot_id r, mg_group_name r) (row_of cd r) (groups db),
                 members := ms\<rparr>) = spec_insert r (squads db)"
proof (rule ext, goal_cases)
  case (1 k)
  show ?case
    using no_members [OF ok fresh]
    by (cases k) (auto simp: squads_def spec_insert_def row_of_def ms image_iff
        intro!: option.map_cong)
qed

lemma insert_mls_group_Inr:
  assumes ok: "db_ok db" and ins: "insert_mls_group cd r db = (Inr u, db')"
  shows "squads db (mg_bot_id r, mg_group_name r) = None"
    and "\<And>n s. squads db (mg_bot_id r, n) = Some s \<Longrightarrow> sq_wire s \<noteq> mg_wire_id r"
    and "squads db' = spec_insert r (squads db)"
proof -
  obtain db1 where one: "insert_group (mg_bot_id r, mg_group_name r) (row_of cd r) db = (Inr (), db1)"
    and db': "db' = db1\<lparr>members :=
             fold (\<lambda>m. row_insert_ignore (mg_bot_id r, mg_group_name r, m)) (mg_invited_bots r)
               (members db1)\<rparr>"
    using ins by (auto simp: insert_mls_group_def split: prod.splits sum.splits)
  then have fresh: "\<not> hm_contains (groups db) (mg_bot_id r, mg_group_name r)"
    and wire: "group_by_wire (mg_bot_id r) (mg_wire_id r) db = None"
    and db1: "db1 = db\<lparr>groups := hm_insert (mg_bot_id r, mg_group_name r) (row_of cd r) (groups db)\<rparr>"
    by (simp_all add: insert_group_Inr row_of_def)
  show "squads db (mg_bot_id r, mg_group_name r) = None"
    using fresh by (simp add: squads_None)
  show "sq_wire s \<noteq> mg_wire_id r" if "squads db (mg_bot_id r, n) = Some s" for n s
    using that wire group_by_wire_None [OF ok] by (auto simp: squads_def)
  show "squads db' = spec_insert r (squads db)"
    using squads_insert_group [OF ok fresh] by (simp add: db' db1 fold_row_insert)
qed

lemma update_invite_squads:
  "squads (snd (update_mls_group_invite b n m db)) = spec_invite b n m (squads db)"
  by (rule ext)
    (auto simp: update_mls_group_invite_def squads_def spec_invite_def hm_contains_def
      option.map_comp intro!: option.map_cong)

lemma delete_member_squads:
  "squads (snd (delete_mls_group_member b n m db)) = spec_uninvite b n m (squads db)"
  by (rule ext)
    (auto simp: delete_mls_group_member_def squads_def spec_uninvite_def option.map_comp
      intro!: option.map_cong)

lemma moved_iff:
  assumes "\<And>m. (b, new, m) \<notin> set ms" and "old \<noteq> new"
  shows "(b', n, m) \<in> moved b old new ` set ms \<longleftrightarrow>
    (if b' = b \<and> n = new then (b, old, m) \<in> set ms
     else (b', n, m) \<in> set ms \<and> \<not> (b' = b \<and> n = old))"
proof -
  have "(b, old, m) \<in> set ms \<Longrightarrow> (b, new, m) \<in> moved b old new ` set ms"
    by (force simp: moved_def)
  moreover have "(b', n, m) \<in> set ms \<Longrightarrow> \<not> (b' = b \<and> n = old) \<Longrightarrow>
      (b', n, m) \<in> moved b old new ` set ms"
    by (force simp: moved_def)
  ultimately show ?thesis
    using assms by (auto simp: moved_def split: if_splits)
qed

lemma rename_squads:
  assumes ok: "db_ok db" and g: "hm_get (groups db) (b, old) = Some g"
    and ren: "rename_group b old new g db = (Inr u, db')"
  shows "squads db' = spec_rename b old new (squads db)"
proof (rule ext, goal_cases)
  case (1 k)
  have fresh: "\<not> hm_contains (groups db) (b, new)" and ne: "old \<noteq> new"
    and db': "db' = db\<lparr>groups := hm_insert (b, new) g (hm_remove (b, old) (groups db)),
              members := map (moved b old new) (members db)\<rparr>"
    using ren g by (auto simp: rename_group_Inr hm_contains_def)
  note mv = moved_iff [OF rename_group_fresh [OF ok fresh] ne]
  show ?case
    using g ne by (cases k) (auto simp: squads_def spec_rename_def db' mv intro!: option.map_cong)
qed

lemma delete_by_wire_squads:
  assumes ok: "db_ok db"
  shows "squads (snd (delete_mls_group_by_wire_id b w db)) =
    (case group_by_wire b w db of Some ((_, n), _) \<Rightarrow> spec_drop b n (squads db) | None \<Rightarrow> squads db)"
proof (cases "group_by_wire b w db")
  case None
  then show ?thesis by (simp add: delete_mls_group_by_wire_id_def)
next
  case (Some r)
  obtain b' n g where r: "r = ((b', n), g)" by (metis prod.exhaust)
  with Some ok have g: "hm_get (groups db) (b, n) = Some g" "g_wire_id g = w"
    by (simp_all add: group_by_wire_Some)
  show ?thesis
    by (rule ext)
      (auto simp: delete_mls_group_by_wire_id_def Some r squads_def spec_drop_def
        retain_wire [OF ok g, simplified] intro!: option.map_cong)
qed

lemma set_state_lost_squads: "squads (set_state_lost b n t db) = spec_lost b n t (squads db)"
  by (rule ext)
    (auto simp: set_state_lost_def squads_def spec_lost_def option.map_comp
      split: option.splits intro!: option.map_cong)


text \<open>A reconciliation finds the squad by its wire id first, then by its name.\<close>

lemma reconcile_cases:
  assumes ok: "db_ok db"
    and up: "upsert_mls_group_from_reconciliation cd b npub w n ms db = (Inr u, db')"
  shows "(\<exists>old s. squads db (b, old) = Some s \<and> sq_wire s = w \<and>
            (old \<noteq> n \<longrightarrow> squads db (b, n) = None) \<and> squads db' = (if old = n then squads db else spec_rename b old n (squads db))) \<or>
         (squads db (b, n) = None \<and> squads db' = (squads db)((b, n) \<mapsto>
            \<lparr>sq_wire = w, sq_creator = npub, sq_relay = [], sq_members = set ms, sq_lost = None\<rparr>))"
proof (cases "group_by_wire b w db")
  case None
  then have ins: "insert_mls_group cd
                 \<lparr>mg_bot_id = b, mg_group_name = n, mg_wire_id = w, mg_creator_npub = npub,
                  mg_relay = [], mg_invited_bots = ms, mg_state_lost_at = None\<rparr> db = (Inr u, db')"
    using up by (simp add: upsert_mls_group_from_reconciliation_def split: option.splits)
  from insert_mls_group_Inr [OF ok ins] show ?thesis by (simp add: spec_insert_def)
next
  case (Some r)
  obtain b' old g where r: "r = ((b', old), g)" by (metis prod.exhaust)
  with Some ok have g: "hm_get (groups db) (b, old) = Some g" "g_wire_id g = w"
    by (simp_all add: group_by_wire_Some)
  then have sq: "\<exists>s. squads db (b, old) = Some s \<and> sq_wire s = w" by (simp add: squads_def)
  show ?thesis
  proof (cases "old = n")
    case True
    with up Some r have "db' = db" by (simp add: upsert_mls_group_from_reconciliation_def)
    with sq True show ?thesis by auto
  next
    case False
    with up Some r have "rename_group b old n g db = (Inr u, db')"
      by (simp add: upsert_mls_group_from_reconciliation_def)
    moreover from this have "squads db (b, n) = None"
      by (simp add: rename_group_Inr squads_None)
    ultimately show ?thesis using rename_squads [OF ok g(1)] sq False by auto
  qed
qed

section \<open>Round trips\<close>

lemma load_save_cursor:
  "is_i64 c \<Longrightarrow> load_cursor pe b (snd (save_cursor t b npub c db)) = Inr (Some (npub, c))"
  by (simp add: load_cursor_def save_cursor_def parse_i64_show_int)

lemma load_save_cursor_other:
  "b' \<noteq> b \<Longrightarrow> load_cursor pe b' (snd (save_cursor t b npub c db)) = load_cursor pe b' db"
  by (simp add: load_cursor_def save_cursor_def)

text \<open>The laws of the JSON text codec and of the calendar the persistence relies on.\<close>

definition codec_ok :: "json_codec \<Rightarrow> bool" where
  "codec_ok cd \<longleftrightarrow>
     (\<forall>xs. dec_strings cd (enc_strings cd xs) = Inr xs) \<and>
     (\<forall>es. dec_events cd (enc_events cd es) = Inr es)"

definition secs_ok :: "json_codec \<Rightarrow> int \<Rightarrow> bool" where
  "secs_ok cd t \<longleftrightarrow> from_timestamp cd (timestamp_secs t) = Some (timestamp_secs t * 1000000000)"

text \<open>A handler as it is after a restart: no connection, and times cut to whole seconds.\<close>

definition persisted :: "handler_ref \<Rightarrow> handler_ref" where
  "persisted h = h\<lparr>connection := None, registered_at := timestamp_secs (registered_at h) * 1000000000,
                  last_seen := timestamp_secs (registered_at h) * 1000000000,
                  h_transport := ''unknown''\<rparr>"

lemma load_handler_saved:
  assumes "codec_ok cd" and "secs_ok cd (registered_at h)"
    and "hm_get (handler_rows (snd (save_handler cd h db))) (h_id h) = Some r"
  shows "load_handler cd now (h_id h, r) = Inr (persisted h)"
  using assms
  by (auto simp: save_handler_def load_handler_def codec_ok_def secs_ok_def json_res_def persisted_def Let_def)

text \<open>
  The two readers of a group agree unless a member name contains the separator of
  \<open>GROUP_CONCAT\<close>; the names are bech32, which has none.
\<close>

lemma split_concat_members:
  assumes "\<And>m. (b, n, m) \<in> set (members db) \<Longrightarrow> CHR '','' \<notin> set m"
  shows "(case concat_members b n db of None \<Rightarrow> [] | Some t \<Rightarrow> split_on (CHR '','') t) =
    group_members b n db"
proof (cases "group_members b n db")
  case Nil
  then show ?thesis by (simp add: concat_members_def)
next
  case (Cons x xs)
  have "CHR '','' \<notin> set m" if "m \<in> set (x # xs)" for m
    using that assms unfolding Cons [symmetric] by (auto simp: group_members_def)
  then show ?thesis
    using split_on_join [of "x # xs" "CHR '',''"] by (simp add: concat_members_def Cons)
qed

lemma load_all_agrees:
  assumes "db_ok db" and "\<And>n m. (b, n, m) \<in> set (members db) \<Longrightarrow> CHR '','' \<notin> set m"
  shows "r \<in> set (load_all_mls_groups b db) \<longleftrightarrow>
    (\<exists>n. load_mls_group b n db = Some r)"
  using assms
  by (auto simp: load_all_mls_groups_def load_mls_group_def split_concat_members db_ok_def
      hm_get_iff_in image_iff)

lemma load_mls_group_squad:
  "load_mls_group b n db = Some r \<Longrightarrow>
     squads db (b, n) = Some \<lparr>sq_wire = mg_wire_id r, sq_creator = mg_creator_npub r,
       sq_relay = mg_relay r, sq_members = set (mg_invited_bots r), sq_lost = mg_state_lost_at r\<rparr>"
  by (force simp: load_mls_group_def squads_def mk_group_row_def group_members_def image_iff)

lemma is_bot_invited_squad:
  "db_ok db \<Longrightarrow> is_bot_invited b n m db \<longleftrightarrow> (\<exists>s. squads db (b, n) = Some s \<and> m \<in> sq_members s)"
  by (auto simp: is_bot_invited_def squads_def db_ok_def members_known_def hm_contains_def)

text \<open>The newest rows of the trace come first.\<close>

lemma load_event_trace_sorted:
  "sorted (map (\<lambda>r. - tr_created_at r) (load_event_trace b since limit db))"
  by (simp add: load_event_trace_def sql_limit_def sorted_wrt_take flip: take_map)

lemma load_event_trace_sound:
  "r \<in> set (load_event_trace b since limit db) \<Longrightarrow>
     r \<in> set (trace db) \<and> tr_bot_id r = b \<and> timestamp_secs since \<le> tr_created_at r"
  by (auto simp: load_event_trace_def sql_limit_def dest!: in_set_takeD split: if_splits)


section \<open>A codec that satisfies the laws\<close>

text \<open>
  A text for a list of strings: every character is marked, a different mark ends a string. It
  shows that the laws of the codec can hold.
\<close>

definition plain_enc :: "str list \<Rightarrow> str" where
  "plain_enc xs = concat (map (\<lambda>s. concat (map (\<lambda>c. [CHR ''+'', c]) s) @ [CHR '','']) xs)"

fun plain_dec_from :: "str \<Rightarrow> str \<Rightarrow> str + str list" where
  "plain_dec_from acc [] = Inr []"
| "plain_dec_from acc [x] = (if x = CHR '','' then Inr [acc] else Inl ''truncated'')"
| "plain_dec_from acc (x # c # cs) =
     (if x = CHR '','' then (case plain_dec_from [] (c # cs) of Inl e \<Rightarrow> Inl e | Inr xs \<Rightarrow> Inr (acc # xs))
      else plain_dec_from (acc @ [c]) cs)"

lemma plain_dec_enc_from:
  "plain_dec_from acc (concat (map (\<lambda>c. [CHR ''+'', c]) s) @ CHR '','' # plain_enc xs) =
     (case plain_dec_from [] (plain_enc xs) of Inl e \<Rightarrow> Inl e | Inr ys \<Rightarrow> Inr ((acc @ s) # ys))"
proof (induction s arbitrary: acc)
  case Nil
  then show ?case by (cases "plain_enc xs") (simp_all split: sum.splits)
next
  case (Cons c s)
  then show ?case by (simp del: append_assoc) (simp split: sum.splits)
qed

lemma plain_dec_enc [simp]: "plain_dec_from [] (plain_enc xs) = Inr xs"
proof (induction xs)
  case Nil
  then show ?case by (simp add: plain_enc_def)
next
  case (Cons s xs)
  then show ?case
    using plain_dec_enc_from [of "[]" s xs] by (simp add: plain_enc_def)
qed

definition plain_dec_events :: "str \<Rightarrow> str + event_type list" where
  "plain_dec_events t =
     (case plain_dec_from [] t of
        Inl e \<Rightarrow> Inl e
      | Inr xs \<Rightarrow> map_res (\<lambda>s. ok_or ''unknown variant'' (parse_event_type_opt s)) xs)"

definition plain_codec :: json_codec where
  "plain_codec = \<lparr>enc_strings = plain_enc, dec_strings = plain_dec_from [],
     enc_events = \<lambda>es. plain_enc (map as_wire_name es), dec_events = plain_dec_events,
     from_timestamp = \<lambda>s. Some (s * 1000000000)\<rparr>"

lemma codec_ok_plain: "codec_ok plain_codec"
proof -
  have "map_res (\<lambda>s. ok_or ''unknown variant'' (parse_event_type_opt s)) (map as_wire_name es) = Inr es"
    for es by (induction es) auto
  then show ?thesis by (simp add: codec_ok_def plain_codec_def plain_dec_events_def)
qed

end
