(* ===== verification/Actions.thy ===== *)
theory Actions
  imports Errors
begin

text \<open>
  Stateful, fallible operations as functions from the state to a result and the new state (an
  \<open>async fn ... -> Result<T, DaemonError>\<close> on shared state), with the rules that carry an
  invariant through them. An early return by \<open>?\<close> keeps the changes made before it.
\<close>

named_theorems act_defs \<open>unfolding the combinators of actions\<close>

type_synonym ('s, 'a) act = "'s \<Rightarrow> 'a res \<times> 's"

definition ret :: "'a \<Rightarrow> ('s, 'a) act" where
  "ret a s = (Inr a, s)"

definition fail :: "daemon_error \<Rightarrow> ('s, 'a) act" where
  "fail e s = (Inl e, s)"

definition andthen :: "('s, 'a) act \<Rightarrow> ('a \<Rightarrow> ('s, 'b) act) \<Rightarrow> ('s, 'b) act" where
  "andthen m k s = (case m s of (Inl e, s1) \<Rightarrow> (Inl e, s1) | (Inr a, s1) \<Rightarrow> k a s1)"

definition of_res :: "'a res \<Rightarrow> ('s, 'a) act" where
  "of_res r s = (r, s)"

definition gets :: "('s \<Rightarrow> 'a) \<Rightarrow> ('s, 'a) act" where
  "gets f s = (Inr (f s), s)"

definition modify :: "('s \<Rightarrow> 's) \<Rightarrow> ('s, unit) act" where
  "modify f s = (Inr (), f s)"

text \<open>The caller looks at the result instead of returning early (\<open>match ... { Ok, Err }\<close>).\<close>

definition attempt :: "('s, 'a) act \<Rightarrow> ('s, 'a res) act" where
  "attempt m s = (case m s of (r, s1) \<Rightarrow> (Inr r, s1))"

text \<open>A loop over a list that stops at the first error.\<close>

fun for_each :: "('a \<Rightarrow> ('s, unit) act) \<Rightarrow> 'a list \<Rightarrow> ('s, unit) act" where
  "for_each f [] = ret ()"
| "for_each f (x # xs) = andthen (f x) (\<lambda>_. for_each f xs)"

text \<open>The same with a result per element.\<close>

fun map_act :: "('a \<Rightarrow> ('s, 'b) act) \<Rightarrow> 'a list \<Rightarrow> ('s, 'b list) act" where
  "map_act f [] = ret []"
| "map_act f (x # xs) = andthen (f x) (\<lambda>y. andthen (map_act f xs) (\<lambda>ys. ret (y # ys)))"

lemma andthen_simps [simp]:
  "andthen (ret a) k = k a"
  "andthen (fail e) k = fail e"
  "andthen (of_res r) k = (case r of Inl e \<Rightarrow> fail e | Inr a \<Rightarrow> k a)"
  by (auto simp: fun_eq_iff andthen_def ret_def fail_def of_res_def split: sum.splits)

lemma andthen_assoc: "andthen (andthen m k) l = andthen m (\<lambda>a. andthen (k a) l)"
  by (auto simp: fun_eq_iff andthen_def split: prod.splits sum.splits)

lemma act_apply [simp, act_defs]:
  "ret a s = (Inr a, s)"
  "fail e s = (Inl e, s)"
  "of_res r s = (r, s)"
  "gets f s = (Inr (f s), s)"
  "modify g s = (Inr (), g s)"
  "attempt m s = (Inr (fst (m s)), snd (m s))"
  by (simp_all add: ret_def fail_def of_res_def gets_def modify_def attempt_def case_prod_beta)

lemma andthen_apply_Inr: "m s = (Inr a, s1) \<Longrightarrow> andthen m k s = k a s1"
  by (simp add: andthen_def)

lemma andthen_apply_Inl: "m s = (Inl e, s1) \<Longrightarrow> andthen m k s = (Inl e, s1)"
  by (simp add: andthen_def)

lemma andthen_gets [simp]: "andthen (gets f) k s = k (f s) s"
  by (simp add: andthen_def)

lemma andthen_modify [simp]: "andthen (modify f) k s = k () (f s)"
  by (simp add: andthen_def)

lemma andthen_attempt [simp]: "andthen (attempt m) k s = k (fst (m s)) (snd (m s))"
  by (simp add: andthen_def)

lemma andthen_Inr_E:
  assumes "andthen m k s = (Inr b, s')"
  obtains a s1 where "m s = (Inr a, s1)" and "k a s1 = (Inr b, s')"
  using assms by (auto simp: andthen_def split: prod.splits sum.splits)

section \<open>Carrying a relation through actions\<close>

text \<open>
  \<open>R\<close> relates the state before an operation to the state after it: an invariant
  (\<open>I s \<longrightarrow> I s'\<close>), a frame (\<open>f s' = f s\<close>) or a guarded effect. Reflexive and transitive
  relations pass through every combinator.
\<close>

locale action_rel =
  fixes R :: "'s \<Rightarrow> 's \<Rightarrow> bool"
  assumes R_refl: "R s s"
    and R_trans: "R s t \<Longrightarrow> R t u \<Longrightarrow> R s u"
begin

definition obeys :: "('s, 'a) act \<Rightarrow> bool" where
  "obeys m \<longleftrightarrow> (\<forall>s. R s (snd (m s)))"

lemma obeysD: "obeys m \<Longrightarrow> R s (snd (m s))"
  by (simp add: obeys_def)

lemma obeysI: "(\<And>s. R s (snd (m s))) \<Longrightarrow> obeys m"
  by (simp add: obeys_def)

lemma obeys_pure:
  "obeys (ret a)" "obeys (fail e)" "obeys (of_res r)" "obeys (gets f)"
  by (simp_all add: obeys_def R_refl)

lemma obeys_modify: "(\<And>s. R s (f s)) \<Longrightarrow> obeys (modify f)"
  by (simp add: obeys_def)

lemma obeys_andthen:
  assumes "obeys m" and "\<And>a. obeys (k a)"
  shows "obeys (andthen m k)"
proof (rule obeysI)
  fix s
  show "R s (snd (andthen m k s))"
    using obeysD [OF assms(1), of s] obeysD [OF assms(2)]
    by (auto simp: andthen_def split: prod.splits sum.splits intro: R_trans)
qed

lemma obeys_attempt: "obeys m \<Longrightarrow> obeys (attempt m)"
  by (simp add: obeys_def)

lemma obeys_for_each: "(\<And>x. obeys (f x)) \<Longrightarrow> obeys (for_each f xs)"
  by (induction xs) (simp_all add: obeys_pure obeys_andthen)

lemma obeys_for_each_in: "(\<And>x. x \<in> set xs \<Longrightarrow> obeys (f x)) \<Longrightarrow> obeys (for_each f xs)"
  by (induction xs) (simp_all add: obeys_pure obeys_andthen)

lemma obeys_map_act: "(\<And>x. obeys (f x)) \<Longrightarrow> obeys (map_act f xs)"
  by (induction xs) (simp_all add: obeys_pure obeys_andthen)

lemma obeys_if: "(c \<Longrightarrow> obeys m) \<Longrightarrow> (\<not> c \<Longrightarrow> obeys n) \<Longrightarrow> obeys (if c then m else n)"
  by simp

lemma obeys_option:
  "obeys m \<Longrightarrow> (\<And>a. obeys (k a)) \<Longrightarrow> obeys (case x of None \<Rightarrow> m | Some a \<Rightarrow> k a)"
  by (cases x) simp_all

lemma obeys_sum:
  "(\<And>e. obeys (h e)) \<Longrightarrow> (\<And>a. obeys (k a)) \<Longrightarrow>
   obeys (case r of Inl e \<Rightarrow> h e | Inr a \<Rightarrow> k a)"
  by (cases r) simp_all

lemma obeys_prod: "(\<And>a b. obeys (k a b)) \<Longrightarrow> obeys (case p of (a, b) \<Rightarrow> k a b)"
  by (cases p) simp

lemmas obeys_intros =
  obeys_pure obeys_andthen obeys_attempt obeys_for_each obeys_map_act obeys_if obeys_option
  obeys_sum obeys_prod

end

end
