(* ===== verification/BotState.thy ===== *)
theory BotState
  imports DatabaseSpec Actions
begin

text \<open>
  The configured bots at run time (\<open>src/bot_state.rs\<close>, \<open>src/client_manager.rs\<close>): lookups,
  construction of the table of bots, reconciliation of a bot's groups with its MLS engine, and the
  relay subscriptions. Building a signer and an engine, and the subscription calls, are arguments.
\<close>

section \<open>One bot\<close>

record bot_state =
  bs_config :: bot_config
  bs_public_key :: str
  bs_bunker :: bool
  bs_mls :: bool
  mls_unavailable_reason :: "str option"
  subscriptions :: "str list"
  bs_reset_at :: "int option"

text \<open>The signer a configuration gives: its public key, and whether it is a bunker.\<close>

type_synonym signer_factory = "signing_config \<Rightarrow> str \<Rightarrow> (str \<times> bool) res"

definition bot_state_new :: "signer_factory \<Rightarrow> bot_config \<Rightarrow> bot_state res" where
  "bot_state_new sf cfg =
     rbind (sf (bc_signing cfg) (bc_npub cfg)) (\<lambda>(pk, bunker).
       Inr \<lparr>bs_config = cfg, bs_public_key = pk, bs_bunker = bunker, bs_mls = False,
            mls_unavailable_reason = None, subscriptions = [], bs_reset_at = None\<rparr>)"

text \<open>
  \<open>new_with_mls\<close>: \<open>secure_parent\<close> sets the mode of the store's parent directory, \<open>open_engine\<close>
  opens the engine.
\<close>

definition bot_state_new_with_mls ::
    "signer_factory \<Rightarrow> (str \<Rightarrow> unit res) \<Rightarrow> (str \<Rightarrow> unit res) \<Rightarrow> bot_config \<Rightarrow> str \<Rightarrow> bot_state res" where
  "bot_state_new_with_mls sf secure_parent open_engine cfg path =
     rbind (sf (bc_signing cfg) (bc_npub cfg)) (\<lambda>(pk, bunker).
     rbind (secure_parent path) (\<lambda>_.
     rbind (open_engine path) (\<lambda>_.
       Inr \<lparr>bs_config = cfg, bs_public_key = pk, bs_bunker = bunker, bs_mls = True,
            mls_unavailable_reason = None, subscriptions = [], bs_reset_at = None\<rparr>)))"

definition bot_state_new_mls_engine_unavailable ::
    "signer_factory \<Rightarrow> bot_config \<Rightarrow> str \<Rightarrow> bot_state res" where
  "bot_state_new_mls_engine_unavailable sf cfg why =
     rbind (bot_state_new sf cfg) (\<lambda>b. Inr (b\<lparr>mls_unavailable_reason := Some why\<rparr>))"

definition with_reset_at :: "int option \<Rightarrow> bot_state \<Rightarrow> bot_state" where
  "with_reset_at t b = b\<lparr>bs_reset_at := t\<rparr>"

definition bs_npub :: "bot_state \<Rightarrow> str" where "bs_npub b = bc_npub (bs_config b)"
definition bs_bot_id :: "bot_state \<Rightarrow> str" where "bs_bot_id b = bc_id (bs_config b)"

definition add_subscription :: "str \<Rightarrow> bot_state \<Rightarrow> bot_state" where
  "add_subscription sid b = b\<lparr>subscriptions := subscriptions b @ [sid]\<rparr>"

definition clear_subscriptions :: "bot_state \<Rightarrow> str list \<times> bot_state" where
  "clear_subscriptions b = (subscriptions b, b\<lparr>subscriptions := []\<rparr>)"

definition mls_engine_unavailable :: "bot_state \<Rightarrow> bool" where
  "mls_engine_unavailable b \<longleftrightarrow> mls_unavailable_reason b \<noteq> None"

definition mls_unavailable_error :: "bot_state \<Rightarrow> daemon_error" where
  "mls_unavailable_error b =
     (if mls_unavailable_reason b \<noteq> None then MlsEngineUnavailable else MlsEngineNotConfigured)"

record bot_health =
  bh_bot_id :: str
  bh_npub :: str
  bh_relay_count :: u64
  bh_relays :: "str list"
  bh_bunker_connected :: bool
  bh_signer_backend :: str
  bh_error :: "str option"
  bh_reset_at :: "int option"

definition to_bot_health :: "bot_state \<Rightarrow> bot_health" where
  "to_bot_health b =
     \<lparr>bh_bot_id = bs_bot_id b, bh_npub = bs_npub b,
      bh_relay_count = word_of_nat (length (bc_relays (bs_config b))),
      bh_relays = bc_relays (bs_config b), bh_bunker_connected = bs_bunker b,
      bh_signer_backend = backend_label (bc_signing (bs_config b)),
      bh_error = mls_unavailable_reason b, bh_reset_at = bs_reset_at b\<rparr>"

section \<open>The table of bots\<close>

record bot_table =
  bots :: "(str, bot_state) hmap"
  bot_id_to_pubkey :: "(str, str) hmap"

definition get_bot_by_id :: "bot_table \<Rightarrow> str \<Rightarrow> bot_state option" where
  "get_bot_by_id bt bot_id = Option.bind (hm_get (bot_id_to_pubkey bt) bot_id) (hm_get (bots bt))"

definition bot_configs :: "bot_table \<Rightarrow> bot_config list" where
  "bot_configs bt = map bs_config (hm_values (bots bt))"

definition npub_to_bot_id_map :: "bot_table \<Rightarrow> (str, str) hmap" where
  "npub_to_bot_id_map bt =
     fold (\<lambda>b. hm_insert (bs_npub b) (bs_bot_id b)) (hm_values (bots bt)) []"

definition bot_health_snapshots :: "bot_table \<Rightarrow> bot_health list" where
  "bot_health_snapshots bt = sort_key bh_bot_id (map to_bot_health (hm_values (bots bt)))"

text \<open>
  The loop of \<open>ClientManager::new\<close>. \<open>build\<close> constructs the bot (with or without an engine),
  \<open>verify\<close> asks a bunker for its key, and \<open>last_reset\<close> is the best-effort lookup of the reset time.
\<close>

fun build_bots ::
    "(bot_config \<Rightarrow> bot_state res) \<Rightarrow> (bot_state \<Rightarrow> unit res) \<Rightarrow> (str \<Rightarrow> int option) \<Rightarrow>
     bot_config list \<Rightarrow> bot_table \<Rightarrow> bot_table res" where
  "build_bots build verify last_reset [] bt = Inr bt"
| "build_bots build verify last_reset (c # cs) bt =
     rbind (validate_bot_id (bc_id c)) (\<lambda>_.
       if hm_contains (bot_id_to_pubkey bt) (bc_id c)
       then Inl (Config (''duplicate bot_id: '' @ bc_id c))
       else rbind (build c) (\<lambda>b.
            rbind (verify b) (\<lambda>_.
              build_bots build verify last_reset cs
                \<lparr>bots = hm_insert (bs_public_key b) (with_reset_at (last_reset (bc_id c)) b) (bots bt),
                 bot_id_to_pubkey = hm_insert (bc_id c) (bs_public_key b) (bot_id_to_pubkey bt)\<rparr>)))"

definition client_manager_new ::
    "(bot_config \<Rightarrow> bot_state res) \<Rightarrow> (bot_state \<Rightarrow> unit res) \<Rightarrow> (str \<Rightarrow> int option) \<Rightarrow>
     bot_config list \<Rightarrow> bot_table res" where
  "client_manager_new build verify last_reset cfgs =
     build_bots build verify last_reset cfgs \<lparr>bots = [], bot_id_to_pubkey = []\<rparr>"

text \<open>The choice of \<open>build\<close>: a bot with a store path whose engine fails is kept without it.\<close>

definition build_bot ::
    "signer_factory \<Rightarrow> (bot_config \<Rightarrow> str + bot_state) \<Rightarrow> bot_config \<Rightarrow> bot_state res" where
  "build_bot sf construct_mls c =
     (case mls_db_path c of
        None \<Rightarrow> bot_state_new sf c
      | Some _ \<Rightarrow> (case construct_mls c of
           Inr b \<Rightarrow> Inr b
         | Inl why \<Rightarrow> bot_state_new_mls_engine_unavailable sf c why))"

lemma mls_unavailable_error_iff:
  "mls_unavailable_error b = MlsEngineUnavailable \<longleftrightarrow> mls_engine_unavailable b"
  by (simp add: mls_unavailable_error_def mls_engine_unavailable_def)

text \<open>
  A table in which every id leads to a bot. Two configured bots with one key share the entry of
  the later one: an id then leads to a bot of another id.
\<close>

definition bot_table_ok :: "bot_table \<Rightarrow> bool" where
  "bot_table_ok bt \<longleftrightarrow> hm_wf (bots bt) \<and> hm_wf (bot_id_to_pubkey bt) \<and>
     (\<forall>i pk. hm_get (bot_id_to_pubkey bt) i = Some pk \<longrightarrow>
        (\<exists>b. hm_get (bots bt) pk = Some b) \<and> validate_bot_id i = Inr ())"

lemma build_bots_ok:
  "bot_table_ok bt \<Longrightarrow> build_bots build verify lr cs bt = Inr bt' \<Longrightarrow> bot_table_ok bt'"
proof (induction cs arbitrary: bt)
  case Nil
  then show ?case by simp
next
  case (Cons c cs)
  from Cons.prems(2) obtain b where
    valid: "validate_bot_id (bc_id c) = Inr ()" and
    rest: "build_bots build verify lr cs
       \<lparr>bots = hm_insert (bs_public_key b) (with_reset_at (lr (bc_id c)) b) (bots bt),
        bot_id_to_pubkey = hm_insert (bc_id c) (bs_public_key b) (bot_id_to_pubkey bt)\<rparr> = Inr bt'"
    by (auto simp: rbind_eq_Inr split: if_splits)
  from Cons.prems(1) valid have "bot_table_ok
       \<lparr>bots = hm_insert (bs_public_key b) (with_reset_at (lr (bc_id c)) b) (bots bt),
        bot_id_to_pubkey = hm_insert (bc_id c) (bs_public_key b) (bot_id_to_pubkey bt)\<rparr>"
    by (auto simp: bot_table_ok_def)
  from Cons.IH [OF this rest] show ?case .
qed

lemma client_manager_new_ok:
  "client_manager_new build verify lr cfgs = Inr bt \<Longrightarrow> bot_table_ok bt"
  unfolding client_manager_new_def by (erule build_bots_ok [rotated]) (simp add: bot_table_ok_def)

lemma get_bot_by_id_total:
  "bot_table_ok bt \<Longrightarrow> hm_contains (bot_id_to_pubkey bt) i \<Longrightarrow> \<exists>b. get_bot_by_id bt i = Some b"
  by (auto simp: bot_table_ok_def get_bot_by_id_def hm_contains_def)

end
