(* ===== verification/Diagnostics.thy ===== *)
theory Diagnostics
  imports BotState
begin

text \<open>
  The diagnostics aggregator (\<open>src/diagnostics.rs\<close>): sliding-window activity counters, the
  snapshot's counters, the ring of recent errors, and the redaction of store paths in error
  texts. The other redactions are regular expressions of another crate and are one argument.
\<close>

section \<open>Sliding-window counters\<close>

record recent_buckets =
  rb_start :: nanos
  rb_buckets :: "nat list"
  current_minute :: nat
  rb_capacity :: nat

definition recent_new :: "nat \<Rightarrow> nanos \<Rightarrow> recent_buckets" where
  "recent_new capacity now =
     \<lparr>rb_start = now, rb_buckets = replicate capacity 0, current_minute = 0, rb_capacity = capacity\<rparr>"

definition minute_of :: "recent_buckets \<Rightarrow> nanos \<Rightarrow> nat" where
  "minute_of rb now = (now - rb_start rb) div NANOS_PER_SEC div 60"

text \<open>Zeroing the slots of the minutes \<open>lo .. hi\<close>.\<close>

definition zero_minutes :: "nat \<Rightarrow> nat \<Rightarrow> nat \<Rightarrow> nat list \<Rightarrow> nat list" where
  "zero_minutes cap lo hi bs = fold (\<lambda>m bs. bs[m mod cap := 0]) [lo..<Suc hi] bs"

definition advance :: "nat \<Rightarrow> recent_buckets \<Rightarrow> recent_buckets" where
  "advance minute rb =
     (if current_minute rb + rb_capacity rb \<le> minute
      then rb\<lparr>rb_buckets := map (\<lambda>_. 0) (rb_buckets rb), current_minute := minute\<rparr>
      else if current_minute rb < minute
      then rb\<lparr>rb_buckets := zero_minutes (rb_capacity rb) (Suc (current_minute rb)) minute (rb_buckets rb),
              current_minute := minute\<rparr>
      else rb)"

definition recent_record :: "nanos \<Rightarrow> recent_buckets \<Rightarrow> recent_buckets" where
  "recent_record now rb =
     (let r = advance (minute_of rb now) rb; i = current_minute r mod rb_capacity r
      in r\<lparr>rb_buckets := (rb_buckets r)[i := Suc (rb_buckets r ! i)]\<rparr>)"

definition count_last_n_minutes :: "nat \<Rightarrow> nanos \<Rightarrow> recent_buckets \<Rightarrow> nat" where
  "count_last_n_minutes n now rb =
     (let cur = minute_of rb now; cidx = current_minute rb mod rb_capacity rb;
          window_start = int (cur - (n - 1))
      in if n = 0 then 0
         else if current_minute rb + rb_capacity rb \<le> cur then 0
         else sum_list (map (\<lambda>(idx, c).
                let offset = (cidx + rb_capacity rb - idx) mod rb_capacity rb;
                    bucket_minute = int (current_minute rb) - int offset
                in if window_start \<le> bucket_minute \<and> bucket_minute \<le> int cur then c else 0)
              (enumerate 0 (rb_buckets rb))))"

text \<open>
  The specification: the minutes at which something was recorded, and the number of records in a
  window of minutes.
\<close>

definition records_in :: "nat list \<Rightarrow> nat \<Rightarrow> nat \<Rightarrow> nat" where
  "records_in mlog lo hi = length (filter (\<lambda>m. lo \<le> m \<and> m \<le> hi) mlog)"

text \<open>
  The ring represents a log: the slot of every minute of the last \<open>capacity\<close> minutes counts that
  minute's records.
\<close>

definition rb_refines :: "nat list \<Rightarrow> recent_buckets \<Rightarrow> bool" where
  "rb_refines mlog rb \<longleftrightarrow> 0 < rb_capacity rb \<and> length (rb_buckets rb) = rb_capacity rb \<and>
     (\<forall>m \<in> set mlog. m \<le> current_minute rb) \<and>
     (\<forall>idx < rb_capacity rb. rb_buckets rb ! idx =
        length (filter (\<lambda>m. m mod rb_capacity rb = idx \<and> current_minute rb < m + rb_capacity rb) mlog))"

lemma rb_refines_new: "0 < cap \<Longrightarrow> rb_refines [] (recent_new cap now)"
  by (simp add: rb_refines_def recent_new_def)

lemma nth_zero_minutes:
  assumes "i < length bs"
  shows "zero_minutes cap a b bs ! i = (if \<exists>m. a \<le> m \<and> m \<le> b \<and> m mod cap = i then 0 else bs ! i)"
    and "length (zero_minutes cap a b bs) = length bs"
proof -
  have len: "length (fold (\<lambda>m bs. bs[m mod cap := 0]) ms bs) = length bs" for ms :: "nat list" and bs :: "nat list"
    by (induction ms arbitrary: bs) simp_all
  have nth: "fold (\<lambda>m bs. bs[m mod cap := 0]) ms bs ! i =
      (if \<exists>m \<in> set ms. m mod cap = i then 0 else bs ! i)" if "i < length bs" for ms and bs :: "nat list"
    using that by (induction ms arbitrary: bs) (auto simp: nth_list_update)
  show "length (zero_minutes cap a b bs) = length bs" by (simp add: zero_minutes_def len)
  show "zero_minutes cap a b bs ! i = (if \<exists>m. a \<le> m \<and> m \<le> b \<and> m mod cap = i then 0 else bs ! i)"
    unfolding zero_minutes_def nth [OF assms] by (auto simp: less_Suc_eq_le simp del: upt_Suc)
qed

lemma same_slot_close:
  assumes "m mod c = k mod c" and "m \<le> k" and "k < m + (c::nat)"
  shows "m = k"
proof -
  have "c dvd k - m" using assms(1,2) by (metis mod_eq_dvd_iff_nat)
  moreover have "k - m < c" using assms(2,3) by arith
  ultimately have "\<not> 0 < k - m" using nat_dvd_not_less by blast
  then show ?thesis using assms(2) by simp
qed

lemma filter_cong_len: "(\<And>x. x \<in> set xs \<Longrightarrow> p x \<longleftrightarrow> q x) \<Longrightarrow> length (filter p xs) = length (filter q xs)"
  by (metis filter_cong)

lemma advance_refines:
  assumes ref: "rb_refines mlog rb"
  shows "rb_refines mlog (advance minute rb)"
proof -
  note r = ref [unfolded rb_refines_def]
  let ?c = "rb_capacity rb" and ?k = "current_minute rb"
  consider "?k + ?c \<le> minute" | "minute < ?k + ?c" "?k < minute" | "minute \<le> ?k" by linarith
  then show ?thesis
  proof cases
    case 1
    have "length (filter (\<lambda>m. m mod ?c = i \<and> minute < m + ?c) mlog) = 0" for i
      using r 1 by (auto simp: filter_empty_conv)
    then show ?thesis
      using r 1 by (fastforce simp: rb_refines_def advance_def)
  next
    case 3
    then show ?thesis using ref r by (simp add: advance_def)
  next
    case 2
    have slot: "zero_minutes ?c (Suc ?k) minute (rb_buckets rb) ! i =
        length (filter (\<lambda>m. m mod ?c = i \<and> minute < m + ?c) mlog)" if i: "i < ?c" for i
    proof (cases "\<exists>m. Suc ?k \<le> m \<and> m \<le> minute \<and> m mod ?c = i")
      case True
      then obtain z where z: "Suc ?k \<le> z" "z \<le> minute" "z mod ?c = i" by blast
      have "\<not> (m mod ?c = i \<and> minute < m + ?c)" if "m \<in> set mlog" for m
      proof
        assume m: "m mod ?c = i \<and> minute < m + ?c"
        have le: "m \<le> ?k" using that r by blast
        have "m = z" by (rule same_slot_close [of m ?c z]) (use m z le in auto)
        with le z show False by simp
      qed
      then have "filter (\<lambda>m. m mod ?c = i \<and> minute < m + ?c) mlog = []"
        by (simp add: filter_empty_conv)
      with True i r show ?thesis by (simp add: nth_zero_minutes)
    next
      case False
      have "(m mod ?c = i \<and> ?k < m + ?c) = (m mod ?c = i \<and> minute < m + ?c)" if "m \<in> set mlog" for m
      proof
        assume m: "m mod ?c = i \<and> ?k < m + ?c"
        have "\<not> m + ?c \<le> minute"
        proof
          assume "m + ?c \<le> minute"
          moreover have "Suc ?k \<le> m + ?c" "(m + ?c) mod ?c = i" using m by simp_all
          ultimately show False using False by blast
        qed
        with m show "m mod ?c = i \<and> minute < m + ?c" by simp
      next
        assume "m mod ?c = i \<and> minute < m + ?c"
        with 2 show "m mod ?c = i \<and> ?k < m + ?c" by simp
      qed
      then have "length (filter (\<lambda>m. m mod ?c = i \<and> ?k < m + ?c) mlog) =
          length (filter (\<lambda>m. m mod ?c = i \<and> minute < m + ?c) mlog)"
        by (rule filter_cong_len)
      moreover have "zero_minutes ?c (Suc ?k) minute (rb_buckets rb) ! i = rb_buckets rb ! i"
      proof -
        have "i < length (rb_buckets rb)" using i r by metis
        from nth_zero_minutes(1) [OF this, of ?c "Suc ?k" minute] False show ?thesis
          by (simp only: if_False)
      qed
      moreover have "rb_buckets rb ! i = length (filter (\<lambda>m. m mod ?c = i \<and> ?k < m + ?c) mlog)"
        using i r by blast
      ultimately show ?thesis by metis
    qed
    have bound: "\<forall>m \<in> set mlog. m \<le> minute" using r 2 by (meson le_trans less_imp_le)
    have len: "length (zero_minutes ?c (Suc ?k) minute (rb_buckets rb)) = ?c"
      using r nth_zero_minutes(2) [of 0 "rb_buckets rb"] by simp
    have adv: "advance minute rb =
        rb\<lparr>rb_buckets := zero_minutes ?c (Suc ?k) minute (rb_buckets rb), current_minute := minute\<rparr>"
      using 2 by (simp add: advance_def)
    show ?thesis
      unfolding adv rb_refines_def using r slot bound len by simp
  qed
qed

lemma advance_simps [simp]:
  "rb_capacity (advance m rb) = rb_capacity rb"
  "current_minute (advance m rb) = max m (current_minute rb)"
  "rb_start (advance m rb) = rb_start rb"
  by (auto simp: advance_def max_def)

lemma record_refines:
  assumes ref: "rb_refines mlog rb" and mono: "current_minute rb \<le> minute_of rb now"
  shows "rb_refines (minute_of rb now # mlog) (recent_record now rb)"
proof -
  let ?m = "minute_of rb now" and ?c = "rb_capacity rb"
  define r where "r = advance ?m rb"
  have r: "rb_refines mlog r" "current_minute r = ?m" "rb_capacity r = ?c"
    using advance_refines [OF ref] mono by (simp_all add: r_def)
  have "?m mod ?c < ?c" using ref by (simp add: rb_refines_def)
  with r show ?thesis
    by (auto simp: recent_record_def Let_def r_def [symmetric] rb_refines_def nth_list_update)
qed


text \<open>Reading: the count over the last \<open>n\<close> minutes is the number of records in that window.\<close>

lemma sum_list_enumerate:
  "sum_list (map (\<lambda>(i, c). f i c) (enumerate k bs)) = (\<Sum>i < length bs. f (k + i) (bs ! i))"
proof (induction bs arbitrary: k)
  case Nil
  then show ?case by simp
next
  case (Cons b bs)
  have "(\<Sum>i < length (b # bs). f (k + i) ((b # bs) ! i)) =
      f k b + (\<Sum>i < length bs. f (Suc k + i) (bs ! i))"
    by (simp add: sum.lessThan_Suc_shift del: sum.lessThan_Suc)
  with Cons.IH [of "Suc k"] show ?case by simp
qed

lemma sum_filter_slots:
  assumes "0 < (c :: nat)"
  shows "(\<Sum>i < c. length (filter (\<lambda>m. m mod c = i \<and> p m) xs)) = length (filter p xs)"
proof (induction xs)
  case Nil
  then show ?case by simp
next
  case (Cons x xs)
  have "(\<Sum>i < c. length (filter (\<lambda>m. m mod c = i \<and> p m) (x # xs))) =
      (\<Sum>i < c. (if x mod c = i \<and> p x then 1 else 0) + length (filter (\<lambda>m. m mod c = i \<and> p m) xs))"
    by (intro sum.cong) simp_all
  also have "\<dots> = (\<Sum>i < c. if x mod c = i \<and> p x then 1 else 0) + length (filter p xs)"
    by (simp only: sum.distrib Cons.IH)
  also have "(\<Sum>i < c. if x mod c = i \<and> p x then 1 else 0) = (if p x then 1 else 0 :: nat)"
  proof (cases "p x")
    case True
    have "(\<Sum>i < c. if x mod c = i \<and> p x then 1 else 0) = (\<Sum>i < c. if x mod c = i then 1 else 0 :: nat)"
      using True by (intro sum.cong) auto
    also have "\<dots> = 1"
      using assms by (subst sum.delta') simp_all
    finally show ?thesis using True by simp
  next
    case False
    then show ?thesis by simp
  qed
  finally show ?case by simp
qed

lemma slot_minute:
  assumes "0 < c" "i < c" and m: "m mod c = i" "m \<le> k" "k < m + c"
  shows "int k - int ((k mod c + c - i) mod c) = int m"
proof -
  obtain d where d: "k = m + d" "d < c" using m(2,3) by (metis add_less_cancel_left le_Suc_ex)
  have "(k mod c + c - i) mod c = d"
  proof -
    have "(k mod c + (c - i)) mod c = (m + d + (c - i)) mod c"
      using d(1) by (simp add: mod_simps)
    also have "\<dots> = (m mod c + (c - i) + d) mod c"
      by (metis (no_types, lifting) add.assoc add.commute mod_add_left_eq)
    also have "m mod c + (c - i) + d = c + d" using m(1) assms(2) by simp
    finally show ?thesis using d(2) assms(2) by simp
  qed
  then show ?thesis using d by simp
qed

lemma count_refines:
  assumes ref: "rb_refines mlog rb" and n: "0 < n" "n \<le> rb_capacity rb"
    and mono: "current_minute rb \<le> minute_of rb now"
  shows "count_last_n_minutes n now rb =
    records_in mlog (minute_of rb now - (n - 1)) (minute_of rb now)"
proof -
  let ?c = "rb_capacity rb" and ?k = "current_minute rb" and ?cur = "minute_of rb now"
  let ?lo = "?cur - (n - 1)"
  note r = ref [unfolded rb_refines_def]
  show ?thesis
  proof (cases "?k + ?c \<le> ?cur")
    case True
    have "\<not> (?lo \<le> m \<and> m \<le> ?cur)" if "m \<in> set mlog" for m
    proof -
      have "m \<le> ?k" using that r by blast
      then show ?thesis using True n by linarith
    qed
    then have "filter (\<lambda>m. ?lo \<le> m \<and> m \<le> ?cur) mlog = []" by (simp add: filter_empty_conv)
    with True show ?thesis by (simp add: count_last_n_minutes_def records_in_def Let_def)
  next
    case False
    define f where "f idx c = (let offset = (?k mod ?c + ?c - idx) mod ?c;
                    bucket_minute = int ?k - int offset
                in if int ?lo \<le> bucket_minute \<and> bucket_minute \<le> int ?cur then c else (0::nat))" for idx c
    have slot: "f i (rb_buckets rb ! i) =
        length (filter (\<lambda>m. m mod ?c = i \<and> ?lo \<le> m \<and> m \<le> ?cur) mlog)" if i: "i < ?c" for i
    proof -
      let ?b = "int ?k - int ((?k mod ?c + ?c - i) mod ?c)"
      have here: "?b = int m" if "m \<in> set mlog" "m mod ?c = i" "?k < m + ?c" for m
        using slot_minute [of ?c i m ?k] that i r by auto
      have old: "\<not> ?lo \<le> m" if "m \<in> set mlog" "\<not> ?k < m + ?c" for m
        using that False n mono by linarith
      define W where "W = (int ?lo \<le> ?b \<and> ?b \<le> int ?cur)"
      have "(m mod ?c = i \<and> ?lo \<le> m \<and> m \<le> ?cur) = ((m mod ?c = i \<and> ?k < m + ?c) \<and> W)"
        if "m \<in> set mlog" for m
        using here [OF that] old [OF that] unfolding W_def by (metis of_nat_le_iff)
      then have "length (filter (\<lambda>m. m mod ?c = i \<and> ?lo \<le> m \<and> m \<le> ?cur) mlog) =
          length (filter (\<lambda>m. (m mod ?c = i \<and> ?k < m + ?c) \<and> W) mlog)"
        by (rule filter_cong_len)
      also have "\<dots> = (if W then rb_buckets rb ! i else 0)"
        using r i by (cases W) simp_all
      also have "\<dots> = f i (rb_buckets rb ! i)"
        by (simp add: f_def Let_def W_def)
      finally show ?thesis by simp
    qed
    have "count_last_n_minutes n now rb = sum_list (map (\<lambda>(i, c). f i c) (enumerate 0 (rb_buckets rb)))"
      using n False by (simp add: count_last_n_minutes_def Let_def f_def [abs_def])
    also have "\<dots> = (\<Sum>i < ?c. length (filter (\<lambda>m. m mod ?c = i \<and> ?lo \<le> m \<and> m \<le> ?cur) mlog))"
      using r slot by (simp add: sum_list_enumerate)
    also have "\<dots> = records_in mlog ?lo ?cur"
      using sum_filter_slots [of ?c "\<lambda>m. ?lo \<le> m \<and> m \<le> ?cur" mlog] r by (simp add: records_in_def)
    finally show ?thesis .
  qed
qed

text \<open>Runs of the counter: records at non-decreasing instants.\<close>

fun record_all :: "nanos list \<Rightarrow> recent_buckets \<Rightarrow> recent_buckets" where
  "record_all [] rb = rb"
| "record_all (t # ts) rb = record_all ts (recent_record t rb)"

lemma recent_record_simps [simp]:
  "rb_capacity (recent_record t rb) = rb_capacity rb"
  "rb_start (recent_record t rb) = rb_start rb"
  "current_minute (recent_record t rb) = max (minute_of rb t) (current_minute rb)"
  "minute_of (recent_record t rb) = minute_of rb"
  by (simp_all add: recent_record_def Let_def minute_of_def fun_eq_iff)

lemma minute_of_mono: "s \<le> t \<Longrightarrow> minute_of rb s \<le> minute_of rb t"
  by (simp add: minute_of_def div_le_mono diff_le_mono)

lemma record_all_refines:
  assumes "rb_refines mlog rb" and "sorted ts" and "\<And>t. t \<in> set ts \<Longrightarrow> current_minute rb \<le> minute_of rb t"
  shows "rb_refines (rev (map (minute_of rb) ts) @ mlog) (record_all ts rb) \<and>
    minute_of (record_all ts rb) = minute_of rb \<and> rb_capacity (record_all ts rb) = rb_capacity rb \<and>
    (\<forall>t. (\<forall>u \<in> set ts. u \<le> t) \<longrightarrow> current_minute rb \<le> minute_of rb t \<longrightarrow>
       current_minute (record_all ts rb) \<le> minute_of rb t)"
  using assms
proof (induction ts arbitrary: mlog rb)
  case Nil
  then show ?case by simp
next
  case (Cons t ts)
  have "rb_refines (minute_of rb t # mlog) (recent_record t rb)"
    using Cons.prems by (intro record_refines) auto
  then have ih: "rb_refines (rev (map (minute_of rb) ts) @ minute_of rb t # mlog)
      (record_all ts (recent_record t rb)) \<and> minute_of (record_all ts (recent_record t rb)) = minute_of rb \<and>
      rb_capacity (record_all ts (recent_record t rb)) = rb_capacity rb \<and>
      (\<forall>u. (\<forall>v \<in> set ts. v \<le> u) \<longrightarrow> current_minute (recent_record t rb) \<le> minute_of rb u \<longrightarrow>
         current_minute (record_all ts (recent_record t rb)) \<le> minute_of rb u)"
    using Cons.IH [of "minute_of rb t # mlog" "recent_record t rb"] Cons.prems
    by (auto simp: minute_of_mono)
  then show ?case using minute_of_mono [of t _ rb] by auto
qed


section \<open>The aggregator\<close>

text \<open>
  One recorded error. The structured data is kept as redacted text; \<open>redact\<close> stands for the
  regular-expression redactions and \<open>show_json\<close> for the JSON printer.
\<close>

record error_record =
  er_code :: str
  er_message :: str
  er_data :: "str option"

definition ERROR_BUFFER_CAPACITY :: nat where "ERROR_BUFFER_CAPACITY = 32"

datatype daemon_status = Initializing | Ready | ShuttingDown | Stopped

record diagnostics =
  handlers_registered :: u64
  events_received_total :: u64
  events_decrypted_total :: u64
  events_dispatched_total :: u64
  handler_responses_total :: u64
  rate_limited_total :: u64
  group_messages_rate_limited_total :: u64
  invalid_events_total :: u64
  reply_send_failed_total :: u64
  send_dm_total :: u64
  send_dm_failed_total :: u64
  attachment_send_total :: u64
  attachment_send_failed_total :: u64
  blob_upload_failed_total :: u64
  relay_reconnects_total :: u64
  bunker_sign_failures_total :: u64
  attachment_receive_total :: u64
  attachment_receive_failed_total :: u64
  gift_wrap_rejected_total :: u64
  welcome_version_mismatch_total :: u64
  welcome_rejected_total :: u64
  spool_inbound_entries :: u64
  spool_outbound_entries :: u64
  dg_status :: daemon_status
  dg_bots :: "bot_health list"
  dg_start :: nanos
  rb_received :: recent_buckets
  rb_decrypted :: recent_buckets
  rb_dispatched :: recent_buckets
  rb_responses :: recent_buckets
  rb_replies :: recent_buckets
  rb_reply_failed :: recent_buckets
  rb_send_dm :: recent_buckets
  rb_send_dm_failed :: recent_buckets
  errors :: "error_record list"

definition diagnostics_new :: "nanos \<Rightarrow> diagnostics" where
  "diagnostics_new now =
     (let rb = recent_new 60 now in
      \<lparr>handlers_registered = 0, events_received_total = 0, events_decrypted_total = 0,
       events_dispatched_total = 0, handler_responses_total = 0, rate_limited_total = 0,
       group_messages_rate_limited_total = 0, invalid_events_total = 0,
       reply_send_failed_total = 0, send_dm_total = 0, send_dm_failed_total = 0,
       attachment_send_total = 0, attachment_send_failed_total = 0, blob_upload_failed_total = 0,
       relay_reconnects_total = 0, bunker_sign_failures_total = 0, attachment_receive_total = 0,
       attachment_receive_failed_total = 0, gift_wrap_rejected_total = 0, welcome_version_mismatch_total = 0,
       welcome_rejected_total = 0, spool_inbound_entries = 0, spool_outbound_entries = 0,
       dg_status = Initializing, dg_bots = [], dg_start = now,
       rb_received = rb, rb_decrypted = rb, rb_dispatched = rb, rb_responses = rb, rb_replies = rb,
       rb_reply_failed = rb, rb_send_dm = rb, rb_send_dm_failed = rb, errors = []\<rparr>)"

definition record_event_received :: "nanos \<Rightarrow> diagnostics \<Rightarrow> diagnostics" where
  "record_event_received now d =
     d\<lparr>events_received_total := events_received_total d + 1,
       rb_received := recent_record now (rb_received d)\<rparr>"

definition record_event_decrypted :: "nanos \<Rightarrow> diagnostics \<Rightarrow> diagnostics" where
  "record_event_decrypted now d =
     d\<lparr>events_decrypted_total := events_decrypted_total d + 1,
       rb_decrypted := recent_record now (rb_decrypted d)\<rparr>"

definition record_event_dispatched :: "nanos \<Rightarrow> diagnostics \<Rightarrow> diagnostics" where
  "record_event_dispatched now d =
     d\<lparr>events_dispatched_total := events_dispatched_total d + 1,
       rb_dispatched := recent_record now (rb_dispatched d)\<rparr>"

definition record_handler_response :: "nanos \<Rightarrow> diagnostics \<Rightarrow> diagnostics" where
  "record_handler_response now d =
     d\<lparr>handler_responses_total := handler_responses_total d + 1,
       rb_responses := recent_record now (rb_responses d)\<rparr>"

definition record_rate_limited :: "diagnostics \<Rightarrow> diagnostics" where
  "record_rate_limited d = d\<lparr>rate_limited_total := rate_limited_total d + 1\<rparr>"

definition record_group_message_rate_limited :: "diagnostics \<Rightarrow> diagnostics" where
  "record_group_message_rate_limited d =
     d\<lparr>group_messages_rate_limited_total := group_messages_rate_limited_total d + 1\<rparr>"

definition record_invalid_event :: "diagnostics \<Rightarrow> diagnostics" where
  "record_invalid_event d = d\<lparr>invalid_events_total := invalid_events_total d + 1\<rparr>"

definition record_reply :: "nanos \<Rightarrow> diagnostics \<Rightarrow> diagnostics" where
  "record_reply now d = d\<lparr>rb_replies := recent_record now (rb_replies d)\<rparr>"

definition record_reply_send_failed :: "nanos \<Rightarrow> diagnostics \<Rightarrow> diagnostics" where
  "record_reply_send_failed now d =
     d\<lparr>reply_send_failed_total := reply_send_failed_total d + 1,
       rb_reply_failed := recent_record now (rb_reply_failed d)\<rparr>"

definition record_send_dm :: "nanos \<Rightarrow> diagnostics \<Rightarrow> diagnostics" where
  "record_send_dm now d =
     d\<lparr>send_dm_total := send_dm_total d + 1, rb_send_dm := recent_record now (rb_send_dm d)\<rparr>"

definition record_send_dm_failed :: "nanos \<Rightarrow> diagnostics \<Rightarrow> diagnostics" where
  "record_send_dm_failed now d =
     d\<lparr>send_dm_failed_total := send_dm_failed_total d + 1,
       rb_send_dm_failed := recent_record now (rb_send_dm_failed d)\<rparr>"

definition record_attachment_send :: "diagnostics \<Rightarrow> diagnostics" where
  "record_attachment_send d = d\<lparr>attachment_send_total := attachment_send_total d + 1\<rparr>"

definition record_attachment_send_failed :: "diagnostics \<Rightarrow> diagnostics" where
  "record_attachment_send_failed d =
     d\<lparr>attachment_send_failed_total := attachment_send_failed_total d + 1\<rparr>"

definition record_blob_upload_failed :: "diagnostics \<Rightarrow> diagnostics" where
  "record_blob_upload_failed d = d\<lparr>blob_upload_failed_total := blob_upload_failed_total d + 1\<rparr>"

definition record_relay_reconnect :: "diagnostics \<Rightarrow> diagnostics" where
  "record_relay_reconnect d = d\<lparr>relay_reconnects_total := relay_reconnects_total d + 1\<rparr>"

definition record_bunker_sign_failure :: "diagnostics \<Rightarrow> diagnostics" where
  "record_bunker_sign_failure d = d\<lparr>bunker_sign_failures_total := bunker_sign_failures_total d + 1\<rparr>"

definition record_attachment_receive :: "diagnostics \<Rightarrow> diagnostics" where
  "record_attachment_receive d = d\<lparr>attachment_receive_total := attachment_receive_total d + 1\<rparr>"

definition record_attachment_receive_failed :: "diagnostics \<Rightarrow> diagnostics" where
  "record_attachment_receive_failed d = d\<lparr>attachment_receive_failed_total := attachment_receive_failed_total d + 1\<rparr>"

definition record_gift_wrap_rejected :: "diagnostics \<Rightarrow> diagnostics" where
  "record_gift_wrap_rejected d = d\<lparr>gift_wrap_rejected_total := gift_wrap_rejected_total d + 1\<rparr>"

definition record_welcome_version_mismatch :: "diagnostics \<Rightarrow> diagnostics" where
  "record_welcome_version_mismatch d = d\<lparr>welcome_version_mismatch_total := welcome_version_mismatch_total d + 1\<rparr>"

definition record_welcome_rejected :: "diagnostics \<Rightarrow> diagnostics" where
  "record_welcome_rejected d = d\<lparr>welcome_rejected_total := welcome_rejected_total d + 1\<rparr>"

definition set_spool_entries :: "u64 \<Rightarrow> u64 \<Rightarrow> diagnostics \<Rightarrow> diagnostics" where
  "set_spool_entries inbound outbound d =
     d\<lparr>spool_inbound_entries := inbound, spool_outbound_entries := outbound\<rparr>"

definition set_bots :: "bot_health list \<Rightarrow> diagnostics \<Rightarrow> diagnostics" where
  "set_bots bs d = d\<lparr>dg_bots := bs\<rparr>"

definition set_status :: "daemon_status \<Rightarrow> diagnostics \<Rightarrow> diagnostics" where
  "set_status st d = d\<lparr>dg_status := st\<rparr>"

definition set_handlers_registered :: "u64 \<Rightarrow> diagnostics \<Rightarrow> diagnostics" where
  "set_handlers_registered n d = d\<lparr>handlers_registered := n\<rparr>"

definition record_error ::
    "(str \<Rightarrow> str) \<Rightarrow> (json \<Rightarrow> str) \<Rightarrow> str option \<Rightarrow> str \<Rightarrow> json option \<Rightarrow> diagnostics \<Rightarrow> diagnostics" where
  "record_error redact show_json c msg dat d =
     (let r = \<lparr>er_code = (case c of Some x \<Rightarrow> x | None \<Rightarrow> ''unknown''), er_message = redact msg,
               er_data = map_option (\<lambda>j. redact (show_json j)) dat\<rparr>;
          es = (if ERROR_BUFFER_CAPACITY \<le> length (errors d) then tl (errors d) else errors d)
      in d\<lparr>errors := es @ [r]\<rparr>)"

lemma record_error_bound:
  "length (errors d) \<le> ERROR_BUFFER_CAPACITY \<Longrightarrow>
     length (errors (record_error redact sj c msg dat d)) \<le> ERROR_BUFFER_CAPACITY"
  by (auto simp: record_error_def Let_def ERROR_BUFFER_CAPACITY_def)

lemma record_error_latest:
  "List.last (errors (record_error redact sj c msg dat d)) =
     \<lparr>er_code = (case c of Some x \<Rightarrow> x | None \<Rightarrow> ''unknown''), er_message = redact msg,
      er_data = map_option (\<lambda>j. redact (sj j)) dat\<rparr>"
  by (simp add: record_error_def Let_def)

section \<open>Snapshots\<close>

text \<open>The counts of the last ten minutes, in the order \<open>snapshot\<close> takes them.\<close>

record recent_counts =
  rc_events_received :: nat
  rc_events_decrypted :: nat
  rc_events_dispatched :: nat
  rc_handler_responses :: nat
  rc_replies :: nat
  rc_reply_send_failed :: nat
  rc_send_dm :: nat
  rc_send_dm_failed :: nat
  rc_window_seconds :: nat

definition recent_counts_of :: "nanos \<Rightarrow> diagnostics \<Rightarrow> recent_counts" where
  "recent_counts_of now d =
     \<lparr>rc_events_received = count_last_n_minutes 10 now (rb_received d),
      rc_events_decrypted = count_last_n_minutes 10 now (rb_decrypted d),
      rc_events_dispatched = count_last_n_minutes 10 now (rb_dispatched d),
      rc_handler_responses = count_last_n_minutes 10 now (rb_responses d),
      rc_replies = count_last_n_minutes 10 now (rb_replies d),
      rc_reply_send_failed = count_last_n_minutes 10 now (rb_reply_failed d),
      rc_send_dm = count_last_n_minutes 10 now (rb_send_dm d),
      rc_send_dm_failed = count_last_n_minutes 10 now (rb_send_dm_failed d),
      rc_window_seconds = 600\<rparr>"

definition uptime_seconds :: "nanos \<Rightarrow> diagnostics \<Rightarrow> nat" where
  "uptime_seconds now d = (now - dg_start d) div NANOS_PER_SEC"

definition ser_count :: "nat \<Rightarrow> json" where
  "ser_count n = JNumber (PosInt (of_nat n))"

definition ser_bot_health :: "(int \<Rightarrow> str) \<Rightarrow> bot_health \<Rightarrow> json" where
  "ser_bot_health show_time b =
     JObject ([(''bot_id'', JString (bh_bot_id b)), (''npub'', JString (bh_npub b)),
               (''relay_count'', ser_u64 (bh_relay_count b)),
               (''relays'', JArray (map JString (bh_relays b))),
               (''bunker_connected'', JBool (bh_bunker_connected b)),
               (''signer_backend'', JString (bh_signer_backend b))]
       @ opt_field ''error'' (map_option JString (bh_error b))
       @ opt_field ''reset_at'' (map_option (\<lambda>t. JString (show_time t)) (bh_reset_at b)))"

text \<open>
  \<open>MetricsResponse::from\<close> a snapshot taken at \<open>now\<close>, as it is serialized: every counter is present,
  \<open>config_valid\<close> and \<open>relay_state\<close> only where the caller fills them in.
\<close>

definition metrics_response ::
    "(int \<Rightarrow> str) \<Rightarrow> nanos \<Rightarrow> diagnostics \<Rightarrow> bool option \<Rightarrow> (str \<times> str) list option \<Rightarrow> json" where
  "metrics_response show_time now d config_valid relay_state =
     (let rc = recent_counts_of now d in
      JObject ([(''uptime_seconds'', ser_count (uptime_seconds now d)),
        (''handlers_registered'', ser_u64 (handlers_registered d)),
        (''events_received_total'', ser_u64 (events_received_total d)),
        (''events_decrypted_total'', ser_u64 (events_decrypted_total d)),
        (''events_dispatched_total'', ser_u64 (events_dispatched_total d)),
        (''handler_responses_total'', ser_u64 (handler_responses_total d)),
        (''rate_limited_total'', ser_u64 (rate_limited_total d)),
        (''relay_reconnects_total'', ser_u64 (relay_reconnects_total d)),
        (''bunker_sign_failures_total'', ser_u64 (bunker_sign_failures_total d)),
        (''invalid_events_total'', ser_u64 (invalid_events_total d)),
        (''reply_send_failed_total'', ser_u64 (reply_send_failed_total d)),
        (''send_dm_total'', ser_u64 (send_dm_total d)),
        (''send_dm_failed_total'', ser_u64 (send_dm_failed_total d)),
        (''group_messages_rate_limited_total'', ser_u64 (group_messages_rate_limited_total d)),
        (''attachment_send_total'', ser_u64 (attachment_send_total d)),
        (''attachment_send_failed_total'', ser_u64 (attachment_send_failed_total d)),
        (''blob_upload_failed_total'', ser_u64 (blob_upload_failed_total d)),
        (''attachment_receive_total'', ser_u64 (attachment_receive_total d)),
        (''attachment_receive_failed_total'', ser_u64 (attachment_receive_failed_total d)),
        (''spool_inbound_entries'', ser_u64 (spool_inbound_entries d)),
        (''spool_outbound_entries'', ser_u64 (spool_outbound_entries d)),
        (''events_received_last_10_min'', ser_count (rc_events_received rc)),
        (''events_decrypted_last_10_min'', ser_count (rc_events_decrypted rc)),
        (''events_dispatched_last_10_min'', ser_count (rc_events_dispatched rc)),
        (''handler_responses_last_10_min'', ser_count (rc_handler_responses rc)),
        (''replies_last_10_min'', ser_count (rc_replies rc)),
        (''reply_send_failed_last_10_min'', ser_count (rc_reply_send_failed rc)),
        (''send_dm_last_10_min'', ser_count (rc_send_dm rc)),
        (''send_dm_failed_last_10_min'', ser_count (rc_send_dm_failed rc)),
        (''bots'', JArray (map (ser_bot_health show_time) (dg_bots d)))]
       @ opt_field ''config_valid'' (map_option JBool config_valid)
       @ opt_field ''relay_state'' (map_option (\<lambda>rs. JObject (map (\<lambda>(k, v). (k, JString v)) rs)) relay_state)))"

text \<open>The stages of a squad whose only admin is known (\<open>classify_sole_admin\<close>).\<close>

datatype sole_admin_bucket = RepairableNow | Unrestorable | AdminSetUnknown

definition classify_sole_admin :: "bool \<Rightarrow> nat \<Rightarrow> bool \<Rightarrow> sole_admin_bucket option" where
  "classify_sole_admin state_lost harvested was_r26 =
     (if harvested = 1 then Some (if state_lost then Unrestorable else RepairableNow)
      else if harvested = 0 \<and> state_lost \<and> was_r26 then Some AdminSetUnknown
      else None)"

section \<open>Redaction of store paths\<close>

text \<open>
  Slicing a string at a byte index panics unless the index is a character boundary; \<open>None\<close> is
  the panic. A byte starts a character unless it is a UTF-8 continuation byte.
\<close>

definition starts_char :: "char \<Rightarrow> bool" where
  "starts_char c \<longleftrightarrow> \<not> (128 \<le> (of_char c :: nat) \<and> (of_char c :: nat) \<le> 191)"

definition is_char_boundary :: "str \<Rightarrow> nat \<Rightarrow> bool" where
  "is_char_boundary s i \<longleftrightarrow> i = length s \<or> (i < length s \<and> starts_char (s ! i))"

definition slice_to :: "str \<Rightarrow> nat \<Rightarrow> str option" where
  "slice_to s i = (if is_char_boundary s i then Some (take i s) else None)"

definition slice_from :: "str \<Rightarrow> nat \<Rightarrow> str option" where
  "slice_from s i = (if is_char_boundary s i then Some (drop i s) else None)"

definition is_path_char :: "char \<Rightarrow> bool" where
  "is_path_char c \<longleftrightarrow> is_ascii_lowercase c \<or> is_ascii_digit c \<or>
     (65 \<le> (of_char c :: nat) \<and> (of_char c :: nat) \<le> 90) \<or>
     c \<in> {CHR ''.'', CHR ''/'', CHR 0x5C, CHR ''_'', CHR ''-'', CHR ''~'', CHR ''%''}"

text \<open>\<open>rfind\<close> of a character outside the path characters: the index of its first byte.\<close>

fun rfind_non_path :: "nat \<Rightarrow> str \<Rightarrow> nat option" where
  "rfind_non_path k [] = None"
| "rfind_non_path k (c # cs) =
     (case rfind_non_path (Suc k) cs of
        Some i \<Rightarrow> Some i
      | None \<Rightarrow> if starts_char c \<and> \<not> is_path_char c then Some k else None)"

text \<open>
  \<open>find_store\<close> is the store-filename regular expression: the bounds of its first match. A match
  that is empty would make the loop endless and is, like a panic, no result.
\<close>

function redact_mls_paths :: "(str \<Rightarrow> (nat \<times> nat) option) \<Rightarrow> str \<Rightarrow> str option" where
  "redact_mls_paths find_store rest =
     (case find_store rest of
        None \<Rightarrow> Some rest
      | Some (b, e) \<Rightarrow>
          (if e = 0 \<or> length rest < e then None
           else Option.bind (slice_to rest b) (\<lambda>before.
             let path_start = (case rfind_non_path 0 before of Some i \<Rightarrow> Suc i | None \<Rightarrow> 0) in
             Option.bind (slice_to rest path_start) (\<lambda>kept.
             Option.bind (slice_from rest e) (\<lambda>after.
               map_option (\<lambda>r. kept @ ''[REDACTED]/'' @ take (e - b) (drop b rest) @ r)
                 (redact_mls_paths find_store (drop e rest)))))))"
  by pat_completeness auto
termination
  by (relation "measure (length \<circ> snd)") auto

declare redact_mls_paths.simps [simp del]

lemma rfind_non_path_path: "(\<And>c. c \<in> set p \<Longrightarrow> is_path_char c \<or> \<not> starts_char c) \<Longrightarrow> rfind_non_path k p = None"
  by (induction p arbitrary: k) auto

lemma rfind_non_path_at:
  assumes "starts_char c" "\<not> is_path_char c" and "\<And>x. x \<in> set p \<Longrightarrow> is_path_char x \<or> \<not> starts_char x"
  shows "rfind_non_path k (a @ c # p) = Some (k + length a)"
  using assms by (induction a arbitrary: k) (auto simp: rfind_non_path_path)

text \<open>
  A character of several bytes right before the path makes the redaction panic: the index after
  its first byte is inside it.
\<close>

lemma redact_mls_paths_panics:
  assumes find: "find_store (a @ lead # cont # tail @ path @ rest) =
      Some (length a + 2 + length tail + length path, e)"
    and e: "0 < e" "e \<le> length (a @ lead # cont # tail @ path @ rest)"
    and lead: "starts_char lead" "\<not> is_path_char lead" and cont: "\<not> starts_char cont"
    and tail: "\<And>x. x \<in> set tail \<Longrightarrow> \<not> starts_char x" and path: "\<And>x. x \<in> set path \<Longrightarrow> is_path_char x"
  shows "redact_mls_paths find_store (a @ lead # cont # tail @ path @ rest) = None"
proof -
  define s where "s = a @ lead # cont # tail @ path @ rest"
  define b where "b = length a + 2 + length tail + length path"
  have before: "take b s = a @ lead # cont # tail @ path" by (simp add: s_def b_def)
  have rfind: "rfind_non_path 0 (take b s) = Some (length a)"
    unfolding before using rfind_non_path_at [OF lead, of "cont # tail @ path" 0 a] cont tail path by auto
  have kept: "slice_to s (Suc (length a)) = None"
    using cont by (simp add: s_def slice_to_def is_char_boundary_def nth_append)
  have find': "find_store s = Some (b, e)" and e': "e \<noteq> 0" "\<not> length s < e"
    using find e by (simp_all add: s_def b_def)
  have "redact_mls_paths find_store s = None"
  proof (cases "slice_to s b")
    case None
    then show ?thesis by (simp add: redact_mls_paths.simps [of _ s] find' e')
  next
    case (Some x)
    then have "x = take b s" by (auto simp: slice_to_def split: if_splits)
    then show ?thesis by (simp add: redact_mls_paths.simps [of _ s] find' e' Some rfind kept)
  qed
  then show ?thesis by (simp add: s_def)
qed

end
