(* ===== verification/LimitProperties.thy ===== *)
theory LimitProperties
  imports Config RateLimit Dedup Diagnostics
begin

text \<open>
  Properties of the bounded in-memory structures: the rate limiter under any sequence of requests,
  the deduplication cache, the activity counters, the error ring and the redaction of paths.
\<close>

section \<open>The rate limiter\<close>

text \<open>A run of the limiter: what the requests and the disconnections of handlers do to it.\<close>

datatype limiter_op =
    OpCheck str str nanos nanos
  | OpCheckGroup str str nanos nanos
  | OpRemove str

fun limiter_step :: "limiter_op \<Rightarrow> rate_limiter \<Rightarrow> rate_limiter" where
  "limiter_step (OpCheck h b now c) rl = snd (rl_check h b now c rl)"
| "limiter_step (OpCheckGroup b g now c) rl = snd (rl_check_group b g now c rl)"
| "limiter_step (OpRemove h) rl = rl_remove_handler h rl"

lemma limiter_step_ok: "rl_ok rl \<Longrightarrow> rl_ok (limiter_step a rl)"
  by (cases a) (auto simp: rl_check_ok rl_check_group_ok rl_remove_handler_ok)

lemma limiter_step_max: "max_buckets (limiter_step a rl) = max_buckets rl"
  by (cases a) (auto simp: rl_check_frame rl_check_group_def rl_remove_handler_def Let_def case_prod_beta)

lemma limiter_run_ok:
  "rl_ok rl \<Longrightarrow> rl_ok (fold limiter_step ops rl) \<and> max_buckets (fold limiter_step ops rl) = max_buckets rl"
  by (induction ops arbitrary: rl) (auto simp: limiter_step_ok limiter_step_max)

lemma set_group_limits_ok:
  "rl_ok rl \<Longrightarrow> 0 \<le> r \<Longrightarrow> 0 \<le> b \<Longrightarrow> b \<le> 2 ^ 53 \<Longrightarrow> rl_ok (set_group_limits r b rl)"
  by (simp add: rl_ok_def set_group_limits_def rl_params_ok_def)

lemma rl_default_ok: "rl_ok (rate_limiter_default t)"
  by (simp add: rate_limiter_default_def HANDLER_RATE_def HANDLER_BURST_def BOT_RATE_def
      BOT_BURST_def rl_new_ok)

text \<open>
  C26: Whatever requests, group messages and disconnections come, in whatever order and at whatever
  instants: the limiter with an accepted group limit stays well formed (no bucket below zero or
  above its burst), and each of its maps holds at most one bucket more than the configured maximum.
\<close>

theorem limiter_always_ok:
  assumes "validate_daemon_config url_ok cfg = Inr ()"
    and "group_message_rate cfg = Finite r" and "group_message_burst cfg = Finite b" and "b \<le> 2 ^ 53"
    and "rl = fold limiter_step ops (set_group_limits r b (rate_limiter_default t))"
  shows "rl_ok rl \<and> length (bm_map (rl_handlers rl)) \<le> 10001 \<and>
    length (bm_map (rl_bots rl)) \<le> 10001 \<and> length (bm_map (rl_groups rl)) \<le> 10001"
proof -
  have "0 < r" "0 < b"
    using assms(1-3) by (auto simp: validate_daemon_config_def rbind_eq_Inr split: if_splits)
  then have start: "rl_ok (set_group_limits r b (rate_limiter_default t))"
    using assms(4) by (intro set_group_limits_ok rl_default_ok) auto
  have "max_buckets (set_group_limits r b (rate_limiter_default t)) = 10000"
    by (simp add: set_group_limits_def rate_limiter_default_def rate_limiter_new_def MAX_BUCKETS_def)
  then show ?thesis
    using limiter_run_ok [OF start, of ops] assms(5) by (simp add: rl_ok_def bm_ok_def)
qed

definition example_daemon_config :: "rat \<Rightarrow> global_config" where
  "example_daemon_config b = default_global_config\<lparr>group_message_rate := Finite 1, group_message_burst := Finite b\<rparr>"

lemma example_daemon_config_ok:
  "0 < b \<Longrightarrow> validate_daemon_config (\<lambda>_. True) (example_daemon_config b) = Inr ()"
  by (simp add: example_daemon_config_def default_global_config_def validate_daemon_config_def
      is_http_url_def starts_with_def)


theorem limiter_always_ok_witness:
  "rl_ok (fold limiter_step [OpCheck ''h'' ''b'' 5 5, OpCheckGroup ''b'' ''g'' 7 7, OpRemove ''h'']
     (set_group_limits 1 2 (rate_limiter_default 0)))"
  using limiter_always_ok [OF example_daemon_config_ok [of 2], of 1 2 _
      "[OpCheck ''h'' ''b'' 5 5, OpCheckGroup ''b'' ''g'' 7 7, OpRemove ''h'']" 0]
  by (simp add: example_daemon_config_def)

text \<open>
  C27: A burst is bounded: at one instant a fresh bucket grants at most as many requests as its
  burst rounded up, however many are made.
\<close>

theorem burst_bounded:
  assumes "0 \<le> r" and "0 \<le> b" and "b \<le> of_nat n" and "n \<le> 2 ^ 53"
  shows "grants_at bucket_check now k (bucket_new r b clock) \<le> n"
proof -
  have "b \<le> of_nat (2 ^ 53 :: nat)" using assms(3,4) of_nat_mono order_trans by blast
  then have "bucket_gate_ok (bucket_new r b clock)"
    using bucket_new_ok [OF assms(1,2)] by (simp add: bucket_gate_ok_def bucket_new_def)
  moreover have "bucket_within (bucket_new r b clock) now n"
    using assms \<open>b \<le> of_nat (2 ^ 53 :: nat)\<close> by (simp add: bucket_within_def bucket_new_def)
  ultimately show ?thesis by (rule bucket_gate.grants_bounded)
qed

theorem burst_bounded_witness:
  "grants_at bucket_check 5 1000 (bucket_new HANDLER_RATE HANDLER_BURST 0) \<le> 20"
  using burst_bounded [of HANDLER_RATE HANDLER_BURST 20 5 1000 0]
  by (simp add: HANDLER_RATE_def HANDLER_BURST_def)

text \<open>
  C28: No bucket starves: whatever was spent, once the refill since the last request is worth one
  token the next request is granted.
\<close>

theorem refill_grants:
  assumes "0 \<le> r" and "1 \<le> b" and "b \<le> 2 ^ 53"
    and "s = fold (\<lambda>t s. snd (bucket_check t s)) ts (bucket_new r b clock)"
    and "1 \<le> as_secs_f64 (now - last_replenished s) * r"
  shows "fst (bucket_check now s)"
proof -
  have "bucket_gate_ok s \<and> rate s = r \<and> burst s = b"
  proof -
    have "bucket_gate_ok u \<Longrightarrow>
        bucket_gate_ok (fold (\<lambda>t s. snd (bucket_check t s)) ts u) \<and>
        rate (fold (\<lambda>t s. snd (bucket_check t s)) ts u) = rate u \<and>
        burst (fold (\<lambda>t s. snd (bucket_check t s)) ts u) = burst u" for u
      by (induction ts arbitrary: u) (auto simp: bucket_gate.ok_step)
    then show ?thesis
      using assms(1-4) bucket_new_ok [of r b clock]
      by (simp add: bucket_gate_ok_def bucket_new_def)
  qed
  then show ?thesis
    using assms(2,5) by (intro bucket_check_refilled) (auto simp: bucket_gate_ok_def)
qed

lemma bucket_example:
  "snd (bucket_check (1 * NANOS_PER_SEC) (bucket_new 10 20 0)) =
     \<lparr>tokens = 19, last_replenished = 1 * NANOS_PER_SEC, rate = 10, burst = 20\<rparr>"
  using f64_round_of_int [of 1] f64_round_of_int [of 10] f64_round_of_int [of 30] f64_round_of_int [of 19]
  by (simp add: bucket_check_def bucket_refill_def bucket_new_def as_secs_f64_def NANOS_PER_SEC_def)

theorem refill_grants_witness:
  "fst (bucket_check (3 * NANOS_PER_SEC) (fold (\<lambda>t s. snd (bucket_check t s)) [1 * NANOS_PER_SEC]
     (bucket_new 10 20 0)))"
  using f64_round_of_int [of 2]
  by (intro refill_grants [of 10 20, OF _ _ _ refl])
    (simp_all only: fold_simps bucket_example, simp_all add: as_secs_f64_def NANOS_PER_SEC_def)

section \<open>A burst below one\<close>

definition bm_small :: "bucket_map \<Rightarrow> bool" where
  "bm_small bm \<longleftrightarrow> (\<forall>b \<in> set (hm_values (bm_map bm)). bucket_ok b \<and> burst b < 1)"

lemma bucket_small_refused:
  assumes "bucket_ok b" "burst b < 1"
  shows "\<not> fst (bucket_check now b)" and "bucket_ok (snd (bucket_check now b))"
proof -
  show "\<not> fst (bucket_check now b)"
    using bucket_refill_bounds(2) [OF assms(1), of now] assms(2) by (simp add: bucket_check_def Let_def)
  show "bucket_ok (snd (bucket_check now b))"
    using assms by (intro bucket_check_ok) auto
qed

lemma bm_small_sweep: "bm_small bm \<Longrightarrow> bm_small (sweep bm now m st)"
  using set_sweep [of bm now m st] by (fastforce simp: bm_small_def hm_values_def)

lemma bm_check_small:
  assumes small: "bm_small bm" and r: "0 \<le> r" and b: "0 \<le> b" "b < 1" and "hm_wf (bm_map bm)"
  shows "\<not> fst (bm_check m st r b key now clock bm)"
    and "bm_small (snd (bm_check m st r b key now clock bm))"
proof -
  define bm1 where "bm1 = (if needs_sweep bm now m st then sweep bm now m st else bm)"
  define x where "x = (case hm_get (bm_map bm1) key of Some x \<Rightarrow> x | None \<Rightarrow> bucket_new r b clock)"
  have s1: "bm_small bm1" using small bm_small_sweep by (simp add: bm1_def)
  have x: "bucket_ok x \<and> burst x < 1"
  proof (cases "hm_get (bm_map bm1) key")
    case None
    then show ?thesis using r b bucket_new_ok [of r b clock] by (simp add: x_def bucket_new_def)
  next
    case (Some y)
    then have "y \<in> set (hm_values (bm_map bm1))"
      by (force simp: hm_values_def dest: map_of_SomeD)
    with s1 Some show ?thesis by (simp add: x_def bm_small_def)
  qed
  show "\<not> fst (bm_check m st r b key now clock bm)"
    using bucket_small_refused(1) x
    by (simp add: bm_check_def Let_def bm1_def [symmetric] x_def [symmetric] case_prod_beta)
  show "bm_small (snd (bm_check m st r b key now clock bm))"
    using bucket_small_refused(2) x s1
      set_hm_values_insert [of key "snd (bucket_check now x)" "bm_map bm1"]
    by (auto simp: bm_check_def Let_def bm1_def [symmetric] x_def [symmetric] case_prod_beta bm_small_def)
qed


text \<open>The outcomes of a run of group-message checks at given instants.\<close>

fun group_checks :: "(str \<times> str \<times> nanos \<times> nanos) list \<Rightarrow> rate_limiter \<Rightarrow> bool list" where
  "group_checks [] rl = []"
| "group_checks ((b, g, now, c) # xs) rl =
     fst (rl_check_group b g now c rl) # group_checks xs (snd (rl_check_group b g now c rl))"

lemma group_checks_small:
  assumes "bm_small (rl_groups rl)" and "rl_ok rl" and "group_burst rl < 1"
  shows "True \<notin> set (group_checks xs rl)"
  using assms
proof (induction xs arbitrary: rl)
  case Nil
  then show ?case by simp
next
  case (Cons x xs)
  obtain b g now c where x: "x = (b, g, now, c)" by (cases x)
  let ?rl = "snd (rl_check_group b g now c rl)"
  have "hm_wf (bm_map (rl_groups rl))" "0 \<le> group_rate rl" "0 \<le> group_burst rl"
    using Cons.prems(2) by (auto simp: rl_ok_def bm_ok_def rl_params_ok_def)
  note small = bm_check_small [OF Cons.prems(1) this(2,3) Cons.prems(3) this(1)]
  have "bm_small (rl_groups ?rl)" "group_burst ?rl = group_burst rl"
    using small(2) by (simp_all add: rl_check_group_def Let_def case_prod_beta)
  then have "True \<notin> set (group_checks xs ?rl)"
    using Cons.IH [of ?rl] Cons.prems rl_check_group_ok by simp
  moreover have "\<not> fst (rl_check_group b g now c rl)"
    using small(1) by (simp add: rl_check_group_def Let_def case_prod_beta)
  ultimately show ?case by (simp add: x)
qed

text \<open>
  C29: The configuration check accepts a group burst between zero and one, and with such a burst
  no group message is ever delivered: every check of every run is refused, however long the
  daemon waits between them.
\<close>

theorem fractional_burst_blocks:
  assumes "validate_daemon_config url_ok cfg = Inr ()"
    and "group_message_rate cfg = Finite r" and "group_message_burst cfg = Finite b" and "b < 1"
  shows "True \<notin> set (group_checks xs (set_group_limits r b (rate_limiter_default t)))"
proof (rule group_checks_small)
  have "0 < r" "0 < b"
    using assms(1-3) by (auto simp: validate_daemon_config_def rbind_eq_Inr split: if_splits)
  then show "rl_ok (set_group_limits r b (rate_limiter_default t))"
    using assms(4) by (intro set_group_limits_ok rl_default_ok) auto
  show "bm_small (rl_groups (set_group_limits r b (rate_limiter_default t)))"
    by (simp add: bm_small_def set_group_limits_def rate_limiter_default_def rate_limiter_new_def
        bucket_map_new_def hm_values_def)
  show "group_burst (set_group_limits r b (rate_limiter_default t)) < 1"
    using assms(4) by (simp add: set_group_limits_def)
qed

theorem fractional_burst_blocks_witness:
  "validate_daemon_config (\<lambda>_. True) (example_daemon_config (1 / 2)) = Inr () \<and>
   True \<notin> set (group_checks [(''b'', ''g'', 0, 0), (''b'', ''g'', 60 * NANOS_PER_SEC, 0)]
     (set_group_limits 1 (1 / 2) (rate_limiter_default 0)))"
  using fractional_burst_blocks [OF example_daemon_config_ok [of "1 / 2"]] example_daemon_config_ok [of "1 / 2"]
  by (simp add: example_daemon_config_def del: group_checks.simps)

section \<open>Deduplication\<close>

lemma dedup_passes_spaced:
  assumes "length (seen c) + length es < MLS_DEDUP_CLEANUP_THRESHOLD" and "sorted (map snd es)"
    and "fst (dedup_run w es c) = ps @ (e, t1) # qs" and "(e, t2) \<in> set qs"
  shows "t1 + w \<le> t2"
  using assms
proof (induction es arbitrary: c ps)
  case Nil
  then show ?case by simp
next
  case (Cons x es)
  obtain d t where x: "x = (d, t)" by (cases x)
  let ?c = "snd (is_duplicate d w t c)"
  have small: "length (seen c) < MLS_DEDUP_CLEANUP_THRESHOLD" using Cons.prems(1) by simp
  have len: "length (seen ?c) + length es < MLS_DEDUP_CLEANUP_THRESHOLD"
    using length_is_duplicate_small [OF small, of d w t] Cons.prems(1) by simp
  show ?case
  proof (cases "\<not> fst (is_duplicate d w t c) \<and> ps = []")
    case True
    have cons: "(d, t) # fst (dedup_run w es ?c) = (e, t1) # qs"
      using Cons.prems(3) True by (simp add: x dedup_run_Cons del: dedup_run.simps list.inject)
    have d: "d = e" "t = t1" using cons by auto
    have q: "fst (dedup_run w es ?c) = qs" using cons by (metis list.inject)
    have "hm_get (seen ?c) e = Some t1"
      using True d(1,2) is_duplicate_small [OF small, of d w t] by (auto split: option.splits if_splits)
    then show ?thesis
      using dedup_run_after_record [OF len, of e t1 t2] Cons.prems(2,4) d(2) q by (auto simp: x)
  next
    case False
    then obtain ps' where "fst (dedup_run w es ?c) = ps' @ (e, t1) # qs"
      using Cons.prems(3)
      by (cases ps) (auto simp: x dedup_run_Cons split: if_splits simp del: dedup_run.simps)
    with Cons.IH [OF len _ this] Cons.prems(2,4) show ?thesis by simp
  qed
qed




text \<open>
  The cache stays small: after any run of sightings it holds at most one entry more than the
  larger of its maximum and the clean-up threshold, and the last sighting is recorded.
\<close>

theorem dedup_bounded:
  "length (seen (snd (dedup_run w es (dedup_new MLS_DEDUP_MAX_SIZE)))) \<le> 1001"
proof -
  have "dedup_ok c \<Longrightarrow> dedup_ok (snd (dedup_run w es c)) \<and> dedup_max (snd (dedup_run w es c)) = dedup_max c" for c
  proof (induction es arbitrary: c)
    case (Cons x es)
    obtain e t where x: "x = (e, t)" by (cases x)
    show ?case
      using Cons.IH [of "snd (is_duplicate e w t c)"] is_duplicate_ok [OF Cons.prems, of e w t]
      by (simp add: x dedup_run_Cons del: dedup_run.simps)
  qed simp
  from this [of "dedup_new MLS_DEDUP_MAX_SIZE"] show ?thesis
    by (auto simp: dedup_ok_def dedup_new_def MLS_DEDUP_MAX_SIZE_def MLS_DEDUP_CLEANUP_THRESHOLD_def)
qed

section \<open>Diagnostics\<close>

text \<open>
  C31: The activity counters refine a log of the events: after any run of records at
  non-decreasing instants, the count over the last \<open>n\<close> minutes is the number of records whose
  minute lies in that window, for every window up to the ring's length and however long the
  counter was idle.
\<close>

theorem recent_counts_exact:
  assumes "sorted ts" and "\<And>t. t \<in> set ts \<Longrightarrow> start \<le> t \<and> t \<le> now" and "start \<le> now"
    and "0 < n" and "n \<le> cap"
  shows "count_last_n_minutes n now (record_all ts (recent_new cap start)) =
    length (filter (\<lambda>t. minute_of (recent_new cap start) now < minute_of (recent_new cap start) t + n) ts)"
proof -
  let ?rb = "recent_new cap start"
  let ?m = "minute_of ?rb"
  have ref: "rb_refines (rev (map ?m ts) @ []) (record_all ts ?rb)" "minute_of (record_all ts ?rb) = ?m"
    "rb_capacity (record_all ts ?rb) = cap" "current_minute (record_all ts ?rb) \<le> ?m now"
    using record_all_refines [OF rb_refines_new [of cap start] assms(1)] assms
    by (auto simp: recent_new_def)
  have "count_last_n_minutes n now (record_all ts ?rb) = records_in (rev (map ?m ts)) (?m now - (n - 1)) (?m now)"
    using count_refines [OF ref(1), of n now] ref assms(4,5) by simp
  also have "\<dots> = length (filter (\<lambda>m. ?m now - (n - 1) \<le> m \<and> m \<le> ?m now) (map ?m ts))"
    by (simp add: records_in_def rev_filter [symmetric])
  also have "\<dots> = length (filter (\<lambda>t. ?m now < ?m t + n) ts)"
    using assms(2,4) minute_of_mono [of _ now ?rb]
    by (auto simp: filter_map o_def intro!: filter_cong_len)
  finally show ?thesis .
qed

theorem recent_counts_exact_witness:
  "count_last_n_minutes 2 (150 * NANOS_PER_SEC)
     (record_all [0, 70 * NANOS_PER_SEC, 140 * NANOS_PER_SEC] (recent_new 60 0)) = 2"
  by (subst recent_counts_exact) (auto simp: minute_of_def recent_new_def NANOS_PER_SEC_def)



text \<open>
  C33: An error text with a character of several bytes right before a store path makes the
  redaction slice inside that character: the operation panics.
\<close>

theorem redaction_panics:
  assumes "find_store (a @ lead # cont # path @ rest) = Some (length a + 2 + length path, e)"
    and "0 < e" "e \<le> length (a @ lead # cont # path @ rest)"
    and "starts_char lead" "\<not> is_path_char lead" and "\<not> starts_char cont"
    and "\<And>x. x \<in> set path \<Longrightarrow> is_path_char x"
  shows "redact_mls_paths find_store (a @ lead # cont # path @ rest) = None"
  using redact_mls_paths_panics [of find_store a lead cont "[]" path rest e] assms by simp

theorem redaction_panics_witness:
  "redact_mls_paths (\<lambda>s. if length s = 9 then Some (5, 9) else None)
     (''x'' @ CHR 0xC3 # CHR 0xA9 # ''/d'' @ ''s.db'') = None"
proof -
  have "is_path_char (CHR ''/'')" "is_path_char (CHR ''d'')"
    by (simp_all add: is_path_char_def is_ascii_lowercase_def)
  then have path: "is_path_char c" if "c \<in> set ''/d''" for c
    using that unfolding list.set by blast
  have chars: "starts_char (CHR 0xC3)" "\<not> is_path_char (CHR 0xC3)" "\<not> starts_char (CHR 0xA9)"
    by (simp_all add: starts_char_def is_path_char_def is_ascii_lowercase_def is_ascii_digit_def)
  show ?thesis
    by (rule redaction_panics [where a = "''x''" and path = "''/d''" and rest = "''s.db''" and e = 9,
          OF _ _ _ chars path]) simp_all
qed

end
