(* ===== verification/Reconcile.thy ===== *)
theory Reconcile
  imports BotState
begin

text \<open>
  Access to the database from the asynchronous code (\<open>Db\<close> in \<open>src/db.rs\<close>), and the two flows
  of \<open>src/client_manager.rs\<close> that use it at startup: reconciling a bot's groups with its MLS
  engine, and subscribing the bots from their cursors.
\<close>

section \<open>The database behind its wrapper\<close>

text \<open>
  Each access may fail (poisoned lock, failed task, SQLite): \<open>faults\<close> lists what the next accesses
  meet, and an exhausted list means no more failures.
\<close>

record store =
  tables :: database
  faults :: "daemon_error option list"

definition db_act :: "(database \<Rightarrow> 'a res \<times> database) \<Rightarrow> (store, 'a) act" where
  "db_act f s =
     (let fault = (case faults s of [] \<Rightarrow> None | x # _ \<Rightarrow> x);
          (r, db) = db_run fault f (tables s)
      in (r, \<lparr>tables = db, faults = tl (faults s)\<rparr>))"

definition db_read :: "(database \<Rightarrow> 'a) \<Rightarrow> (store, 'a) act" where
  "db_read f = db_act (\<lambda>db. (Inr (f db), db))"

lemma db_act_cases:
  "(\<exists>e. db_act f s = (Inl e, \<lparr>tables = tables s, faults = tl (faults s)\<rparr>)) \<or>
   db_act f s = (fst (f (tables s)), \<lparr>tables = snd (f (tables s)), faults = tl (faults s)\<rparr>)"
  by (auto simp: db_act_def db_run_def Let_def case_prod_beta split: list.splits option.splits)

lemma db_act_Inr:
  assumes "db_act f s = (Inr a, s')"
  shows "f (tables s) = (Inr a, tables s')"
  using assms
  by (auto simp: db_act_def db_run_def Let_def case_prod_beta prod_eq_iff split: list.splits option.splits)

lemma db_read_Inr: "db_read f s = (Inr a, s') \<Longrightarrow> a = f (tables s) \<and> tables s' = tables s"
  unfolding db_read_def by (drule db_act_Inr) auto

lemma db_act_no_fault:
  "faults s = [] \<Longrightarrow> db_act f s = (fst (f (tables s)), \<lparr>tables = snd (f (tables s)), faults = []\<rparr>)"
  by (simp add: db_act_def db_run_def case_prod_beta)

text \<open>The invariant of the tables as a relation between the state before and after.\<close>

definition keeps_db_ok :: "store \<Rightarrow> store \<Rightarrow> bool" where
  "keeps_db_ok s t \<longleftrightarrow> (db_ok (tables s) \<longrightarrow> db_ok (tables t))"

interpretation db_inv: action_rel keeps_db_ok
  by unfold_locales (simp_all add: keeps_db_ok_def)

lemma db_inv_act:
  "(\<And>db. db_ok db \<Longrightarrow> db_ok (snd (f db))) \<Longrightarrow> db_inv.obeys (db_act f)"
proof (rule db_inv.obeysI)
  fix s
  assume "\<And>db. db_ok db \<Longrightarrow> db_ok (snd (f db))"
  then show "keeps_db_ok s (snd (db_act f s))"
    using db_act_cases [of f s] by (auto simp: keeps_db_ok_def)
qed

lemma db_inv_read: "db_inv.obeys (db_read f)"
  unfolding db_read_def by (rule db_inv_act) simp

section \<open>Reconciliation\<close>

text \<open>A group the engine reports; \<open>eg_members\<close> are the encoded keys or the encoder's error.\<close>

record engine_group =
  eg_wire_id :: str
  eg_name :: str
  eg_members :: "(str + str) list"

definition encode_members :: "engine_group \<Rightarrow> str list res" where
  "encode_members g =
     map_res (\<lambda>m. case m of Inl e \<Rightarrow> Inl (Config (''invalid public key: '' @ e)) | Inr npub \<Rightarrow> Inr npub)
       (eg_members g)"

definition upsert_group :: "json_codec \<Rightarrow> str \<Rightarrow> str \<Rightarrow> engine_group \<Rightarrow> (store, unit) act" where
  "upsert_group cd bot_id npub g =
     andthen (of_res (encode_members g)) (\<lambda>ms.
       db_act (upsert_mls_group_from_reconciliation cd bot_id npub (eg_wire_id g) (eg_name g) ms))"

definition mark_lost :: "str \<Rightarrow> int \<Rightarrow> str set \<Rightarrow> mls_group_row \<Rightarrow> (store, unit) act" where
  "mark_lost bot_id now live row =
     (if mg_state_lost_at row = None \<and> mg_wire_id row \<notin> live
      then db_act (mark_mls_group_state_lost bot_id (mg_group_name row) now)
      else ret ())"

definition reset_completed :: "str \<Rightarrow> database \<Rightarrow> bool" where
  "reset_completed bot_id db =
     (case load_mls_store_reset_marker bot_id db of Some m \<Rightarrow> reset_at m \<noteq> None | None \<Rightarrow> False)"

definition reconcile_mls_groups ::
    "json_codec \<Rightarrow> int \<Rightarrow> str \<Rightarrow> str \<Rightarrow> mls_error + engine_group list \<Rightarrow> (store, unit) act" where
  "reconcile_mls_groups cd now bot_id npub engine =
     andthen (db_read (load_all_mls_groups bot_id)) (\<lambda>rows.
     andthen (of_res (mls_res engine)) (\<lambda>groups.
     andthen (for_each (upsert_group cd bot_id npub) groups) (\<lambda>_.
     andthen (db_read (reset_completed bot_id)) (\<lambda>completed.
       if completed then for_each (mark_lost bot_id now (eg_wire_id ` set groups)) rows
       else ret ()))))"

lemma reconcile_db_ok: "db_inv.obeys (reconcile_mls_groups cd now b npub engine)"
  unfolding reconcile_mls_groups_def upsert_group_def mark_lost_def
  by (intro db_inv.obeys_intros db_inv_read db_inv_act upsert_reconciliation_ok small_ops_ok)

text \<open>The lost-state mark of a wire id, as the send handlers read it.\<close>

abbreviation lost_at :: "str \<Rightarrow> str \<Rightarrow> database \<Rightarrow> int option" where
  "lost_at \<equiv> load_mls_group_state_lost_at"

text \<open>The squad a bot has under a wire id, with its name.\<close>

definition squad_named :: "str \<Rightarrow> str \<Rightarrow> str \<Rightarrow> database \<Rightarrow> squad \<Rightarrow> bool" where
  "squad_named b n w db sq \<longleftrightarrow> squads db (b, n) = Some sq \<and> sq_wire sq = w"

lemma squad_named_unique:
  assumes "db_ok db" and "squad_named b n w db sq" and "squad_named b n' w db sq'"
  shows "n' = n \<and> sq' = sq"
proof -
  have "n' = n"
    using assms unfolding db_ok_def wire_unique_def squad_named_def squads_def by force
  with assms show ?thesis by (simp add: squad_named_def)
qed

lemma lost_at_named:
  assumes "db_ok db" and "squad_named b n w db sq"
  shows "lost_at b w db = sq_lost sq"
proof -
  obtain g where "hm_get (groups db) (b, n) = Some g" "g_wire_id g = w" "sq_lost sq = g_state_lost_at g"
    using assms(2) by (auto simp: squad_named_def squads_def)
  then have "group_by_wire b w db = Some ((b, n), g)" using group_by_wire_Some [OF assms(1)] by blast
  with \<open>sq_lost sq = _\<close> show ?thesis by (simp add: load_mls_group_state_lost_at_def)
qed

lemma lost_at_unnamed:
  assumes "db_ok db" and "\<And>n sq. \<not> squad_named b n w db sq"
  shows "lost_at b w db = None"
proof -
  have "g_wire_id g \<noteq> w" if "hm_get (groups db) (b, n) = Some g" for n g
    using that assms(2) [of n "the (squads db (b, n))"] by (simp add: squad_named_def squads_def)
  then have "group_by_wire b w db = None" using group_by_wire_None [OF assms(1)] by blast
  then show ?thesis by (simp add: load_mls_group_state_lost_at_def)
qed

text \<open>One upsert keeps the mark of every wire id, and the squads of every other wire id.\<close>

lemma upsert_named:
  assumes ok: "db_ok db"
    and up: "upsert_mls_group_from_reconciliation cd b npub w n ms db = (Inr u, db')"
    and other: "b' \<noteq> b \<or> w' \<noteq> w"
  shows "squad_named b' n' w' db' sq \<longleftrightarrow> squad_named b' n' w' db sq"
  using reconcile_cases [OF ok up] other
proof (elim disjE exE conjE, goal_cases)
  case (1 old s)
  then show ?case by (auto simp: squad_named_def spec_rename_def split: if_splits)
next
  case (2 old s)
  then show ?case by (auto simp: squad_named_def spec_rename_def split: if_splits)
next
  case 3
  then show ?case by (auto simp: squad_named_def)
next
  case 4
  then show ?case by (auto simp: squad_named_def)
qed


lemma lost_at_cong:
  assumes "db_ok db" and "db_ok db'"
    and "\<And>n sq. squad_named b n w db' sq \<longleftrightarrow> squad_named b n w db sq"
  shows "lost_at b w db' = lost_at b w db"
proof (cases "\<exists>n sq. squad_named b n w db sq")
  case True
  with assms show ?thesis using lost_at_named by metis
next
  case False
  with assms show ?thesis using lost_at_unnamed by metis
qed

lemma upsert_lost_at:
  assumes ok: "db_ok db"
    and up: "upsert_mls_group_from_reconciliation cd b npub w n ms db = (Inr u, db')"
  shows "lost_at b' w' db' = lost_at b' w' db"
proof -
  have ok': "db_ok db'" using upsert_reconciliation_ok [OF ok, of cd b npub w n ms] up by simp
  show ?thesis
  proof (cases "b' = b \<and> w' = w")
    case False
    with upsert_named [OF ok up] lost_at_cong [OF ok ok'] show ?thesis by blast
  next
    case True
    from reconcile_cases [OF ok up] show ?thesis
    proof (elim disjE exE conjE, goal_cases)
      case (1 old s)
      then have "squad_named b old w db s" and "squad_named b n w db' s"
        by (auto simp: squad_named_def spec_rename_def split: if_splits)
      with True show ?thesis by (simp add: lost_at_named [OF ok] lost_at_named [OF ok'])
    next
      case 2
      have new: "squad_named b n w db' \<lparr>sq_wire = w, sq_creator = npub, sq_relay = [],
          sq_members = set ms, sq_lost = None\<rparr>"
        using 2 by (simp add: squad_named_def)
      have "\<not> squad_named b m w db sq" for m sq
      proof
        assume named: "squad_named b m w db sq"
        with 2 have "squads db' (b, m) = Some sq" "m \<noteq> n" by (auto simp: squad_named_def)
        with named squad_named_unique [OF ok' new, of m sq] show False
          by (simp add: squad_named_def)
      qed
      with True new show ?thesis
        by (simp add: lost_at_named [OF ok'] lost_at_unnamed [OF ok])
    qed
  qed
qed

lemma upsert_resets:
  "resets (snd (upsert_mls_group_from_reconciliation cd b npub w n ms db)) = resets db"
  by (auto simp: upsert_mls_group_from_reconciliation_def rename_group_def insert_mls_group_def
      insert_group_def split: option.splits prod.splits sum.splits)

lemma upsert_all:
  assumes "for_each (upsert_group cd b npub) gs s = (Inr u, s')" and "db_ok (tables s)"
  shows "db_ok (tables s') \<and> (\<forall>b' w'. lost_at b' w' (tables s') = lost_at b' w' (tables s)) \<and>
    resets (tables s') = resets (tables s) \<and>
    (\<forall>n w sq. w \<notin> eg_wire_id ` set gs \<longrightarrow>
       squad_named b n w (tables s') sq = squad_named b n w (tables s) sq)"
  using assms
proof (induction gs arbitrary: s)
  case Nil
  then show ?case by simp
next
  case (Cons g gs)
  from Cons.prems(1) obtain s1 ms where
    up: "upsert_mls_group_from_reconciliation cd b npub (eg_wire_id g) (eg_name g) ms (tables s)
         = (Inr (), tables s1)"
    and rest: "for_each (upsert_group cd b npub) gs s1 = (Inr u, s')"
    by (auto simp: upsert_group_def [of cd b npub g] elim!: andthen_Inr_E split: sum.splits dest!: db_act_Inr)
  note ok = Cons.prems(2)
  have ok1: "db_ok (tables s1)"
    using upsert_reconciliation_ok [OF ok, of cd b npub "eg_wire_id g" "eg_name g" ms] up by simp
  show ?case
    using Cons.IH [OF rest ok1] upsert_lost_at [OF ok up] upsert_named [OF ok up]
      upsert_resets [of cd b npub "eg_wire_id g" "eg_name g" ms "tables s"] up
    by auto
qed

lemma mark_squads:
  "squads (snd (mark_mls_group_state_lost b n t db)) = spec_lost b n (Some t) (squads db)"
  by (simp add: mark_mls_group_state_lost_def set_state_lost_squads)

lemma mark_lost_at:
  assumes ok: "db_ok db" and named: "squad_named b n w db sq"
  shows "lost_at b' w' (snd (mark_mls_group_state_lost b n t db)) =
    (if b' = b \<and> w' = w then Some t else lost_at b' w' db)"
proof -
  let ?db' = "snd (mark_mls_group_state_lost b n t db)"
  have ok': "db_ok ?db'" using small_ops_ok(9) [OF ok] .
  have here: "squad_named b n w ?db' (sq\<lparr>sq_lost := Some t\<rparr>)"
    using named by (simp add: squad_named_def mark_squads spec_lost_def)
  have other: "squad_named b' m w' ?db' x = squad_named b' m w' db x" if "b' \<noteq> b \<or> w' \<noteq> w" for m x
    using that named by (auto simp: squad_named_def mark_squads spec_lost_def)
  show ?thesis
  proof (cases "b' = b \<and> w' = w")
    case True
    with lost_at_named [OF ok' here] show ?thesis by simp
  next
    case False
    with other lost_at_cong [OF ok ok'] show ?thesis by auto
  qed
qed

definition lost_row :: "str set \<Rightarrow> mls_group_row \<Rightarrow> bool" where
  "lost_row live r \<longleftrightarrow> mg_state_lost_at r = None \<and> mg_wire_id r \<notin> live"

lemma mark_all:
  assumes "for_each (mark_lost b t live) rows s = (Inr u, s')" and "db_ok (tables s)"
    and "\<And>r. r \<in> set rows \<Longrightarrow> lost_row live r \<Longrightarrow>
           \<exists>sq. squad_named b (mg_group_name r) (mg_wire_id r) (tables s) sq"
  shows "lost_at b' w (tables s') =
    (if b' = b \<and> (\<exists>r \<in> set rows. lost_row live r \<and> mg_wire_id r = w) then Some t
     else lost_at b' w (tables s))"
  using assms
proof (induction rows arbitrary: s)
  case Nil
  then show ?case by simp
next
  case (Cons r rows)
  show ?case
  proof (cases "lost_row live r")
    case False
    with Cons.prems have "for_each (mark_lost b t live) rows s = (Inr u, s')"
      by (auto simp: mark_lost_def [of b t live r] lost_row_def split: if_splits)
    from Cons.IH [OF this Cons.prems(2)] Cons.prems(3) False show ?thesis by auto
  next
    case True
    from Cons.prems(3) [of r] True obtain sq where
      named: "squad_named b (mg_group_name r) (mg_wire_id r) (tables s) sq" by auto
    from Cons.prems(1) True obtain s1 where
      mark: "mark_mls_group_state_lost b (mg_group_name r) t (tables s) = (Inr (), tables s1)"
      and rest: "for_each (mark_lost b t live) rows s1 = (Inr u, s')"
      by (auto simp: mark_lost_def [of b t live r] lost_row_def elim!: andthen_Inr_E dest!: db_act_Inr)
    note lost1 = mark_lost_at [OF Cons.prems(2) named, of _ _ t, unfolded mark snd_conv]
    have ok1: "db_ok (tables s1)"
      using small_ops_ok(9) [OF Cons.prems(2), of b "mg_group_name r" t] mark by simp
    have "\<exists>sq. squad_named b (mg_group_name r') (mg_wire_id r') (tables s1) sq"
      if "r' \<in> set rows" "lost_row live r'" for r'
      using Cons.prems(3) [of r'] that mark_squads [of b "mg_group_name r" t "tables s"] mark
      by (auto simp: squad_named_def spec_lost_def)
    from Cons.IH [OF rest ok1 this] lost1 True show ?thesis by auto
  qed
qed


lemma load_all_named:
  assumes "db_ok db" and "r \<in> set (load_all_mls_groups b db)"
  shows "\<exists>sq. squad_named b (mg_group_name r) (mg_wire_id r) db sq \<and> sq_lost sq = mg_state_lost_at r"
proof -
  obtain n g ms where g: "((b, n), g) \<in> set (groups db)" and r: "r = mk_group_row b n g ms"
    using assms(2) by (auto simp: load_all_mls_groups_def)
  have "hm_get (groups db) (b, n) = Some g"
    using g assms(1) by (simp add: db_ok_def hm_get_iff_in)
  then show ?thesis
    by (simp add: r mk_group_row_def squad_named_def squads_def)
qed

text \<open>
  After a reconciliation that succeeds, a group is newly marked lost exactly when a store reset of
  the bot was completed, the daemon had an unmarked row for it, and the engine does not report it.
\<close>

lemma reconcile_lost_at:
  assumes run: "reconcile_mls_groups cd now b npub (Inr gs) s = (Inr u, s')"
    and ok: "db_ok (tables s)"
  shows "lost_at b' w (tables s') =
    (if b' = b \<and> reset_completed b (tables s) \<and>
        (\<exists>r \<in> set (load_all_mls_groups b (tables s)).
           mg_wire_id r = w \<and> mg_state_lost_at r = None \<and> w \<notin> eg_wire_id ` set gs)
     then Some now else lost_at b' w (tables s))"
proof -
  define live where "live = eg_wire_id ` set gs"
  define rows where "rows = load_all_mls_groups b (tables s)"
  from run obtain s1 s2 s3 where
    s1: "tables s1 = tables s"
    and ups: "for_each (upsert_group cd b npub) gs s1 = (Inr (), s2)"
    and s3: "tables s3 = tables s2"
    and last_step: "(if reset_completed b (tables s2) then for_each (mark_lost b now live) rows
       else ret ()) s3 = (Inr u, s')"
    unfolding live_def rows_def
    by (auto simp: reconcile_mls_groups_def elim!: andthen_Inr_E dest!: db_read_Inr)
  note all = upsert_all [OF ups, unfolded s1, OF ok]
  have done_eq: "reset_completed b (tables s2) = reset_completed b (tables s)"
    using all by (simp add: reset_completed_def load_mls_store_reset_marker_def)
  have named: "\<exists>sq. squad_named b (mg_group_name r) (mg_wire_id r) (tables s3) sq"
    if "r \<in> set rows" "lost_row live r" for r
  proof -
    from load_all_named [OF ok, of r b] that(1) obtain sq where
      "squad_named b (mg_group_name r) (mg_wire_id r) (tables s) sq" by (auto simp: rows_def)
    moreover have "mg_wire_id r \<notin> eg_wire_id ` set gs"
      using that(2) by (simp add: lost_row_def live_def)
    ultimately show ?thesis using all s3 by auto
  qed
  show ?thesis
  proof (cases "reset_completed b (tables s)")
    case True
    with last_step done_eq have marks: "for_each (mark_lost b now live) rows s3 = (Inr u, s')"
      by simp
    have "db_ok (tables s3)" using all by (simp add: s3)
    from mark_all [OF marks this named] True all show ?thesis
      by (auto simp: s3 lost_row_def live_def rows_def)
  next
    case False
    with last_step done_eq all s3 show ?thesis by auto
  qed
qed

section \<open>Subscriptions\<close>

text \<open>
  \<open>since\<close> of a bot: its cursor shifted back by the largest timestamp tweak (\<open>back\<close>), unless the
  cursor belongs to another key.
\<close>

definition since_of :: "(u64 \<Rightarrow> u64) \<Rightarrow> bot_state \<Rightarrow> (str \<times> int) option \<Rightarrow> u64 option" where
  "since_of back b stored =
     (case stored of
        Some (npub, cursor) \<Rightarrow> if npub = bs_npub b then Some (back (word_of_int cursor)) else None
      | None \<Rightarrow> None)"

text \<open>
  The subscription calls: \<open>sub\<close> for the bot's gift wraps, \<open>sub_groups\<close> for its group messages.
\<close>

definition subscribe_bot ::
    "(str \<Rightarrow> str) \<Rightarrow> (u64 \<Rightarrow> u64) \<Rightarrow> (str \<Rightarrow> u64 option \<Rightarrow> str res) \<Rightarrow>
     (str \<Rightarrow> u64 option \<Rightarrow> str res) \<Rightarrow> str \<times> bot_state \<Rightarrow> (store, bot_state) act" where
  "subscribe_bot parse_error back sub sub_groups kb =
     (case kb of (pk, b) \<Rightarrow>
        andthen (db_act (\<lambda>db. (load_cursor parse_error (bs_bot_id b) db, db))) (\<lambda>stored.
          let since = since_of back b stored in
          andthen (of_res (sub pk since)) (\<lambda>sid.
            if bs_mls b then
              andthen (of_res (sub_groups pk since)) (\<lambda>gid.
                ret (add_subscription gid (add_subscription sid b)))
            else ret (add_subscription sid b))))"

lemma since_of_covers:
  assumes "\<And>t. uint (back t) = max 0 (uint t - tweak)" and "0 \<le> tweak"
    and "stored = Some (bs_npub b, c)" and "is_i64 c" and "0 \<le> c"
  shows "\<exists>s. since_of back b stored = Some s \<and> uint s \<le> c \<and> c - tweak \<le> uint s"
proof -
  have "uint (word_of_int c :: u64) = c"
    using assms(4,5) by (simp add: is_i64_def i64_max_def unsigned_of_int take_bit_int_eq_self)
  with assms show ?thesis by (simp add: since_of_def)
qed

end
