(* ===== verification/StateProperties.thy ===== *)
theory StateProperties
  imports Reconcile
begin

text \<open>
  Properties of the state that outlives a request: the handler registry over all its operations,
  the tables over all theirs, the abstract directory of squads, cursors, persisted handlers, and
  the reconciliation with the MLS engines.
\<close>

section \<open>The registry\<close>

text \<open>
  The transitions of the registry of a daemon with the bots \<open>cfgs\<close>. A restored handler comes from
  the database, where only registrations accepted under the same configuration were saved.
\<close>

inductive registry_step :: "bot_config list \<Rightarrow> registry \<Rightarrow> registry \<Rightarrow> bool" for cfgs where
  register: "registry_step cfgs reg (snd (reg_register uuid token now conn bids tys caps cfgs reg))"
| reconnect: "registry_step cfgs reg (snd (reg_reconnect hex chs now hid tok conn reg))"
| restore: "grants_ok cfgs h \<Longrightarrow> registry_step cfgs reg (reg_restore h reg)"
| unregister: "registry_step cfgs reg (snd (reg_unregister hid reg))"
| drop: "registry_step cfgs reg (reg_update hid (disconnect now) reg)"

inductive_cases registry_step_cases: "registry_step cfgs reg reg'"

inductive registry_reachable :: "bot_config list \<Rightarrow> registry \<Rightarrow> bool" for cfgs where
  start: "registry_reachable cfgs []"
| step: "registry_reachable cfgs reg \<Longrightarrow> registry_step cfgs reg reg' \<Longrightarrow> registry_reachable cfgs reg'"

lemma registry_step_ok: "registry_step cfgs reg reg' \<Longrightarrow> registry_ok cfgs reg \<Longrightarrow> registry_ok cfgs reg'"
  by (induction rule: registry_step.induct)
    (auto intro: reg_register_ok reg_reconnect_ok reg_restore_ok reg_unregister_ok reg_update_ok
      simp: disconnect_def)

lemma registry_reachable_ok: "registry_reachable cfgs reg \<Longrightarrow> registry_ok cfgs reg"
proof (induction rule: registry_reachable.induct)
  case start
  show ?case by (simp add: registry_ok_def)
next
  case (step reg reg')
  then show ?case by (blast intro: registry_step_ok)
qed


definition example_conn :: connection_handle where
  "example_conn = \<lparr>cn_sender = 0, cn_transport = ''unix''\<rparr>"

definition example_cfg :: bot_config where
  "example_cfg = \<lparr>bc_id = ''a'', bc_npub = ''n1'', bc_signing = Nsec ''k'', bc_relays = [],
     bc_capabilities = [''SendMessages'', ''Admin''], bc_display_name = None, bc_about = None, bc_picture = None,
     mls_dedup_window_secs = None, mls_db_path = None, mls_key_package_freshness_secs = None\<rparr>"

definition example_handler :: handler_ref where
  "example_handler =
     \<lparr>h_id = ''u'', connection = Some example_conn, bot_ids = [''a''], event_types = [DmReceived],
      capabilities = [''SendMessages''], reconnect_token = ''t'', registered_at = 7, last_seen = 7,
      h_transport = ''unix''\<rparr>"

lemma register_example:
  "reg_register ''u'' (Inr ''t'') 7 example_conn [''a''] [as_wire_name DmReceived] [''SendMessages''] [example_cfg] [] =
     (Inr (''u'', ''t''), [(''u'', example_handler)])"
proof -
  have "parse_event_type (as_wire_name DmReceived) = Inr DmReceived"
    by (simp only: parse_event_type_Inr)
  then show ?thesis
    by (simp add: reg_register_def validate_request_def example_cfg_def example_conn_def
        example_handler_def hm_insert_def del: as_wire_name.simps)
qed

lemma reachable_example: "registry_reachable [example_cfg] [(''u'', example_handler)]"
  using registry_reachable.step [OF registry_reachable.start registry_step.register,
      of "[example_cfg]" "''u''" "Inr ''t''" 7 example_conn "[''a'']" "[as_wire_name DmReceived]" "[''SendMessages'']"]
  by (simp add: register_example del: as_wire_name.simps)


text \<open>
  C25: An event is offered to exactly the connected handlers that registered for its bot and type,
  each once.
\<close>

theorem find_exact:
  assumes "registry_reachable cfgs reg"
  shows "distinct (map h_id (reg_find chs b ty reg)) \<and>
    (h \<in> set (reg_find chs b ty reg) \<longleftrightarrow>
      hm_get reg (h_id h) = Some h \<and> is_connected chs h \<and> b \<in> set (bot_ids h) \<and> ty \<in> set (event_types h))"
proof -
  have ok: "registry_ok cfgs reg" using assms by (rule registry_reachable_ok)
  then have wf: "hm_wf reg" and ids: "h_id x = k" if "(k, x) \<in> set reg" for k x
    using that by (auto simp: registry_ok_def hm_get_iff_in)
  have "map h_id (hm_values reg) = map fst reg"
    unfolding hm_values_def using ok ids by (auto simp: registry_ok_def)
  then have "distinct (map h_id (hm_values reg))"
    using ok by (simp add: registry_ok_def hm_wf_def)
  then have "distinct (map h_id (reg_find chs b ty reg))"
    unfolding reg_find_def by (rule distinct_map_filter)
  then show ?thesis using reg_find_iff [OF ok] by simp
qed

theorem find_exact_witness:
  "example_handler \<in> set (reg_find (\<lambda>_. \<lparr>ch_queue = [], ch_capacity = 8, ch_closed = False\<rparr>) ''a''
     DmReceived [(''u'', example_handler)])"
  using find_exact [OF reachable_example, of "\<lambda>_. \<lparr>ch_queue = [], ch_capacity = 8, ch_closed = False\<rparr>"
      "''a''" DmReceived example_handler]
  by (auto simp: example_handler_def example_conn_def is_connected_def is_alive_def)



section \<open>The tables\<close>

text \<open>The transitions of the database: every method of \<open>Database\<close> that writes.\<close>

inductive db_step :: "database \<Rightarrow> database \<Rightarrow> bool" where
  "db_step db (snd (save_cursor t b npub c db))"
| "db_step db (snd (reset_cursor b db))"
| "db_step db (snd (save_handler cd h db))"
| "db_step db (snd (delete_handler hid db))"
| "db_step db (snd (save_event_trace t b e a p act r db))"
| "db_step db (snd (insert_mls_group cd row db))"
| "db_step db (snd (insert_mls_group_export cd row db))"
| "db_step db (snd (upsert_mls_group_from_reconciliation cd b npub w n ms db))"
| "db_step db (snd (update_mls_group_invite b n m db))"
| "db_step db (snd (delete_mls_group_member b n m db))"
| "db_step db (snd (delete_mls_group_by_wire_id b w db))"
| "db_step db (snd (mark_mls_store_reset_start b t db))"
| "db_step db (snd (complete_mls_store_reset b t path db))"
| "db_step db (snd (upsert_mls_store_reset_admin b w npub db))"
| "db_step db (snd (mark_mls_group_state_lost b n t db))"
| "db_step db (snd (clear_mls_group_state_lost b n db))"

inductive db_reachable :: "database \<Rightarrow> bool" where
  db_start: "db_reachable empty_db"
| db_next: "db_reachable db \<Longrightarrow> db_step db db' \<Longrightarrow> db_reachable db'"

lemma db_step_ok: "db_step db db' \<Longrightarrow> db_ok db \<Longrightarrow> db_ok db'"
  by (induction rule: db_step.induct)
    (simp_all only: small_ops_ok insert_mls_group_ok insert_mls_group_export_ok
      upsert_reconciliation_ok update_invite_ok delete_member_ok delete_by_wire_ok)

lemma db_reachable_ok: "db_reachable db \<Longrightarrow> db_ok db"
proof (induction rule: db_reachable.induct)
  case db_start
  show ?case by (rule db_ok_empty)
next
  case (db_next db db')
  then show ?case by (blast intro: db_step_ok)
qed

text \<open>
  C16: In every database the daemon can reach, a bot has at most one group under a wire id, every
  member row belongs to a stored group, and no row is stored twice; so a lookup by wire id finds
  the one group that has it.
\<close>

theorem tables_consistent:
  assumes "db_reachable db"
  shows "distinct (members db) \<and> members_known db \<and>
    (group_by_wire b w db = Some ((b', n), g) \<longleftrightarrow>
       b' = b \<and> hm_get (groups db) (b, n) = Some g \<and> g_wire_id g = w) \<and>
    (hm_get (groups db) (b, n) = Some g \<and> hm_get (groups db) (b, n') = Some g' \<and>
       g_wire_id g = g_wire_id g' \<longrightarrow> n = n')"
  using db_reachable_ok [OF assms] group_by_wire_Some [OF db_reachable_ok [OF assms]]
  unfolding db_ok_def wire_unique_def by blast

definition example_row :: "str \<Rightarrow> str \<Rightarrow> mls_group_row" where
  "example_row n w = \<lparr>mg_bot_id = ''a'', mg_group_name = n, mg_wire_id = w, mg_creator_npub = ''n1'',
     mg_relay = ''wss://r'', mg_invited_bots = [''m1''], mg_state_lost_at = None\<rparr>"

definition example_db :: database where
  "example_db = snd (insert_mls_group plain_codec (example_row ''team'' ''w1'') empty_db)"

lemma db_reachable_example: "db_reachable example_db"
  unfolding example_db_def by (rule db_next [OF db_start db_step.intros(6)])

lemma example_db_group:
  "hm_get (groups example_db) (''a'', ''team'') = Some (row_of plain_codec (example_row ''team'' ''w1''))"
  "members example_db = [(''a'', ''team'', ''m1'')]"
  by (simp_all add: example_db_def insert_mls_group_def insert_group_def empty_db_def example_row_def
      group_by_wire_def row_insert_ignore_def hm_contains_def)

theorem tables_consistent_witness:
  "group_by_wire ''a'' ''w1'' example_db = Some ((''a'', ''team''), row_of plain_codec (example_row ''team'' ''w1''))"
  using tables_consistent [OF db_reachable_example, of "''a''" "''w1''" "''a''" "''team''"
      "row_of plain_codec (example_row ''team'' ''w1'')"]
  by (simp add: example_db_group) (simp add: row_of_def example_row_def)

lemma squads_wire:
  "hm_get (groups db) (b, n) = Some g \<Longrightarrow> \<exists>s. squads db (b, n) = Some s \<and> sq_wire s = g_wire_id g"
  by (simp add: squads_def)

lemma squads_get:
  "squads db (b, n) = Some s \<Longrightarrow> \<exists>g. hm_get (groups db) (b, n) = Some g \<and> sq_wire s = g_wire_id g"
  by (auto simp: squads_def)

text \<open>
  C18: Storing a squad refines the directory: it succeeds exactly when the bot has no squad of that
  name and none with that wire id, the directory then gains exactly that squad, and a refused
  insertion changes nothing.
\<close>

theorem insert_squad_refines:
  assumes "db_reachable db" and "insert_mls_group cd r db = (res, db')"
  shows "(\<exists>u. res = Inr u) = (squads db (mg_bot_id r, mg_group_name r) = None \<and>
      (\<nexists>n s. squads db (mg_bot_id r, n) = Some s \<and> sq_wire s = mg_wire_id r)) \<and>
    squads db' = (if \<exists>u. res = Inr u then spec_insert r (squads db) else squads db)"
proof (cases res)
  case (Inr u)
  then show ?thesis
    using insert_mls_group_Inr [OF db_reachable_ok [OF assms(1)], of cd r u db'] assms(2) by auto
next
  case (Inl e)
  have db': "db' = db" and failed: "hm_contains (groups db) (mg_bot_id r, mg_group_name r) \<or>
      group_by_wire (mg_bot_id r) (mg_wire_id r) db \<noteq> None"
    using assms(2) Inl
    by (auto simp: insert_mls_group_def insert_group_def row_of_def split: sum.splits prod.splits if_splits)
  then have "\<not> (squads db (mg_bot_id r, mg_group_name r) = None \<and>
      (\<nexists>n s. squads db (mg_bot_id r, n) = Some s \<and> sq_wire s = mg_wire_id r))"
    unfolding squads_None group_by_wire_None [OF db_reachable_ok [OF assms(1)]] by (metis squads_wire)
  with Inl db' show ?thesis by simp
qed

theorem insert_squad_refines_witness:
  "squads (snd (insert_mls_group plain_codec (example_row ''other'' ''w1'') example_db)) = squads example_db"
proof -
  have "squads example_db (''a'', ''team'') = Some \<lparr>sq_wire = ''w1'', sq_creator = ''n1'',
      sq_relay = ''wss://r'', sq_members = {''m1''}, sq_lost = None\<rparr>"
    by (simp add: squads_def example_db_group) (simp add: row_of_def example_row_def)
  then have "\<exists>n s. squads example_db (''a'', n) = Some s \<and> sq_wire s = ''w1''" by force
  then show ?thesis
    using insert_squad_refines [OF db_reachable_example, of plain_codec "example_row ''other'' ''w1''"]
    by (cases "insert_mls_group plain_codec (example_row ''other'' ''w1'') example_db")
      (auto simp: example_row_def)
qed




text \<open>
  Inviting records exactly one new membership, and withdrawing a new invitation restores the
  tables' memberships: after the withdrawal everyone is invited who was before, and nobody else.
\<close>

theorem invite_then_withdraw:
  assumes "\<not> is_bot_invited b n m db" and "update_mls_group_invite b n m db = (Inr True, db1)"
  shows "(is_bot_invited b' n' m' db1 \<longleftrightarrow> is_bot_invited b' n' m' db \<or> (b', n', m') = (b, n, m)) \<and>
    members (snd (delete_mls_group_member b n m db1)) = members db"
  using assms
  by (auto simp: update_mls_group_invite_def is_bot_invited_def delete_mls_group_member_def
      row_insert_ignore_def filter_id_conv split: if_splits)

theorem invite_then_withdraw_witness:
  "members (snd (delete_mls_group_member ''a'' ''team'' ''m2''
     (snd (update_mls_group_invite ''a'' ''team'' ''m2'' example_db)))) = [(''a'', ''team'', ''m1'')]"
proof -
  have "update_mls_group_invite ''a'' ''team'' ''m2'' example_db =
      (Inr True, snd (update_mls_group_invite ''a'' ''team'' ''m2'' example_db))"
    by (simp add: update_mls_group_invite_def hm_contains_def example_db_group)
  from invite_then_withdraw [OF _ this] show ?thesis
    by (simp add: is_bot_invited_def example_db_group)
qed

section \<open>Cursors and restarts\<close>

lemma load_cursor_last_save:
  assumes "is_i64 c" and "\<And>x. x \<in> set later \<Longrightarrow> fst x \<noteq> b"
  shows "load_cursor pe b (fold (\<lambda>(b, npub, c, t) db. snd (save_cursor t b npub c db)) later
     (snd (save_cursor t b npub c db))) = Inr (Some (npub, c))"
  using assms(2)
proof (induction later rule: rev_induct)
  case Nil
  then show ?case using assms(1) by (simp add: load_save_cursor)
next
  case (snoc x xs)
  obtain b' npub' c' t' where x: "x = (b', npub', c', t')" by (cases x)
  then have "b' \<noteq> b" using snoc.prems [of x] by simp
  then show ?case using snoc by (simp add: x load_save_cursor_other)
qed


definition example_bot_state :: bot_state where
  "example_bot_state = \<lparr>bs_config = example_cfg, bs_public_key = ''pk1'', bs_bunker = False, bs_mls = False,
     mls_unavailable_reason = None, subscriptions = [], bs_reset_at = None\<rparr>"



lemma handler_rows_saved:
  assumes "distinct (map h_id hs)" and "\<And>h. h \<in> set hs \<Longrightarrow> \<not> hm_contains (handler_rows db) (h_id h)"
  shows "\<exists>rows. handler_rows (fold (\<lambda>h db. snd (save_handler cd h db)) hs db) = handler_rows db @ rows \<and>
    (codec_ok cd \<longrightarrow> (\<forall>h \<in> set hs. secs_ok cd (registered_at h)) \<longrightarrow>
       map_res (load_handler cd now) rows = Inr (map persisted hs))"
  using assms
proof (induction hs arbitrary: db)
  case Nil
  then show ?case by simp
next
  case (Cons h hs)
  let ?db = "snd (save_handler cd h db)"
  have fresh: "hm_get (handler_rows db) (h_id h) = None"
    using Cons.prems(2) [of h] by (simp add: hm_contains_def)
  obtain r where ins: "handler_rows ?db = hm_insert (h_id h) r (handler_rows db)"
    by (simp add: save_handler_def)
  have r: "handler_rows ?db = handler_rows db @ [(h_id h, r)]"
      "hm_get (handler_rows ?db) (h_id h) = Some r"
    unfolding ins by (simp add: hm_insert_fresh [OF fresh]) (rule hm_get_insert [THEN trans], simp)
  have "\<not> hm_contains (handler_rows ?db) (h_id g)" if "g \<in> set hs" for g
    using Cons.prems(2) [of g] Cons.prems(1) that unfolding ins hm_contains_insert
    by (metis distinct.simps(2) image_eqI list.set_intros(2) list.set_map list.simps(9))
  then obtain rows where rows: "handler_rows (fold (\<lambda>h db. snd (save_handler cd h db)) hs ?db) = handler_rows ?db @ rows"
      "codec_ok cd \<longrightarrow> (\<forall>h \<in> set hs. secs_ok cd (registered_at h)) \<longrightarrow>
       map_res (load_handler cd now) rows = Inr (map persisted hs)"
    using Cons.IH [of ?db] Cons.prems(1) by auto
  show ?case
  proof (intro exI conjI impI)
    show "handler_rows (fold (\<lambda>h db. snd (save_handler cd h db)) (h # hs) db) = handler_rows db @ (h_id h, r) # rows"
      using rows(1) r(1) by simp
    assume cd: "codec_ok cd" and secs: "\<forall>h \<in> set (h # hs). secs_ok cd (registered_at h)"
    then have "load_handler cd now (h_id h, r) = Inr (persisted h)"
      using load_handler_saved [OF cd _ r(2)] by simp
    then show "map_res (load_handler cd now) ((h_id h, r) # rows) = Inr (map persisted (h # hs))"
      using rows(2) cd secs by simp
  qed
qed



text \<open>
  C22: A restored handler is stale by the age of its registration, not of its last contact: as soon
  as the registration is older than the timeout, the reaper's next round, the immediate one at
  startup included, finds it stale.
\<close>

theorem restored_handler_stale_by_age:
  assumes "\<not> hm_contains reg (h_id h)" and "load_handler cd t0 (i, r) = Inr h"
    and "hm_get (reg_restore h reg) (h_id h) = Some g"
  shows "is_stale chs now timeout g \<longleftrightarrow> now - registered_at h > min (int timeout) CHRONO_MAX"
  using assms
  by (auto simp: reg_restore_def Let_def load_handler_def is_stale_def is_connected_def rbind_eq_Inr)

theorem restored_handler_stale_by_age_witness:
  "is_stale (\<lambda>_. \<lparr>ch_queue = [], ch_capacity = 8, ch_closed = False\<rparr>) (3600 * 1000000000) (30 * NANOS_PER_SEC)
     ((persisted example_handler)\<lparr>last_seen := 0, h_transport := ''unknown''\<rparr>)"
proof -
  have loaded: "load_handler plain_codec 0 (''u'', \<lparr>hr_bot_ids = plain_enc [''a''],
      hr_event_types = plain_enc [as_wire_name DmReceived], hr_capabilities = plain_enc [''SendMessages''],
      hr_token = ''t'', hr_registered_at = 0\<rparr>) = Inr (persisted example_handler)"
    using load_handler_saved [OF codec_ok_plain, of example_handler empty_db _ 0]
    by (simp add: save_handler_def secs_ok_def plain_codec_def example_handler_def timestamp_secs_def empty_db_def
        del: as_wire_name.simps)
  show ?thesis
    using restored_handler_stale_by_age [OF _ loaded, of "[]"]
    by (simp add: reg_restore_def hm_contains_def persisted_def example_handler_def timestamp_secs_def
        NANOS_PER_SEC_def CHRONO_MAX_def Let_def)
qed

section \<open>Reconciliation\<close>

text \<open>
  C17: Reconciling a bot with its engine marks exactly the right squads as lost: after a run that
  succeeds, the mark of a wire id is new exactly if a reset of the bot's store was completed, the
  daemon had an unmarked row for it, and the engine does not know it; every other mark, of this and
  of every other bot, is as before.
\<close>

theorem reconcile_marks_lost:
  assumes "reconcile_mls_groups cd now b npub (Inr gs) s = (Inr u, s')" and "db_reachable (tables s)"
  shows "lost_at b' w (tables s') =
    (if b' = b \<and> reset_completed b (tables s) \<and>
        (\<exists>r \<in> set (load_all_mls_groups b (tables s)).
           mg_wire_id r = w \<and> mg_state_lost_at r = None \<and> w \<notin> eg_wire_id ` set gs)
     then Some now else lost_at b' w (tables s))"
  using reconcile_lost_at [OF assms(1) db_reachable_ok [OF assms(2)]] .


definition example_reset_db :: database where
  "example_reset_db = snd (complete_mls_store_reset ''a'' 5 None (snd (mark_mls_store_reset_start ''a'' 4 example_db)))"

lemma db_reachable_reset: "db_reachable example_reset_db"
  unfolding example_reset_db_def
  by (rule db_next [OF db_next [OF db_reachable_example db_step.intros(12)] db_step.intros(13)])

lemma example_reset:
  "reset_completed ''a'' example_reset_db"
  "groups example_reset_db = groups example_db" "members example_reset_db = members example_db"
  by (simp_all add: example_reset_db_def reset_completed_def load_mls_store_reset_marker_def
      complete_mls_store_reset_def mark_mls_store_reset_start_def)

lemma example_load_all:
  "load_all_mls_groups ''a'' example_reset_db = [example_row ''team'' ''w1'']"
proof -
  have "groups example_db = [((''a'', ''team''), row_of plain_codec (example_row ''team'' ''w1''))]"
    by (simp add: example_db_def insert_mls_group_def insert_group_def empty_db_def example_row_def
        group_by_wire_def hm_contains_def)
  then show ?thesis
    by (simp add: load_all_mls_groups_def example_reset concat_members_def group_members_def example_db_group
        mk_group_row_def row_of_def example_row_def)
qed

lemma reconcile_example:
  "\<exists>s'. reconcile_mls_groups plain_codec 9 ''a'' ''n1'' (Inr []) \<lparr>tables = example_reset_db, faults = []\<rparr> = (Inr (), s')"
  by (simp add: reconcile_mls_groups_def db_read_def andthen_def db_act_no_fault example_load_all
      example_reset mark_lost_def) (simp add: example_row_def mark_mls_group_state_lost_def)

theorem reconcile_marks_lost_witness:
  "\<exists>s'. reconcile_mls_groups plain_codec 9 ''a'' ''n1'' (Inr []) \<lparr>tables = example_reset_db, faults = []\<rparr> =
     (Inr (), s') \<and> lost_at ''a'' ''w1'' (tables s') = Some 9"
proof -
  obtain s' where run: "reconcile_mls_groups plain_codec 9 ''a'' ''n1'' (Inr [])
      \<lparr>tables = example_reset_db, faults = []\<rparr> = (Inr (), s')"
    using reconcile_example by blast
  from reconcile_marks_lost [OF run, of "''a''" "''w1''"] have "lost_at ''a'' ''w1'' (tables s') = Some 9"
    by (simp add: db_reachable_reset example_reset example_load_all example_row_def)
  with run show ?thesis by blast
qed

end
