(* ===== verification/DispatchState.thy ===== *)
theory DispatchState
  imports Reconcile Diagnostics Dedup
begin

text \<open>
  The state of the dispatch router (\<open>Dispatch\<close> in \<open>src/dispatch.rs\<close>), the calls it makes to the
  Nostr client, the MLS engines and the attachment processor, and the checks its request handlers
  share. Every such call is appended to a log; what it returns is an argument of the model, a
  function of the calls made so far. The clocks, the random sources, and the codecs of other
  crates are read from an environment, one per request.
\<close>

section \<open>Calls to the services\<close>

text \<open>The first argument of a call is the public key of the bot whose signer or engine it uses.\<close>

datatype call =
    SendDm str str str "str option"
  | SendReaction str str str str
  | SendAttachment str str
  | SetProfile str "str option" "str option" "str option"
  | PrepareAttachment str "str option"
  | CompleteAttachment str
  | ResolveWireId str str
  | SendGroupMessage str str str "str option"
  | SendGroupReaction str str str str
  | SendGroupAttachment str str
  | PublishKeyPackage str "str list"
  | FetchKeyPackage str str u64
  | MlsCreateGroup str str str str "str list" "str list"
  | SendWelcome str str str
  | MlsAddMember str str str str
  | MlsIsMember str str str
  | SendEvolution str str
  | MlsRepairAdmins str str
  | MlsLeaveGroup str str
  | MlsDeleteGroup str str

fun call_signer :: "call \<Rightarrow> str" where
  "call_signer (SendDm s _ _ _) = s"
| "call_signer (SendReaction s _ _ _) = s"
| "call_signer (SendAttachment s _) = s"
| "call_signer (SetProfile s _ _ _) = s"
| "call_signer (PrepareAttachment s _) = s"
| "call_signer (CompleteAttachment s) = s"
| "call_signer (ResolveWireId s _) = s"
| "call_signer (SendGroupMessage s _ _ _) = s"
| "call_signer (SendGroupReaction s _ _ _) = s"
| "call_signer (SendGroupAttachment s _) = s"
| "call_signer (PublishKeyPackage s _) = s"
| "call_signer (FetchKeyPackage s _ _) = s"
| "call_signer (MlsCreateGroup s _ _ _ _ _) = s"
| "call_signer (SendWelcome s _ _) = s"
| "call_signer (MlsAddMember s _ _ _) = s"
| "call_signer (MlsIsMember s _ _) = s"
| "call_signer (SendEvolution s _) = s"
| "call_signer (MlsRepairAdmins s _) = s"
| "call_signer (MlsLeaveGroup s _) = s"
| "call_signer (MlsDeleteGroup s _) = s"

text \<open>The outcome of adding a member, and of leaving a group.\<close>

record add_outcome =
  remove_evolution_event :: "str option"
  welcome_rumor :: str
  evolution_event :: str

record leave_outcome =
  leave_event :: str
  self_demote_event :: "str option"

record env =
  e_now :: nanos
  e_clock :: nanos
  e_utc :: int
  e_secs :: u64
  e_uuid :: str
  e_token :: "str res"
  e_codec :: json_codec
  e_hex_decode :: "str \<Rightarrow> str option"
  e_hex_error :: "str \<Rightarrow> str"
  e_parse_key :: "str \<Rightarrow> str + str"
  e_bech32 :: "str \<Rightarrow> str + str"
  e_graphemes :: "str \<Rightarrow> nat"
  e_relay_url_ok :: "str \<Rightarrow> bool"
  e_redact :: "str \<Rightarrow> str"
  e_show_json :: "json \<Rightarrow> str"
  e_de_error :: "json \<Rightarrow> str"
  e_rfc3339 :: "int \<Rightarrow> str"
  e_serde_time :: "int \<Rightarrow> str"
  e_git_sha :: str
  e_relay_states :: "(str \<times> str) list"
  e_new_sender :: nat
  x_text :: "call list \<Rightarrow> call \<Rightarrow> str res"
  x_unit :: "call list \<Rightarrow> call \<Rightarrow> unit res"
  x_mls :: "call list \<Rightarrow> call \<Rightarrow> mls_error + str"
  x_mls_bool :: "call list \<Rightarrow> call \<Rightarrow> mls_error + bool"
  x_mls_add :: "call list \<Rightarrow> call \<Rightarrow> mls_error + add_outcome"
  x_mls_leave :: "call list \<Rightarrow> call \<Rightarrow> mls_error + leave_outcome"
  x_mls_repair :: "call list \<Rightarrow> call \<Rightarrow> mls_error + str \<times> str list"
  x_mls_create :: "call list \<Rightarrow> call \<Rightarrow> mls_error + str \<times> str"
  x_late :: "nat \<Rightarrow> bool"

section \<open>Handler actions and pending dispatches\<close>

datatype handler_action = Ack | Reply str | SendDmAction str | Defer | Ignore

fun action_label :: "handler_action \<Rightarrow> str" where
  "action_label Ack = ''ack''"
| "action_label (Reply _) = ''reply''"
| "action_label (SendDmAction _) = ''send_dm''"
| "action_label Defer = ''defer''"
| "action_label Ignore = ''ignore''"

definition action_from_value :: "json \<Rightarrow> handler_action res" where
  "action_from_value v =
     rbind (ok_or (Config ''handler.response missing action'') (str_field v ''action'')) (\<lambda>a.
       if a = ''ack'' then Inr Ack
       else if a = ''reply'' then
         rbind (ok_or (Config ''handler.response reply missing content'') (str_field v ''content''))
           (\<lambda>c. Inr (Reply c))
       else if a = ''send_dm'' then
         rbind (ok_or (Config ''handler.response send_dm missing content'') (str_field v ''content''))
           (\<lambda>c. Inr (SendDmAction c))
       else if a = ''defer'' then Inr Defer
       else if a = ''ignore'' then Inr Ignore
       else Inl (Config (''invalid handler action: '' @ a)))"

text \<open>
  \<open>pd_channel\<close> is the unbounded channel to the waiting dispatch; what was sent is read from its
  front.
\<close>

record pending_dispatch =
  pd_channel :: "(str \<times> handler_action) list"
  pd_handler_ids :: "str set"
  pd_counts :: "(str, nat) hmap"
  pd_max :: nat

definition MAX_RESPONSES_PER_HANDLER :: nat where "MAX_RESPONSES_PER_HANDLER = 1"
definition HANDLER_STALE_TIMEOUT :: nanos where "HANDLER_STALE_TIMEOUT = 30 * NANOS_PER_SEC"

section \<open>The router\<close>

record daemon =
  d_bots :: bot_table
  d_registry :: registry
  d_chans :: channels
  d_store :: store
  d_diag :: diagnostics
  d_limiter :: rate_limiter
  d_dedup :: dedup_cache
  d_pending :: "(str, pending_dispatch) hmap"
  d_registered :: u64
  d_last_cursor :: "(str, str \<times> int) hmap"
  d_stale_timeout :: nanos
  d_spool_dir :: "str option"
  d_calls :: "call list"

definition dispatch_new :: "bot_table \<Rightarrow> store \<Rightarrow> diagnostics \<Rightarrow> channels \<Rightarrow> nanos \<Rightarrow> daemon" where
  "dispatch_new bt st dg chs clock =
     \<lparr>d_bots = bt, d_registry = [], d_chans = chs, d_store = st, d_diag = dg,
      d_limiter = rate_limiter_default clock, d_dedup = dedup_new MLS_DEDUP_MAX_SIZE, d_pending = [],
      d_registered = 0, d_last_cursor = [], d_stale_timeout = HANDLER_STALE_TIMEOUT,
      d_spool_dir = None, d_calls = []\<rparr>"

definition set_group_rate_limit :: "rat \<Rightarrow> rat \<Rightarrow> daemon \<Rightarrow> daemon" where
  "set_group_rate_limit r b d = d\<lparr>d_limiter := set_group_limits r b (d_limiter d)\<rparr>"

definition set_handler_stale_timeout :: "nanos \<Rightarrow> daemon \<Rightarrow> daemon" where
  "set_handler_stale_timeout t d = d\<lparr>d_stale_timeout := t\<rparr>"

type_synonym 'a dact = "(daemon, 'a) act"

definition on_store :: "(store, 'a) act \<Rightarrow> 'a dact" where
  "on_store m d = (case m (d_store d) of (r, st) \<Rightarrow> (r, d\<lparr>d_store := st\<rparr>))"

definition diag :: "(diagnostics \<Rightarrow> diagnostics) \<Rightarrow> unit dact" where
  "diag f = modify (\<lambda>d. d\<lparr>d_diag := f (d_diag d)\<rparr>)"

lemma diag_then [simp]: "andthen (diag f) k d = k () (d\<lparr>d_diag := f (d_diag d)\<rparr>)"
  by (simp add: diag_def)

text \<open>A call: its result depends on the calls before it, and it is logged.\<close>

definition do_call :: "(call list \<Rightarrow> call \<Rightarrow> 'e + 'a) \<Rightarrow> ('e \<Rightarrow> daemon_error) \<Rightarrow> call \<Rightarrow> 'a dact" where
  "do_call x conv c d =
     ((case x (d_calls d) c of Inl e \<Rightarrow> Inl (conv e) | Inr a \<Rightarrow> Inr a),
      d\<lparr>d_calls := d_calls d @ [c]\<rparr>)"

section \<open>Checks the handlers share\<close>

definition required_string :: "json \<Rightarrow> str \<Rightarrow> str \<Rightarrow> str res" where
  "required_string params field meth =
     ok_or (Config (meth @ '' missing '' @ field)) (str_field params field)"

definition required_params :: "json option \<Rightarrow> str \<Rightarrow> json res" where
  "required_params params meth = ok_or (Config (meth @ '' missing params'')) params"

definition invalid_params :: "str \<Rightarrow> daemon_error" where
  "invalid_params m = JsonRpc (json_rpc_error_new (-32602) m)"

definition validate_reaction :: "env \<Rightarrow> str \<Rightarrow> unit res" where
  "validate_reaction env emo =
     (if emo = [] \<or> e_graphemes env emo \<noteq> 1 then Inl InvalidReaction else Inr ())"

text \<open>\<open>cm.is_authorized(hid, bot_id, capability)?\<close> and the refusal.\<close>

definition authorize :: "str option \<Rightarrow> str \<Rightarrow> str \<Rightarrow> str dact" where
  "authorize handler_id bot_id capability =
     andthen (of_res (ok_or HandlerNotRegistered handler_id)) (\<lambda>hid.
     andthen (gets (\<lambda>d. reg_is_authorized hid bot_id capability (d_registry d))) (\<lambda>r.
     andthen (of_res r) (\<lambda>authorized.
       if authorized then ret hid else fail UnauthorizedBot)))"

definition check_rate :: "env \<Rightarrow> str \<Rightarrow> str \<Rightarrow> unit dact" where
  "check_rate env hid bot_id d =
     (case rl_check hid bot_id (e_now env) (e_clock env) (d_limiter d) of
        (allowed, rl) \<Rightarrow>
          (let d1 = d\<lparr>d_limiter := rl\<rparr>
           in if allowed then (Inr (), d1)
              else (Inl RateLimited, d1\<lparr>d_diag := record_rate_limited (d_diag d1)\<rparr>)))"

text \<open>The gate in front of a send: registered, authorized for the bot, within the rate.\<close>

definition gate :: "env \<Rightarrow> str option \<Rightarrow> str \<Rightarrow> str \<Rightarrow> unit dact" where
  "gate env handler_id bot_id capability =
     andthen (authorize handler_id bot_id capability) (\<lambda>hid. check_rate env hid bot_id)"

definition find_bot :: "str \<Rightarrow> bot_state dact" where
  "find_bot bot_id =
     andthen (gets (\<lambda>d. get_bot_by_id (d_bots d) bot_id)) (\<lambda>b. of_res (ok_or (UnknownBot bot_id) b))"

lemma find_bot_then:
  "andthen (find_bot bot_id) k d =
     (case get_bot_by_id (d_bots d) bot_id of None \<Rightarrow> (Inl (UnknownBot bot_id), d) | Some b \<Rightarrow> k b d)"
  by (cases "get_bot_by_id (d_bots d) bot_id") (simp_all add: find_bot_def andthen_def)

definition bot_engine :: "bot_state \<Rightarrow> unit res" where
  "bot_engine b = (if bs_mls b then Inr () else Inl (mls_unavailable_error b))"

text \<open>Sends into a group whose engine state a reset lost are refused before the engine.\<close>

definition refuse_lost :: "str \<Rightarrow> str \<Rightarrow> unit dact" where
  "refuse_lost bot_id group_id =
     andthen (on_store (db_read (load_mls_group_state_lost_at bot_id group_id))) (\<lambda>lost.
       if lost \<noteq> None then fail MlsGroupStateLost else ret ())"

definition require_admin_or_self :: "str option \<Rightarrow> str option \<Rightarrow> unit dact" where
  "require_admin_or_self caller target =
     (case caller of
        None \<Rightarrow> fail HandlerNotRegistered
      | Some c \<Rightarrow>
          if target = Some c then ret ()
          else andthen (gets (\<lambda>d. hm_get (d_registry d) c)) (\<lambda>h.
               andthen (of_res (ok_or HandlerNotRegistered h)) (\<lambda>h.
                 if ''Admin'' \<in> set (capabilities h) then ret () else fail UnauthorizedBot)))"

definition is_ascii_whitespace :: "char \<Rightarrow> bool" where
  "is_ascii_whitespace c \<longleftrightarrow> (of_char c :: nat) \<in> {9, 10, 12, 13, 32}"

definition is_ascii_control :: "char \<Rightarrow> bool" where
  "is_ascii_control c \<longleftrightarrow> (of_char c :: nat) < 32 \<or> (of_char c :: nat) = 127"

definition trim_ascii :: "str \<Rightarrow> str" where
  "trim_ascii s = rev (dropWhile is_ascii_whitespace (rev (dropWhile is_ascii_whitespace s)))"

definition validate_group_name :: "str \<Rightarrow> str res" where
  "validate_group_name name =
     (let trimmed = trim_ascii name
      in if trimmed = [] then Inl (InvalidJsonRpcRequest ''group_name must not be empty'')
         else if length trimmed > 128
           then Inl (InvalidJsonRpcRequest ''group_name must not exceed 128 characters'')
         else if \<exists>c \<in> set trimmed. is_ascii_control c \<or> c = CHR ''/'' \<or> c = CHR 0x5C
           then Inl (InvalidJsonRpcRequest
             ''group_name must not contain control characters or path separators'')
         else Inr trimmed)"

definition parse_recipient :: "env \<Rightarrow> str \<Rightarrow> str res" where
  "parse_recipient env s =
     (case e_parse_key env s of
        Inl e \<Rightarrow> Inl (InvalidJsonRpcRequest (''invalid recipient: '' @ e))
      | Inr pk \<Rightarrow> Inr pk)"

definition collect_own_pubkeys :: "bot_table \<Rightarrow> str list \<Rightarrow> (str \<times> str) list" where
  "collect_own_pubkeys bt ids =
     fold (\<lambda>i m. case get_bot_by_id bt i of Some b \<Rightarrow> hm_insert i (bs_npub b) m | None \<Rightarrow> m) ids []"

text \<open>\<open>content_preview\<close> cuts at 120 characters; a character starts at a non-continuation byte.\<close>

definition char_count :: "str \<Rightarrow> nat" where
  "char_count s = length (filter starts_char s)"

fun take_chars :: "nat \<Rightarrow> str \<Rightarrow> str" where
  "take_chars n [] = []"
| "take_chars n (c # cs) =
     (if starts_char c then (case n of 0 \<Rightarrow> [] | Suc k \<Rightarrow> c # take_chars k cs)
      else c # take_chars n cs)"

definition ellipsis :: str where "ellipsis = [CHR 0xE2, CHR 0x80, CHR 0xA6]"

definition preview :: "str \<Rightarrow> str" where
  "preview s = (if char_count s \<le> 120 then s else take_chars 120 s @ ellipsis)"

end
