(* ===== verification/DispatchSend.thy ===== *)
theory DispatchSend
  imports DispatchState
begin

text \<open>
  The request handlers that publish on behalf of a bot (\<open>handle_send_dm\<close> to
  \<open>handle_publish_key_package\<close>, \<open>handle_error\<close> and \<open>handle_is_squad_member\<close> in
  \<open>src/dispatch.rs\<close>, with the source and metadata checks of \<open>src/attachment/outbound.rs\<close>), and
  what a handler must hold for any of them to reach a service.
\<close>

section \<open>Direct messages and reactions\<close>

definition handle_send_dm ::
    "env \<Rightarrow> str \<Rightarrow> str \<Rightarrow> str \<Rightarrow> str option \<Rightarrow> str option \<Rightarrow> str dact" where
  "handle_send_dm env bot_id recipient content reply_to handler_id =
     andthen (gate env handler_id bot_id ''SendMessages'') (\<lambda>_.
     andthen (find_bot bot_id) (\<lambda>b.
       do_call (x_text env) id (SendDm (bs_public_key b) recipient content reply_to)))"

definition handle_send_dm_msg :: "env \<Rightarrow> str option \<Rightarrow> json option \<Rightarrow> json option dact" where
  "handle_send_dm_msg env handler_id params =
     andthen (of_res (required_params params ''agent.send_dm'')) (\<lambda>p.
     andthen (of_res (required_string p ''bot_id'' ''agent.send_dm'')) (\<lambda>bot_id.
     andthen (of_res (required_string p ''recipient'' ''agent.send_dm'')) (\<lambda>recipient.
     andthen (of_res (required_string p ''content'' ''agent.send_dm'')) (\<lambda>content.
     andthen (handle_send_dm env bot_id recipient content (str_field p ''reply_to'') handler_id) (\<lambda>eid.
       ret (Some (JString eid)))))))"

definition handle_send_reaction :: "env \<Rightarrow> str option \<Rightarrow> json option \<Rightarrow> json option dact" where
  "handle_send_reaction env handler_id params =
     andthen (of_res (required_params params ''agent.send_reaction'')) (\<lambda>p.
     andthen (of_res (required_string p ''bot_id'' ''agent.send_reaction'')) (\<lambda>bot_id.
     andthen (of_res (required_string p ''recipient'' ''agent.send_reaction'')) (\<lambda>recipient.
     andthen (of_res (required_string p ''target_rumor_id'' ''agent.send_reaction'')) (\<lambda>target.
     andthen (of_res (required_string p ''emoji'' ''agent.send_reaction'')) (\<lambda>emo.
     andthen (of_res (validate_reaction env emo)) (\<lambda>_.
     andthen (gate env handler_id bot_id ''SendReactions'') (\<lambda>_.
     andthen (find_bot bot_id) (\<lambda>b.
     andthen (do_call (x_text env) id (SendReaction (bs_public_key b) recipient target emo)) (\<lambda>eid.
       ret (Some (JString eid)))))))))))"

section \<open>Attachments\<close>

datatype attachment_source = InlineBase64 str | SpoolPath str

record attachment_metadata =
  am_filename :: "str option"
  am_blurhash :: "str option"
  am_dim :: "str option"
  am_reply_to :: "str option"

definition attachment_metadata_of :: "json \<Rightarrow> attachment_metadata" where
  "attachment_metadata_of p =
     \<lparr>am_filename = str_field p ''filename'', am_blurhash = str_field p ''blurhash'',
      am_dim = str_field p ''dim'', am_reply_to = str_field p ''reply_to''\<rparr>"

definition source_from_params :: "str option \<Rightarrow> str option \<Rightarrow> attachment_source res" where
  "source_from_params spool_path inline_base64 =
     (case (spool_path, inline_base64) of
        (Some path, None) \<Rightarrow>
          if path \<noteq> [] then Inr (SpoolPath path)
          else Inl (invalid_params ''exactly one of spool_path or inline_base64 is required'')
      | (None, Some encoded) \<Rightarrow>
          if encoded \<noteq> [] then Inr (InlineBase64 encoded)
          else Inl (invalid_params ''exactly one of spool_path or inline_base64 is required'')
      | _ \<Rightarrow> Inl (invalid_params ''exactly one of spool_path or inline_base64 is required''))"

text \<open>\<open>u32::from_str\<close>: an optional plus sign, at least one digit, and the value in range.\<close>

definition parse_u32 :: "str \<Rightarrow> nat option" where
  "parse_u32 s =
     (case (case s of c # cs \<Rightarrow> if c = CHR ''+'' then parse_nat cs else parse_nat s | [] \<Rightarrow> None) of
        Some n \<Rightarrow> if n \<le> 4294967295 then Some n else None
      | None \<Rightarrow> None)"

definition dim_error :: daemon_error where
  "dim_error = invalid_params ''dim must have WIDTHxHEIGHT form''"

definition validate_metadata :: "attachment_metadata \<Rightarrow> unit res" where
  "validate_metadata m =
     (case am_dim m of
        None \<Rightarrow> Inr ()
      | Some wh \<Rightarrow>
          (case split_once (CHR ''x'') wh of
             None \<Rightarrow> Inl dim_error
           | Some (w, h) \<Rightarrow>
               if parse_u32 w \<noteq> None \<and> parse_u32 h \<noteq> None \<and> w \<noteq> [] \<and> h \<noteq> [] then Inr ()
               else Inl dim_error))"

text \<open>A failed attachment is counted, and an exhausted blob upload separately.\<close>

definition count_attachment_failure :: "'a dact \<Rightarrow> 'a dact" where
  "count_attachment_failure m =
     andthen (attempt m) (\<lambda>r.
       case r of
         Inr a \<Rightarrow> ret a
       | Inl e \<Rightarrow>
           andthen (diag record_attachment_send_failed) (\<lambda>_.
           andthen (case e of BlobUploadFailed _ \<Rightarrow> diag record_blob_upload_failed | _ \<Rightarrow> ret ()) (\<lambda>_.
             fail e)))"

definition attachment_service :: "str dact" where
  "attachment_service =
     andthen (gets d_spool_dir) (\<lambda>s. of_res (ok_or (Config ''attachment service is not configured'') s))"

definition handle_send_attachment :: "env \<Rightarrow> str option \<Rightarrow> json option \<Rightarrow> json option dact" where
  "handle_send_attachment env handler_id params =
     andthen (of_res (ok_or (invalid_params ''agent.send_attachment missing params'') params)) (\<lambda>p.
     andthen (of_res (required_string p ''bot_id'' ''agent.send_attachment'')) (\<lambda>bot_id.
     andthen (of_res (required_string p ''recipient'' ''agent.send_attachment'')) (\<lambda>text.
     andthen (of_res (case e_parse_key env text of
         Inl _ \<Rightarrow> Inl (invalid_params ''recipient must be an npub or hex public key'')
       | Inr pk \<Rightarrow> Inr pk)) (\<lambda>recipient.
     andthen attachment_service (\<lambda>_.
     andthen (of_res (source_from_params (str_field p ''spool_path'') (str_field p ''inline_base64''))) (\<lambda>_.
     andthen (of_res (validate_metadata (attachment_metadata_of p))) (\<lambda>_.
     andthen (gate env handler_id bot_id ''SendAttachments'') (\<lambda>_.
     andthen (diag record_attachment_send) (\<lambda>_.
     andthen (count_attachment_failure
       (andthen (find_bot bot_id) (\<lambda>b.
        andthen (do_call (x_text env) id (PrepareAttachment (bs_public_key b) (Some recipient))) (\<lambda>_.
        andthen (do_call (x_text env) id (SendAttachment (bs_public_key b) recipient)) (\<lambda>eid.
        andthen (attempt (do_call (x_unit env) id (CompleteAttachment (bs_public_key b)))) (\<lambda>_.
          ret eid)))))) (\<lambda>eid.
       ret (Some (JString eid))))))))))))"

section \<open>Profiles and errors\<close>

definition handle_set_profile :: "env \<Rightarrow> str option \<Rightarrow> json option \<Rightarrow> json option dact" where
  "handle_set_profile env handler_id params =
     andthen (of_res (required_params params ''agent.set_profile'')) (\<lambda>p.
     andthen (of_res (required_string p ''bot_id'' ''agent.set_profile'')) (\<lambda>bot_id.
     andthen (gate env handler_id bot_id ''ManageProfile'') (\<lambda>_.
     andthen (find_bot bot_id) (\<lambda>b.
     andthen (do_call (x_text env) id
       (SetProfile (bs_public_key b) (str_field p ''name'') (str_field p ''about'')
          (str_field p ''picture''))) (\<lambda>eid.
       ret (Some (JString eid)))))))"

definition handle_error :: "env \<Rightarrow> str option \<Rightarrow> json option \<Rightarrow> json option dact" where
  "handle_error env handler_id params =
     andthen (of_res (required_params params ''agent.error'')) (\<lambda>p.
     andthen (of_res (required_string p ''bot_id'' ''agent.error'')) (\<lambda>bot_id.
     andthen (gate env handler_id bot_id ''ReadMessages'') (\<lambda>_.
     andthen (diag (record_error (e_redact env) (e_show_json env) (str_field p ''code'')
       (case str_field p ''message'' of Some m \<Rightarrow> m | None \<Rightarrow> ''unknown error'')
       (json_get p ''data''))) (\<lambda>_.
       ret None))))"

section \<open>Squad messages\<close>

text \<open>The engine's own error for an unknown wire id becomes the daemon's.\<close>

fun resolve_error :: "mls_error \<Rightarrow> daemon_error" where
  "resolve_error GroupNotFound = MlsGroupNotFound"
| "resolve_error e = Mls e"

definition handle_send_group_message_inner ::
    "env \<Rightarrow> str \<Rightarrow> str \<Rightarrow> str \<Rightarrow> str option \<Rightarrow> str option \<Rightarrow> str dact" where
  "handle_send_group_message_inner env bot_id group_id content bucket handler_id =
     andthen (gate env handler_id bot_id ''SendGroupMessages'') (\<lambda>_.
     andthen (refuse_lost bot_id group_id) (\<lambda>_.
     andthen (find_bot bot_id) (\<lambda>b.
     andthen (of_res (bot_engine b)) (\<lambda>_.
     andthen (do_call (x_mls env) resolve_error (ResolveWireId (bs_public_key b) group_id)) (\<lambda>gid.
       do_call (x_text env) id (SendGroupMessage (bs_public_key b) gid content bucket))))))"

definition handle_send_group_message :: "env \<Rightarrow> str option \<Rightarrow> json option \<Rightarrow> json option dact" where
  "handle_send_group_message env handler_id params =
     andthen (of_res (required_params params ''agent.send_group_message'')) (\<lambda>p.
     andthen (of_res (required_string p ''bot_id'' ''agent.send_group_message'')) (\<lambda>bot_id.
     andthen (of_res (required_string p ''group_id'' ''agent.send_group_message'')) (\<lambda>group_id.
     andthen (of_res (required_string p ''content'' ''agent.send_group_message'')) (\<lambda>content.
     andthen (handle_send_group_message_inner env bot_id group_id content
       (str_field p ''pacto_virtual_bucket'') handler_id) (\<lambda>eid.
       ret (Some (JString eid)))))))"

definition handle_send_group_reaction :: "env \<Rightarrow> str option \<Rightarrow> json option \<Rightarrow> json option dact" where
  "handle_send_group_reaction env handler_id params =
     andthen (of_res (required_params params ''agent.send_group_reaction'')) (\<lambda>p.
     andthen (of_res (required_string p ''bot_id'' ''agent.send_group_reaction'')) (\<lambda>bot_id.
     andthen (of_res (required_string p ''group_id'' ''agent.send_group_reaction'')) (\<lambda>group_id.
     andthen (of_res (required_string p ''target_rumor_id'' ''agent.send_group_reaction'')) (\<lambda>target.
     andthen (of_res (required_string p ''emoji'' ''agent.send_group_reaction'')) (\<lambda>emo.
     andthen (of_res (validate_reaction env emo)) (\<lambda>_.
     andthen (gate env handler_id bot_id ''SendGroupReactions'') (\<lambda>_.
     andthen (refuse_lost bot_id group_id) (\<lambda>_.
     andthen (find_bot bot_id) (\<lambda>b.
     andthen (of_res (bot_engine b)) (\<lambda>_.
     andthen (do_call (x_mls env) resolve_error (ResolveWireId (bs_public_key b) group_id)) (\<lambda>gid.
     andthen (do_call (x_text env) id (SendGroupReaction (bs_public_key b) gid target emo)) (\<lambda>eid.
       ret (Some (JString eid))))))))))))))"

definition handle_send_group_attachment :: "env \<Rightarrow> str option \<Rightarrow> json option \<Rightarrow> json option dact" where
  "handle_send_group_attachment env handler_id params =
     andthen (of_res (ok_or (invalid_params ''agent.send_group_attachment missing params'') params)) (\<lambda>p.
     andthen (of_res (required_string p ''bot_id'' ''agent.send_group_attachment'')) (\<lambda>bot_id.
     andthen (of_res (required_string p ''group_id'' ''agent.send_group_attachment'')) (\<lambda>group_id.
     andthen attachment_service (\<lambda>_.
     andthen (of_res (source_from_params (str_field p ''spool_path'') (str_field p ''inline_base64''))) (\<lambda>_.
     andthen (of_res (validate_metadata (attachment_metadata_of p))) (\<lambda>_.
     andthen (gate env handler_id bot_id ''SendGroupAttachments'') (\<lambda>_.
     andthen (refuse_lost bot_id group_id) (\<lambda>_.
     andthen (diag record_attachment_send) (\<lambda>_.
     andthen (count_attachment_failure
       (andthen (find_bot bot_id) (\<lambda>b.
        andthen (of_res (bot_engine b)) (\<lambda>_.
        andthen (do_call (x_mls env) resolve_error (ResolveWireId (bs_public_key b) group_id)) (\<lambda>gid.
        andthen (do_call (x_text env) id (PrepareAttachment (bs_public_key b) None)) (\<lambda>_.
        andthen (do_call (x_text env) id (SendGroupAttachment (bs_public_key b) gid)) (\<lambda>eid.
        andthen (attempt (do_call (x_unit env) id (CompleteAttachment (bs_public_key b)))) (\<lambda>_.
          ret eid)))))))) (\<lambda>eid.
       ret (Some (JString eid))))))))))))"

section \<open>Key packages and membership\<close>

definition handle_publish_key_package :: "env \<Rightarrow> str option \<Rightarrow> json option \<Rightarrow> json option dact" where
  "handle_publish_key_package env handler_id params =
     andthen (of_res (required_params params ''agent.publish_key_package'')) (\<lambda>p.
     andthen (of_res (required_string p ''bot_id'' ''agent.publish_key_package'')) (\<lambda>bot_id.
     andthen (gate env handler_id bot_id ''SendGroupMessages'') (\<lambda>_.
     andthen (find_bot bot_id) (\<lambda>b.
     andthen (of_res (bot_engine b)) (\<lambda>_.
     andthen (do_call (x_text env) id
       (PublishKeyPackage (bs_public_key b) (bc_relays (bs_config b)))) (\<lambda>eid.
       ret (Some (JString eid))))))))"

definition may_read_squad :: "str \<Rightarrow> str \<Rightarrow> daemon \<Rightarrow> bool" where
  "may_read_squad hid bot_id d \<longleftrightarrow>
     (case reg_is_authorized hid bot_id ''ReceiveGroupMessages'' (d_registry d) of
        Inr a \<Rightarrow> a | Inl _ \<Rightarrow> False) \<or>
     (case reg_is_authorized hid bot_id ''SendGroupMessages'' (d_registry d) of
        Inr a \<Rightarrow> a | Inl _ \<Rightarrow> False)"

text \<open>An unknown group reads as "not a member"; every other engine error is reported as such.\<close>

fun membership_error :: "daemon_error \<Rightarrow> bool res" where
  "membership_error MlsGroupNotFound = Inr False"
| "membership_error e = Inl (Nostr (''failed to check squad membership: '' @ daemon_error_to_string e))"

definition handle_is_squad_member_inner ::
    "env \<Rightarrow> str \<Rightarrow> str \<Rightarrow> str \<Rightarrow> str option \<Rightarrow> bool dact" where
  "handle_is_squad_member_inner env bot_id group_id member_pubkey handler_id =
     andthen (of_res (ok_or HandlerNotRegistered handler_id)) (\<lambda>hid.
     andthen (gets (may_read_squad hid bot_id)) (\<lambda>authorized.
       if \<not> authorized then fail UnauthorizedBot
       else
     andthen (of_res (case e_parse_key env member_pubkey of
         Inl e \<Rightarrow> Inl (Config (''invalid member_pubkey: '' @ e)) | Inr pk \<Rightarrow> Inr pk)) (\<lambda>pk.
     andthen (of_res (case e_hex_decode env group_id of
         None \<Rightarrow> Inl (Config (''invalid group_id hex: '' @ e_hex_error env group_id)) | Some _ \<Rightarrow> Inr ())) (\<lambda>_.
     andthen (find_bot bot_id) (\<lambda>b.
     andthen (of_res (bot_engine b)) (\<lambda>_.
     andthen (attempt (do_call (x_mls_bool env) from_mls_error
       (MlsIsMember (bs_public_key b) group_id pk))) (\<lambda>r.
       case r of Inr m \<Rightarrow> ret m | Inl e \<Rightarrow> of_res (membership_error e))))))))"

definition handle_is_squad_member :: "env \<Rightarrow> str option \<Rightarrow> json option \<Rightarrow> json option dact" where
  "handle_is_squad_member env handler_id params =
     andthen (of_res (required_params params ''agent.is_squad_member'')) (\<lambda>p.
     andthen (of_res (required_string p ''bot_id'' ''agent.is_squad_member'')) (\<lambda>bot_id.
     andthen (of_res (required_string p ''group_id'' ''agent.is_squad_member'')) (\<lambda>group_id.
     andthen (of_res (required_string p ''member_pubkey'' ''agent.is_squad_member'')) (\<lambda>pk.
     andthen (handle_is_squad_member_inner env bot_id group_id pk handler_id) (\<lambda>m.
       ret (Some (JObject [(''is_member'', JBool m)])))))))"

end
