(* ===== verification/DispatchEvent.thy ===== *)
theory DispatchEvent
  imports DispatchSend
begin

text \<open>
  Dispatching an event to handlers (\<open>dispatch_event\<close>, \<open>process_mls_group_message\<close> and
  \<open>handle_response\<close> in \<open>src/dispatch.rs\<close>) and the upkeep of registrations and cursors. A dispatch
  is three operations, because other tasks run between them: it is admitted, it opens its pending
  entry and notifies the handlers once it holds the lock of its event id, and it finishes when its
  responses have come or its time is up.
\<close>

definition notify :: "(channels \<Rightarrow> unit res \<times> channels) \<Rightarrow> unit dact" where
  "notify f d = (case f (d_chans d) of (r, chs) \<Rightarrow> (r, d\<lparr>d_chans := chs\<rparr>))"

definition utc_secs :: "env \<Rightarrow> int" where
  "utc_secs env = timestamp_secs (e_utc env)"

section \<open>Admission\<close>

text \<open>A Welcome that restored a group marked as lost clears the mark.\<close>

definition clear_restored :: "agent_event \<Rightarrow> unit dact" where
  "clear_restored ev =
     (if ev_type ev = MlsWelcomeReceived then
        (case chat_id ev of
           None \<Rightarrow> ret ()
         | Some wire_id \<Rightarrow>
             andthen (on_store (db_read (load_all_mls_groups (ev_bot_id ev)))) (\<lambda>gs.
               case find (\<lambda>g. mg_wire_id g = wire_id \<and> mg_state_lost_at g \<noteq> None) gs of
                 None \<Rightarrow> ret ()
               | Some g \<Rightarrow>
                   on_store (db_act (clear_mls_group_state_lost (ev_bot_id ev) (mg_group_name g)))))
      else ret ())"

text \<open>The configured bots among the mentioned keys, each once, in the order of the mentions.\<close>

fun mentioned_bots :: "(str, str) hmap \<Rightarrow> str list \<Rightarrow> str list \<Rightarrow> str list" where
  "mentioned_bots m acc [] = acc"
| "mentioned_bots m acc (npub # npubs) =
     (case hm_get m npub of
        Some bot_id \<Rightarrow> mentioned_bots m (if bot_id \<in> set acc then acc else acc @ [bot_id]) npubs
      | None \<Rightarrow> mentioned_bots m acc npubs)"

definition seen_before :: "env \<Rightarrow> str \<Rightarrow> nanos \<Rightarrow> bool dact" where
  "seen_before env key window d =
     (case is_duplicate key window (e_clock env) (d_dedup d) of
        (dup, c) \<Rightarrow> (Inr dup, d\<lparr>d_dedup := c\<rparr>))"

definition within_group_rate :: "env \<Rightarrow> str \<Rightarrow> str \<Rightarrow> bool dact" where
  "within_group_rate env bot_id group_id d =
     (case rl_check_group bot_id group_id (e_now env) (e_clock env) (d_limiter d) of
        (allowed, rl) \<Rightarrow> (Inr allowed, d\<lparr>d_limiter := rl\<rparr>))"

text \<open>\<open>None\<close>: the event is dropped.\<close>

definition process_mls_group_message ::
    "env \<Rightarrow> agent_event \<Rightarrow> handler_ref list \<Rightarrow> bot_config \<Rightarrow> (str, str) hmap \<Rightarrow>
     (agent_event \<times> handler_ref list) option dact" where
  "process_mls_group_message env ev handlers cfg npubs =
     (let receivers = filter (\<lambda>h. h_is_authorized h (ev_bot_id ev) ''ReceiveGroupMessages'') handlers;
          window = unat (dedup_window cfg) * NANOS_PER_SEC;
          group_id = (case chat_id ev of Some g \<Rightarrow> g | None \<Rightarrow> [])
      in andthen (seen_before env (dedup_key (ev_bot_id ev) (ev_event_id ev)) window) (\<lambda>dup.
           if dup then ret None
           else
         andthen (within_group_rate env (ev_bot_id ev) group_id) (\<lambda>allowed.
           if \<not> allowed then
             andthen (diag record_group_message_rate_limited) (\<lambda>_.
             andthen (for_each (\<lambda>h. andthen (attempt (notify
                 (send_rate_limited h (ev_bot_id ev) group_id
                    (of_nat (GROUP_RATE_WINDOW div NANOS_PER_SEC))))) (\<lambda>_. ret ())) receivers) (\<lambda>_.
               ret None))
           else
             ret (Some (ev\<lparr>is_mentioned := bc_npub cfg \<in> set (mentions ev),
                           mentioned_bot_ids := mentioned_bots npubs [] (mentions ev)\<rparr>,
                        receivers)))))"

record dispatch_ctx =
  dc_event :: agent_event
  dc_handlers :: "handler_ref list"
  dc_npub :: str

definition dispatch_admit :: "env \<Rightarrow> agent_event \<Rightarrow> dispatch_ctx option dact" where
  "dispatch_admit env ev =
     andthen (diag (record_event_received (e_clock env))) (\<lambda>_.
     andthen (find_bot (ev_bot_id ev)) (\<lambda>b.
     andthen (gets (\<lambda>d. (reg_find (d_chans d) (ev_bot_id ev) (ev_type ev) (d_registry d),
                         npub_to_bot_id_map (d_bots d)))) (\<lambda>(handlers, npubs).
     andthen (clear_restored ev) (\<lambda>_.
     andthen (if ev_type ev = MlsGroupMessageReceived
              then process_mls_group_message env ev handlers (bs_config b) npubs
              else ret (Some (ev, handlers))) (\<lambda>admitted.
       case admitted of
         None \<Rightarrow> ret None
       | Some (ev', hs) \<Rightarrow>
           andthen (gets d_registered) (\<lambda>n.
           andthen (diag (set_handlers_registered n)) (\<lambda>_.
             ret (Some \<lparr>dc_event = ev', dc_handlers = hs, dc_npub = bc_npub (bs_config b)\<rparr>))))))))"

section \<open>Opening\<close>

definition dc_event_id :: "dispatch_ctx \<Rightarrow> str" where
  "dc_event_id ctx = ev_event_id (dc_event ctx)"

definition notify_event :: "env \<Rightarrow> agent_event \<Rightarrow> handler_ref \<Rightarrow> unit dact" where
  "notify_event env ev h =
     andthen (attempt (notify (send_event h ev))) (\<lambda>r.
       case r of
         Inr _ \<Rightarrow> diag (record_event_dispatched (e_clock env))
       | Inl e \<Rightarrow> diag (record_error (e_redact env) (e_show_json env) (Some ''handler_send_failed'')
                   (''handler '' @ h_id h @ '' send failed: '' @ daemon_error_to_string e) None))"

definition dispatch_open :: "env \<Rightarrow> dispatch_ctx \<Rightarrow> unit dact" where
  "dispatch_open env ctx =
     andthen (modify (\<lambda>d. d\<lparr>d_pending := hm_insert (dc_event_id ctx)
         \<lparr>pd_channel = [], pd_handler_ids = h_id ` set (dc_handlers ctx), pd_counts = [],
          pd_max = MAX_RESPONSES_PER_HANDLER\<rparr> (d_pending d)\<rparr>)) (\<lambda>_.
       for_each (notify_event env (dc_event ctx)) (dc_handlers ctx))"

section \<open>Responses\<close>

text \<open>A response to a pending dispatch: only from its handlers, and a bounded number from each.\<close>

definition pd_accept :: "str \<Rightarrow> handler_action \<Rightarrow> pending_dispatch \<Rightarrow> pending_dispatch res" where
  "pd_accept hid action p =
     (let count = (case hm_get (pd_counts p) hid of Some n \<Rightarrow> n | None \<Rightarrow> 0)
      in if hid \<notin> pd_handler_ids p then Inl HandlerNotDispatched
         else if pd_max p \<le> count then Inl RateLimited
         else Inr (p\<lparr>pd_counts := hm_insert hid (count + 1) (pd_counts p),
                     pd_channel := pd_channel p @ [(hid, action)]\<rparr>))"

definition handle_response :: "str option \<Rightarrow> json option \<Rightarrow> json option dact" where
  "handle_response handler_id params =
     andthen (of_res (required_params params ''handler.response'')) (\<lambda>p.
     andthen (of_res (required_string p ''event_id'' ''handler.response'')) (\<lambda>event_id.
     andthen (of_res (action_from_value p)) (\<lambda>action.
     andthen (gets (\<lambda>d. hm_get (d_pending d) event_id)) (\<lambda>dispatch.
       case dispatch of
         None \<Rightarrow> ret None
       | Some pd \<Rightarrow>
           andthen (of_res (pd_accept (case handler_id of Some h \<Rightarrow> h | None \<Rightarrow> ''unknown'') action pd)) (\<lambda>pd'.
           andthen (modify (\<lambda>d. d\<lparr>d_pending := hm_insert event_id pd' (d_pending d)\<rparr>)) (\<lambda>_.
             ret None))))))"

section \<open>Finishing\<close>

text \<open>
  The receiving loop over the responses that arrive in time: it stops when it has as many as
  handlers, and at a deferral; what it returns is the responses and whether one deferred.
\<close>

fun collect_responses ::
    "nat \<Rightarrow> (str \<times> handler_action) list \<Rightarrow> (str \<times> handler_action) list \<Rightarrow> (str \<times> handler_action) list \<times> bool" where
  "collect_responses expected got [] = (got, False)"
| "collect_responses expected got ((h, a) # arriving) =
     (if expected \<le> length got then (got, False)
      else if a = Defer then (got, True)
      else collect_responses expected (got @ [(h, a)]) arriving)"

text \<open>A reply or a message in answer to the event, and the label and id the trace keeps.\<close>

definition answer :: "env \<Rightarrow> agent_event \<Rightarrow> str \<Rightarrow> handler_action \<Rightarrow> (str \<times> str option) dact" where
  "answer env ev hid action =
     (case action of
        Reply content \<Rightarrow>
          andthen (attempt (handle_send_dm env (ev_bot_id ev) (author ev) content (Some (rumor_id ev)) (Some hid)))
            (\<lambda>r. case r of
               Inr eid \<Rightarrow> andthen (diag (record_reply (e_clock env))) (\<lambda>_. ret (action_label action, Some eid))
             | Inl _ \<Rightarrow> andthen (diag (record_reply_send_failed (e_clock env))) (\<lambda>_. ret (''reply_failed'', None)))
      | SendDmAction content \<Rightarrow>
          andthen (attempt (handle_send_dm env (ev_bot_id ev) (author ev) content None (Some hid)))
            (\<lambda>r. case r of
               Inr eid \<Rightarrow> andthen (diag (record_send_dm (e_clock env))) (\<lambda>_. ret (action_label action, Some eid))
             | Inl _ \<Rightarrow> andthen (diag (record_send_dm_failed (e_clock env))) (\<lambda>_. ret (''send_dm_failed'', None)))
      | _ \<Rightarrow> ret (action_label action, None))"

definition process_response :: "agent_event \<Rightarrow> env \<times> str \<times> handler_action \<Rightarrow> unit dact" where
  "process_response ev x =
     (case x of (env, hid, action) \<Rightarrow>
        andthen (answer env ev hid action) (\<lambda>(label, reply_id).
        andthen (attempt (on_store (db_act (save_event_trace (utc_secs env) (ev_bot_id ev) (ev_event_id ev)
            (author ev) (preview (ev_content ev)) label reply_id)))) (\<lambda>_.
          ret ())))"

definition advance_cursor :: "env \<Rightarrow> dispatch_ctx \<Rightarrow> unit dact" where
  "advance_cursor env ctx =
     (let ev = dc_event ctx in
      andthen (of_res (ok_or (Config ''event timestamp out of range'') (i64_try_from (timestamp ev)))) (\<lambda>cursor.
      andthen (modify (\<lambda>d. d\<lparr>d_last_cursor := hm_insert (ev_bot_id ev) (dc_npub ctx, cursor) (d_last_cursor d)\<rparr>)) (\<lambda>_.
        on_store (db_act (save_cursor (utc_secs env) (ev_bot_id ev) (dc_npub ctx) cursor)))))"

text \<open>\<open>env_of i\<close> is the environment at the \<open>i\<close>-th response, \<open>env\<close> the one at the end.\<close>

definition count_responses :: "(nat \<Rightarrow> env) \<Rightarrow> nat \<Rightarrow> unit dact" where
  "count_responses env_of n = for_each (\<lambda>i. diag (record_handler_response (e_clock (env_of i)))) [0..<n]"

definition after_responses ::
    "env \<Rightarrow> (nat \<Rightarrow> env) \<Rightarrow> dispatch_ctx \<Rightarrow> (str \<times> handler_action) list \<Rightarrow> bool \<Rightarrow> unit dact" where
  "after_responses env env_of ctx responses deferred =
     andthen (for_each (process_response (dc_event ctx))
         (map (\<lambda>(i, h, a). (env_of i, h, a)) (enumerate 0 responses))) (\<lambda>_.
       if deferred then ret () else advance_cursor env ctx)"

definition dispatch_finish ::
    "env \<Rightarrow> (nat \<Rightarrow> env) \<Rightarrow> (str \<times> handler_action) list \<Rightarrow> dispatch_ctx \<Rightarrow> unit dact" where
  "dispatch_finish env env_of arrived ctx =
     (let (responses, deferred) = collect_responses (length (dc_handlers ctx)) [] arrived
      in andthen (count_responses env_of (length responses + (if deferred then 1 else 0))) (\<lambda>_.
         andthen (modify (\<lambda>d. d\<lparr>d_pending := hm_remove (dc_event_id ctx) (d_pending d)\<rparr>)) (\<lambda>_.
           after_responses env env_of ctx responses deferred)))"

text \<open>A dispatch during which no other task runs but the one that delivers the responses.\<close>

definition dispatch_event ::
    "env \<Rightarrow> (nat \<Rightarrow> env) \<Rightarrow> (dispatch_ctx \<Rightarrow> unit dact) \<Rightarrow> (pending_dispatch \<Rightarrow> nat) \<Rightarrow> agent_event \<Rightarrow> unit dact" where
  "dispatch_event env env_of others in_time ev =
     andthen (dispatch_admit env ev) (\<lambda>admitted.
       case admitted of
         None \<Rightarrow> ret ()
       | Some ctx \<Rightarrow>
           andthen (dispatch_open env ctx) (\<lambda>_.
           andthen (attempt (others ctx)) (\<lambda>_.
           andthen (gets (\<lambda>d. case hm_get (d_pending d) (dc_event_id ctx) of
               Some p \<Rightarrow> take (in_time p) (pd_channel p) | None \<Rightarrow> [])) (\<lambda>arrived.
             dispatch_finish env env_of arrived ctx))))"

section \<open>Registrations, cursors, broadcasts\<close>

definition unregister_handler :: "str \<Rightarrow> unit dact" where
  "unregister_handler hid =
     andthen (\<lambda>d. case reg_unregister hid (d_registry d) of (r, reg) \<Rightarrow> (r, d\<lparr>d_registry := reg\<rparr>)) (\<lambda>_.
     andthen (modify (\<lambda>d. d\<lparr>d_limiter := rl_remove_handler hid (d_limiter d)\<rparr>)) (\<lambda>_.
     andthen (on_store (db_act (delete_handler hid))) (\<lambda>_.
     andthen (modify (\<lambda>d. d\<lparr>d_registered := d_registered d - 1\<rparr>)) (\<lambda>_.
     andthen (gets d_registered) (\<lambda>n. diag (set_handlers_registered n))))))"

definition disconnect_handler :: "env \<Rightarrow> str \<Rightarrow> unit dact" where
  "disconnect_handler env hid =
     modify (\<lambda>d. d\<lparr>d_registry := reg_update hid (disconnect (e_utc env)) (d_registry d)\<rparr>)"

text \<open>One round of the reaper.\<close>

definition reap_stale :: "env \<Rightarrow> unit dact" where
  "reap_stale env =
     andthen (gets (\<lambda>d. map h_id (filter (is_stale (d_chans d) (e_utc env) (d_stale_timeout d))
         (all_handlers (d_registry d))))) (\<lambda>ids.
       for_each (\<lambda>hid. andthen (attempt (unregister_handler hid)) (\<lambda>_. ret ())) ids)"

definition restore_handlers :: "env \<Rightarrow> unit dact" where
  "restore_handlers env =
     andthen (on_store (db_act (\<lambda>db. (load_handlers (e_codec env) (e_utc env) db, db)))) (\<lambda>hs.
     andthen (modify (\<lambda>d. d\<lparr>d_registry := fold reg_restore hs (d_registry d),
                          d_registered := of_nat (length hs)\<rparr>)) (\<lambda>_.
       diag (set_handlers_registered (of_nat (length hs)))))"

definition flush_cursors :: "env \<Rightarrow> unit dact" where
  "flush_cursors env =
     andthen (gets d_last_cursor) (\<lambda>cs.
       for_each (\<lambda>(bot_id, npub, cursor). on_store (db_act (save_cursor (utc_secs env) bot_id npub cursor))) cs)"

definition broadcast :: "(handler_ref \<Rightarrow> channels \<Rightarrow> unit res \<times> channels) \<Rightarrow> unit dact" where
  "broadcast send =
     andthen (gets (\<lambda>d. all_handlers (d_registry d))) (\<lambda>hs.
       for_each (\<lambda>h. andthen (attempt (notify (send h))) (\<lambda>_. ret ())) hs)"

fun status_name :: "daemon_status \<Rightarrow> str" where
  "status_name Initializing = ''initializing''"
| "status_name Ready = ''ready''"
| "status_name ShuttingDown = ''shutting_down''"
| "status_name Stopped = ''stopped''"

definition broadcast_status :: "daemon_status \<Rightarrow> unit dact" where
  "broadcast_status st = broadcast (\<lambda>h. send_status h (status_name st) None)"

definition broadcast_metrics :: "env \<Rightarrow> unit dact" where
  "broadcast_metrics env =
     andthen (gets (\<lambda>d. metrics_response (e_serde_time env) (e_clock env) (d_diag d) None None)) (\<lambda>response.
       broadcast (\<lambda>h. send_metrics h response))"


section \<open>Warnings about stuck bots\<close>

datatype stuck_warning =
    EngineStuck str
  | GroupStuck str str str int bool

definition saturating_sub_i64 :: "int \<Rightarrow> int \<Rightarrow> int" where
  "saturating_sub_i64 a b = max i64_min (min i64_max (a - b))"

definition lost_warnings ::
    "int \<Rightarrow> str \<Rightarrow> bool \<Rightarrow> mls_group_row \<Rightarrow> (store, stuck_warning list) act" where
  "lost_warnings cutoff bot_id was_r26 g =
     (case mg_state_lost_at g of
        None \<Rightarrow> ret []
      | Some since \<Rightarrow>
          if since > cutoff then ret []
          else andthen (db_read (load_mls_store_reset_admins bot_id (mg_wire_id g))) (\<lambda>admins.
               ret [GroupStuck bot_id (mg_group_name g) (mg_wire_id g) since
                      (classify_sole_admin True (length admins) was_r26 = Some Unrestorable)]))"

definition bot_warnings :: "int \<Rightarrow> str \<Rightarrow> (store, stuck_warning list) act" where
  "bot_warnings cutoff bot_id =
     andthen (db_read (load_mls_store_reset_marker bot_id)) (\<lambda>marker.
     let was_r26 = (case Option.bind marker archive_path of Some p \<Rightarrow> suffix ''-r26'' p | None \<Rightarrow> False) in
     andthen (db_read (load_all_mls_groups bot_id)) (\<lambda>gs.
     andthen (map_act (lost_warnings cutoff bot_id was_r26) gs) (\<lambda>ws. ret (concat ws))))"

text \<open>The warnings of one round; \<open>min_age\<close> is in seconds and \<open>uptime\<close> the daemon's.\<close>

definition warn_stuck_bots :: "env \<Rightarrow> u64 \<Rightarrow> u64 \<Rightarrow> stuck_warning list dact" where
  "warn_stuck_bots env min_age uptime =
     (let min_age_secs = (case i64_try_from min_age of Some n \<Rightarrow> n | None \<Rightarrow> i64_max);
          cutoff = saturating_sub_i64 (utc_secs env) min_age_secs
      in andthen (gets (\<lambda>d. (map fst (bot_id_to_pubkey (d_bots d)),
             map bs_bot_id (filter mls_engine_unavailable (hm_values (bots (d_bots d))))))) (\<lambda>(ids, down).
         andthen (on_store (map_act (bot_warnings cutoff) ids)) (\<lambda>ws.
           ret ((if min_age_secs \<le> sint uptime then map EngineStuck down else []) @ concat ws))))"

end
