(* ===== verification/Gating.thy ===== *)
theory Gating
  imports DispatchSend
begin

text \<open>
  Which service calls a request can cause. Three relations between the state before and after an
  operation, each an instance of \<open>action_rel\<close>: only calls with the key of one signer, only calls
  with the key of the bot an id names, and calls only under a capability of the caller.
\<close>

section \<open>Relations\<close>

definition only_calls :: "(call \<Rightarrow> bool) \<Rightarrow> daemon \<Rightarrow> daemon \<Rightarrow> bool" where
  "only_calls P d d' \<longleftrightarrow> d_bots d' = d_bots d \<and> d_registry d' = d_registry d \<and>
     (\<exists>cs. d_calls d' = d_calls d @ cs \<and> (\<forall>c \<in> set cs. P c))"

definition signed_by :: "str \<Rightarrow> daemon \<Rightarrow> daemon \<Rightarrow> bool" where
  "signed_by pk = only_calls (\<lambda>c. call_signer c = pk)"

text \<open>The key of the bot that an id names in a state.\<close>

definition bot_key :: "daemon \<Rightarrow> str \<Rightarrow> str \<Rightarrow> bool" where
  "bot_key d bot_id pk \<longleftrightarrow> (\<exists>b. get_bot_by_id (d_bots d) bot_id = Some b \<and> bs_public_key b = pk)"

definition acts_for :: "str \<Rightarrow> daemon \<Rightarrow> daemon \<Rightarrow> bool" where
  "acts_for bot_id d d' \<longleftrightarrow> only_calls (\<lambda>c. bot_key d bot_id (call_signer c)) d d'"

definition holds_capability :: "str option \<Rightarrow> str \<Rightarrow> str \<Rightarrow> daemon \<Rightarrow> bool" where
  "holds_capability handler_id bot_id capability d \<longleftrightarrow>
     (\<exists>hid h. handler_id = Some hid \<and> hm_get (d_registry d) hid = Some h \<and>
        h_is_authorized h bot_id capability)"

definition gated :: "(daemon \<Rightarrow> bool) \<Rightarrow> str \<Rightarrow> daemon \<Rightarrow> daemon \<Rightarrow> bool" where
  "gated Q bot_id d d' \<longleftrightarrow> acts_for bot_id d d' \<and> (d_calls d' \<noteq> d_calls d \<longrightarrow> Q d)"

lemma only_calls_refl: "only_calls P d d"
  by (simp add: only_calls_def)

lemma only_calls_trans: "only_calls P d e \<Longrightarrow> only_calls P e f \<Longrightarrow> only_calls P d f"
  by (auto simp: only_calls_def)

lemma only_calls_mono: "only_calls P d e \<Longrightarrow> (\<And>c. P c \<Longrightarrow> Q c) \<Longrightarrow> only_calls Q d e"
  by (fastforce simp: only_calls_def)

interpretation calls: action_rel "only_calls P" for P
  by unfold_locales (fact only_calls_refl, fact only_calls_trans)

interpretation signed: action_rel "signed_by pk" for pk
  unfolding signed_by_def by (rule calls.action_rel_axioms)

interpretation acting: action_rel "acts_for bot_id" for bot_id
  by unfold_locales
    (auto simp: acts_for_def bot_key_def only_calls_refl only_calls_def)

lemma no_calls_acts_for:
  "d_bots d' = d_bots d \<Longrightarrow> d_registry d' = d_registry d \<Longrightarrow> d_calls d' = d_calls d \<Longrightarrow> acts_for b d d'"
  by (simp add: acts_for_def only_calls_def)

section \<open>The building blocks\<close>

definition same_calls :: "daemon \<Rightarrow> daemon \<Rightarrow> bool" where
  "same_calls d d' \<longleftrightarrow>
     d_bots d' = d_bots d \<and> d_registry d' = d_registry d \<and> d_calls d' = d_calls d"

interpretation quiet: action_rel same_calls
  by unfold_locales (auto simp: same_calls_def)

abbreviation silent :: "'a dact \<Rightarrow> bool" where
  "silent \<equiv> quiet.obeys"

lemma silentD: "silent m \<Longrightarrow> m d = (r, d') \<Longrightarrow> same_calls d d'"
  using quiet.obeysD [of m d] by simp

lemma silent_blocks [simp]:
  "silent (ret a)" "silent (fail e)" "silent (of_res r)" "silent (gets f)" "silent (diag g)"
  "silent (on_store m)" "silent (check_rate env hid b)"
  by (auto simp: quiet.obeys_pure diag_def on_store_def check_rate_def Let_def same_calls_def
      intro!: quiet.obeysI split: prod.splits)

lemma silent_authorize [simp]: "silent (authorize h b cap)"
  unfolding authorize_def by (intro quiet.obeys_intros)

lemmas silent_andthen = quiet.obeys_andthen

lemma silent_gate [simp]: "silent (gate env h b cap)"
  by (simp add: gate_def silent_andthen)

lemma silent_refuse_lost [simp]: "silent (refuse_lost b g)"
  by (simp add: refuse_lost_def silent_andthen)

lemma silent_find_bot [simp]: "silent (find_bot b)"
  by (simp add: find_bot_def silent_andthen)

lemma silent_attachment_service [simp]: "silent attachment_service"
  by (simp add: attachment_service_def silent_andthen)

lemma same_only_calls: "same_calls d d' \<Longrightarrow> only_calls P d d'"
  by (simp add: same_calls_def only_calls_def)

lemma silent_signed: "silent m \<Longrightarrow> signed.obeys pk m"
  by (rule signed.obeysI) (simp add: signed_by_def same_only_calls quiet.obeysD)

lemma silent_acting: "silent m \<Longrightarrow> acting.obeys b m"
  by (rule acting.obeysI) (metis quiet.obeysD same_calls_def no_calls_acts_for)

lemma signed_do_call: "call_signer c = pk \<Longrightarrow> signed.obeys pk (do_call x conv c)"
  by (rule signed.obeysI) (simp add: do_call_def signed_by_def only_calls_def)

lemma find_bot_Inr: "find_bot b d = (Inr bs, d') \<longleftrightarrow> d' = d \<and> get_bot_by_id (d_bots d) b = Some bs"
  by (auto simp: find_bot_def)

lemma acting_find_bot:
  assumes "\<And>bs. signed.obeys (bs_public_key bs) (k bs)"
  shows "acting.obeys b (andthen (find_bot b) k)"
proof (rule acting.obeysI)
  fix d
  show "acts_for b d (snd (andthen (find_bot b) k d))"
  proof (cases "get_bot_by_id (d_bots d) b")
    case None
    then show ?thesis by (simp add: find_bot_def andthen_def acting.R_refl)
  next
    case (Some bs)
    then have "andthen (find_bot b) k d = k bs d" by (simp add: find_bot_def andthen_def)
    moreover have "signed_by (bs_public_key bs) d (snd (k bs d))"
      using assms by (rule signed.obeysD)
    ultimately show ?thesis
      using Some by (auto simp: acts_for_def signed_by_def bot_key_def elim: only_calls_mono)
  qed
qed

section \<open>Gates\<close>

text \<open>
  A condition on the registry that an operation checks before it goes on; it looks at nothing
  else, so it still holds at the calls.
\<close>

definition registry_condition :: "(daemon \<Rightarrow> bool) \<Rightarrow> bool" where
  "registry_condition Q \<longleftrightarrow> (\<forall>d d'. d_registry d' = d_registry d \<longrightarrow> Q d' = Q d)"

lemma holds_capability_condition [simp]: "registry_condition (holds_capability h b cap)"
  by (simp add: registry_condition_def holds_capability_def)


definition gated_act :: "(daemon \<Rightarrow> bool) \<Rightarrow> str \<Rightarrow> 'a dact \<Rightarrow> bool" where
  "gated_act Q b m \<longleftrightarrow> (\<forall>d. gated Q b d (snd (m d)))"

lemma acts_for_from:
  assumes "same_calls d d1" and "acts_for b d1 e"
  shows "acts_for b d e"
proof -
  have "bot_key d1 = bot_key d"
    using assms(1) by (simp add: fun_eq_iff bot_key_def same_calls_def)
  with assms show ?thesis by (simp add: acts_for_def only_calls_def same_calls_def)
qed

lemma gated_silent: "same_calls d d' \<Longrightarrow> gated Q b d d'"
  by (simp add: gated_def same_calls_def no_calls_acts_for)

lemma gated_act_silent: "silent m \<Longrightarrow> gated_act Q b m"
  by (simp add: gated_act_def gated_silent quiet.obeysD)

lemma gated_act_prefix:
  assumes m: "silent m" and k: "\<And>a. gated_act Q b (k a)" and Q: "registry_condition Q"
  shows "gated_act Q b (andthen m k)"
  unfolding gated_act_def
proof
  fix d
  obtain r d1 where md: "m d = (r, d1)" by (cases "m d")
  with m have same: "same_calls d d1" by (rule silentD)
  show "gated Q b d (snd (andthen m k d))"
  proof (cases r)
    case (Inl e)
    with md same show ?thesis by (simp add: andthen_def gated_silent)
  next
    case (Inr a)
    have g: "gated Q b d1 (snd (k a d1))" using k by (simp add: gated_act_def)
    have "Q d1 = Q d" using Q same unfolding registry_condition_def same_calls_def by blast
    moreover have "d_calls d1 = d_calls d" using same by (simp add: same_calls_def)
    moreover have "acts_for b d (snd (k a d1))" using same g acts_for_from unfolding gated_def by blast
    ultimately have "gated Q b d (snd (k a d1))" using g unfolding gated_def by metis
    with md Inr show ?thesis by (simp add: andthen_def)
  qed
qed

text \<open>A check that succeeds only where \<open>Q\<close> holds guards what follows it.\<close>

lemma gated_act_guard:
  assumes m: "silent m" and Q: "\<And>d a d'. m d = (Inr a, d') \<Longrightarrow> Q d"
    and k: "\<And>a. acting.obeys b (k a)"
  shows "gated_act Q b (andthen m k)"
  unfolding gated_act_def
proof
  fix d
  obtain r d1 where md: "m d = (r, d1)" by (cases "m d")
  with m have same: "same_calls d d1" by (rule silentD)
  show "gated Q b d (snd (andthen m k d))"
  proof (cases r)
    case (Inl e)
    with md same show ?thesis by (simp add: andthen_def gated_silent)
  next
    case (Inr a)
    have "acts_for b d1 (snd (k a d1))" using k by (rule acting.obeysD)
    with same have "acts_for b d (snd (k a d1))" by (rule acts_for_from)
    with md Inr Q show ?thesis by (auto simp: andthen_def gated_def)
  qed
qed

lemma authorize_Inr:
  "authorize handler_id b cap d = (Inr hid, d') \<longleftrightarrow>
     d' = d \<and> handler_id = Some hid \<and> reg_is_authorized hid b cap (d_registry d) = Inr True"
  by (cases handler_id; cases "reg_is_authorized (the handler_id) b cap (d_registry d)")
    (auto simp: authorize_def)

lemma reg_is_authorized_True:
  "reg_is_authorized hid b cap reg = Inr True \<longleftrightarrow> (\<exists>h. hm_get reg hid = Some h \<and> h_is_authorized h b cap)"
  by (auto simp: reg_is_authorized_def split: option.splits)

lemma gate_Inr_holds: "gate env handler_id b cap d = (Inr u, d') \<Longrightarrow> holds_capability handler_id b cap d"
  unfolding gate_def
  by (erule andthen_Inr_E) (auto simp: authorize_Inr reg_is_authorized_True holds_capability_def)

lemma gated_act_gate:
  assumes "\<And>u. acting.obeys b (k u)"
  shows "gated_act (holds_capability handler_id b cap) b (andthen (gate env handler_id b cap) k)"
  using silent_gate gate_Inr_holds assms by (rule gated_act_guard)


section \<open>The send handlers\<close>

text \<open>A request that causes service calls only for some bot over which its caller has the capability.\<close>

definition requires :: "str option \<Rightarrow> str \<Rightarrow> 'a dact \<Rightarrow> bool" where
  "requires handler_id cap m \<longleftrightarrow>
     (\<forall>d. \<exists>b. gated (holds_capability handler_id b cap) b d (snd (m d)))"

lemma requiresI: "gated_act (holds_capability h b cap) b m \<Longrightarrow> requires h cap m"
  by (auto simp: requires_def gated_act_def)

lemma requires_of_res: "(\<And>a. requires h cap (k a)) \<Longrightarrow> requires h cap (andthen (of_res r) k)"
  by (cases r) (simp_all add: requiresI gated_act_silent)

lemma requires_gate:
  "(\<And>u. acting.obeys b (k u)) \<Longrightarrow> requires h cap (andthen (gate env h b cap) k)"
  by (rule requiresI) (rule gated_act_gate)

lemma requires_service:
  "(\<And>a. requires h cap (k a)) \<Longrightarrow> requires h cap (andthen attachment_service k)"
  unfolding requires_def
proof
  fix d
  assume k: "\<And>a. \<forall>d. \<exists>b. gated (holds_capability h b cap) b d (snd (k a d))"
  show "\<exists>b. gated (holds_capability h b cap) b d (snd (andthen attachment_service k d))"
  proof (cases "d_spool_dir d")
    case None
    then show ?thesis
      by (simp add: attachment_service_def andthen_def gated_silent same_calls_def)
  next
    case (Some s)
    with k show ?thesis by (simp add: attachment_service_def andthen_def)
  qed
qed

lemma signed_for_bot:
  "signed.obeys (bs_public_key b) (do_call x conv (SendDm (bs_public_key b) r c t))"
  "signed.obeys (bs_public_key b) (do_call x conv (SendReaction (bs_public_key b) r c m))"
  "signed.obeys (bs_public_key b) (do_call x conv (SendAttachment (bs_public_key b) r))"
  "signed.obeys (bs_public_key b) (do_call x conv (SetProfile (bs_public_key b) n a p))"
  "signed.obeys (bs_public_key b) (do_call x conv (PrepareAttachment (bs_public_key b) t))"
  "signed.obeys (bs_public_key b) (do_call x2 conv2 (CompleteAttachment (bs_public_key b)))"
  "signed.obeys (bs_public_key b) (do_call x conv (ResolveWireId (bs_public_key b) r))"
  "signed.obeys (bs_public_key b) (do_call x conv (SendGroupMessage (bs_public_key b) r c t))"
  "signed.obeys (bs_public_key b) (do_call x conv (SendGroupReaction (bs_public_key b) r c m))"
  "signed.obeys (bs_public_key b) (do_call x conv (SendGroupAttachment (bs_public_key b) r))"
  "signed.obeys (bs_public_key b) (do_call x conv (PublishKeyPackage (bs_public_key b) rs))"
  "signed.obeys (bs_public_key b) (do_call x3 conv3 (MlsIsMember (bs_public_key b) r c))"
  by (simp_all add: signed_do_call)

lemmas signed_rules = signed_for_bot signed.obeys_andthen signed.obeys_attempt signed.obeys_pure

lemma acting_refuse_lost:
  "(\<And>u. acting.obeys b (k u)) \<Longrightarrow> acting.obeys b (andthen (refuse_lost b g) k)"
  by (rule acting.obeys_andthen) (simp_all add: silent_acting)

lemma acting_diag: "(\<And>u. acting.obeys b (k u)) \<Longrightarrow> acting.obeys b (andthen (diag f) k)"
  by (rule acting.obeys_andthen) (simp_all add: silent_acting)

lemma acting_then_ret: "acting.obeys b m \<Longrightarrow> acting.obeys b (andthen m (\<lambda>a. ret (f a)))"
  by (intro acting.obeys_intros)

lemma acting_count_failure: "acting.obeys b m \<Longrightarrow> acting.obeys b (count_attachment_failure m)"
  unfolding count_attachment_failure_def
  by (intro acting.obeys_intros silent_acting [OF silent_blocks(5)])
    (auto split: daemon_error.split intro: acting.obeys_pure silent_acting)

lemma send_dm_acts:
  "gated_act (holds_capability h b ''SendMessages'') b (handle_send_dm env b r c t h)"
  unfolding handle_send_dm_def by (intro gated_act_gate acting_find_bot signed_for_bot)

lemma gated_act_then_ret:
  assumes "gated_act Q b m"
  shows "gated_act Q b (andthen m (\<lambda>a. ret (f a)))"
proof -
  have "snd (andthen m (\<lambda>a. ret (f a)) d) = snd (m d)" for d
    by (simp add: andthen_def split: prod.split sum.split)
  with assms show ?thesis by (simp add: gated_act_def)
qed

lemma send_dm_msg_requires: "requires h ''SendMessages'' (handle_send_dm_msg env h params)"
  unfolding handle_send_dm_msg_def
  by (intro requires_of_res) (rule requiresI, rule gated_act_then_ret, rule send_dm_acts)

lemma send_reaction_requires: "requires h ''SendReactions'' (handle_send_reaction env h params)"
  unfolding handle_send_reaction_def
  by (intro requires_of_res requires_gate acting_find_bot signed_rules)

lemma send_attachment_requires: "requires h ''SendAttachments'' (handle_send_attachment env h params)"
  unfolding handle_send_attachment_def
  by (intro requires_of_res requires_service requires_gate acting_diag acting_then_ret
      acting_count_failure acting_find_bot signed_rules)

lemma set_profile_requires: "requires h ''ManageProfile'' (handle_set_profile env h params)"
  unfolding handle_set_profile_def
  by (intro requires_of_res requires_gate acting_find_bot signed_rules)

lemma error_requires: "requires h ''ReadMessages'' (handle_error env h params)"
  unfolding handle_error_def
  by (intro requires_of_res requires_gate acting_diag acting.obeys_pure)

lemma send_group_message_requires:
  "requires h ''SendGroupMessages'' (handle_send_group_message env h params)"
  unfolding handle_send_group_message_def handle_send_group_message_inner_def andthen_assoc
  by (intro requires_of_res requires_gate acting_refuse_lost acting_find_bot signed_rules)

lemma send_group_reaction_requires:
  "requires h ''SendGroupReactions'' (handle_send_group_reaction env h params)"
  unfolding handle_send_group_reaction_def
  by (intro requires_of_res requires_gate acting_refuse_lost acting_find_bot signed_rules)

lemma send_group_attachment_requires:
  "requires h ''SendGroupAttachments'' (handle_send_group_attachment env h params)"
  unfolding handle_send_group_attachment_def
  by (intro requires_of_res requires_service requires_gate acting_refuse_lost acting_diag
      acting_then_ret acting_count_failure acting_find_bot signed_rules)

lemma publish_key_package_requires:
  "requires h ''SendGroupMessages'' (handle_publish_key_package env h params)"
  unfolding handle_publish_key_package_def
  by (intro requires_of_res requires_gate acting_find_bot signed_rules)

end
