(* ===== verification/DispatchAdmin.thy ===== *)
theory DispatchAdmin
  imports DispatchEvent Gating
begin

text \<open>
  The request handlers that manage registrations and report on the daemon (\<open>handle_register\<close> to
  \<open>handle_unregister\<close>, \<open>handle_metrics\<close> to \<open>send_test_dm\<close>, \<open>handle_version\<close> and \<open>handle_health\<close> in
  \<open>src/dispatch.rs\<close>).
\<close>

section \<open>Registration\<close>

text \<open>\<open>from_value\<close> of an optional list of strings: absent is empty, anything else must be a list.\<close>

definition list_param :: "env \<Rightarrow> json \<Rightarrow> str \<Rightarrow> str list res" where
  "list_param env p k =
     (let v = (case json_get p k of Some v \<Rightarrow> v | None \<Rightarrow> JArray [])
      in ok_or (JsonErr (e_de_error env v)) (de_string_list v))"

text \<open>A caller without a connection gets one whose receiver is gone.\<close>

definition closed_connection :: "env \<Rightarrow> connection_handle option \<Rightarrow> connection_handle dact" where
  "closed_connection env conn =
     (case conn of
        Some c \<Rightarrow> ret c
      | None \<Rightarrow>
          andthen (modify (\<lambda>d. d\<lparr>d_chans := (d_chans d)(e_new_sender env :=
              \<lparr>ch_queue = [], ch_capacity = 1, ch_closed = True\<rparr>)\<rparr>)) (\<lambda>_.
            ret \<lparr>cn_sender = e_new_sender env, cn_transport = ''unknown''\<rparr>))"

definition on_registry :: "(registry \<Rightarrow> 'a res \<times> registry) \<Rightarrow> 'a dact" where
  "on_registry f d = (case f (d_registry d) of (r, reg) \<Rightarrow> (r, d\<lparr>d_registry := reg\<rparr>))"

definition registered_events_of :: "str \<Rightarrow> registry \<Rightarrow> str list" where
  "registered_events_of hid reg =
     (case hm_get reg hid of Some h \<Rightarrow> map as_wire_name (event_types h) | None \<Rightarrow> [])"

text \<open>What a registration or a reconnection answers, apart from its own fields.\<close>

definition registration_fields :: "str \<Rightarrow> str list \<Rightarrow> (str \<times> str) list \<Rightarrow> str option \<Rightarrow> (str \<times> json) list" where
  "registration_fields hid events own spool =
     [(''handler_id'', JString hid), (''registered_events'', JArray (map JString events)),
      (''own_pubkeys'', JObject (map (\<lambda>(k, v). (k, JString v)) own)),
      (''spool_dir'', JString (case spool of Some s \<Rightarrow> s | None \<Rightarrow> []))]"

text \<open>Why a bot is reported unavailable, if it is; a failing database is no reason.\<close>

definition unavailable_reason :: "str \<Rightarrow> bot_unavailable_reason option dact" where
  "unavailable_reason bot_id =
     andthen (gets (\<lambda>d. case get_bot_by_id (d_bots d) bot_id of
         Some b \<Rightarrow> mls_engine_unavailable b | None \<Rightarrow> False)) (\<lambda>unavailable.
       if unavailable then ret (Some EngineUnavailable)
       else andthen (attempt (on_store (db_read (load_all_mls_groups bot_id)))) (\<lambda>r.
         ret (case r of
            Inr gs \<Rightarrow> if \<exists>g \<in> set gs. mg_state_lost_at g \<noteq> None then Some StateLost else None
          | Inl _ \<Rightarrow> None)))"

definition unavailable_event :: "env \<Rightarrow> str \<Rightarrow> bot_unavailable_reason \<Rightarrow> agent_event" where
  "unavailable_event env bot_id why =
     default_event\<lparr>ev_bot_id := bot_id,
       ev_event_id := ''bot-unavailable:'' @ bot_id @ '':'' @ show_nat (unat (e_secs env)),
       ev_type := BotUnavailable, timestamp := e_secs env,
       bot_unavailable := Some \<lparr>reason = why\<rparr>\<rparr>"

definition notify_bot_unavailable_on_registration :: "env \<Rightarrow> handler_ref \<Rightarrow> unit dact" where
  "notify_bot_unavailable_on_registration env h =
     (if BotUnavailable \<notin> set (event_types h) then ret ()
      else for_each (\<lambda>bot_id.
        andthen (unavailable_reason bot_id) (\<lambda>why.
          case why of
            None \<Rightarrow> ret ()
          | Some w \<Rightarrow> andthen (attempt (notify (send_event h (unavailable_event env bot_id w)))) (\<lambda>_. ret ())))
        (bot_ids h))"

text \<open>What both do once the registry holds the handler: store it and tell it about its bots.\<close>

definition settle_registration :: "env \<Rightarrow> str \<Rightarrow> (str list \<times> (str \<times> str) list) dact" where
  "settle_registration env hid =
     andthen (gets (\<lambda>d. registered_events_of hid (d_registry d))) (\<lambda>events.
     andthen (gets (\<lambda>d. hm_get (d_registry d) hid)) (\<lambda>found.
     andthen (of_res (ok_or HandlerNotRegistered found)) (\<lambda>h.
     andthen (gets (\<lambda>d. collect_own_pubkeys (d_bots d) (bot_ids h))) (\<lambda>own.
     andthen (on_store (db_act (save_handler (e_codec env) h))) (\<lambda>_.
     andthen (notify_bot_unavailable_on_registration env h) (\<lambda>_.
       ret (events, own)))))))"

definition handle_register :: "env \<Rightarrow> json option \<Rightarrow> connection_handle option \<Rightarrow> json option dact" where
  "handle_register env params conn =
     andthen (of_res (required_params params ''handler.register'')) (\<lambda>p.
     andthen (of_res (list_param env p ''bot_ids'')) (\<lambda>bids.
     andthen (of_res (list_param env p ''event_types'')) (\<lambda>tys.
     andthen (of_res (list_param env p ''capabilities'')) (\<lambda>caps.
     andthen (closed_connection env conn) (\<lambda>c.
     andthen (gets (\<lambda>d. bot_configs (d_bots d))) (\<lambda>cfgs.
     andthen (on_registry (reg_register (e_uuid env) (e_token env) (e_utc env) c bids tys caps cfgs)) (\<lambda>(hid, token).
     andthen (settle_registration env hid) (\<lambda>(events, own).
     andthen (modify (\<lambda>d. d\<lparr>d_registered := d_registered d + 1\<rparr>)) (\<lambda>_.
     andthen (gets d_registered) (\<lambda>n.
     andthen (diag (set_handlers_registered n)) (\<lambda>_.
     andthen (gets d_spool_dir) (\<lambda>spool.
       ret (Some (JObject ((''reconnect_token'', JString token) # registration_fields hid events own spool)))))))))))))))"

text \<open>\<open>from_value\<close> of the parameters, with the deserializer of their type.\<close>

definition typed_params :: "env \<Rightarrow> (json \<Rightarrow> 'a option) \<Rightarrow> json \<Rightarrow> 'a res" where
  "typed_params env de p = ok_or (JsonErr (e_de_error env p)) (de p)"

definition handle_reconnect :: "env \<Rightarrow> json option \<Rightarrow> connection_handle option \<Rightarrow> json option dact" where
  "handle_reconnect env params conn =
     andthen (of_res (required_params params ''handler.reconnect'')) (\<lambda>p.
     andthen (of_res (typed_params env de_reconnect_params p)) (\<lambda>rp.
     andthen (closed_connection env conn) (\<lambda>c.
     andthen (gets d_chans) (\<lambda>chs.
     andthen (on_registry (reg_reconnect (e_hex_decode env) chs (e_utc env) (rp_handler_id rp) (rp_reconnect_token rp) c)) (\<lambda>hid'.
     andthen (settle_registration env hid') (\<lambda>(events, own).
     andthen (gets d_spool_dir) (\<lambda>spool.
       ret (Some (JObject (registration_fields hid' events own spool))))))))))"

definition handle_unregister :: "str option \<Rightarrow> json option \<Rightarrow> json option dact" where
  "handle_unregister handler_id params =
     andthen (of_res (ok_or (Config ''handler.unregister requires a registered connection'') handler_id)) (\<lambda>hid.
     andthen (unregister_handler hid) (\<lambda>_.
       ret (Some (JObject [(''unregistered'', JBool True)]))))"

section \<open>Reports\<close>

definition handle_metrics :: "env \<Rightarrow> json option dact" where
  "handle_metrics env =
     gets (\<lambda>d. Some (metrics_response (e_serde_time env) (e_clock env) (d_diag d) None None))"

definition handle_health :: "env \<Rightarrow> json option dact" where
  "handle_health env =
     gets (\<lambda>d. Some (metrics_response (e_serde_time env) (e_clock env) (d_diag d) (Some True) (Some (e_relay_states env))))"

definition handle_version :: "env \<Rightarrow> json option dact" where
  "handle_version env =
     ret (Some (JObject [(''version'', JString VERSION), (''git_sha'', JString (e_git_sha env))]))"

definition handler_entry :: "env \<Rightarrow> channels \<Rightarrow> nanos \<Rightarrow> handler_ref \<Rightarrow> json" where
  "handler_entry env chs timeout h =
     JObject [(''handler_id'', JString (h_id h)), (''bot_ids'', JArray (map JString (bot_ids h))),
       (''event_types'', JArray (map (\<lambda>t. JString (as_wire_name t)) (event_types h))),
       (''capabilities'', JArray (map JString (capabilities h))),
       (''connected'', JBool (is_connected chs h)),
       (''state'', JString (if is_connected chs h then ''connected''
          else if is_stale chs (e_utc env) timeout h then ''stale'' else ''disconnected'')),
       (''transport'', JString (h_transport h)), (''last_seen'', JString (e_rfc3339 env (last_seen h))),
       (''registered_at'', JString (e_rfc3339 env (registered_at h)))]"

definition handle_list_handlers :: "env \<Rightarrow> str option \<Rightarrow> json option dact" where
  "handle_list_handlers env caller =
     andthen (require_admin_or_self caller None) (\<lambda>_.
       gets (\<lambda>d. Some (JObject [(''handlers'', JArray
         (map (handler_entry env (d_chans d) (d_stale_timeout d)) (all_handlers (d_registry d))))])))"

section \<open>Administration\<close>

definition handle_admin_unregister_handler :: "str option \<Rightarrow> json option \<Rightarrow> json option dact" where
  "handle_admin_unregister_handler caller params =
     andthen (of_res (required_params params ''agent.unregister_handler'')) (\<lambda>p.
     andthen (of_res (required_string p ''handler_id'' ''agent.unregister_handler'')) (\<lambda>hid.
     andthen (require_admin_or_self caller (Some hid)) (\<lambda>_.
     andthen (unregister_handler hid) (\<lambda>_.
       ret (Some (JObject [(''unregistered'', JBool True)]))))))"

definition send_test_dm :: "env \<Rightarrow> str \<Rightarrow> str \<Rightarrow> str \<Rightarrow> str dact" where
  "send_test_dm env bot_id recipient content =
     andthen (find_bot bot_id) (\<lambda>b.
       do_call (x_text env) id (SendDm (bs_public_key b) recipient content None))"

definition handle_admin_send_test_dm :: "env \<Rightarrow> str option \<Rightarrow> json option \<Rightarrow> json option dact" where
  "handle_admin_send_test_dm env caller params =
     andthen (require_admin_or_self caller None) (\<lambda>_.
     andthen (of_res (required_params params ''admin.send_test_dm'')) (\<lambda>p.
     andthen (of_res (required_string p ''bot_id'' ''admin.send_test_dm'')) (\<lambda>bot_id.
     andthen (of_res (required_string p ''recipient'' ''admin.send_test_dm'')) (\<lambda>recipient.
     andthen (of_res (required_string p ''content'' ''admin.send_test_dm'')) (\<lambda>content.
     andthen (send_test_dm env bot_id recipient content) (\<lambda>eid.
       ret (Some (JObject [(''event_id'', JString eid)]))))))))"

end
