(* ===== verification/DispatchMls.thy ===== *)
theory DispatchMls
  imports DispatchAdmin
begin

text \<open>
  The squad requests (\<open>require_mls_agent_capability\<close> to \<open>handle_admin_repair_mls_group_admins\<close>,
  \<open>handle_exit_mls_group\<close> and \<open>handle_delete_mls_group\<close> in \<open>src/dispatch.rs\<close>). Creating a squad and
  inviting to one each have a part under the lock of the squad's name, a part outside it that must
  end within thirty seconds, and an end under the lock again; the parts are operations of their
  own, because other requests run between them.
\<close>

section \<open>Checks\<close>

text \<open>Without a handler there is nothing to check.\<close>

definition require_mls_agent_capability :: "env \<Rightarrow> str option \<Rightarrow> str \<Rightarrow> str \<Rightarrow> unit dact" where
  "require_mls_agent_capability env handler_id bot_id capability =
     (case handler_id of
        None \<Rightarrow> ret ()
      | Some hid \<Rightarrow>
          andthen (gets (\<lambda>d. reg_is_authorized hid bot_id capability (d_registry d))) (\<lambda>r.
          andthen (of_res r) (\<lambda>authorized.
            if authorized then check_rate env hid bot_id else fail UnauthorizedBot)))"

record mls_group_preflight =
  pf_bot :: bot_state
  pf_creator_npub :: str
  pf_freshness :: u64
  pf_relays :: "str list"
  pf_group_name :: str
  pf_recipient_pk :: str
  pf_recipient_npub :: str

definition extract_mls_group_inputs :: "env \<Rightarrow> str \<Rightarrow> str \<Rightarrow> str \<Rightarrow> mls_group_preflight dact" where
  "extract_mls_group_inputs env bot_id group_name recipient =
     andthen (find_bot bot_id) (\<lambda>b.
     andthen (of_res (bot_engine b)) (\<lambda>_.
     andthen (of_res (validate_group_name group_name)) (\<lambda>name.
     andthen (of_res (parse_recipient env recipient)) (\<lambda>pk.
     andthen (of_res (case e_bech32 env pk of
         Inl e \<Rightarrow> Inl (Nostr (''invalid recipient npub: '' @ e)) | Inr s \<Rightarrow> Inr s)) (\<lambda>npub.
       ret \<lparr>pf_bot = b, pf_creator_npub = bs_npub b,
            pf_freshness = (case mls_key_package_freshness_secs (bs_config b) of Some n \<Rightarrow> n | None \<Rightarrow> 300),
            pf_relays = bc_relays (bs_config b), pf_group_name = name, pf_recipient_pk = pk,
            pf_recipient_npub = npub\<rparr>)))))"

definition wire_response :: "str \<Rightarrow> json option" where
  "wire_response w = Some (JObject [(''wire_id'', JString w)])"

text \<open>The overall timeout can strike at any of the points where the request waits.\<close>

definition deadline :: "env \<Rightarrow> nat \<Rightarrow> unit dact" where
  "deadline env n = (if x_late env n then fail OperationTimedOut else ret ())"

section \<open>Creating a squad\<close>

definition create_admins :: "env \<Rightarrow> mls_group_preflight \<Rightarrow> str list option \<Rightarrow> str list res" where
  "create_admins env pf admins =
     (case admins of
        Some list \<Rightarrow> map_res (parse_recipient env) list
      | None \<Rightarrow> Inr [bs_public_key (pf_bot pf), pf_recipient_pk pf])"

text \<open>Everything up to the check, under the lock, that the name is free.\<close>

definition create_begin ::
    "env \<Rightarrow> str \<Rightarrow> str \<Rightarrow> str \<Rightarrow> str list option \<Rightarrow> str option \<Rightarrow> (mls_group_preflight \<times> str list) dact" where
  "create_begin env bot_id group_name recipient admins handler_id =
     andthen (require_mls_agent_capability env handler_id bot_id ''CreateMlsGroup'') (\<lambda>_.
     andthen (extract_mls_group_inputs env bot_id group_name recipient) (\<lambda>pf.
     andthen (if pf_recipient_npub pf = pf_creator_npub pf
              then fail (InvalidJsonRpcRequest ''creator cannot be invited to their own group'')
              else ret ()) (\<lambda>_.
     andthen (of_res (create_admins env pf admins)) (\<lambda>admin_pubkeys.
     andthen (on_store (db_read (load_mls_group bot_id (pf_group_name pf)))) (\<lambda>existing.
       if existing \<noteq> None then fail MlsGroupAlreadyExists else ret (pf, admin_pubkeys))))))"

fun insert_error :: "daemon_error \<Rightarrow> daemon_error" where
  "insert_error (Sqlite (ConstraintViolation _)) = MlsGroupAlreadyExists"
| "insert_error e = e"

definition created_row :: "str \<Rightarrow> mls_group_preflight \<Rightarrow> str \<Rightarrow> mls_group_row" where
  "created_row bot_id pf wire_id =
     \<lparr>mg_bot_id = bot_id, mg_group_name = pf_group_name pf, mg_wire_id = wire_id,
      mg_creator_npub = pf_creator_npub pf,
      mg_relay = (case pf_relays pf of [] \<Rightarrow> [] | r # _ \<Rightarrow> r),
      mg_invited_bots = [pf_recipient_npub pf], mg_state_lost_at = None\<rparr>"

definition store_created :: "env \<Rightarrow> mls_group_row \<Rightarrow> unit dact" where
  "store_created env row =
     andthen (attempt (on_store (db_act (insert_mls_group (e_codec env) row)))) (\<lambda>r.
       case r of Inr _ \<Rightarrow> ret () | Inl e \<Rightarrow> fail (insert_error e))"

text \<open>The part under the timeout, with the row stored under the lock at its end.\<close>

definition create_finish :: "env \<Rightarrow> str \<Rightarrow> mls_group_preflight \<Rightarrow> str list \<Rightarrow> str dact" where
  "create_finish env bot_id pf admins =
     (let key = bs_public_key (pf_bot pf); pk = pf_recipient_pk pf in
      andthen (deadline env 0) (\<lambda>_.
      andthen (do_call (x_text env) id (FetchKeyPackage key pk (pf_freshness pf))) (\<lambda>kp.
      andthen (deadline env 1) (\<lambda>_.
      andthen (do_call (x_mls_create env) from_mls_error
        (MlsCreateGroup key pk kp (pf_group_name pf) (filter (e_relay_url_ok env) (pf_relays pf)) admins)) (\<lambda>(wire_id, welcome).
      andthen (deadline env 2) (\<lambda>_.
      andthen (do_call (x_text env) id (SendWelcome key pk welcome)) (\<lambda>_.
      andthen (deadline env 3) (\<lambda>_.
      andthen (store_created env (created_row bot_id pf wire_id)) (\<lambda>_.
      andthen (deadline env 4) (\<lambda>_.
        ret wire_id))))))))))"

definition do_create_mls_group ::
    "env \<Rightarrow> str \<Rightarrow> str \<Rightarrow> str \<Rightarrow> str list option \<Rightarrow> str option \<Rightarrow> json option dact" where
  "do_create_mls_group env bot_id group_name recipient admins handler_id =
     andthen (create_begin env bot_id group_name recipient admins handler_id) (\<lambda>(pf, admin_pubkeys).
     andthen (create_finish env bot_id pf admin_pubkeys) (\<lambda>wire_id.
       ret (wire_response wire_id)))"

section \<open>Inviting to a squad\<close>

text \<open>
  Under the lock: an invitation that already exists answers at once (\<open>Inl\<close>), otherwise the
  membership row is written first (\<open>Inr\<close>).
\<close>

definition invite_begin ::
    "env \<Rightarrow> str \<Rightarrow> str \<Rightarrow> str \<Rightarrow> str option \<Rightarrow> (str + mls_group_preflight \<times> str) dact" where
  "invite_begin env bot_id group_name recipient handler_id =
     andthen (require_mls_agent_capability env handler_id bot_id ''InviteToMlsGroup'') (\<lambda>_.
     andthen (extract_mls_group_inputs env bot_id group_name recipient) (\<lambda>pf.
     andthen (on_store (db_read (load_mls_group bot_id (pf_group_name pf)))) (\<lambda>found.
     andthen (of_res (ok_or MlsGroupNotFound found)) (\<lambda>group.
     andthen (on_store (db_read (is_bot_invited bot_id (pf_group_name pf) (pf_recipient_npub pf)))) (\<lambda>invited.
       if invited then ret (Inl (mg_wire_id group))
       else
     andthen (on_store (db_act (update_mls_group_invite bot_id (pf_group_name pf) (pf_recipient_npub pf)))) (\<lambda>written.
       if \<not> written then fail MlsGroupNotFound else ret (Inr (pf, mg_wire_id group))))))))"

text \<open>
  The engine's answer to adding the member: after a restoration the removal is published before
  the welcome and the addition; if the re-addition failed, the removal is still published; and a
  member who is already there is a success.
\<close>

definition publish_added :: "env \<Rightarrow> mls_group_preflight \<Rightarrow> add_outcome \<Rightarrow> unit dact" where
  "publish_added env pf added =
     (let key = bs_public_key (pf_bot pf) in
      andthen (case remove_evolution_event added of
          Some rm \<Rightarrow> andthen (do_call (x_text env) id (SendEvolution key rm)) (\<lambda>_. deadline env 2)
        | None \<Rightarrow> ret ()) (\<lambda>_.
      andthen (do_call (x_text env) id (SendWelcome key (pf_recipient_pk pf) (welcome_rumor added))) (\<lambda>_.
      andthen (deadline env 3) (\<lambda>_.
      andthen (do_call (x_text env) id (SendEvolution key (evolution_event added))) (\<lambda>_.
        deadline env 4)))))"

definition add_failed :: "env \<Rightarrow> mls_group_preflight \<Rightarrow> str \<Rightarrow> mls_error \<Rightarrow> unit dact" where
  "add_failed env pf wire_id e =
     (case e of
        RestorationIncomplete rm \<Rightarrow>
          andthen (attempt (do_call (x_text env) id (SendEvolution (bs_public_key (pf_bot pf)) rm))) (\<lambda>_.
          andthen (deadline env 2) (\<lambda>_. fail (MlsRestorationIncomplete (pf_recipient_npub pf))))
      | _ \<Rightarrow>
          andthen (do_call (x_mls_bool env) from_mls_error
            (MlsIsMember (bs_public_key (pf_bot pf)) wire_id (pf_recipient_pk pf))) (\<lambda>there.
          andthen (deadline env 2) (\<lambda>_. if there then ret () else fail (from_mls_error e))))"

definition mls_add_call :: "env \<Rightarrow> call \<Rightarrow> (mls_error + add_outcome) dact" where
  "mls_add_call env c d = (Inr (x_mls_add env (d_calls d) c), d\<lparr>d_calls := d_calls d @ [c]\<rparr>)"

definition invite_mls :: "env \<Rightarrow> mls_group_preflight \<Rightarrow> str \<Rightarrow> unit dact" where
  "invite_mls env pf wire_id =
     (let key = bs_public_key (pf_bot pf); pk = pf_recipient_pk pf in
      andthen (deadline env 0) (\<lambda>_.
      andthen (do_call (x_text env) id (FetchKeyPackage key pk (pf_freshness pf))) (\<lambda>kp.
      andthen (deadline env 1) (\<lambda>_.
      andthen (mls_add_call env (MlsAddMember key wire_id pk kp)) (\<lambda>r.
        case r of Inr added \<Rightarrow> publish_added env pf added | Inl e \<Rightarrow> add_failed env pf wire_id e)))))"

text \<open>Under the lock again: a failed invitation is withdrawn, whatever the withdrawal returns.\<close>

definition invite_settle :: "str \<Rightarrow> mls_group_preflight \<Rightarrow> str \<Rightarrow> unit res \<Rightarrow> json option dact" where
  "invite_settle bot_id pf wire_id outcome =
     (case outcome of
        Inr _ \<Rightarrow> ret (wire_response wire_id)
      | Inl e \<Rightarrow>
          andthen (attempt (on_store (db_act
            (delete_mls_group_member bot_id (pf_group_name pf) (pf_recipient_npub pf))))) (\<lambda>_.
            fail e))"

definition do_invite_to_mls_group :: "env \<Rightarrow> str \<Rightarrow> str \<Rightarrow> str \<Rightarrow> str option \<Rightarrow> json option dact" where
  "do_invite_to_mls_group env bot_id group_name recipient handler_id =
     andthen (invite_begin env bot_id group_name recipient handler_id) (\<lambda>begun.
       case begun of
         Inl wire_id \<Rightarrow> ret (wire_response wire_id)
       | Inr (pf, wire_id) \<Rightarrow>
           andthen (attempt (invite_mls env pf wire_id)) (\<lambda>outcome.
             invite_settle bot_id pf wire_id outcome))"

section \<open>The requests\<close>

text \<open>Administrative requests spend the caller's rate before they touch the squad.\<close>

definition caller_rate :: "env \<Rightarrow> str option \<Rightarrow> str \<Rightarrow> unit dact" where
  "caller_rate env caller bot_id =
     (case caller of Some hid \<Rightarrow> check_rate env hid bot_id | None \<Rightarrow> ret ())"

definition handle_admin_create_mls_group :: "env \<Rightarrow> str option \<Rightarrow> json option \<Rightarrow> json option dact" where
  "handle_admin_create_mls_group env caller params =
     andthen (require_admin_or_self caller None) (\<lambda>_.
     andthen (of_res (required_params params ''admin.create_mls_group'')) (\<lambda>p.
     andthen (of_res (typed_params env de_create_params p)) (\<lambda>cp.
     andthen (caller_rate env caller (cp_bot_id cp)) (\<lambda>_.
       do_create_mls_group env (cp_bot_id cp) (cp_group_name cp) (cp_recipient cp) (cp_admins cp) None))))"

definition handle_admin_invite_to_mls_group :: "env \<Rightarrow> str option \<Rightarrow> json option \<Rightarrow> json option dact" where
  "handle_admin_invite_to_mls_group env caller params =
     andthen (require_admin_or_self caller None) (\<lambda>_.
     andthen (of_res (required_params params ''admin.invite_to_mls_group'')) (\<lambda>p.
     andthen (of_res (typed_params env de_invite_params p)) (\<lambda>ip.
     andthen (caller_rate env caller (ip_bot_id ip)) (\<lambda>_.
       do_invite_to_mls_group env (ip_bot_id ip) (ip_group_name ip) (ip_recipient ip) None))))"

definition handle_agent_create_mls_group :: "env \<Rightarrow> str option \<Rightarrow> json option \<Rightarrow> json option dact" where
  "handle_agent_create_mls_group env handler_id params =
     andthen (of_res (required_params params ''agent.create_mls_group'')) (\<lambda>p.
     andthen (of_res (typed_params env de_create_params p)) (\<lambda>cp.
       do_create_mls_group env (cp_bot_id cp) (cp_group_name cp) (cp_recipient cp) (cp_admins cp) handler_id))"

definition handle_agent_invite_to_mls_group :: "env \<Rightarrow> str option \<Rightarrow> json option \<Rightarrow> json option dact" where
  "handle_agent_invite_to_mls_group env handler_id params =
     andthen (of_res (required_params params ''agent.invite_to_mls_group'')) (\<lambda>p.
     andthen (of_res (typed_params env de_invite_params p)) (\<lambda>ip.
       do_invite_to_mls_group env (ip_bot_id ip) (ip_group_name ip) (ip_recipient ip) handler_id))"

definition repair_prerequisite :: "mls_group_row \<Rightarrow> str" where
  "repair_prerequisite row =
     (if mg_invited_bots row = []
      then ''re-creation (this bot was the only known member before state was lost)''
      else ''restoration via re-invitation by another admin'')"

definition handle_admin_repair_mls_group_admins :: "env \<Rightarrow> str option \<Rightarrow> json option \<Rightarrow> json option dact" where
  "handle_admin_repair_mls_group_admins env caller params =
     andthen (require_admin_or_self caller None) (\<lambda>_.
     andthen (of_res (required_params params ''admin.repair_mls_group_admins'')) (\<lambda>p.
     andthen (of_res (typed_params env de_repair_params p)) (\<lambda>rp.
     andthen (caller_rate env caller (pp_bot_id rp)) (\<lambda>_.
     andthen (of_res (validate_group_name (pp_group_name rp))) (\<lambda>group_name.
     andthen (find_bot (pp_bot_id rp)) (\<lambda>b.
     andthen (of_res (bot_engine b)) (\<lambda>_.
     andthen (on_store (db_read (load_mls_group (pp_bot_id rp) group_name))) (\<lambda>found.
     andthen (of_res (ok_or MlsGroupNotFound found)) (\<lambda>row.
     andthen (if mg_state_lost_at row \<noteq> None then fail (MlsGroupRepairPrerequisite (repair_prerequisite row)) else ret ()) (\<lambda>_.
     andthen (do_call (x_mls_repair env) from_mls_error (MlsRepairAdmins (bs_public_key b) (mg_wire_id row))) (\<lambda>(event, admins).
     andthen (do_call (x_text env) id (SendEvolution (bs_public_key b) event)) (\<lambda>_.
     andthen (of_res (map_res (\<lambda>pk. case e_bech32 env pk of
         Inl e \<Rightarrow> Inl (Nostr (''invalid admin npub: '' @ e)) | Inr s \<Rightarrow> Inr s) admins)) (\<lambda>npubs.
       ret (Some (JObject [(''admins'', JArray (map JString npubs))])))))))))))))))"

section \<open>Leaving and deleting\<close>

text \<open>An administrator demotes itself before it leaves.\<close>

definition handle_exit_mls_group_inner :: "env \<Rightarrow> str \<Rightarrow> str \<Rightarrow> str option \<Rightarrow> str dact" where
  "handle_exit_mls_group_inner env bot_id group_id handler_id =
     andthen (authorize handler_id bot_id ''ExitMlsGroup'') (\<lambda>_.
     andthen (find_bot bot_id) (\<lambda>b.
     andthen (of_res (bot_engine b)) (\<lambda>_.
     andthen (do_call (x_mls_leave env) from_mls_error (MlsLeaveGroup (bs_public_key b) group_id)) (\<lambda>left.
     andthen (case self_demote_event left of
         Some ev \<Rightarrow> andthen (do_call (x_text env) id (SendEvolution (bs_public_key b) ev)) (\<lambda>_. ret ())
       | None \<Rightarrow> ret ()) (\<lambda>_.
     andthen (do_call (x_text env) id (SendEvolution (bs_public_key b) (leave_event left))) (\<lambda>_.
       ret (leave_event left)))))))"

definition handle_exit_mls_group :: "env \<Rightarrow> str option \<Rightarrow> json option \<Rightarrow> json option dact" where
  "handle_exit_mls_group env handler_id params =
     andthen (of_res (required_params params ''agent.exit_mls_group'')) (\<lambda>p.
     andthen (of_res (required_string p ''bot_id'' ''agent.exit_mls_group'')) (\<lambda>bot_id.
     andthen (of_res (required_string p ''group_id'' ''agent.exit_mls_group'')) (\<lambda>group_id.
     andthen (handle_exit_mls_group_inner env bot_id group_id handler_id) (\<lambda>eid.
       ret (Some (JObject [(''event_id'', JString eid)]))))))"

definition handle_delete_mls_group :: "env \<Rightarrow> str option \<Rightarrow> json option \<Rightarrow> json option dact" where
  "handle_delete_mls_group env handler_id params =
     andthen (of_res (required_params params ''agent.delete_mls_group'')) (\<lambda>p.
     andthen (of_res (required_string p ''bot_id'' ''agent.delete_mls_group'')) (\<lambda>bot_id.
     andthen (of_res (required_string p ''group_id'' ''agent.delete_mls_group'')) (\<lambda>group_id.
     andthen (authorize handler_id bot_id ''ExitMlsGroup'') (\<lambda>_.
     andthen (find_bot bot_id) (\<lambda>b.
     andthen (of_res (bot_engine b)) (\<lambda>_.
     andthen (do_call (x_mls_bool env) from_mls_error (MlsDeleteGroup (bs_public_key b) group_id)) (\<lambda>deleted.
     andthen (on_store (db_act (delete_mls_group_by_wire_id bot_id group_id))) (\<lambda>_.
       ret (Some (JObject [(''deleted'', JBool deleted)]))))))))))"

end
