(* ===== verification/DispatchMessage.thy ===== *)
theory DispatchMessage
  imports DispatchMls
begin

text \<open>
  The router of JSON-RPC messages (\<open>handle_message\<close> in \<open>src/dispatch.rs\<close>): every message is routed
  by its method to one request handler, and every message with an id gets exactly one answer.
\<close>

definition run_method ::
    "env \<Rightarrow> rpc_method \<Rightarrow> json option \<Rightarrow> str option \<Rightarrow> connection_handle option \<Rightarrow> json option dact" where
  "run_method env m params hid conn =
     (case m of
        M_HandlerRegister \<Rightarrow> handle_register env params conn
      | M_HandlerReconnect \<Rightarrow> handle_reconnect env params conn
      | M_HandlerUnregister \<Rightarrow> handle_unregister hid params
      | M_AgentSendDm \<Rightarrow> handle_send_dm_msg env hid params
      | M_AgentSendReaction \<Rightarrow> handle_send_reaction env hid params
      | M_AgentSendAttachment \<Rightarrow> handle_send_attachment env hid params
      | M_AgentSetProfile \<Rightarrow> handle_set_profile env hid params
      | M_AgentError \<Rightarrow> handle_error env hid params
      | M_HandlerResponse \<Rightarrow> handle_response hid params
      | M_AgentMetrics \<Rightarrow> handle_metrics env
      | M_AgentListHandlers \<Rightarrow> handle_list_handlers env hid
      | M_AgentUnregisterHandler \<Rightarrow> handle_admin_unregister_handler hid params
      | M_AgentVersion \<Rightarrow> handle_version env
      | M_SystemVersion \<Rightarrow> handle_version env
      | M_SystemHealth \<Rightarrow> handle_health env
      | M_AgentSendGroupMessage \<Rightarrow> handle_send_group_message env hid params
      | M_AgentSendGroupReaction \<Rightarrow> handle_send_group_reaction env hid params
      | M_AgentSendGroupAttachment \<Rightarrow> handle_send_group_attachment env hid params
      | M_AgentPublishKeyPackage \<Rightarrow> handle_publish_key_package env hid params
      | M_AdminSendTestDm \<Rightarrow> handle_admin_send_test_dm env hid params
      | M_AdminCreateMlsGroup \<Rightarrow> handle_admin_create_mls_group env hid params
      | M_AdminInviteToMlsGroup \<Rightarrow> handle_admin_invite_to_mls_group env hid params
      | M_AgentCreateMlsGroup \<Rightarrow> handle_agent_create_mls_group env hid params
      | M_AgentInviteToMlsGroup \<Rightarrow> handle_agent_invite_to_mls_group env hid params
      | M_AdminRepairMlsGroupAdmins \<Rightarrow> handle_admin_repair_mls_group_admins env hid params
      | M_AgentIsSquadMember \<Rightarrow> handle_is_squad_member env hid params
      | M_AgentExitMlsGroup \<Rightarrow> handle_exit_mls_group env hid params
      | M_AgentDeleteMlsGroup \<Rightarrow> handle_delete_mls_group env hid params
      | M_AgentEvent \<Rightarrow> fail MethodNotFound
      | M_AgentStatus \<Rightarrow> fail MethodNotFound
      | M_AgentRateLimited \<Rightarrow> fail MethodNotFound)"

definition missing_method :: json_rpc_error where
  "missing_method = json_rpc_error_new (-32600) ''invalid request: missing method''"

fun answer_with :: "json \<Rightarrow> json option res \<Rightarrow> message" where
  "answer_with i (Inr v) = mk_response i v"
| "answer_with i (Inl e) = mk_error i (to_json_rpc_error e)"

definition handle_message ::
    "env \<Rightarrow> message \<Rightarrow> str option \<Rightarrow> connection_handle option \<Rightarrow> message option dact" where
  "handle_message env msg hid conn =
     (case msg_method msg of
        None \<Rightarrow> ret (map_option (\<lambda>i. mk_error i missing_method) (msg_id msg))
      | Some name \<Rightarrow>
          (case parse_method name of
             Inl _ \<Rightarrow> ret (map_option (\<lambda>i. mk_error i (to_json_rpc_error MethodNotFound)) (msg_id msg))
           | Inr m \<Rightarrow>
               andthen (attempt (run_method env m (msg_params msg) hid conn)) (\<lambda>r.
                 ret (map_option (\<lambda>i. answer_with i r) (msg_id msg)))))"

end
