(* ===== verification/Transport.thy ===== *)
theory Transport
  imports DispatchMessage
begin

text \<open>
  What the transports share (\<open>src/transport/mod.rs\<close> and \<open>validate_params\<close> of
  \<open>src/transport/protocol.rs\<close>): the schema check of parameters, the events the transports queue for the
  dispatch consumer, and the two facts about request handlers the transports rely on: a handler
  only appends notifications to outbound channels, and only a registration or a reconnection
  answers with a handler id.
\<close>

section \<open>Parameters of a transport\<close>

text \<open>
  \<open>te_schemas\<close> is the table \<open>METHOD_PARAMS_SCHEMA\<close> the build generates, \<open>te_validator\<close> the schema
  compiler of the jsonschema crate: the error text of a schema it rejects, or a check that returns
  the text of what it finds wrong. UTF-8 and JSON text belong to the standard library and
  \<open>serde_json\<close>.
\<close>

record tenv =
  te_utf8 :: "str \<Rightarrow> bool"
  te_read_json :: "str \<Rightarrow> str + json"
  te_show_json :: "json \<Rightarrow> str"
  te_schemas :: "(str \<times> json) list"
  te_validator :: "json \<Rightarrow> str + (json \<Rightarrow> str option)"
  te_max_frame :: nat

definition validate_params :: "tenv \<Rightarrow> str \<Rightarrow> json \<Rightarrow> unit res" where
  "validate_params te meth params =
     (case map_of (te_schemas te) meth of
        None \<Rightarrow> Inl MethodNotFound
      | Some schema \<Rightarrow>
          if schema = JArray [] then Inr ()
          else (case te_validator te schema of
                  Inl e \<Rightarrow> Inl (Config (''invalid schema for method '' @ meth @ '': '' @ e))
                | Inr check \<Rightarrow>
                    (case check params of
                       Some e \<Rightarrow> Inl (Config (''invalid params for method '' @ meth @ '': '' @ e))
                     | None \<Rightarrow> Inr ())))"

text \<open>The check in front of every message: one without a method passes.\<close>

definition validate_message :: "tenv \<Rightarrow> message \<Rightarrow> unit res" where
  "validate_message te msg =
     (case msg_method msg of
        None \<Rightarrow> Inr ()
      | Some name \<Rightarrow>
          validate_params te name (case msg_params msg of Some p \<Rightarrow> p | None \<Rightarrow> JNull))"

text \<open>The handler id a transport reads from an answer.\<close>

fun issued_id :: "message option \<Rightarrow> str option" where
  "issued_id (Some (Response j i (Some r))) = str_field r ''handler_id''"
| "issued_id _ = None"

text \<open>What a transport answers once the dispatcher has: an error only to a message with an id.\<close>

definition transport_answer :: "json option \<Rightarrow> message option res \<Rightarrow> message option" where
  "transport_answer i r =
     (case r of Inr resp \<Rightarrow> resp | Inl e \<Rightarrow> map_option (\<lambda>i. mk_error i (to_json_rpc_error e)) i)"

section \<open>Only notifications are queued\<close>

text \<open>
  \<open>queued chs chs'\<close>: every channel kept its capacity and its receiver, and got only messages
  without an id.
\<close>

definition queued :: "channels \<Rightarrow> channels \<Rightarrow> bool" where
  "queued chs chs' \<longleftrightarrow> (\<forall>c. ch_capacity (chs' c) = ch_capacity (chs c) \<and> ch_closed (chs' c) = ch_closed (chs c) \<and>
     (\<exists>ns. ch_queue (chs' c) = ch_queue (chs c) @ ns \<and> (\<forall>n \<in> set ns. msg_id n = None)))"

definition notifies :: "daemon \<Rightarrow> daemon \<Rightarrow> bool" where
  "notifies d d' \<longleftrightarrow> queued (d_chans d) (d_chans d')"

lemma queued_refl: "queued chs chs"
  by (simp add: queued_def)

lemma queued_trans:
  assumes "queued a b" and "queued b c"
  shows "queued a c"
  unfolding queued_def
proof (intro allI conjI)
  fix x
  show "ch_capacity (c x) = ch_capacity (a x)" "ch_closed (c x) = ch_closed (a x)"
    using assms by (auto simp: queued_def)
  obtain ns ms where "ch_queue (b x) = ch_queue (a x) @ ns" "\<forall>n \<in> set ns. msg_id n = None"
    "ch_queue (c x) = ch_queue (b x) @ ms" "\<forall>n \<in> set ms. msg_id n = None"
    using assms unfolding queued_def by metis
  then show "\<exists>ns. ch_queue (c x) = ch_queue (a x) @ ns \<and> (\<forall>n \<in> set ns. msg_id n = None)"
    by (intro exI [of _ "ns @ ms"]) auto
qed

interpretation ntf: action_rel notifies
  by unfold_locales (auto simp: notifies_def queued_refl elim: queued_trans)

lemma queued_conn_send:
  assumes "msg_id m = None"
  shows "queued chs (snd (conn_send c m chs))"
  unfolding queued_def
proof (intro allI conjI)
  fix x
  show "ch_closed (snd (conn_send c m chs) x) = ch_closed (chs x)" by simp
  show "ch_capacity (snd (conn_send c m chs) x) = ch_capacity (chs x)"
    by (simp add: conn_send_def Let_def)
  show "\<exists>ns. ch_queue (snd (conn_send c m chs) x) = ch_queue (chs x) @ ns \<and> (\<forall>n \<in> set ns. msg_id n = None)"
    using assms by (cases "x = cn_sender c \<and> \<not> ch_closed (chs x) \<and> length (ch_queue (chs x)) < ch_capacity (chs x)")
      (auto simp: conn_send_def Let_def)
qed

lemmas send_defs = send_event_def send_optional_def send_status_def send_rate_limited_def send_metrics_def

lemma ntf_notify: "(\<And>chs. queued chs (snd (f chs))) \<Longrightarrow> ntf.obeys (notify f)"
  by (rule ntf.obeysI) (simp add: notifies_def notify_def case_prod_beta)

lemma queued_send:
  "queued chs (snd (send_event h e chs))" "queued chs (snd (send_status h st i chs))"
  "queued chs (snd (send_metrics h r chs))" "queued chs (snd (send_rate_limited h b g w chs))"
  by (simp_all add: send_defs mk_notification_def queued_refl queued_conn_send split: option.split)

lemma ntf_fields:
  assumes "\<And>d. d_chans (snd (m d)) = d_chans d"
  shows "ntf.obeys m"
  using assms by (simp add: ntf.obeysI notifies_def queued_refl)

lemma ntf_blocks:
  "ntf.obeys (notify (send_event h e))" "ntf.obeys (notify (send_status h st i))"
  "ntf.obeys (notify (send_metrics h r))" "ntf.obeys (notify (send_rate_limited h b g w))"
  "ntf.obeys (diag f)" "ntf.obeys (on_store m)" "ntf.obeys (on_registry k)"
  "ntf.obeys (do_call x conv cl)" "ntf.obeys (check_rate env hid b')"
  "ntf.obeys (seen_before env ky wi)" "ntf.obeys (within_group_rate env b' g')"
  "ntf.obeys (mls_add_call env cl)" "ntf.obeys (closed_connection env (Some c))"
  by (simp_all add: ntf_notify queued_send)
    (simp_all add: ntf_fields diag_def on_store_def on_registry_def do_call_def check_rate_def Let_def
      seen_before_def within_group_rate_def mls_add_call_def closed_connection_def split: prod.splits)

lemma ntf_modify: "(\<And>d. d_chans (f d) = d_chans d) \<Longrightarrow> ntf.obeys (modify f)"
  by (rule ntf_fields) simp

lemma ntf_checks:
  "ntf.obeys (authorize h b cap)" "ntf.obeys (gate env h b cap)" "ntf.obeys (find_bot b)"
  "ntf.obeys (refuse_lost b g)" "ntf.obeys (require_admin_or_self h t)" "ntf.obeys attachment_service"
  unfolding authorize_def gate_def find_bot_def refuse_lost_def require_admin_or_self_def attachment_service_def
  by (intro ntf.obeys_intros ntf_blocks)+

lemmas ntf_intros = ntf.obeys_intros ntf_blocks ntf_checks

lemma ntf_count_failure: "ntf.obeys m \<Longrightarrow> ntf.obeys (count_attachment_failure m)"
  unfolding count_attachment_failure_def
  by (intro ntf_intros) (auto split: daemon_error.split intro: ntf_intros)

lemma ntf_send_dm: "ntf.obeys (handle_send_dm env b r c t h)"
  unfolding handle_send_dm_def by (intro ntf_intros)

lemma ntf_sends:
  "ntf.obeys (handle_send_dm_msg env h p)" "ntf.obeys (handle_send_reaction env h p)"
  "ntf.obeys (handle_send_attachment env h p)" "ntf.obeys (handle_set_profile env h p)"
  "ntf.obeys (handle_error env h p)"
  unfolding handle_send_dm_msg_def handle_send_reaction_def handle_send_attachment_def
    handle_set_profile_def handle_error_def
  by (intro ntf_intros ntf_send_dm ntf_count_failure)+


lemma ntf_group_sends:
  "ntf.obeys (handle_send_group_message env h p)" "ntf.obeys (handle_send_group_reaction env h p)"
  "ntf.obeys (handle_send_group_attachment env h p)" "ntf.obeys (handle_publish_key_package env h p)"
  "ntf.obeys (handle_is_squad_member env h p)"
  unfolding handle_send_group_message_def handle_send_group_message_inner_def handle_send_group_reaction_def
    handle_send_group_attachment_def handle_publish_key_package_def handle_is_squad_member_def
    handle_is_squad_member_inner_def
  by (intro ntf_intros ntf_count_failure)+

lemma ntf_unregister: "ntf.obeys (unregister_handler hid)"
proof -
  have "ntf.obeys (\<lambda>d. case reg_unregister hid (d_registry d) of (r, reg) \<Rightarrow> (r, d\<lparr>d_registry := reg\<rparr>))"
    by (rule ntf_fields) (simp split: prod.splits)
  then show ?thesis
    unfolding unregister_handler_def by (intro ntf_intros ntf_modify) simp_all
qed

lemma ntf_settle: "ntf.obeys (settle_registration env hid)"
  unfolding settle_registration_def notify_bot_unavailable_on_registration_def unavailable_reason_def
  by (intro ntf_intros)

lemma ntf_register: "ntf.obeys (handle_register env p (Some c))"
  unfolding handle_register_def by (intro ntf_intros ntf_settle ntf_modify) simp

lemma ntf_reconnect: "ntf.obeys (handle_reconnect env p (Some c))"
  unfolding handle_reconnect_def by (intro ntf_intros ntf_settle)

lemma ntf_admin:
  "ntf.obeys (handle_unregister h p)" "ntf.obeys (handle_admin_unregister_handler h p)"
  "ntf.obeys (handle_list_handlers env h)" "ntf.obeys (handle_metrics env)" "ntf.obeys (handle_health env)"
  "ntf.obeys (handle_version env)" "ntf.obeys (handle_admin_send_test_dm env h p)"
  unfolding handle_unregister_def handle_admin_unregister_handler_def handle_list_handlers_def
    handle_metrics_def handle_health_def handle_version_def handle_admin_send_test_dm_def send_test_dm_def
  by (intro ntf_intros ntf_unregister)+

lemma ntf_response: "ntf.obeys (handle_response h p)"
  unfolding handle_response_def by (intro ntf_intros ntf_modify) simp

lemma ntf_mls_blocks:
  "ntf.obeys (deadline env n)" "ntf.obeys (caller_rate env cl b)" "ntf.obeys (store_created env row)"
  "ntf.obeys (require_mls_agent_capability env h b cap)" "ntf.obeys (extract_mls_group_inputs env b n' r)"
  unfolding deadline_def caller_rate_def store_created_def require_mls_agent_capability_def
    extract_mls_group_inputs_def
  by (intro ntf_intros)+

lemma ntf_add_failed: "ntf.obeys (add_failed env pf w e)"
  unfolding add_failed_def by (cases e) (simp_all, (intro ntf_intros ntf_mls_blocks)+)

lemma ntf_mls:
  "ntf.obeys (do_create_mls_group env b n r as h)" "ntf.obeys (do_invite_to_mls_group env b n r h)"
  unfolding do_create_mls_group_def create_begin_def create_finish_def Let_def
    do_invite_to_mls_group_def invite_begin_def invite_mls_def publish_added_def invite_settle_def
  by (intro ntf_intros ntf_mls_blocks ntf_add_failed)+

lemma ntf_mls_requests:
  "ntf.obeys (handle_admin_create_mls_group env h p)" "ntf.obeys (handle_admin_invite_to_mls_group env h p)"
  "ntf.obeys (handle_agent_create_mls_group env h p)" "ntf.obeys (handle_agent_invite_to_mls_group env h p)"
  "ntf.obeys (handle_admin_repair_mls_group_admins env h p)" "ntf.obeys (handle_exit_mls_group env h p)"
  "ntf.obeys (handle_delete_mls_group env h p)"
  unfolding handle_admin_create_mls_group_def handle_admin_invite_to_mls_group_def
    handle_agent_create_mls_group_def handle_agent_invite_to_mls_group_def
    handle_admin_repair_mls_group_admins_def handle_exit_mls_group_def handle_exit_mls_group_inner_def
    handle_delete_mls_group_def
  by (intro ntf_intros ntf_mls ntf_mls_blocks)+

lemma ntf_run_method: "ntf.obeys (run_method env m p h (Some c))"
  unfolding run_method_def
  by (cases m) (simp_all add: ntf_sends ntf_group_sends ntf_register ntf_reconnect ntf_admin ntf_response
      ntf_mls_requests ntf.obeys_pure)

lemma ntf_handle_message: "ntf.obeys (handle_message env msg h (Some c))"
  unfolding handle_message_def by (intro ntf_intros ntf_run_method)

text \<open>The tasks that run beside the connections.\<close>

lemma ntf_admit: "ntf.obeys (dispatch_admit env ev)"
  unfolding dispatch_admit_def clear_restored_def process_mls_group_message_def Let_def
  by (intro ntf_intros)

lemma ntf_notify_event: "ntf.obeys (notify_event env ev h)"
  unfolding notify_event_def by (intro ntf_intros)

lemma ntf_open: "ntf.obeys (dispatch_open env ctx)"
  unfolding dispatch_open_def by (intro ntf_intros ntf_notify_event ntf_modify) simp


lemma ntf_answer: "ntf.obeys (answer env ev hid action)"
  unfolding answer_def
  by (cases action) (simp_all only: handler_action.case, (intro ntf_intros ntf_send_dm)+)

lemma ntf_advance: "ntf.obeys (advance_cursor env ctx)"
  unfolding advance_cursor_def Let_def by (intro ntf_intros ntf_modify) simp

lemma ntf_after_responses: "ntf.obeys (after_responses env env_of ctx rs df)"
  unfolding after_responses_def process_response_def by (intro ntf_intros ntf_answer ntf_advance)

lemma ntf_finish: "ntf.obeys (dispatch_finish env env_of arrived ctx)"
  unfolding dispatch_finish_def count_responses_def Let_def
  by (intro ntf_intros ntf_after_responses ntf_modify) simp

lemma ntf_upkeep:
  "ntf.obeys (reap_stale env)" "ntf.obeys (flush_cursors env)" "ntf.obeys (broadcast_status st)"
  "ntf.obeys (broadcast_metrics env)"
  unfolding reap_stale_def flush_cursors_def broadcast_status_def broadcast_metrics_def broadcast_def
  by (intro ntf_intros ntf_unregister)+

section \<open>Who issues handler ids\<close>

text \<open>Every value an operation returns has the property.\<close>

definition yields :: "('a \<Rightarrow> bool) \<Rightarrow> 'a dact \<Rightarrow> bool" where
  "yields P m \<longleftrightarrow> (\<forall>d a. fst (m d) = Inr a \<longrightarrow> P a)"

lemma yields_ret: "P a \<Longrightarrow> yields P (ret a)"
  by (simp add: yields_def)

lemma yields_fail: "yields P (fail e)"
  by (simp add: yields_def)

lemma yields_gets: "(\<And>d. P (f d)) \<Longrightarrow> yields P (gets f)"
  by (simp add: yields_def)

lemma yields_andthen: "(\<And>a. yields P (k a)) \<Longrightarrow> yields P (andthen m k)"
  by (auto simp: yields_def andthen_def split: prod.splits sum.splits)

lemma yields_if: "yields P m \<Longrightarrow> yields P n \<Longrightarrow> yields P (if c then m else n)"
  by simp

lemma yields_option:
  "yields P m \<Longrightarrow> (\<And>a. yields P (k a)) \<Longrightarrow> yields P (case x of None \<Rightarrow> m | Some a \<Rightarrow> k a)"
  by (cases x) simp_all

lemma yields_sum:
  "(\<And>e. yields P (h e)) \<Longrightarrow> (\<And>a. yields P (k a)) \<Longrightarrow> yields P (case r of Inl e \<Rightarrow> h e | Inr a \<Rightarrow> k a)"
  by (cases r) simp_all

lemma yields_prod: "(\<And>a b. yields P (k a b)) \<Longrightarrow> yields P (case p of (a, b) \<Rightarrow> k a b)"
  by (cases p) simp

lemmas yields_intros =
  yields_ret yields_fail yields_gets yields_andthen yields_if yields_option yields_sum yields_prod

text \<open>A result without a handler id.\<close>

definition no_id :: "json option \<Rightarrow> bool" where
  "no_id v \<longleftrightarrow> (case v of None \<Rightarrow> True | Some j \<Rightarrow> str_field j ''handler_id'' = None)"

lemma no_id_simps [simp]:
  "no_id None" "no_id (Some (JString s))" "no_id (Some (JObject fs)) \<longleftrightarrow> Option.bind (map_of fs ''handler_id'') as_str = None"
  by (simp_all add: no_id_def str_field_def)

lemma no_id_wire [simp]: "no_id (wire_response w)"
  by (simp add: wire_response_def)

lemma no_id_metrics [simp]: "no_id (Some (metrics_response ft now dg h r))"
  by (simp add: metrics_response_def Let_def map_add_def)

fun issues_id :: "rpc_method \<Rightarrow> bool" where
  "issues_id M_HandlerRegister = True"
| "issues_id M_HandlerReconnect = True"
| "issues_id _ = False"

lemma no_id_sends:
  "yields no_id (handle_send_dm_msg env h p)" "yields no_id (handle_send_reaction env h p)"
  "yields no_id (handle_send_attachment env h p)" "yields no_id (handle_set_profile env h p)"
  "yields no_id (handle_error env h p)" "yields no_id (handle_send_group_message env h p)"
  "yields no_id (handle_send_group_reaction env h p)" "yields no_id (handle_send_group_attachment env h p)"
  "yields no_id (handle_publish_key_package env h p)" "yields no_id (handle_is_squad_member env h p)"
  unfolding handle_send_dm_msg_def handle_send_reaction_def handle_send_attachment_def
    handle_set_profile_def handle_error_def handle_send_group_message_def handle_send_group_reaction_def
    handle_send_group_attachment_def handle_publish_key_package_def handle_is_squad_member_def
  by (intro yields_intros; simp)+

lemma no_id_admin:
  "yields no_id (handle_unregister h p)" "yields no_id (handle_admin_unregister_handler h p)"
  "yields no_id (handle_list_handlers env h)" "yields no_id (handle_metrics env)" "yields no_id (handle_health env)"
  "yields no_id (handle_version env)" "yields no_id (handle_admin_send_test_dm env h p)"
  "yields no_id (handle_response h p)"
  unfolding handle_unregister_def handle_admin_unregister_handler_def handle_list_handlers_def
    handle_metrics_def handle_health_def handle_version_def handle_admin_send_test_dm_def handle_response_def
  by (intro yields_intros; simp)+

lemma no_id_mls:
  "yields no_id (do_create_mls_group env b n r as h)" "yields no_id (do_invite_to_mls_group env b n r h)"
  unfolding do_create_mls_group_def do_invite_to_mls_group_def invite_settle_def
  by (intro yields_intros; simp)+

lemma no_id_mls_requests:
  "yields no_id (handle_admin_create_mls_group env h p)" "yields no_id (handle_admin_invite_to_mls_group env h p)"
  "yields no_id (handle_agent_create_mls_group env h p)" "yields no_id (handle_agent_invite_to_mls_group env h p)"
  "yields no_id (handle_admin_repair_mls_group_admins env h p)" "yields no_id (handle_exit_mls_group env h p)"
  "yields no_id (handle_delete_mls_group env h p)"
  unfolding handle_admin_create_mls_group_def handle_admin_invite_to_mls_group_def
    handle_agent_create_mls_group_def handle_agent_invite_to_mls_group_def
    handle_admin_repair_mls_group_admins_def handle_exit_mls_group_def handle_delete_mls_group_def
  by (intro yields_intros no_id_mls; simp)+

lemma no_id_run_method: "\<not> issues_id m \<Longrightarrow> yields no_id (run_method env m p h c)"
  unfolding run_method_def
  by (cases m) (simp_all add: no_id_sends no_id_admin no_id_mls_requests yields_fail)

text \<open>An answer carries the id of its message; a handler id is issued to a registration only.\<close>

lemma handle_message_answer:
  assumes "fst (handle_message env msg h c d) = Inr resp"
  shows "resp = None \<and> msg_id msg = None \<or> (\<exists>i m. resp = Some m \<and> msg_id msg = Some i \<and> msg_id m = Some i)"
proof -
  have "msg_id (answer_with i r) = Some i" for i r by (cases r) (simp_all add: mk_response_def mk_error_def)
  with assms show ?thesis
    by (cases "msg_id msg") (auto simp: handle_message_def mk_error_def split: option.splits sum.splits)
qed

lemma handle_message_issues:
  assumes "fst (handle_message env msg h c d) = Inr resp" and "issued_id resp = Some hid"
  obtains name m where "msg_method msg = Some name" and "parse_method name = Inr m" and "issues_id m"
proof -
  have none: "issued_id (map_option (\<lambda>i. mk_error i e) x) = None" for e x
    by (cases x) (simp_all add: mk_error_def)
  obtain name m where m: "msg_method msg = Some name" "parse_method name = Inr m"
    and resp: "resp = map_option (\<lambda>i. answer_with i (fst (run_method env m (msg_params msg) h c d))) (msg_id msg)"
    using assms none by (fastforce simp: handle_message_def split: option.splits sum.splits)
  then obtain i where resp': "resp = Some (answer_with i (fst (run_method env m (msg_params msg) h c d)))"
    using assms(2) by (cases "msg_id msg") auto
  then obtain v where v: "fst (run_method env m (msg_params msg) h c d) = Inr (Some v)"
      "str_field v ''handler_id'' = Some hid"
    using assms(2)
    by (cases "fst (run_method env m (msg_params msg) h c d)")
      (auto simp: mk_error_def mk_response_def elim!: issued_id.elims)
  have "issues_id m"
  proof (rule ccontr)
    assume "\<not> issues_id m"
    then have "no_id (Some v)" using no_id_run_method v(1) unfolding yields_def by blast
    with v(2) show False by (simp add: no_id_def)
  qed
  with m show thesis by (rule that)
qed

end
