(* ===== verification/UnixTransport.thy ===== *)
theory UnixTransport
  imports Transport
begin

text \<open>
  The Unix socket transport (\<open>src/transport/unix.rs\<close>) and the dispatch consumer
  (\<open>src/transport/mod.rs\<close>) as one transition system: every connection has a read loop, a drainer that
  answers its frames one at a time, a writer, and an end that is announced to the dispatcher
  through a queue of its own; one consumer takes messages and disconnections from a shared queue.
  Between any two steps the other connections and the daemon's own tasks may take theirs.
\<close>

section \<open>State\<close>

text \<open>
  The drainer waits for a frame, for the dispatcher, for the answer to be looked at, or for room
  in the outbound channel; it stops when that channel is closed.
\<close>

datatype phase = Idle | Waiting "json option" | Answered "message option" | Sending message | Stopped

text \<open>The read loop runs, or has ended with the handler id it announces, or has announced it.\<close>

datatype reading = Reading | Ending "str option" | Announced

text \<open>What was written to the socket: by the writer from the channel, or directly by the read loop.\<close>

datatype written = FromQueue message | Direct message

text \<open>\<open>uc_frames\<close> records the frames queued so far and \<open>uc_written\<close> what the peer was sent.\<close>

record uconn =
  uc_hid :: "str option"
  uc_pending :: "str list"
  uc_phase :: phase
  uc_reading :: reading
  uc_frames :: "str list"
  uc_written :: "written list"

datatype tevent = TMessage nat message "str option" | TDisconnect "str option"

text \<open>
  A connection's number is that of its outbound channel. \<open>sv_answers\<close> records what the consumer
  answered to whom.
\<close>

record server =
  sv_daemon :: daemon
  sv_conns :: "(nat, uconn) hmap"
  sv_next :: nat
  sv_disconnects :: "str option list"
  sv_events :: "tevent list"
  sv_answers :: "(nat \<times> message \<times> message option) list"

definition OUTBOUND_BUFFER :: nat where "OUTBOUND_BUFFER = 128"
definition EVENT_BUFFER :: nat where "EVENT_BUFFER = 256"
definition MAX_CONNECTIONS :: nat where "MAX_CONNECTIONS = 128"

definition server_start :: "daemon \<Rightarrow> nat \<Rightarrow> server" where
  "server_start d n = \<lparr>sv_daemon = d, sv_conns = [], sv_next = n, sv_disconnects = [], sv_events = [], sv_answers = []\<rparr>"

definition set_conn :: "nat \<Rightarrow> uconn \<Rightarrow> server \<Rightarrow> server" where
  "set_conn n c s = s\<lparr>sv_conns := hm_insert n c (sv_conns s)\<rparr>"

definition set_channel :: "nat \<Rightarrow> channel \<Rightarrow> server \<Rightarrow> server" where
  "set_channel n ch s = s\<lparr>sv_daemon := (sv_daemon s)\<lparr>d_chans := (d_chans (sv_daemon s))(n := ch)\<rparr>\<rparr>"

abbreviation sv_channel :: "server \<Rightarrow> nat \<Rightarrow> channel" where
  "sv_channel s n \<equiv> d_chans (sv_daemon s) n"

section \<open>Frames\<close>

datatype frame_action = SkipFrame | QueueFrame str | RejectFrame message | CloseConnection

definition strip_newline :: "str \<Rightarrow> str" where
  "strip_newline buf = (if buf \<noteq> [] \<and> List.last buf = CHR 0x0A then butlast buf else buf)"

definition oversized :: "tenv \<Rightarrow> nat \<Rightarrow> message" where
  "oversized te n = mk_error JNull (json_rpc_error_new (-32600)
     (''frame size '' @ show_nat n @ '' exceeds maximum allowed '' @ show_nat (te_max_frame te) @ '' bytes''))"

definition frame_action :: "tenv \<Rightarrow> str \<Rightarrow> frame_action" where
  "frame_action te buf =
     (let body = strip_newline buf in
      if length body > te_max_frame te then RejectFrame (oversized te (length body))
      else if body = [] then SkipFrame
      else if te_utf8 te body then QueueFrame body
      else CloseConnection)"

section \<open>Steps of a connection\<close>

text \<open>At the limit a new connection is closed at once.\<close>

definition accept_conn :: "server \<Rightarrow> server option" where
  "accept_conn s =
     (if length (sv_conns s) < MAX_CONNECTIONS then
        Some (set_channel (sv_next s) \<lparr>ch_queue = [], ch_capacity = OUTBOUND_BUFFER, ch_closed = False\<rparr>
          (set_conn (sv_next s) \<lparr>uc_hid = None, uc_pending = [], uc_phase = Idle, uc_reading = Reading,
              uc_frames = [], uc_written = []\<rparr> (s\<lparr>sv_next := sv_next s + 1\<rparr>)))
      else None)"

text \<open>
  One round of the read loop: \<open>None\<close> is the end of the stream, an error of the socket or the idle
  timeout. A full queue of frames makes the loop wait; a stopped drainer ends it.
\<close>

definition read_conn :: "tenv \<Rightarrow> nat \<Rightarrow> str option \<Rightarrow> server \<Rightarrow> server option" where
  "read_conn te n input s =
     (case hm_get (sv_conns s) n of
        None \<Rightarrow> None
      | Some c \<Rightarrow>
          if uc_reading c \<noteq> Reading then None
          else (case input of
             None \<Rightarrow> Some (set_conn n (c\<lparr>uc_reading := Ending (uc_hid c)\<rparr>) s)
           | Some buf \<Rightarrow>
               (case frame_action te buf of
                  SkipFrame \<Rightarrow> Some s
                | CloseConnection \<Rightarrow> Some (set_conn n (c\<lparr>uc_reading := Ending (uc_hid c)\<rparr>) s)
                | RejectFrame m \<Rightarrow>
                    Some (set_conn n (c\<lparr>uc_written := uc_written c @ [Direct m], uc_reading := Ending (uc_hid c)\<rparr>) s)
                | QueueFrame line \<Rightarrow>
                    if uc_phase c = Stopped then Some (set_conn n (c\<lparr>uc_reading := Ending (uc_hid c)\<rparr>) s)
                    else if length (uc_pending c) < OUTBOUND_BUFFER
                    then Some (set_conn n (c\<lparr>uc_pending := uc_pending c @ [line], uc_frames := uc_frames c @ [line]\<rparr>) s)
                    else None)))"

text \<open>The drainer takes a frame: it is answered at once, or goes to the dispatcher.\<close>

definition drain_conn :: "tenv \<Rightarrow> nat \<Rightarrow> server \<Rightarrow> server option" where
  "drain_conn te n s =
     (case hm_get (sv_conns s) n of
        None \<Rightarrow> None
      | Some c \<Rightarrow>
          (case (uc_phase c, uc_pending c) of
             (Idle, line # rest) \<Rightarrow>
               (case parse_message (te_show_json te) (te_read_json te line) of
                  Inl e \<Rightarrow> Some (set_conn n (c\<lparr>uc_pending := rest,
                      uc_phase := Answered (Some (mk_error JNull (to_json_rpc_error e)))\<rparr>) s)
                | Inr msg \<Rightarrow>
                    (case validate_message te msg of
                       Inl e \<Rightarrow> Some (set_conn n (c\<lparr>uc_pending := rest,
                           uc_phase := Answered (transport_answer (msg_id msg) (Inl e))\<rparr>) s)
                     | Inr _ \<Rightarrow>
                         if length (sv_events s) < EVENT_BUFFER
                         then Some ((set_conn n (c\<lparr>uc_pending := rest, uc_phase := Waiting (msg_id msg)\<rparr>) s)
                                \<lparr>sv_events := sv_events s @ [TMessage n msg (uc_hid c)]\<rparr>)
                         else None))
           | _ \<Rightarrow> None))"

text \<open>It looks at the answer, adopting a handler id it finds there, and sends it when there is room.\<close>

definition adopt_conn :: "nat \<Rightarrow> server \<Rightarrow> server option" where
  "adopt_conn n s =
     (case hm_get (sv_conns s) n of
        None \<Rightarrow> None
      | Some c \<Rightarrow>
          (case uc_phase c of
             Answered resp \<Rightarrow>
               Some (set_conn n (c\<lparr>uc_hid := (case issued_id resp of Some h \<Rightarrow> Some h | None \<Rightarrow> uc_hid c),
                   uc_phase := (case resp of Some m \<Rightarrow> Sending m | None \<Rightarrow> Idle)\<rparr>) s)
           | _ \<Rightarrow> None))"

definition send_conn :: "nat \<Rightarrow> server \<Rightarrow> server option" where
  "send_conn n s =
     (case hm_get (sv_conns s) n of
        None \<Rightarrow> None
      | Some c \<Rightarrow>
          (case uc_phase c of
             Sending m \<Rightarrow>
               (let ch = sv_channel s n in
                if ch_closed ch then Some (set_conn n (c\<lparr>uc_phase := Stopped\<rparr>) s)
                else if length (ch_queue ch) < ch_capacity ch
                then Some (set_channel n (ch\<lparr>ch_queue := ch_queue ch @ [m]\<rparr>) (set_conn n (c\<lparr>uc_phase := Idle\<rparr>) s))
                else None)
           | _ \<Rightarrow> None))"

text \<open>The writer; when a write fails it ends, which closes the channel.\<close>

definition write_conn :: "nat \<Rightarrow> bool \<Rightarrow> server \<Rightarrow> server option" where
  "write_conn n ok s =
     (case (hm_get (sv_conns s) n, ch_queue (sv_channel s n)) of
        (Some c, m # ms) \<Rightarrow>
          (if ch_closed (sv_channel s n) then None
           else if ok then
             Some (set_channel n ((sv_channel s n)\<lparr>ch_queue := ms\<rparr>)
               (set_conn n (c\<lparr>uc_written := uc_written c @ [FromQueue m]\<rparr>) s))
           else Some (set_channel n ((sv_channel s n)\<lparr>ch_queue := ms, ch_closed := True\<rparr>) s))
      | _ \<Rightarrow> None)"

text \<open>The end of a connection: it is announced, then its tasks are aborted.\<close>

definition announce_conn :: "nat \<Rightarrow> server \<Rightarrow> server option" where
  "announce_conn n s =
     (case hm_get (sv_conns s) n of
        None \<Rightarrow> None
      | Some c \<Rightarrow>
          (case uc_reading c of
             Ending h \<Rightarrow>
               if length (sv_disconnects s) < EVENT_BUFFER
               then Some ((set_conn n (c\<lparr>uc_reading := Announced\<rparr>) s)\<lparr>sv_disconnects := sv_disconnects s @ [h]\<rparr>)
               else None
           | _ \<Rightarrow> None))"

definition abort_conn :: "nat \<Rightarrow> server \<Rightarrow> server option" where
  "abort_conn n s =
     (case hm_get (sv_conns s) n of
        None \<Rightarrow> None
      | Some c \<Rightarrow>
          if uc_reading c = Announced then
            Some (set_channel n ((sv_channel s n)\<lparr>ch_closed := True\<rparr>) (s\<lparr>sv_conns := hm_remove n (sv_conns s)\<rparr>))
          else None)"

section \<open>The dispatch consumer\<close>

definition forward_disconnect :: "server \<Rightarrow> server option" where
  "forward_disconnect s =
     (case sv_disconnects s of
        [] \<Rightarrow> None
      | h # hs \<Rightarrow>
          if length (sv_events s) < EVENT_BUFFER
          then Some (s\<lparr>sv_disconnects := hs, sv_events := sv_events s @ [TDisconnect h]\<rparr>)
          else None)"

text \<open>An answer whose connection is gone is dropped.\<close>

definition deliver :: "nat \<Rightarrow> message option \<Rightarrow> server \<Rightarrow> server" where
  "deliver n resp s =
     (case hm_get (sv_conns s) n of
        Some c \<Rightarrow> set_conn n (c\<lparr>uc_phase := Answered resp\<rparr>) s
      | None \<Rightarrow> s)"

definition unix_connection :: "nat \<Rightarrow> connection_handle" where
  "unix_connection n = \<lparr>cn_sender = n, cn_transport = ''unix''\<rparr>"

definition dispatch_consume :: "env \<Rightarrow> server \<Rightarrow> server option" where
  "dispatch_consume env s =
     (case sv_events s of
        [] \<Rightarrow> None
      | TMessage n msg hid # es \<Rightarrow>
          (let (r, d) = handle_message env msg hid (Some (unix_connection n)) (sv_daemon s);
               resp = transport_answer (msg_id msg) r
           in Some (deliver n resp (s\<lparr>sv_daemon := d, sv_events := es,
                 sv_answers := sv_answers s @ [(n, msg, resp)]\<rparr>)))
      | TDisconnect (Some h) # es \<Rightarrow>
          Some (s\<lparr>sv_daemon := snd (unregister_handler h (sv_daemon s)), sv_events := es\<rparr>)
      | TDisconnect None # es \<Rightarrow> Some (s\<lparr>sv_events := es\<rparr>))"

section \<open>Reachable servers\<close>

text \<open>The daemon's other tasks: event dispatch, upkeep, and requests that come over HTTP.\<close>

inductive daemon_task :: "daemon \<Rightarrow> daemon \<Rightarrow> bool" where
  t_admit: "daemon_task d (snd (dispatch_admit env ev d))"
| t_open: "daemon_task d (snd (dispatch_open env ctx d))"
| t_finish: "daemon_task d (snd (dispatch_finish env env_of arrived ctx d))"
| t_reap: "daemon_task d (snd (reap_stale env d))"
| t_flush: "daemon_task d (snd (flush_cursors env d))"
| t_status: "daemon_task d (snd (broadcast_status st d))"
| t_metrics: "daemon_task d (snd (broadcast_metrics env d))"
| t_http: "daemon_task d (snd (handle_message env msg hid (Some c) d))"
| t_unregister: "daemon_task d (snd (unregister_handler h d))"

inductive server_step :: "tenv \<Rightarrow> server \<Rightarrow> server \<Rightarrow> bool" for te where
  s_accept: "accept_conn s = Some s' \<Longrightarrow> server_step te s s'"
| s_read: "read_conn te n input s = Some s' \<Longrightarrow> server_step te s s'"
| s_drain: "drain_conn te n s = Some s' \<Longrightarrow> server_step te s s'"
| s_adopt: "adopt_conn n s = Some s' \<Longrightarrow> server_step te s s'"
| s_send: "send_conn n s = Some s' \<Longrightarrow> server_step te s s'"
| s_write: "write_conn n ok s = Some s' \<Longrightarrow> server_step te s s'"
| s_announce: "announce_conn n s = Some s' \<Longrightarrow> server_step te s s'"
| s_abort: "abort_conn n s = Some s' \<Longrightarrow> server_step te s s'"
| s_forward: "forward_disconnect s = Some s' \<Longrightarrow> server_step te s s'"
| s_consume: "dispatch_consume env s = Some s' \<Longrightarrow> server_step te s s'"
| s_task: "daemon_task (sv_daemon s) d \<Longrightarrow> server_step te s (s\<lparr>sv_daemon := d\<rparr>)"

inductive server_reachable :: "tenv \<Rightarrow> server \<Rightarrow> bool" for te where
  r_start: "server_reachable te (server_start d n)"
| r_step: "server_reachable te s \<Longrightarrow> server_step te s s' \<Longrightarrow> server_reachable te s'"

end
