(* ===== verification/UnixSpec.thy ===== *)
theory UnixSpec
  imports UnixTransport
begin

text \<open>
  Invariants of the Unix transport: what a connection was sent and still has to be sent is what its
  frames ask for, in their order; and every handler id a connection uses was issued on it.
\<close>

section \<open>The ids of answers\<close>

definition answer_ids :: "message list \<Rightarrow> json list" where
  "answer_ids ms = List.map_filter msg_id ms"

definition from_queue :: "written list \<Rightarrow> message list" where
  "from_queue ws = List.map_filter (\<lambda>w. case w of FromQueue m \<Rightarrow> Some m | Direct _ \<Rightarrow> None) ws"

definition id_list :: "json option \<Rightarrow> json list" where
  "id_list i = (case i of None \<Rightarrow> [] | Some j \<Rightarrow> [j])"

text \<open>What a frame asks for: nothing, or one answer with the id of its message, or with null.\<close>

definition frame_ids :: "tenv \<Rightarrow> str \<Rightarrow> json list" where
  "frame_ids te line =
     (case parse_message (te_show_json te) (te_read_json te line) of
        Inl _ \<Rightarrow> [JNull] | Inr msg \<Rightarrow> id_list (msg_id msg))"

definition asked_ids :: "tenv \<Rightarrow> str list \<Rightarrow> json list" where
  "asked_ids te ls = concat (map (frame_ids te) ls)"

lemma answer_ids_simps [simp]:
  "answer_ids [] = []" "answer_ids (m # ms) = id_list (msg_id m) @ answer_ids ms"
  "answer_ids (xs @ ys) = answer_ids xs @ answer_ids ys"
  by (simp_all add: answer_ids_def id_list_def List.map_filter_def split: option.splits)

lemma from_queue_simps [simp]:
  "from_queue [] = []" "from_queue (ws @ vs) = from_queue ws @ from_queue vs"
  "from_queue [FromQueue m] = [m]" "from_queue [Direct m] = []"
  by (simp_all add: from_queue_def List.map_filter_def)

lemma id_list_simps [simp]: "id_list None = []" "id_list (Some i) = [i]"
  by (simp_all add: id_list_def)

lemma asked_ids_simps [simp]:
  "asked_ids te [] = []" "asked_ids te (l # ls) = frame_ids te l @ asked_ids te ls"
  "asked_ids te (xs @ ys) = asked_ids te xs @ asked_ids te ys"
  by (simp_all add: asked_ids_def)

lemma answer_ids_notifications: "\<forall>n \<in> set ns. msg_id n = None \<Longrightarrow> answer_ids ns = []"
  by (induction ns) auto

fun phase_ids :: "phase \<Rightarrow> json list" where
  "phase_ids (Waiting i) = id_list i"
| "phase_ids (Answered r) = (case r of None \<Rightarrow> [] | Some m \<Rightarrow> id_list (msg_id m))"
| "phase_ids (Sending m) = id_list (msg_id m)"
| "phase_ids _ = []"

section \<open>Order\<close>

definition conn_ok :: "tenv \<Rightarrow> channel \<Rightarrow> uconn \<Rightarrow> bool" where
  "conn_ok te ch c \<longleftrightarrow>
     (let sent = answer_ids (from_queue (uc_written c)); asked = asked_ids te (uc_frames c) in
      if ch_closed ch then \<exists>rest. sent @ rest = asked
      else uc_phase c \<noteq> Stopped \<and>
        sent @ answer_ids (ch_queue ch) @ phase_ids (uc_phase c) @ asked_ids te (uc_pending c) = asked)"

definition event_senders :: "tevent list \<Rightarrow> nat list" where
  "event_senders es = List.map_filter (\<lambda>e. case e of TMessage n _ _ \<Rightarrow> Some n | TDisconnect _ \<Rightarrow> None) es"

lemma event_senders_simps [simp]:
  "event_senders [] = []" "event_senders (TMessage n m h # es) = n # event_senders es"
  "event_senders (TDisconnect h # es) = event_senders es"
  "event_senders (es @ fs) = event_senders es @ event_senders fs"
  by (simp_all add: event_senders_def List.map_filter_def)

lemma in_event_senders: "n \<in> set (event_senders es) \<longleftrightarrow> (\<exists>m h. TMessage n m h \<in> set es)"
  by (induction es) (auto split: tevent.splits, (case_tac a; auto)+)

definition awaited :: "tevent list \<Rightarrow> nat \<Rightarrow> uconn \<Rightarrow> bool" where
  "awaited es n c \<longleftrightarrow> (\<forall>msg hid. TMessage n msg hid \<in> set es \<longrightarrow> uc_phase c = Waiting (msg_id msg))"

definition server_ok :: "tenv \<Rightarrow> server \<Rightarrow> bool" where
  "server_ok te s \<longleftrightarrow>
     (\<forall>n c. hm_get (sv_conns s) n = Some c \<longrightarrow>
        n < sv_next s \<and> conn_ok te (sv_channel s n) c \<and> awaited (sv_events s) n c) \<and>
     distinct (event_senders (sv_events s)) \<and>
     (\<forall>n \<in> set (event_senders (sv_events s)). n < sv_next s)"

lemma server_okD:
  assumes "server_ok te s" and "hm_get (sv_conns s) n = Some c"
  shows "n < sv_next s" and "conn_ok te (sv_channel s n) c" and "awaited (sv_events s) n c"
  using assms by (auto simp: server_ok_def)

lemma set_fields [simp]:
  "sv_conns (set_channel n ch s) = sv_conns s" "sv_next (set_channel n ch s) = sv_next s"
  "sv_events (set_channel n ch s) = sv_events s" "sv_disconnects (set_channel n ch s) = sv_disconnects s"
  "sv_answers (set_channel n ch s) = sv_answers s"
  "sv_channel (set_channel n ch s) m = (if m = n then ch else sv_channel s m)"
  "hm_get (sv_conns (set_conn n c s)) m = (if m = n then Some c else hm_get (sv_conns s) m)"
  "sv_next (set_conn n c s) = sv_next s" "sv_events (set_conn n c s) = sv_events s"
  "sv_disconnects (set_conn n c s) = sv_disconnects s" "sv_answers (set_conn n c s) = sv_answers s"
  "sv_daemon (set_conn n c s) = sv_daemon s"
  by (simp_all add: set_channel_def set_conn_def)

text \<open>Changing one connection and its channel.\<close>

lemma server_ok_set:
  assumes "server_ok te s" and "n < sv_next s" and "conn_ok te ch c" and "awaited (sv_events s) n c"
  shows "server_ok te (set_channel n ch (set_conn n c s))"
  using assms by (auto simp: server_ok_def)

lemma server_ok_set_conn:
  assumes "server_ok te s" and "n < sv_next s" and "conn_ok te (sv_channel s n) c" and "awaited (sv_events s) n c"
  shows "server_ok te (set_conn n c s)"
  using assms by (auto simp: server_ok_def)

lemma conn_ok_reading [simp]:
  "conn_ok te ch (c\<lparr>uc_reading := r\<rparr>) = conn_ok te ch c" "conn_ok te ch (c\<lparr>uc_hid := h\<rparr>) = conn_ok te ch c"
  by (simp_all add: conn_ok_def)

lemma awaited_simps [simp]:
  "awaited es n (c\<lparr>uc_reading := r\<rparr>) = awaited es n c" "awaited es n (c\<lparr>uc_hid := h\<rparr>) = awaited es n c"
  "awaited es n (c\<lparr>uc_pending := p\<rparr>) = awaited es n c" "awaited es n (c\<lparr>uc_frames := f\<rparr>) = awaited es n c"
  "awaited es n (c\<lparr>uc_written := w\<rparr>) = awaited es n c"
  by (simp_all add: awaited_def)

lemma not_awaited:
  assumes "awaited es n c" and "\<And>i. uc_phase c \<noteq> Waiting i"
  shows "awaited es n c'" and "n \<notin> set (event_senders es)"
  using assms by (auto simp: awaited_def in_event_senders)

lemma awaited_snoc:
  "awaited (es @ [TMessage n msg h]) m c \<longleftrightarrow> awaited es m c \<and> (m = n \<longrightarrow> uc_phase c = Waiting (msg_id msg))"
  "awaited (es @ [TDisconnect h']) m c \<longleftrightarrow> awaited es m c"
  by (auto simp: awaited_def)

lemma accept_ok: "accept_conn s = Some s' \<Longrightarrow> server_ok te s \<Longrightarrow> server_ok te s'"
  by (auto simp: accept_conn_def server_ok_def conn_ok_def awaited_def in_event_senders split: if_splits)
    (metis less_irrefl in_event_senders less_SucI)+

lemma read_ok:
  assumes step: "read_conn te n input s = Some s'" and ok: "server_ok te s"
  shows "server_ok te s'"
proof -
  obtain c where c: "hm_get (sv_conns s) n = Some c"
    using step by (auto simp: read_conn_def split: option.splits)
  note inv = server_okD [OF ok c]
  have upd: "server_ok te (set_conn n c' s)" if "conn_ok te (sv_channel s n) c'" "awaited (sv_events s) n c'" for c'
    using ok inv that by (intro server_ok_set_conn)
  have direct: "conn_ok te ch (c\<lparr>uc_written := uc_written c @ [Direct m]\<rparr>) = conn_ok te ch c" for ch m
    by (simp add: conn_ok_def)
  have queue: "conn_ok te ch c \<Longrightarrow>
      conn_ok te ch (c\<lparr>uc_pending := uc_pending c @ [l], uc_frames := uc_frames c @ [l]\<rparr>)" for ch l
    by (auto simp: conn_ok_def Let_def split: if_splits)
      (metis append.assoc)+
  show ?thesis
    using step c ok inv
    by (auto simp: read_conn_def direct split: option.splits if_splits frame_action.splits intro!: upd queue)
qed


lemma drain_ok:
  assumes step: "drain_conn te n s = Some s'" and ok: "server_ok te s"
  shows "server_ok te s'"
proof -
  obtain c line rest where c: "hm_get (sv_conns s) n = Some c" and idle: "uc_phase c = Idle"
      and pend: "uc_pending c = line # rest"
    using step by (auto simp: drain_conn_def split: option.splits phase.splits list.splits)
  note inv = server_okD [OF ok c]
  have free: "n \<notin> set (event_senders (sv_events s))" and any: "awaited (sv_events s) n c'" for c'
    using not_awaited [OF inv(3)] idle by auto
  have keep: "conn_ok te ch (c\<lparr>uc_pending := rest, uc_phase := p\<rparr>)"
    if "phase_ids p = frame_ids te line" "p \<noteq> Stopped" "conn_ok te ch c" for ch p
    using that idle pend by (auto simp: conn_ok_def Let_def split: if_splits)
  have upd: "server_ok te (set_conn n (c\<lparr>uc_pending := rest, uc_phase := p\<rparr>) s)"
    if "phase_ids p = frame_ids te line" "p \<noteq> Stopped" for p
    using ok inv keep [OF that inv(2)] any by (intro server_ok_set_conn)
  show ?thesis
  proof (cases "parse_message (te_show_json te) (te_read_json te line)")
    case (Inl e)
    then have "s' = set_conn n (c\<lparr>uc_pending := rest, uc_phase := Answered (Some (mk_error JNull (to_json_rpc_error e)))\<rparr>) s"
      using step c idle pend by (simp add: drain_conn_def)
    then show ?thesis using upd Inl by (simp add: frame_ids_def mk_error_def)
  next
    case (Inr msg)
    show ?thesis
    proof (cases "validate_message te msg")
      case (Inl e)
      then have "s' = set_conn n (c\<lparr>uc_pending := rest, uc_phase := Answered (transport_answer (msg_id msg) (Inl e))\<rparr>) s"
        using step c idle pend Inr by (simp add: drain_conn_def)
      then show ?thesis
        using upd Inr by (cases "msg_id msg") (simp_all add: frame_ids_def mk_error_def transport_answer_def)
    next
      case valid: (Inr u)
      have s': "s' = (set_conn n (c\<lparr>uc_pending := rest, uc_phase := Waiting (msg_id msg)\<rparr>) s)
                                \<lparr>sv_events := sv_events s @ [TMessage n msg (uc_hid c)]\<rparr>"
        using step c idle pend Inr valid by (simp add: drain_conn_def split: if_splits)
      have "server_ok te (set_conn n (c\<lparr>uc_pending := rest, uc_phase := Waiting (msg_id msg)\<rparr>) s)"
        using upd Inr by (simp add: frame_ids_def)
      then show ?thesis
        using free inv(1) any by (auto simp: s' server_ok_def awaited_snoc split: if_splits)
    qed
  qed
qed

lemma adopt_ok:
  assumes step: "adopt_conn n s = Some s'" and ok: "server_ok te s"
  shows "server_ok te s'"
proof -
  obtain c resp where c: "hm_get (sv_conns s) n = Some c" and ans: "uc_phase c = Answered resp"
    and s': "s' = set_conn n (c\<lparr>uc_hid := (case issued_id resp of Some h \<Rightarrow> Some h | None \<Rightarrow> uc_hid c),
                   uc_phase := (case resp of Some m \<Rightarrow> Sending m | None \<Rightarrow> Idle)\<rparr>) s"
    using step by (auto simp: adopt_conn_def split: option.splits phase.splits)
  note inv = server_okD [OF ok c]
  have any: "awaited (sv_events s) n c'" for c'
    using not_awaited [OF inv(3)] ans by auto
  have "conn_ok te (sv_channel s n) (c\<lparr>uc_hid := h, uc_phase := (case resp of Some m \<Rightarrow> Sending m | None \<Rightarrow> Idle)\<rparr>)" for h
    using inv(2) ans by (auto simp: conn_ok_def Let_def split: if_splits option.splits)
  then show ?thesis unfolding s' using ok inv(1) any by (intro server_ok_set_conn)
qed

lemma send_ok:
  assumes step: "send_conn n s = Some s'" and ok: "server_ok te s"
  shows "server_ok te s'"
proof -
  obtain c m where c: "hm_get (sv_conns s) n = Some c" and ph: "uc_phase c = Sending m"
    using step by (auto simp: send_conn_def split: option.splits phase.splits)
  note inv = server_okD [OF ok c]
  have any: "awaited (sv_events s) n c'" for c'
    using not_awaited [OF inv(3)] ph by auto
  show ?thesis
  proof (cases "ch_closed (sv_channel s n)")
    case True
    have "conn_ok te (sv_channel s n) (c\<lparr>uc_phase := Stopped\<rparr>)"
      using inv(2) True by (simp add: conn_ok_def)
    moreover have "s' = set_conn n (c\<lparr>uc_phase := Stopped\<rparr>) s"
      using step c ph True by (simp add: send_conn_def)
    ultimately show ?thesis using ok inv(1) any by (simp add: server_ok_set_conn)
  next
    case False
    let ?ch = "(sv_channel s n)\<lparr>ch_queue := ch_queue (sv_channel s n) @ [m]\<rparr>"
    have s': "s' = set_channel n ?ch (set_conn n (c\<lparr>uc_phase := Idle\<rparr>) s)"
      using step c ph False by (simp add: send_conn_def Let_def split: if_splits)
    have "conn_ok te ?ch (c\<lparr>uc_phase := Idle\<rparr>)"
      using inv(2) False ph by (simp add: conn_ok_def)
    then show ?thesis unfolding s' using ok inv(1) any by (intro server_ok_set)
  qed
qed

lemma write_ok:
  assumes step: "write_conn n wr s = Some s'" and ok: "server_ok te s"
  shows "server_ok te s'"
proof -
  obtain c m ms where c: "hm_get (sv_conns s) n = Some c" and q: "ch_queue (sv_channel s n) = m # ms"
    and live: "\<not> ch_closed (sv_channel s n)"
    using step by (auto simp: write_conn_def split: option.splits list.splits if_splits)
  note inv = server_okD [OF ok c]
  show ?thesis
  proof (cases wr)
    case True
    then have s': "s' = set_channel n ((sv_channel s n)\<lparr>ch_queue := ms\<rparr>)
        (set_conn n (c\<lparr>uc_written := uc_written c @ [FromQueue m]\<rparr>) s)"
      using step c q live by (simp add: write_conn_def)
    have "conn_ok te ((sv_channel s n)\<lparr>ch_queue := ms\<rparr>) (c\<lparr>uc_written := uc_written c @ [FromQueue m]\<rparr>)"
      using inv(2) live q by (simp add: conn_ok_def)
    then show ?thesis unfolding s' using ok inv by (intro server_ok_set) simp_all
  next
    case False
    then have s': "s' = set_channel n ((sv_channel s n)\<lparr>ch_queue := ms, ch_closed := True\<rparr>) s"
      using step c q live by (simp add: write_conn_def)
    have "conn_ok te ((sv_channel s n)\<lparr>ch_queue := ms, ch_closed := True\<rparr>) c"
      using inv(2) live by (auto simp: conn_ok_def Let_def)
    then show ?thesis unfolding s' using ok c by (auto simp: server_ok_def)
  qed
qed

lemma announce_ok: "announce_conn n s = Some s' \<Longrightarrow> server_ok te s \<Longrightarrow> server_ok te s'"
  by (auto simp: announce_conn_def server_ok_def split: option.splits reading.splits if_splits)

lemma abort_ok: "abort_conn n s = Some s' \<Longrightarrow> server_ok te s \<Longrightarrow> server_ok te s'"
  by (auto simp: abort_conn_def server_ok_def split: option.splits if_splits)

lemma forward_ok: "forward_disconnect s = Some s' \<Longrightarrow> server_ok te s \<Longrightarrow> server_ok te s'"
  by (auto simp: forward_disconnect_def server_ok_def awaited_snoc split: list.splits if_splits)

text \<open>What the daemon's tasks do to the channels.\<close>

lemma conn_ok_queued:
  assumes "conn_ok te (chs n) c" and "queued chs chs'"
  shows "conn_ok te (chs' n) c"
proof -
  obtain ns where "ch_queue (chs' n) = ch_queue (chs n) @ ns" "\<forall>m \<in> set ns. msg_id m = None"
    "ch_closed (chs' n) = ch_closed (chs n)"
    using assms(2) unfolding queued_def by metis
  with assms(1) show ?thesis by (simp add: conn_ok_def Let_def answer_ids_notifications)
qed

lemma server_ok_daemon:
  assumes "server_ok te s" and "notifies (sv_daemon s) d"
  shows "server_ok te (s\<lparr>sv_daemon := d\<rparr>)"
  using assms conn_ok_queued unfolding server_ok_def notifies_def by fastforce

lemma daemon_task_notifies: "daemon_task d d' \<Longrightarrow> notifies d d'"
  by (induction rule: daemon_task.induct)
    (simp_all add: ntf.obeysD ntf_admit ntf_open ntf_finish ntf_upkeep ntf_handle_message ntf_unregister)


lemma transport_answer_ids:
  assumes "handle_message env msg hid c d = (r, d')"
  shows "phase_ids (Answered (transport_answer (msg_id msg) r)) = id_list (msg_id msg)"
proof (cases r)
  case (Inl e)
  then show ?thesis by (cases "msg_id msg") (simp_all add: transport_answer_def mk_error_def)
next
  case (Inr resp)
  then have "fst (handle_message env msg hid c d) = Inr resp" using assms by simp
  from handle_message_answer [OF this] show ?thesis using Inr by (auto simp: transport_answer_def)
qed

lemma consume_message:
  assumes "sv_events s = TMessage n msg hid # es" and "dispatch_consume env s = Some s'"
  obtains r d where "handle_message env msg hid (Some (unix_connection n)) (sv_daemon s) = (r, d)"
    and "s' = deliver n (transport_answer (msg_id msg) r) (s\<lparr>sv_daemon := d, sv_events := es,
             sv_answers := sv_answers s @ [(n, msg, transport_answer (msg_id msg) r)]\<rparr>)"
  using assms by (auto simp: dispatch_consume_def Let_def split: prod.splits)

lemma server_ok_pop:
  assumes "server_ok te s" and "sv_events s = e # es"
  shows "server_ok te (s\<lparr>sv_events := es\<rparr>)"
  using assms by (cases e) (auto simp: server_ok_def awaited_def)

lemma server_ok_answers [simp]: "server_ok te (s\<lparr>sv_answers := as\<rparr>) = server_ok te s"
  by (simp add: server_ok_def)

lemma conn_ok_answered:
  assumes "conn_ok te ch c" and "uc_phase c = Waiting i" and "phase_ids (Answered r) = id_list i"
  shows "conn_ok te ch (c\<lparr>uc_phase := Answered r\<rparr>)"
  using assms by (auto simp: conn_ok_def Let_def)

lemma deliver_ok:
  assumes "server_ok te s" and "n \<notin> set (event_senders (sv_events s))"
    and "\<And>c. hm_get (sv_conns s) n = Some c \<Longrightarrow> uc_phase c = Waiting i" and "phase_ids (Answered r) = id_list i"
  shows "server_ok te (deliver n r s)"
proof (cases "hm_get (sv_conns s) n")
  case None
  with assms(1) show ?thesis by (simp add: deliver_def)
next
  case (Some c)
  note inv = server_okD [OF assms(1) Some]
  have "awaited (sv_events s) n c'" for c'
    using assms(2) by (auto simp: awaited_def in_event_senders)
  then show ?thesis
    using Some assms(1,3,4) inv by (simp add: deliver_def server_ok_set_conn conn_ok_answered)
qed

lemma consume_ok:
  assumes step: "dispatch_consume env s = Some s'" and ok: "server_ok te s"
  shows "server_ok te s'"
proof (cases "sv_events s")
  case Nil
  with step show ?thesis by (simp add: dispatch_consume_def)
next
  case (Cons e es)
  show ?thesis
  proof (cases e)
    case (TMessage n msg hid)
    obtain r d where run: "handle_message env msg hid (Some (unix_connection n)) (sv_daemon s) = (r, d)"
      and s': "s' = deliver n (transport_answer (msg_id msg) r) (s\<lparr>sv_daemon := d, sv_events := es,
             sv_answers := sv_answers s @ [(n, msg, transport_answer (msg_id msg) r)]\<rparr>)"
      using Cons step unfolding TMessage by (rule consume_message)
    have "notifies (sv_daemon s) d"
      using ntf.obeysD [OF ntf_handle_message, of "sv_daemon s" env msg hid "unix_connection n"] run by simp
    then have "server_ok te (s\<lparr>sv_daemon := d\<rparr>)" by (rule server_ok_daemon [OF ok])
    then have "server_ok te (s\<lparr>sv_daemon := d, sv_events := es\<rparr>)"
      by (rule server_ok_pop) (simp add: Cons)
    then have ok': "server_ok te (s\<lparr>sv_daemon := d, sv_events := es,
             sv_answers := sv_answers s @ [(n, msg, transport_answer (msg_id msg) r)]\<rparr>)"
      by simp
    have "distinct (event_senders (sv_events s))" using ok by (simp add: server_ok_def)
    then have free: "n \<notin> set (event_senders es)" by (simp add: Cons TMessage)
    have "uc_phase c = Waiting (msg_id msg)" if "hm_get (sv_conns s) n = Some c" for c
      using server_okD(3) [OF ok that] by (simp add: Cons TMessage awaited_def)
    then show ?thesis
      unfolding s' using free by (intro deliver_ok [OF ok' _ _ transport_answer_ids [OF run]]) auto
  next
    case (TDisconnect h)
    show ?thesis
    proof (cases h)
      case None
      then have "s' = s\<lparr>sv_events := es\<rparr>" using step by (simp add: dispatch_consume_def Cons TDisconnect)
      then show ?thesis using server_ok_pop [OF ok Cons] by simp
    next
      case (Some hid)
      then have s': "s' = s\<lparr>sv_daemon := snd (unregister_handler hid (sv_daemon s)), sv_events := es\<rparr>"
        using step by (simp add: dispatch_consume_def Cons TDisconnect)
      have "server_ok te (s\<lparr>sv_daemon := snd (unregister_handler hid (sv_daemon s))\<rparr>)"
        by (rule server_ok_daemon [OF ok]) (rule ntf.obeysD, rule ntf_unregister)
      from server_ok_pop [OF this] show ?thesis by (simp add: Cons s')
    qed
  qed
qed

inductive_cases server_step_cases: "server_step te s s'"

lemma server_step_ok: "server_step te s s' \<Longrightarrow> server_ok te s \<Longrightarrow> server_ok te s'"
  by (erule server_step_cases)
    (auto intro: accept_ok read_ok drain_ok adopt_ok send_ok write_ok announce_ok abort_ok forward_ok
      consume_ok server_ok_daemon daemon_task_notifies)

lemma server_reachable_ok: "server_reachable te s \<Longrightarrow> server_ok te s"
proof (induction rule: server_reachable.induct)
  case (r_start d n)
  then show ?case by (simp add: server_start_def server_ok_def)
next
  case (r_step s s')
  then show ?case by (blast intro: server_step_ok)
qed

section \<open>Handler ids\<close>

definition issued_on :: "server \<Rightarrow> nat \<Rightarrow> str \<Rightarrow> bool" where
  "issued_on s n h \<longleftrightarrow> (\<exists>msg resp name m. (n, msg, resp) \<in> set (sv_answers s) \<and> issued_id resp = Some h \<and>
     msg_method msg = Some name \<and> parse_method name = Inr m \<and> issues_id m)"

text \<open>The connections that speak for a handler, and the handlers whose end is announced.\<close>

definition claims :: "uconn \<Rightarrow> str \<Rightarrow> bool" where
  "claims c h \<longleftrightarrow> uc_hid c = Some h \<or> uc_reading c = Ending (Some h) \<or>
     (\<exists>resp. uc_phase c = Answered resp \<and> issued_id resp = Some h)"

definition hids_ok :: "server \<Rightarrow> bool" where
  "hids_ok s \<longleftrightarrow>
     (\<forall>n c h. hm_get (sv_conns s) n = Some c \<longrightarrow> claims c h \<longrightarrow> issued_on s n h) \<and>
     (\<forall>n msg h. TMessage n msg (Some h) \<in> set (sv_events s) \<longrightarrow> issued_on s n h) \<and>
     (\<forall>h. Some h \<in> set (sv_disconnects s) \<or> TDisconnect (Some h) \<in> set (sv_events s) \<longrightarrow> (\<exists>n. issued_on s n h))"

lemma issued_on_fields [simp]:
  "issued_on (set_channel n ch s) = issued_on s" "issued_on (set_conn n c s) = issued_on s"
  "issued_on (s\<lparr>sv_daemon := d\<rparr>) = issued_on s" "issued_on (s\<lparr>sv_events := es\<rparr>) = issued_on s"
  "issued_on (s\<lparr>sv_disconnects := ds\<rparr>) = issued_on s" "issued_on (s\<lparr>sv_conns := cs\<rparr>) = issued_on s"
  "issued_on (s\<lparr>sv_next := k\<rparr>) = issued_on s"
  by (simp_all add: issued_on_def fun_eq_iff)

lemma issued_on_more: "issued_on s n h \<Longrightarrow> issued_on (s\<lparr>sv_answers := sv_answers s @ as\<rparr>) n h"
  unfolding issued_on_def by auto

lemma hids_set_conn:
  "hids_ok s \<Longrightarrow> (\<And>h. claims c h \<Longrightarrow> issued_on s n h) \<Longrightarrow> hids_ok (set_conn n c s)"
  by (auto simp: hids_ok_def)

lemma hids_set_channel [simp]: "hids_ok (set_channel n ch s) = hids_ok s"
  by (simp add: hids_ok_def)

lemma hids_fields [simp]:
  "hids_ok (s\<lparr>sv_daemon := d\<rparr>) = hids_ok s" "hids_ok (s\<lparr>sv_next := k\<rparr>) = hids_ok s"
  by (simp_all add: hids_ok_def)

lemma hids_claims: "hids_ok s \<Longrightarrow> hm_get (sv_conns s) n = Some c \<Longrightarrow> claims c h \<Longrightarrow> issued_on s n h"
  by (auto simp: hids_ok_def)

lemma hids_more: "hids_ok s \<Longrightarrow> hids_ok (s\<lparr>sv_answers := sv_answers s @ as\<rparr>)"
  unfolding hids_ok_def by (auto dest: issued_on_more) (metis issued_on_more)+

lemma accept_hids: "accept_conn s = Some s' \<Longrightarrow> hids_ok s \<Longrightarrow> hids_ok s'"
  by (auto simp: accept_conn_def claims_def split: if_splits intro!: hids_set_conn)

lemma read_hids: "read_conn te n input s = Some s' \<Longrightarrow> hids_ok s \<Longrightarrow> hids_ok s'"
  by (auto simp: read_conn_def claims_def split: option.splits if_splits frame_action.splits
      intro!: hids_set_conn elim!: hids_claims)

lemma issued_id_error [simp]:
  "issued_id (Some (mk_error i e)) = None" "issued_id (transport_answer j (Inl d)) = None"
  by (simp_all add: mk_error_def transport_answer_def split: option.split)
    (cases j; simp add: mk_error_def)+

lemma hids_message:
  "hids_ok s \<Longrightarrow> (\<And>h. hid = Some h \<Longrightarrow> issued_on s n h) \<Longrightarrow>
     hids_ok (s\<lparr>sv_events := sv_events s @ [TMessage n msg hid]\<rparr>)"
  by (auto simp: hids_ok_def)

lemma drain_hids:
  assumes step: "drain_conn te n s = Some s'" and ok: "hids_ok s"
  shows "hids_ok s'"
proof -
  obtain c line rest where c: "hm_get (sv_conns s) n = Some c" and idle: "uc_phase c = Idle"
      and pend: "uc_pending c = line # rest"
    using step by (auto simp: drain_conn_def split: option.splits phase.splits list.splits)
  have upd: "hids_ok (set_conn n (c\<lparr>uc_pending := rest, uc_phase := p\<rparr>) s)"
    if "\<And>r. p = Answered r \<Longrightarrow> issued_id r = None" for p
    using that hids_claims [OF ok c] by (intro hids_set_conn [OF ok]) (auto simp: claims_def)
  have own: "hids_ok ((set_conn n c' s)\<lparr>sv_events := sv_events s @ [TMessage n msg (uc_hid c)]\<rparr>)"
    if "hids_ok (set_conn n c' s)" for c' msg
    using hids_message [OF that, of "uc_hid c" n msg] hids_claims [OF ok c] by (simp add: claims_def)
  have "hids_ok (set_conn n (c\<lparr>uc_pending := rest, uc_phase := Waiting i\<rparr>) s)" for i
    by (rule upd) simp
  note own = own [OF this]
  show ?thesis
    using step c idle pend
    by (auto simp: drain_conn_def split: sum.splits if_splits intro!: upd own)
qed

lemma adopt_hids: "adopt_conn n s = Some s' \<Longrightarrow> hids_ok s \<Longrightarrow> hids_ok s'"
  by (auto simp: adopt_conn_def claims_def split: option.splits phase.splits
      intro!: hids_set_conn elim!: hids_claims)

lemma send_hids: "send_conn n s = Some s' \<Longrightarrow> hids_ok s \<Longrightarrow> hids_ok s'"
  by (auto simp: send_conn_def Let_def claims_def split: option.splits phase.splits if_splits
      intro!: hids_set_conn elim!: hids_claims)

lemma write_hids: "write_conn n ok s = Some s' \<Longrightarrow> hids_ok s \<Longrightarrow> hids_ok s'"
  by (auto simp: write_conn_def Let_def claims_def split: option.splits list.splits if_splits
      intro!: hids_set_conn elim!: hids_claims)

lemma announce_hids:
  assumes step: "announce_conn n s = Some s'" and ok: "hids_ok s"
  shows "hids_ok s'"
proof -
  obtain c h where c: "hm_get (sv_conns s) n = Some c" and e: "uc_reading c = Ending h"
    and s': "s' = (set_conn n (c\<lparr>uc_reading := Announced\<rparr>) s)\<lparr>sv_disconnects := sv_disconnects s @ [h]\<rparr>"
    using step by (auto simp: announce_conn_def split: option.splits reading.splits if_splits)
  have "hids_ok (set_conn n (c\<lparr>uc_reading := Announced\<rparr>) s)"
    using hids_claims [OF ok c] by (intro hids_set_conn [OF ok]) (auto simp: claims_def)
  moreover have "issued_on s n x" if "h = Some x" for x
    using hids_claims [OF ok c] e that by (simp add: claims_def)
  ultimately show ?thesis unfolding s' hids_ok_def by auto
qed

lemma abort_hids: "abort_conn n s = Some s' \<Longrightarrow> hids_ok s \<Longrightarrow> hids_ok s'"
  by (auto simp: abort_conn_def hids_ok_def split: option.splits if_splits)

lemma forward_hids: "forward_disconnect s = Some s' \<Longrightarrow> hids_ok s \<Longrightarrow> hids_ok s'"
  by (auto simp: forward_disconnect_def hids_ok_def split: list.splits if_splits)

lemma hids_daemon: "hids_ok (s\<lparr>sv_events := es\<rparr>) \<Longrightarrow> hids_ok (s\<lparr>sv_daemon := d, sv_events := es\<rparr>)"
  by (simp add: hids_ok_def issued_on_def)

lemma consume_hids:
  assumes step: "dispatch_consume env s = Some s'" and ok: "hids_ok s"
  shows "hids_ok s'"
proof (cases "sv_events s")
  case Nil
  with step show ?thesis by (simp add: dispatch_consume_def)
next
  case (Cons e es)
  have pop: "hids_ok (s\<lparr>sv_events := es\<rparr>)" using ok Cons by (auto simp: hids_ok_def)
  show ?thesis
  proof (cases e)
    case (TMessage n msg hid)
    obtain r d where run: "handle_message env msg hid (Some (unix_connection n)) (sv_daemon s) = (r, d)"
      and s': "s' = deliver n (transport_answer (msg_id msg) r) (s\<lparr>sv_daemon := d, sv_events := es,
             sv_answers := sv_answers s @ [(n, msg, transport_answer (msg_id msg) r)]\<rparr>)"
      using Cons step unfolding TMessage by (rule consume_message)
    let ?t = "s\<lparr>sv_daemon := d, sv_events := es, sv_answers := sv_answers s @ [(n, msg, transport_answer (msg_id msg) r)]\<rparr>"
    have "hids_ok (s\<lparr>sv_daemon := d, sv_events := es\<rparr>)" using pop by (rule hids_daemon)
    then have ok': "hids_ok ?t" using hids_more by fastforce
    have new: "issued_on ?t n h" if h: "issued_id (transport_answer (msg_id msg) r) = Some h" for h
    proof -
      obtain resp where r: "r = Inr resp" using h by (cases r) auto
      then have "fst (handle_message env msg hid (Some (unix_connection n)) (sv_daemon s)) = Inr resp" using run by simp
      moreover have "issued_id resp = Some h" using h r by (simp add: transport_answer_def)
      ultimately obtain name m where "msg_method msg = Some name" "parse_method name = Inr m" "issues_id m"
        by (rule handle_message_issues)
      with h show ?thesis by (fastforce simp: issued_on_def)
    qed
    show ?thesis
    proof (cases "hm_get (sv_conns s) n")
      case None
      then show ?thesis using ok' by (simp add: s' deliver_def)
    next
      case (Some c)
      have "issued_on ?t n h" if "claims (c\<lparr>uc_phase := Answered (transport_answer (msg_id msg) r)\<rparr>) h" for h
        using that new hids_claims [OF ok', of n c h] Some by (auto simp: claims_def)
      then have "hids_ok (set_conn n (c\<lparr>uc_phase := Answered (transport_answer (msg_id msg) r)\<rparr>) ?t)"
        by (rule hids_set_conn [OF ok'])
      then show ?thesis using Some by (simp add: s' deliver_def)
    qed
  next
    case (TDisconnect h)
    then have "\<exists>d. s' = s\<lparr>sv_daemon := d, sv_events := es\<rparr> \<or> s' = s\<lparr>sv_events := es\<rparr>"
      using step Cons by (auto simp: dispatch_consume_def split: option.splits)
    with pop show ?thesis by (auto intro: hids_daemon)
  qed
qed

lemma server_step_hids: "server_step te s s' \<Longrightarrow> hids_ok s \<Longrightarrow> hids_ok s'"
  by (erule server_step_cases)
    (auto intro: accept_hids read_hids drain_hids adopt_hids send_hids write_hids announce_hids abort_hids
      forward_hids consume_hids)

lemma server_reachable_hids: "server_reachable te s \<Longrightarrow> hids_ok s"
proof (induction rule: server_reachable.induct)
  case (r_start d n)
  then show ?case by (simp add: server_start_def hids_ok_def)
next
  case (r_step s s')
  then show ?case by (blast intro: server_step_hids)
qed

end
