(* ===== verification/DispatchAuth.thy ===== *)
theory DispatchAuth
  imports DispatchMessage
begin

text \<open>
  Which messages can reach a service at all. For each method, the right its caller must hold over
  the bot whose key is used; the proof follows the handlers, guard by guard.
\<close>

section \<open>Rights\<close>

definition is_admin :: "str option \<Rightarrow> daemon \<Rightarrow> bool" where
  "is_admin caller d \<longleftrightarrow>
     (\<exists>hid h. caller = Some hid \<and> hm_get (d_registry d) hid = Some h \<and> ''Admin'' \<in> set (capabilities h))"

text \<open>An agent's squad requests are not checked when they come without a handler.\<close>

fun method_right :: "rpc_method \<Rightarrow> str option \<Rightarrow> str \<Rightarrow> daemon \<Rightarrow> bool" where
  "method_right M_AgentSendDm h b d = holds_capability h b ''SendMessages'' d"
| "method_right M_AgentSendReaction h b d = holds_capability h b ''SendReactions'' d"
| "method_right M_AgentSendAttachment h b d = holds_capability h b ''SendAttachments'' d"
| "method_right M_AgentSetProfile h b d = holds_capability h b ''ManageProfile'' d"
| "method_right M_AgentSendGroupMessage h b d = holds_capability h b ''SendGroupMessages'' d"
| "method_right M_AgentSendGroupReaction h b d = holds_capability h b ''SendGroupReactions'' d"
| "method_right M_AgentSendGroupAttachment h b d = holds_capability h b ''SendGroupAttachments'' d"
| "method_right M_AgentPublishKeyPackage h b d = holds_capability h b ''SendGroupMessages'' d"
| "method_right M_AgentIsSquadMember h b d =
     (holds_capability h b ''ReceiveGroupMessages'' d \<or> holds_capability h b ''SendGroupMessages'' d)"
| "method_right M_AgentExitMlsGroup h b d = holds_capability h b ''ExitMlsGroup'' d"
| "method_right M_AgentDeleteMlsGroup h b d = holds_capability h b ''ExitMlsGroup'' d"
| "method_right M_AgentCreateMlsGroup h b d = (h = None \<or> holds_capability h b ''CreateMlsGroup'' d)"
| "method_right M_AgentInviteToMlsGroup h b d = (h = None \<or> holds_capability h b ''InviteToMlsGroup'' d)"
| "method_right M_AdminSendTestDm h b d = is_admin h d"
| "method_right M_AdminCreateMlsGroup h b d = is_admin h d"
| "method_right M_AdminInviteToMlsGroup h b d = is_admin h d"
| "method_right M_AdminRepairMlsGroupAdmins h b d = is_admin h d"
| "method_right _ _ _ _ = False"

definition requires_right :: "(str \<Rightarrow> daemon \<Rightarrow> bool) \<Rightarrow> 'a dact \<Rightarrow> bool" where
  "requires_right Q m \<longleftrightarrow> (\<forall>d. \<exists>b. gated (Q b) b d (snd (m d)))"

lemma requires_is_right: "requires h cap m = requires_right (\<lambda>b. holds_capability h b cap) m"
  by (simp add: requires_def requires_right_def)

lemma requires_rightI: "gated_act (Q b) b m \<Longrightarrow> requires_right Q m"
  by (auto simp: requires_right_def gated_act_def)

lemma right_of_res: "(\<And>a. requires_right Q (k a)) \<Longrightarrow> requires_right Q (andthen (of_res r) k)"
  by (cases r) (simp_all add: requires_rightI gated_act_silent)

text \<open>A check that leaves the state alone, and the right it establishes.\<close>

lemma right_guard:
  assumes m: "\<And>d. snd (m d) = d" and Q: "\<And>d a. fst (m d) = Inr a \<Longrightarrow> G d"
    and k: "\<And>a. requires_right (\<lambda>b d. True) (k a)" and GQ: "\<And>b d. G d \<Longrightarrow> Q b d"
  shows "requires_right Q (andthen m k)"
  unfolding requires_right_def
proof
  fix d
  show "\<exists>b. gated (Q b) b d (snd (andthen m k d))"
  proof (cases "fst (m d)")
    case (Inl e)
    then have "m d = (Inl e, d)" using m [of d] by (simp add: prod_eq_iff)
    then show ?thesis by (simp add: andthen_apply_Inl gated_silent same_calls_def)
  next
    case (Inr a)
    then have "m d = (Inr a, d)" using m [of d] by (simp add: prod_eq_iff)
    moreover obtain b where "gated (\<lambda>d. True) b d (snd (k a d))"
      using k unfolding requires_right_def by blast
    ultimately show ?thesis using Q [OF Inr] GQ by (auto simp: andthen_apply_Inr gated_def)
  qed
qed

lemma require_admin_state: "snd (require_admin_or_self caller target d) = d"
  by (auto simp: require_admin_or_self_def andthen_def split: option.splits prod.splits sum.splits)

lemma require_admin_Inr: "fst (require_admin_or_self caller None d) = Inr a \<Longrightarrow> is_admin caller d"
  by (cases "hm_get (d_registry d) (the caller)")
    (auto simp: require_admin_or_self_def is_admin_def split: option.splits if_splits)

lemma right_admin:
  "(\<And>a. requires_right (\<lambda>b d. True) (k a)) \<Longrightarrow>
     requires_right (\<lambda>b. is_admin caller) (andthen (require_admin_or_self caller None) k)"
  by (rule right_guard [where G = "is_admin caller"])
    (simp_all add: require_admin_state require_admin_Inr)

lemma right_true: "acting.obeys b m \<Longrightarrow> requires_right (\<lambda>b d. True) m"
  by (rule requires_rightI [where b = b]) (simp add: gated_act_def gated_def acting.obeysD)


section \<open>Squad requests\<close>

lemma silent_mls_blocks [simp]:
  "silent (deadline env n)" "silent (caller_rate env c b)" "silent (store_created env row)"
  by (simp_all add: deadline_def caller_rate_def store_created_def quiet.obeys_if quiet.obeys_pure
      quiet.obeys_andthen quiet.obeys_attempt quiet.obeys_sum split: option.split)

lemma signed_mls:
  "signed.obeys (bs_public_key b) (do_call x conv (FetchKeyPackage (bs_public_key b) r fr))"
  "signed.obeys (bs_public_key b) (do_call x1 conv (MlsCreateGroup (bs_public_key b) r kp n rs as))"
  "signed.obeys (bs_public_key b) (do_call x conv (SendWelcome (bs_public_key b) r w))"
  "signed.obeys (bs_public_key b) (do_call x conv (SendEvolution (bs_public_key b) e))"
  "signed.obeys (bs_public_key b) (do_call x2 conv (MlsIsMember (bs_public_key b) r c))"
  "signed.obeys (bs_public_key b) (do_call x3 conv (MlsRepairAdmins (bs_public_key b) w))"
  "signed.obeys (bs_public_key b) (do_call x4 conv (MlsLeaveGroup (bs_public_key b) w))"
  "signed.obeys (bs_public_key b) (do_call x2 conv (MlsDeleteGroup (bs_public_key b) w))"
  by (simp_all add: signed_do_call)

lemma signed_mls_add: "signed.obeys (bs_public_key b) (mls_add_call env (MlsAddMember (bs_public_key b) w r kp))"
  by (rule signed.obeysI) (simp add: mls_add_call_def signed_by_def only_calls_def)

lemmas signed_intros = signed.obeys_intros signed_for_bot signed_mls signed_mls_add silent_signed

lemma signed_create_finish: "signed.obeys (bs_public_key (pf_bot pf)) (create_finish env b pf as)"
  unfolding create_finish_def Let_def by (intro signed_intros silent_mls_blocks)

lemma signed_publish_added: "signed.obeys (bs_public_key (pf_bot pf)) (publish_added env pf added)"
  unfolding publish_added_def Let_def by (intro signed_intros silent_mls_blocks)

lemma signed_add_failed: "signed.obeys (bs_public_key (pf_bot pf)) (add_failed env pf w e)"
  unfolding add_failed_def by (cases e) (simp_all, (intro signed_intros silent_mls_blocks)+)

lemma signed_invite_mls: "signed.obeys (bs_public_key (pf_bot pf)) (invite_mls env pf w)"
  unfolding invite_mls_def Let_def
  by (intro signed_intros silent_mls_blocks signed_publish_added signed_add_failed)

lemma silent_invite_settle: "silent (invite_settle b pf w r)"
  unfolding invite_settle_def by (intro quiet.obeys_intros silent_blocks)

text \<open>
  Everything after the bot has been found is signed with its key; \<open>k\<close> runs with the preflight of
  that bot.
\<close>

lemma acting_extract:
  assumes "\<And>pf. signed.obeys (bs_public_key (pf_bot pf)) (k pf)"
  shows "acting.obeys b (andthen (extract_mls_group_inputs env b n r) k)"
  unfolding extract_mls_group_inputs_def andthen_assoc andthen_simps(1)
  by (intro acting_find_bot signed.obeys_andthen signed.obeys_pure)
    (rule assms [of "\<lparr>pf_bot = _, pf_creator_npub = _, pf_freshness = _, pf_relays = _, pf_group_name = _,
        pf_recipient_pk = _, pf_recipient_npub = _\<rparr>", unfolded mls_group_preflight.select_convs])

lemma acting_create_rest:
  "acting.obeys b (andthen (extract_mls_group_inputs env b n r) (\<lambda>pf.
     andthen (if pf_recipient_npub pf = pf_creator_npub pf
              then fail (InvalidJsonRpcRequest ''creator cannot be invited to their own group'')
              else ret ()) (\<lambda>_.
     andthen (of_res (create_admins env pf admins)) (\<lambda>as.
     andthen (on_store (db_read (load_mls_group b (pf_group_name pf)))) (\<lambda>existing.
     andthen (if existing \<noteq> None then fail MlsGroupAlreadyExists else ret (pf, as)) (\<lambda>(pf', as').
     andthen (create_finish env b pf' as') (\<lambda>w. ret (wire_response w))))))))"
proof (rule acting_extract)
  fix pf
  have end_ok: "signed.obeys (bs_public_key (pf_bot pf))
      (andthen (if existing \<noteq> None then fail MlsGroupAlreadyExists else ret (pf, as)) (\<lambda>(pf', as').
       andthen (create_finish env b pf' as') (\<lambda>w. ret (wire_response w))))" for existing :: "mls_group_row option" and as
    by (cases existing) (simp_all add: signed.obeys_pure signed.obeys_andthen signed_create_finish)
  show "signed.obeys (bs_public_key (pf_bot pf))
     (andthen (if pf_recipient_npub pf = pf_creator_npub pf
              then fail (InvalidJsonRpcRequest ''creator cannot be invited to their own group'')
              else ret ()) (\<lambda>_.
     andthen (of_res (create_admins env pf admins)) (\<lambda>as.
     andthen (on_store (db_read (load_mls_group b (pf_group_name pf)))) (\<lambda>existing.
     andthen (if existing \<noteq> None then fail MlsGroupAlreadyExists else ret (pf, as)) (\<lambda>(pf', as').
     andthen (create_finish env b pf' as') (\<lambda>w. ret (wire_response w)))))))"
    by (rule signed.obeys_andthen, simp add: signed.obeys_pure,
        rule signed.obeys_andthen, simp add: signed.obeys_pure,
        rule signed.obeys_andthen, simp add: silent_signed, rule end_ok)
qed

lemma acting_invite_rest:
  "acting.obeys b (andthen (extract_mls_group_inputs env b n r) (\<lambda>pf.
     andthen (on_store (db_read (load_mls_group b (pf_group_name pf)))) (\<lambda>found.
     andthen (of_res (ok_or MlsGroupNotFound found)) (\<lambda>group.
     andthen (on_store (db_read (is_bot_invited b (pf_group_name pf) (pf_recipient_npub pf)))) (\<lambda>invited.
     andthen (if invited then ret (Inl (mg_wire_id group))
       else andthen (on_store (db_act (update_mls_group_invite b (pf_group_name pf) (pf_recipient_npub pf)))) (\<lambda>written.
         if \<not> written then fail MlsGroupNotFound else ret (Inr (pf, mg_wire_id group)))) (\<lambda>begun.
       case begun of
         Inl wire_id \<Rightarrow> ret (wire_response wire_id)
       | Inr (pf, wire_id) \<Rightarrow>
           andthen (attempt (invite_mls env pf wire_id)) (\<lambda>outcome.
             invite_settle b pf wire_id outcome)))))))"
proof (rule acting_extract)
  fix pf
  let ?tail = "\<lambda>begun. case begun of
         Inl wire_id \<Rightarrow> ret (wire_response wire_id)
       | Inr (pf, wire_id) \<Rightarrow>
           andthen (attempt (invite_mls env pf wire_id)) (\<lambda>outcome.
             invite_settle b pf wire_id outcome)"
  have tail: "signed.obeys (bs_public_key (pf_bot pf)) (?tail (Inr (pf, w)))"
      "signed.obeys (bs_public_key (pf_bot pf)) (?tail (Inl w))" for w
    by (simp_all add: signed.obeys_pure signed.obeys_andthen signed.obeys_attempt signed_invite_mls
        silent_signed silent_invite_settle)
  have end_ok: "signed.obeys (bs_public_key (pf_bot pf)) (andthen (if invited then ret (Inl w)
       else andthen (on_store (db_act (update_mls_group_invite b (pf_group_name pf) (pf_recipient_npub pf)))) (\<lambda>written.
         if \<not> written then fail MlsGroupNotFound else ret (Inr (pf, w)))) ?tail)" for invited w
  proof (cases invited)
    case True
    then show ?thesis using tail(2) [of w] by (simp only: if_True andthen_simps(1))
  next
    case False
    have "signed.obeys (bs_public_key (pf_bot pf)) (andthen (if \<not> written then fail MlsGroupNotFound else ret (Inr (pf, w))) ?tail)" for written
      using tail(1) [of w]
      by (cases written) (simp_all only: if_True if_False not_True_eq_False not_False_eq_True andthen_simps signed.obeys_pure)
    with False show ?thesis by (simp only: if_False andthen_assoc signed.obeys_andthen silent_signed silent_blocks)
  qed
  show "signed.obeys (bs_public_key (pf_bot pf))
     (andthen (on_store (db_read (load_mls_group b (pf_group_name pf)))) (\<lambda>found.
     andthen (of_res (ok_or MlsGroupNotFound found)) (\<lambda>group.
     andthen (on_store (db_read (is_bot_invited b (pf_group_name pf) (pf_recipient_npub pf)))) (\<lambda>invited.
     andthen (if invited then ret (Inl (mg_wire_id group))
       else andthen (on_store (db_act (update_mls_group_invite b (pf_group_name pf) (pf_recipient_npub pf)))) (\<lambda>written.
         if \<not> written then fail MlsGroupNotFound else ret (Inr (pf, mg_wire_id group)))) ?tail))))"
    by (rule signed.obeys_andthen, simp add: silent_signed,
        rule signed.obeys_andthen, simp add: signed.obeys_pure,
        rule signed.obeys_andthen, simp add: silent_signed, rule end_ok)
qed

lemma acting_do_create:
  "acting.obeys b (do_create_mls_group env b n r as None)"
proof -
  have "do_create_mls_group env b n r as None = andthen (extract_mls_group_inputs env b n r) (\<lambda>pf.
     andthen (if pf_recipient_npub pf = pf_creator_npub pf
              then fail (InvalidJsonRpcRequest ''creator cannot be invited to their own group'')
              else ret ()) (\<lambda>_.
     andthen (of_res (create_admins env pf as)) (\<lambda>as.
     andthen (on_store (db_read (load_mls_group b (pf_group_name pf)))) (\<lambda>existing.
     andthen (if existing \<noteq> None then fail MlsGroupAlreadyExists else ret (pf, as)) (\<lambda>(pf', as').
     andthen (create_finish env b pf' as') (\<lambda>w. ret (wire_response w)))))))"
    unfolding do_create_mls_group_def create_begin_def andthen_assoc require_mls_agent_capability_def option.case
    by (simp only: andthen_simps(1))
  then show ?thesis using acting_create_rest by simp
qed


lemma acting_do_invite:
  "acting.obeys b (do_invite_to_mls_group env b n r None)"
  unfolding do_invite_to_mls_group_def invite_begin_def andthen_assoc require_mls_agent_capability_def option.case
    andthen_simps(1)
  by (rule acting_invite_rest)

text \<open>The check in front, and what is left when there is nothing to check.\<close>

lemma do_create_guarded:
  "do_create_mls_group env b n r as h =
     andthen (require_mls_agent_capability env h b ''CreateMlsGroup'') (\<lambda>_. do_create_mls_group env b n r as None)"
  unfolding do_create_mls_group_def create_begin_def andthen_assoc
  by (simp only: require_mls_agent_capability_def option.case andthen_simps(1))

lemma do_invite_guarded:
  "do_invite_to_mls_group env b n r h =
     andthen (require_mls_agent_capability env h b ''InviteToMlsGroup'') (\<lambda>_. do_invite_to_mls_group env b n r None)"
  unfolding do_invite_to_mls_group_def invite_begin_def andthen_assoc
  by (simp only: require_mls_agent_capability_def option.case andthen_simps(1))

lemma silent_require_mls: "silent (require_mls_agent_capability env h b cap)"
  unfolding require_mls_agent_capability_def by (intro quiet.obeys_intros silent_blocks)

lemma require_mls_Inr:
  "require_mls_agent_capability env h b cap d = (Inr u, d') \<Longrightarrow> h = None \<or> holds_capability h b cap d"
  by (cases h; cases "reg_is_authorized (the h) b cap (d_registry d)")
    (auto simp: require_mls_agent_capability_def holds_capability_def reg_is_authorized_True split: if_splits)

lemma right_create: "requires_right (\<lambda>b d. h = None \<or> holds_capability h b ''CreateMlsGroup'' d)
    (do_create_mls_group env b n r as h)"
  by (subst do_create_guarded) (rule requires_rightI [where b = b], rule gated_act_guard,
      rule silent_require_mls, rule require_mls_Inr, assumption, rule acting_do_create)

lemma right_invite: "requires_right (\<lambda>b d. h = None \<or> holds_capability h b ''InviteToMlsGroup'' d)
    (do_invite_to_mls_group env b n r h)"
  by (subst do_invite_guarded) (rule requires_rightI [where b = b], rule gated_act_guard,
      rule silent_require_mls, rule require_mls_Inr, assumption, rule acting_do_invite)

section \<open>The other requests\<close>

lemma acting_silent_then: "silent m \<Longrightarrow> (\<And>a. acting.obeys b (k a)) \<Longrightarrow> acting.obeys b (andthen m k)"
  by (rule acting.obeys_andthen, rule silent_acting)

lemma gated_authorize:
  assumes "\<And>u. acting.obeys b (k u)"
  shows "gated_act (holds_capability h b cap) b (andthen (authorize h b cap) k)"
  by (rule gated_act_guard [OF silent_authorize _ assms])
    (auto simp: authorize_Inr reg_is_authorized_True holds_capability_def)

lemma right_exit: "requires_right (\<lambda>b. holds_capability h b ''ExitMlsGroup'') (handle_exit_mls_group env h p)"
  unfolding handle_exit_mls_group_def handle_exit_mls_group_inner_def andthen_assoc
  by (intro right_of_res) (rule requires_rightI, rule gated_authorize, rule acting_find_bot,
      (intro signed_intros silent_blocks silent_mls_blocks)+)

lemma right_delete: "requires_right (\<lambda>b. holds_capability h b ''ExitMlsGroup'') (handle_delete_mls_group env h p)"
  unfolding handle_delete_mls_group_def
  by (intro right_of_res) (rule requires_rightI, rule gated_authorize, rule acting_find_bot,
      (intro signed_intros silent_blocks silent_mls_blocks)+)

lemma right_send_test_dm: "acting.obeys b (send_test_dm env b r c)"
  unfolding send_test_dm_def by (intro acting_find_bot signed_for_bot)

lemma right_admin_test_dm: "requires_right (\<lambda>b. is_admin h) (handle_admin_send_test_dm env h p)"
  unfolding handle_admin_send_test_dm_def
  by (intro right_admin right_of_res) (rule right_true, rule acting.obeys_andthen, rule right_send_test_dm, rule acting.obeys_pure)

lemma right_admin_create: "requires_right (\<lambda>b. is_admin h) (handle_admin_create_mls_group env h p)"
  unfolding handle_admin_create_mls_group_def
  by (intro right_admin right_of_res)
    (rule right_true, rule acting_silent_then, simp, rule acting_do_create)

lemma right_admin_invite: "requires_right (\<lambda>b. is_admin h) (handle_admin_invite_to_mls_group env h p)"
  unfolding handle_admin_invite_to_mls_group_def
  by (intro right_admin right_of_res)
    (rule right_true, rule acting_silent_then, simp, rule acting_do_invite)

lemma right_admin_repair: "requires_right (\<lambda>b. is_admin h) (handle_admin_repair_mls_group_admins env h p)"
  unfolding handle_admin_repair_mls_group_admins_def
  by (intro right_admin right_of_res)
    (rule right_true, rule acting_silent_then, simp, rule acting_silent_then, simp, rule acting_find_bot,
      intro signed_intros silent_blocks silent_mls_blocks)

lemma right_then_ret: "requires_right Q m \<Longrightarrow> requires_right Q (andthen m (\<lambda>a. ret (f a)))"
proof -
  have "snd (andthen m (\<lambda>a. ret (f a)) d) = snd (m d)" for d
    by (simp add: andthen_def split: prod.split sum.split)
  then show "requires_right Q m \<Longrightarrow> ?thesis" by (simp add: requires_right_def)
qed

lemma right_checked:
  assumes "\<And>d. c d \<Longrightarrow> Q b d" and "acting.obeys b K"
  shows "requires_right Q (andthen (gets c) (\<lambda>a. if \<not> a then fail e else K))"
proof (rule requires_rightI [where b = b])
  show "gated_act (Q b) b (andthen (gets c) (\<lambda>a. if \<not> a then fail e else K))"
    using assms(1) acting.obeysD [OF assms(2)]
    by (auto simp: gated_act_def gated_def acting.R_refl)
qed

lemma may_read_squad_holds:
  "may_read_squad hid b d \<Longrightarrow>
     holds_capability (Some hid) b ''ReceiveGroupMessages'' d \<or> holds_capability (Some hid) b ''SendGroupMessages'' d"
  by (auto simp: may_read_squad_def reg_is_authorized_def holds_capability_def split: option.splits sum.splits)

lemma right_member_inner:
  "requires_right (\<lambda>b d. holds_capability h b ''ReceiveGroupMessages'' d \<or> holds_capability h b ''SendGroupMessages'' d)
     (handle_is_squad_member_inner env b g pk h)"
proof (cases h)
  case None
  then show ?thesis
    by (simp add: handle_is_squad_member_inner_def ok_or_def requires_rightI gated_act_silent)
next
  case (Some hid)
  have K: "acting.obeys b
     (andthen (of_res (case e_parse_key env pk of
         Inl e \<Rightarrow> Inl (Config (''invalid member_pubkey: '' @ e)) | Inr pk \<Rightarrow> Inr pk)) (\<lambda>pk.
     andthen (of_res (case e_hex_decode env g of
         None \<Rightarrow> Inl (Config (''invalid group_id hex: '' @ e_hex_error env g)) | Some _ \<Rightarrow> Inr ())) (\<lambda>_.
     andthen (find_bot b) (\<lambda>b.
     andthen (of_res (bot_engine b)) (\<lambda>_.
     andthen (attempt (do_call (x_mls_bool env) from_mls_error (MlsIsMember (bs_public_key b) g pk))) (\<lambda>r.
       case r of Inr m \<Rightarrow> ret m | Inl e \<Rightarrow> of_res (membership_error e)))))))"
    by (rule acting_silent_then, simp, rule acting_silent_then, simp, rule acting_find_bot)
      (intro signed_intros)
  have of_res_Inr: "andthen (of_res (Inr a)) k = k a" for a :: str and k :: "str \<Rightarrow> bool dact"
    by simp
  show ?thesis
    unfolding handle_is_squad_member_inner_def Some
    by (simp only: ok_or_def option.case of_res_Inr) (rule right_checked [OF may_read_squad_holds K])
qed

lemma right_member:
  "requires_right (\<lambda>b d. holds_capability h b ''ReceiveGroupMessages'' d \<or> holds_capability h b ''SendGroupMessages'' d)
     (handle_is_squad_member env h p)"
  unfolding handle_is_squad_member_def
  by (intro right_of_res right_then_ret right_member_inner)

end
