(* ===== verification/DispatchEventSpec.thy ===== *)
theory DispatchEventSpec
  imports DispatchEvent Gating
begin

text \<open>
  What a dispatch guarantees while other tasks run: the pending entries, the responses a dispatch
  can collect, and the calls and cursors that finishing one can cause.
\<close>

section \<open>Pending entries\<close>

text \<open>
  What a pending entry may look like at any moment: only handlers the event was sent to have
  answered, each at most once, and the counters agree with the channel.
\<close>

definition pending_ok :: "pending_dispatch \<Rightarrow> bool" where
  "pending_ok p \<longleftrightarrow> pd_max p = MAX_RESPONSES_PER_HANDLER \<and> distinct (map fst (pd_channel p)) \<and>
     fst ` set (pd_channel p) \<subseteq> pd_handler_ids p \<and>
     (\<forall>h. hm_get (pd_counts p) h = (if h \<in> fst ` set (pd_channel p) then Some 1 else None))"

definition pending_of :: "daemon \<Rightarrow> str \<Rightarrow> str set option" where
  "pending_of d eid = map_option pd_handler_ids (hm_get (d_pending d) eid)"

definition all_pending_ok :: "daemon \<Rightarrow> bool" where
  "all_pending_ok d \<longleftrightarrow> (\<forall>eid p. hm_get (d_pending d) eid = Some p \<longrightarrow> pending_ok p)"

lemma pending_ok_new: "pending_ok \<lparr>pd_channel = [], pd_handler_ids = hs, pd_counts = [], pd_max = MAX_RESPONSES_PER_HANDLER\<rparr>"
  by (simp add: pending_ok_def)

lemma pd_accept_Inr:
  assumes "pd_accept hid a p = Inr p'" and "pending_ok p"
  shows "pending_ok p' \<and> pd_handler_ids p' = pd_handler_ids p \<and>
    pd_channel p' = pd_channel p @ [(hid, a)] \<and> hid \<in> pd_handler_ids p \<and> hid \<notin> fst ` set (pd_channel p)"
proof -
  have hid: "hid \<in> pd_handler_ids p" and new: "hid \<notin> fst ` set (pd_channel p)"
    and p': "p' = p\<lparr>pd_counts := hm_insert hid 1 (pd_counts p), pd_channel := pd_channel p @ [(hid, a)]\<rparr>"
    using assms
    by (cases "hid \<in> fst ` set (pd_channel p)";
        simp add: pd_accept_def Let_def pending_ok_def MAX_RESPONSES_PER_HANDLER_def split: if_splits)+
  have "pending_ok p'"
    using assms(2) hid new unfolding pending_ok_def p' by simp
  with hid new p' show ?thesis by simp
qed

text \<open>The requests that add a response: a channel grows by one answer of a handler that had none.\<close>

inductive responded :: "daemon \<Rightarrow> daemon \<Rightarrow> bool" where
  unchanged: "responded d d"
| answered: "hm_get (d_pending d) eid = Some p \<Longrightarrow> pd_accept hid a p = Inr p' \<Longrightarrow>
    responded d (d\<lparr>d_pending := hm_insert eid p' (d_pending d)\<rparr>)"

inductive_cases responded_cases: "responded d d'"

lemma handle_response_responded: "responded d (snd (handle_response hid params d))"
  by (auto simp: handle_response_def andthen_def intro: responded.intros split: sum.splits option.splits)

lemma responded_pending:
  assumes "responded d d'" and "all_pending_ok d"
  shows "all_pending_ok d'" and "pending_of d' = pending_of d"
proof -
  have "all_pending_ok d' \<and> pending_of d' = pending_of d"
    using assms(1)
  proof cases
    case (answered eid p hid a p')
    with assms(2) pd_accept_Inr [OF answered(3)] show ?thesis
      by (simp add: all_pending_ok_def pending_of_def fun_eq_iff)
  qed (use assms(2) in simp)
  then show "all_pending_ok d'" and "pending_of d' = pending_of d" by auto
qed

text \<open>Operations that leave the pending entries alone.\<close>

definition keeps_pending :: "daemon \<Rightarrow> daemon \<Rightarrow> bool" where
  "keeps_pending d d' \<longleftrightarrow> d_pending d' = d_pending d"

interpretation pend: action_rel keeps_pending
  by unfold_locales (simp_all add: keeps_pending_def)

lemma pend_blocks:
  "pend.obeys (diag f)" "pend.obeys (on_store m)" "pend.obeys (notify n)" "pend.obeys (check_rate env h b)"
  "pend.obeys (do_call x conv c)" "pend.obeys (seen_before env k w)" "pend.obeys (within_group_rate env b g)"
  by (auto simp: pend.obeys_def keeps_pending_def diag_def on_store_def notify_def check_rate_def do_call_def
      seen_before_def within_group_rate_def Let_def split: prod.splits)

lemma pend_authorize: "pend.obeys (authorize h b cap)"
  unfolding authorize_def by (intro pend.obeys_intros)

lemma pend_find_bot: "pend.obeys (find_bot b)"
  unfolding find_bot_def by (intro pend.obeys_intros)

lemma pend_send_dm: "pend.obeys (handle_send_dm env b r c t h)"
  unfolding handle_send_dm_def gate_def
  by (intro pend.obeys_intros pend_authorize pend_find_bot pend_blocks)

lemma pend_notify_event: "pend.obeys (notify_event env ev h)"
  unfolding notify_event_def by (intro pend.obeys_intros pend_blocks)

lemma pend_admit: "pend.obeys (dispatch_admit env ev)"
  unfolding dispatch_admit_def clear_restored_def process_mls_group_message_def Let_def
  by (intro pend.obeys_intros pend_blocks pend_find_bot)

lemma pend_answer: "pend.obeys (answer env ev hid action)"
  unfolding answer_def
  by (cases action) (simp_all only: handler_action.case,
      (intro pend.obeys_intros pend_blocks pend_send_dm)+)

lemma pend_process_response: "pend.obeys (process_response ev x)"
  unfolding process_response_def by (intro pend.obeys_intros pend_answer pend_blocks)

lemma pend_advance: "pend.obeys (advance_cursor env ctx)"
  unfolding advance_cursor_def Let_def
  by (intro pend.obeys_intros pend_blocks pend.obeys_modify) (simp add: keeps_pending_def)

lemma keeps_pendingD: "pend.obeys m \<Longrightarrow> d_pending (snd (m d)) = d_pending d"
  using pend.obeysD [of m d] by (simp add: keeps_pending_def)


section \<open>Dispatches in progress\<close>

text \<open>
  The tasks of the router: dispatches waiting for the lock of their event id, and those that hold
  it, one per event id. Every other task is a step that leaves the pending entries alone.
\<close>

record router =
  rt_daemon :: daemon
  rt_waiting :: "dispatch_ctx list"
  rt_running :: "(str, dispatch_ctx) hmap"

inductive router_step :: "router \<Rightarrow> router \<Rightarrow> bool" where
  admit: "dispatch_admit env ev (rt_daemon r) = (res, d') \<Longrightarrow>
    router_step r (r\<lparr>rt_daemon := d',
      rt_waiting := (case res of Inr (Some ctx) \<Rightarrow> ctx # rt_waiting r | _ \<Rightarrow> rt_waiting r)\<rparr>)"
| open_dispatch: "ctx \<in> set (rt_waiting r) \<Longrightarrow> hm_get (rt_running r) (dc_event_id ctx) = None \<Longrightarrow>
    router_step r \<lparr>rt_daemon = snd (dispatch_open env ctx (rt_daemon r)),
      rt_waiting = remove1 ctx (rt_waiting r),
      rt_running = hm_insert (dc_event_id ctx) ctx (rt_running r)\<rparr>"
| respond: "router_step r (r\<lparr>rt_daemon := snd (handle_response hid params (rt_daemon r))\<rparr>)"
| finish: "hm_get (rt_running r) eid = Some ctx \<Longrightarrow> hm_get (d_pending (rt_daemon r)) eid = Some p \<Longrightarrow>
    dc_event_id ctx = eid \<Longrightarrow>
    router_step r (r\<lparr>rt_daemon := snd (dispatch_finish env env_of (take n (pd_channel p)) ctx (rt_daemon r)),
      rt_running := hm_remove eid (rt_running r)\<rparr>)"
| other: "d_pending d' = d_pending (rt_daemon r) \<Longrightarrow> router_step r (r\<lparr>rt_daemon := d'\<rparr>)"

inductive router_reachable :: "daemon \<Rightarrow> router \<Rightarrow> bool" for d0 where
  rt_start: "d_pending d0 = [] \<Longrightarrow> router_reachable d0 \<lparr>rt_daemon = d0, rt_waiting = [], rt_running = []\<rparr>"
| rt_next: "router_reachable d0 r \<Longrightarrow> router_step r r' \<Longrightarrow> router_reachable d0 r'"

definition router_ok :: "router \<Rightarrow> bool" where
  "router_ok r \<longleftrightarrow> all_pending_ok (rt_daemon r) \<and>
     (\<forall>eid. pending_of (rt_daemon r) eid =
        map_option (\<lambda>ctx. h_id ` set (dc_handlers ctx)) (hm_get (rt_running r) eid))"

lemma dispatch_open_pending:
  "d_pending (snd (dispatch_open env ctx d)) = hm_insert (dc_event_id ctx)
     \<lparr>pd_channel = [], pd_handler_ids = h_id ` set (dc_handlers ctx), pd_counts = [],
      pd_max = MAX_RESPONSES_PER_HANDLER\<rparr> (d_pending d)"
  unfolding dispatch_open_def andthen_modify
  by (subst keeps_pendingD) (simp_all add: pend.obeys_for_each pend_notify_event)

lemma count_responses_eq: "\<exists>dg. count_responses env_of n d = (Inr (), d\<lparr>d_diag := dg\<rparr>)"
proof -
  have "\<exists>dg. for_each (\<lambda>i. diag (f i)) xs d = (Inr (), d\<lparr>d_diag := dg\<rparr>)" for f :: "nat \<Rightarrow> _" and xs
  proof (induction xs arbitrary: d)
    case Nil
    have "d = d\<lparr>d_diag := d_diag d\<rparr>" by simp
    then show ?case by (metis act_apply(1) for_each.simps(1))
  next
    case (Cons x xs)
    from Cons.IH [of "d\<lparr>d_diag := f x (d_diag d)\<rparr>"] show ?case by auto
  qed
  then show ?thesis by (simp add: count_responses_def)
qed

lemma dispatch_finish_eq:
  assumes "collect_responses (length (dc_handlers ctx)) [] arrived = (responses, deferred)"
  shows "\<exists>dg. dispatch_finish env env_of arrived ctx d =
    after_responses env env_of ctx responses deferred
      (d\<lparr>d_diag := dg, d_pending := hm_remove (dc_event_id ctx) (d_pending d)\<rparr>)"
proof -
  obtain dg where "count_responses env_of (length responses + (if deferred then 1 else 0)) d = (Inr (), d\<lparr>d_diag := dg\<rparr>)"
    using count_responses_eq by blast
  then have "dispatch_finish env env_of arrived ctx d =
    after_responses env env_of ctx responses deferred
      (d\<lparr>d_diag := dg, d_pending := hm_remove (dc_event_id ctx) (d_pending d)\<rparr>)"
    unfolding dispatch_finish_def assms Let_def prod.case by (subst andthen_apply_Inr, assumption) simp
  then show ?thesis ..
qed

lemma pend_after_responses: "pend.obeys (after_responses env env_of ctx rs df)"
  unfolding after_responses_def
  by (intro pend.obeys_andthen pend.obeys_for_each pend_process_response pend.obeys_if pend_advance pend.obeys_pure)

lemma dispatch_finish_pending:
  "d_pending (snd (dispatch_finish env env_of arrived ctx d)) = hm_remove (dc_event_id ctx) (d_pending d)"
proof -
  obtain rs df where c: "collect_responses (length (dc_handlers ctx)) [] arrived = (rs, df)" by fastforce
  from dispatch_finish_eq [OF c, of env env_of d] show ?thesis
    using keeps_pendingD [OF pend_after_responses] by force
qed

lemma router_step_ok: "router_step r r' \<Longrightarrow> router_ok r \<Longrightarrow> router_ok r'"
proof (induction rule: router_step.induct)
  case (admit env ev r res d')
  then have "d_pending d' = d_pending (rt_daemon r)" using keeps_pendingD [OF pend_admit] by (metis snd_conv)
  with admit show ?case by (simp add: router_ok_def all_pending_ok_def pending_of_def)
next
  case (open_dispatch ctx r env)
  then show ?case
    by (auto simp: router_ok_def all_pending_ok_def pending_of_def dispatch_open_pending pending_ok_new)
next
  case (respond r hid params)
  then show ?case
    using responded_pending [OF handle_response_responded, of "rt_daemon r" hid params]
    by (simp add: router_ok_def)
next
  case (finish r eid ctx p env env_of n)
  then show ?case
    by (auto simp: router_ok_def all_pending_ok_def pending_of_def dispatch_finish_pending split: if_splits)
next
  case (other d' r)
  then show ?case by (simp add: router_ok_def all_pending_ok_def pending_of_def)
qed

lemma router_reachable_ok: "router_reachable d0 r \<Longrightarrow> router_ok r"
proof (induction rule: router_reachable.induct)
  case rt_start
  then show ?case by (simp add: router_ok_def all_pending_ok_def pending_of_def)
next
  case (rt_next r r')
  then show ?case by (blast intro: router_step_ok)
qed


section \<open>Collected responses\<close>

lemma collect_responses_prefix:
  assumes "collect_responses n got xs = (rs, df)" and "length got \<le> n"
  shows "\<exists>k. rs = got @ take k xs \<and> (\<forall>x \<in> set (take k xs). snd x \<noteq> Defer) \<and> length rs \<le> n \<and>
    (if df then length rs < n \<and> k < length xs \<and> snd (xs ! k) = Defer
     else length rs = n \<or> rs = got @ xs)"
  using assms
proof (induction n got xs rule: collect_responses.induct)
  case (1 n got)
  then show ?case by (intro exI [of _ 0]) auto
next
  case (2 n got h a xs)
  show ?case
  proof (cases "n \<le> length got")
    case True
    with 2 show ?thesis by (intro exI [of _ 0]) auto
  next
    case False
    show ?thesis
    proof (cases "a = Defer")
      case True
      with 2 False show ?thesis by (intro exI [of _ 0]) auto
    next
      case a: False
      with 2 False obtain k where "rs = (got @ [(h, a)]) @ take k xs" "\<forall>x \<in> set (take k xs). snd x \<noteq> Defer"
          "length rs \<le> n" "if df then length rs < n \<and> k < length xs \<and> snd (xs ! k) = Defer
             else length rs = n \<or> rs = (got @ [(h, a)]) @ xs"
        by auto
      with a show ?thesis by (intro exI [of _ "Suc k"]) auto
    qed
  qed
qed

text \<open>What a dispatch can collect from an entry in which every handler answered at most once.\<close>

lemma collected_from_pending:
  assumes "pending_ok p" and "collect_responses n [] (take m (pd_channel p)) = (rs, df)"
  shows "distinct (map fst rs) \<and> fst ` set rs \<subseteq> pd_handler_ids p \<and> length rs \<le> n"
proof -
  obtain k where rs: "rs = take k (take m (pd_channel p))" "length rs \<le> n"
    using collect_responses_prefix [OF assms(2)] by auto
  have "distinct (map fst rs)"
    unfolding rs(1) using assms(1) by (simp add: pending_ok_def take_map [symmetric])
  moreover have "set rs \<subseteq> set (pd_channel p)"
    unfolding rs(1) using set_take_subset by fastforce
  ultimately show ?thesis using assms(1) rs(2) by (auto simp: pending_ok_def)
qed

section \<open>The answers\<close>

text \<open>
  A call that answers an event on behalf of one of the responding handlers: a message to the
  event's author, with the content of that handler's response, signed by the bot the event was for.
\<close>

definition answers :: "agent_event \<Rightarrow> (str \<times> handler_action) list \<Rightarrow> daemon \<Rightarrow> call \<Rightarrow> bool" where
  "answers ev rs d c \<longleftrightarrow>
     (\<exists>hid content pk. bot_key d (ev_bot_id ev) pk \<and>
        holds_capability (Some hid) (ev_bot_id ev) ''SendMessages'' d \<and>
        ((hid, Reply content) \<in> set rs \<and> c = SendDm pk (author ev) content (Some (rumor_id ev)) \<or>
         (hid, SendDmAction content) \<in> set rs \<and> c = SendDm pk (author ev) content None))"

definition answering :: "agent_event \<Rightarrow> (str \<times> handler_action) list \<Rightarrow> daemon \<Rightarrow> daemon \<Rightarrow> bool" where
  "answering ev rs d d' \<longleftrightarrow> only_calls (answers ev rs d) d d'"

lemma answers_same: "d_bots d' = d_bots d \<Longrightarrow> d_registry d' = d_registry d \<Longrightarrow> answers ev rs d' = answers ev rs d"
  by (simp add: fun_eq_iff answers_def bot_key_def holds_capability_def)

interpretation ans: action_rel "answering ev rs" for ev rs
proof
  show "answering ev rs s s" for s by (simp add: answering_def only_calls_refl)
  show "answering ev rs s u" if "answering ev rs s t" "answering ev rs t u" for s t u
  proof -
    have "answers ev rs t = answers ev rs s"
      using that(1) by (intro answers_same) (simp_all add: answering_def only_calls_def)
    with that show ?thesis unfolding answering_def by (metis only_calls_trans)
  qed
qed

lemma silent_answering: "silent m \<Longrightarrow> ans.obeys ev rs m"
  by (rule ans.obeysI) (simp add: answering_def same_only_calls quiet.obeysD)

lemma send_dm_calls:
  "only_calls (\<lambda>c. \<exists>pk. c = SendDm pk r t q \<and> bot_key d b pk \<and> holds_capability hid b ''SendMessages'' d)
     d (snd (handle_send_dm env b r t q hid d))"
proof -
  obtain res d1 where g: "gate env hid b ''SendMessages'' d = (res, d1)" by fastforce
  have same: "same_calls d d1" using silentD [OF silent_gate g] .
  show ?thesis
  proof (cases res)
    case (Inl e)
    with g same show ?thesis by (simp add: handle_send_dm_def andthen_apply_Inl same_only_calls)
  next
    case (Inr u)
    have cap: "holds_capability hid b ''SendMessages'' d" using g gate_Inr_holds unfolding Inr by blast
    show ?thesis
    proof (cases "get_bot_by_id (d_bots d1) b")
      case None
      with g Inr same show ?thesis
        by (simp add: handle_send_dm_def andthen_apply_Inr find_bot_then same_only_calls)
    next
      case (Some bs)
      then have "bot_key d b (bs_public_key bs)" using same by (simp add: bot_key_def same_calls_def)
      with g Inr same Some cap show ?thesis
        by (simp add: handle_send_dm_def andthen_apply_Inr find_bot_then do_call_def only_calls_def same_calls_def)
    qed
  qed
qed

lemma answering_send_dm:
  assumes "(hid, Reply t) \<in> set rs \<and> q = Some (rumor_id ev) \<or> (hid, SendDmAction t) \<in> set rs \<and> q = None"
  shows "ans.obeys ev rs (handle_send_dm env (ev_bot_id ev) (author ev) t q (Some hid))"
proof (rule ans.obeysI)
  fix d
  show "answering ev rs d (snd (handle_send_dm env (ev_bot_id ev) (author ev) t q (Some hid) d))"
    unfolding answering_def
    by (rule only_calls_mono [OF send_dm_calls]) (use assms in \<open>auto simp: answers_def\<close>)
qed

lemma answering_process:
  assumes "(hid, a) \<in> set rs"
  shows "ans.obeys ev rs (process_response ev (env, hid, a))"
proof -
  have "ans.obeys ev rs (answer env ev hid a)"
    unfolding answer_def using assms
    by (cases a) (simp_all only: handler_action.case, (intro ans.obeys_intros answering_send_dm silent_answering silent_blocks, blast?)+)
  then show ?thesis
    unfolding process_response_def prod.case
    by (rule ans.obeys_andthen) (intro ans.obeys_prod ans.obeys_andthen ans.obeys_attempt
        ans.obeys_pure silent_answering [OF silent_blocks(6)])
qed

lemma silent_advance: "silent (advance_cursor env ctx)"
  unfolding advance_cursor_def Let_def
  by (intro quiet.obeys_intros silent_blocks quiet.obeys_modify) (simp add: same_calls_def)

lemma answering_after: "ans.obeys (dc_event ctx) rs (after_responses env env_of ctx rs df)"
proof -
  have "ans.obeys (dc_event ctx) rs (process_response (dc_event ctx) x)"
    if mem: "x \<in> set (map (\<lambda>(i, h, a). (env_of i, h, a)) (enumerate 0 rs))" for x
  proof -
    obtain t where t: "t \<in> set (enumerate 0 rs)" "x = (case t of (i, h, a) \<Rightarrow> (env_of i, h, a))"
      by (rule imageE [OF mem [unfolded set_map]])
    obtain i h a where "t = (i, h, a)" by (rule prod_cases3)
    with t have x: "x = (env_of i, h, a)" and "(i, h, a) \<in> set (enumerate 0 rs)" by simp_all
    from this(2) have "(h, a) \<in> set rs" unfolding enumerate_eq_zip by (rule set_zip_rightD)
    then show ?thesis unfolding x by (rule answering_process)
  qed
  then show ?thesis
    unfolding after_responses_def
    by (intro ans.obeys_andthen ans.obeys_for_each_in ans.obeys_if ans.obeys_pure
        silent_answering [OF silent_advance])
qed

text \<open>All a finishing dispatch calls: answers of handlers that responded to it.\<close>

lemma dispatch_finish_answers:
  assumes "collect_responses (length (dc_handlers ctx)) [] arrived = (rs, df)"
  shows "answering (dc_event ctx) rs d (snd (dispatch_finish env env_of arrived ctx d))"
proof -
  obtain dg where fin: "dispatch_finish env env_of arrived ctx d =
      after_responses env env_of ctx rs df
        (d\<lparr>d_diag := dg, d_pending := hm_remove (dc_event_id ctx) (d_pending d)\<rparr>)"
    using dispatch_finish_eq [OF assms] by blast
  let ?d1 = "d\<lparr>d_diag := dg, d_pending := hm_remove (dc_event_id ctx) (d_pending d)\<rparr>"
  have "answering (dc_event ctx) rs d ?d1"
    by (simp add: answering_def only_calls_def)
  moreover have "answering (dc_event ctx) rs ?d1 (snd (after_responses env env_of ctx rs df ?d1))"
    using answering_after by (rule ans.obeysD)
  ultimately show ?thesis unfolding fin by (rule ans.R_trans)
qed

section \<open>Cursors\<close>

definition keeps_cursors :: "daemon \<Rightarrow> daemon \<Rightarrow> bool" where
  "keeps_cursors d d' \<longleftrightarrow>
     d_last_cursor d' = d_last_cursor d \<and> cursors (tables (d_store d')) = cursors (tables (d_store d))"

interpretation curs: action_rel keeps_cursors
  by unfold_locales (simp_all add: keeps_cursors_def)

lemma keeps_cursors_store:
  "db_act f s = (r, s') \<Longrightarrow> (\<exists>e. r = Inl e \<and> tables s' = tables s) \<or> (r = fst (f (tables s)) \<and> tables s' = snd (f (tables s)))"
  using db_act_cases [of f s] by auto

lemma curs_db_act:
  assumes "\<And>db. cursors (snd (f db)) = cursors db"
  shows "curs.obeys (on_store (db_act f))"
proof (rule curs.obeysI)
  fix d :: daemon
  obtain r s' where "db_act f (d_store d) = (r, s')" by fastforce
  with keeps_cursors_store [OF this] assms show "keeps_cursors d (snd (on_store (db_act f) d))"
    by (auto simp: keeps_cursors_def on_store_def)
qed

lemma curs_blocks:
  "curs.obeys (diag f)" "curs.obeys (check_rate env h b)" "curs.obeys (do_call x conv c)"
  by (auto simp: curs.obeys_def keeps_cursors_def diag_def check_rate_def do_call_def Let_def split: prod.splits)

lemma curs_send_dm: "curs.obeys (handle_send_dm env b r t q h)"
  unfolding handle_send_dm_def gate_def authorize_def find_bot_def
  by (intro curs.obeys_intros curs_blocks)

lemma curs_process: "curs.obeys (process_response ev x)"
proof -
  have "curs.obeys (answer env ev hid a)" for env hid a
    unfolding answer_def
    by (cases a) (simp_all only: handler_action.case, (intro curs.obeys_intros curs_blocks curs_send_dm)+)
  moreover have "curs.obeys (on_store (db_act (save_event_trace t b e a p l r)))" for t b e a p l r
    by (rule curs_db_act) (simp add: save_event_trace_def)
  ultimately show ?thesis
    unfolding process_response_def by (intro curs.obeys_intros)
qed

lemma advance_cursor_run:
  assumes "advance_cursor env ctx d = (res, d')"
  shows "(i64_try_from (timestamp (dc_event ctx)) = None \<and> d' = d \<and> res \<noteq> Inr ()) \<or>
    (\<exists>cur s'. i64_try_from (timestamp (dc_event ctx)) = Some cur \<and>
      db_act (save_cursor (utc_secs env) (ev_bot_id (dc_event ctx)) (dc_npub ctx) cur) (d_store d) = (res, s') \<and>
      d' = d\<lparr>d_last_cursor := hm_insert (ev_bot_id (dc_event ctx)) (dc_npub ctx, cur) (d_last_cursor d),
             d_store := s'\<rparr>)"
  using assms
  by (cases "i64_try_from (timestamp (dc_event ctx))")
    (auto simp: advance_cursor_def Let_def on_store_def split: prod.splits)

text \<open>
  Finishing a dispatch: a deferral keeps every cursor; otherwise the bot's cursor becomes the
  event's timestamp exactly if the dispatch succeeds, and no stored cursor changes if it fails.
\<close>

lemma dispatch_finish_cursor:
  assumes c: "collect_responses (length (dc_handlers ctx)) [] arrived = (rs, df)"
    and fin: "dispatch_finish env env_of arrived ctx d = (res, d')"
  shows "df \<Longrightarrow> keeps_cursors d d'"
    and "\<not> df \<Longrightarrow> res = Inr () \<Longrightarrow> \<exists>cur. i64_try_from (timestamp (dc_event ctx)) = Some cur \<and>
      cursors (tables (d_store d')) = cursors (snd (save_cursor (utc_secs env) (ev_bot_id (dc_event ctx)) (dc_npub ctx) cur
        (tables (d_store d)))) \<and>
      d_last_cursor d' = hm_insert (ev_bot_id (dc_event ctx)) (dc_npub ctx, cur) (d_last_cursor d)"
    and "\<not> df \<Longrightarrow> res \<noteq> Inr () \<Longrightarrow> cursors (tables (d_store d')) = cursors (tables (d_store d))"
proof -
  obtain dg where eq: "dispatch_finish env env_of arrived ctx d =
      after_responses env env_of ctx rs df
        (d\<lparr>d_diag := dg, d_pending := hm_remove (dc_event_id ctx) (d_pending d)\<rparr>)"
    using dispatch_finish_eq [OF c] by blast
  define d1 where "d1 = d\<lparr>d_diag := dg, d_pending := hm_remove (dc_event_id ctx) (d_pending d)\<rparr>"
  define m where "m = for_each (process_response (dc_event ctx))
    (map (\<lambda>(i, h, a). (env_of i, h, a)) (enumerate 0 rs))"
  have "curs.obeys m" unfolding m_def by (intro curs.obeys_for_each curs_process)
  then have "keeps_cursors d1 (snd (m d1))" by (rule curs.obeysD)
  then have keep: "keeps_cursors d (snd (m d1))" by (simp add: d1_def keeps_cursors_def)
  have run: "andthen m (\<lambda>_. if df then ret () else advance_cursor env ctx) d1 = (res, d')"
    using fin eq by (simp add: after_responses_def m_def d1_def)
  show "keeps_cursors d d'" if df
    using run keep that by (auto simp: andthen_def split: prod.splits sum.splits)
  show "\<exists>cur. i64_try_from (timestamp (dc_event ctx)) = Some cur \<and>
      cursors (tables (d_store d')) = cursors (snd (save_cursor (utc_secs env) (ev_bot_id (dc_event ctx)) (dc_npub ctx) cur
        (tables (d_store d)))) \<and>
      d_last_cursor d' = hm_insert (ev_bot_id (dc_event ctx)) (dc_npub ctx, cur) (d_last_cursor d)"
    if "\<not> df" "res = Inr ()"
  proof -
    have "andthen m (\<lambda>_. advance_cursor env ctx) d1 = (Inr (), d')" using run that by simp
    then obtain u d2 where m: "m d1 = (Inr u, d2)" and adv: "advance_cursor env ctx d2 = (Inr (), d')"
      by (rule andthen_Inr_E)
    have "keeps_cursors d d2" using keep m by simp
    with advance_cursor_run [OF adv] show ?thesis
      by (auto simp: keeps_cursors_def save_cursor_def dest!: keeps_cursors_store)
  qed
  show "cursors (tables (d_store d')) = cursors (tables (d_store d))" if "\<not> df" "res \<noteq> Inr ()"
  proof (cases "fst (m d1)")
    case (Inl e)
    with run keep show ?thesis by (cases "m d1") (auto simp: andthen_apply_Inl keeps_cursors_def)
  next
    case (Inr u)
    then have m: "m d1 = (Inr (), snd (m d1))" by (cases "m d1") simp
    with run that have "advance_cursor env ctx (snd (m d1)) = (res, d')" by (simp add: andthen_apply_Inr)
    from advance_cursor_run [OF this] show ?thesis
      using keep that(2) by (auto simp: keeps_cursors_def save_cursor_def dest!: keeps_cursors_store)
  qed
qed

end
