(* ===== verification/DispatchProperties.thy ===== *)
theory DispatchProperties
  imports DispatchEventSpec StateProperties
begin

text \<open>
  Properties of the dispatch of events: who may answer, what an answer can cause, when a cursor
  moves, which group messages are admitted, and which registrations the reaper removes.
\<close>

section \<open>An example daemon\<close>

definition example_env :: env where
  "example_env =
     \<lparr>e_now = 0, e_clock = 0, e_utc = 0, e_secs = 0, e_uuid = ''u'', e_token = Inr ''t'',
      e_codec = plain_codec, e_hex_decode = Some, e_hex_error = (\<lambda>_. ''bad hex''),
      e_parse_key = Inr, e_bech32 = Inr, e_graphemes = length, e_relay_url_ok = (\<lambda>_. True),
      e_redact = id, e_show_json = (\<lambda>_. ''''), e_de_error = (\<lambda>_. ''bad value''),
      e_rfc3339 = (\<lambda>_. ''now''), e_serde_time = (\<lambda>_. ''now''),
      e_git_sha = ''00000000'', e_relay_states = [(''wss://r'', ''Connected'')], e_new_sender = 1,
      x_text = (\<lambda>_ _. Inr ''e1''), x_unit = (\<lambda>_ _. Inr ()), x_mls = (\<lambda>_ _. Inr ''m''),
      x_mls_bool = (\<lambda>_ _. Inr True),
      x_mls_add = (\<lambda>_ _. Inr \<lparr>remove_evolution_event = None, welcome_rumor = ''w'', evolution_event = ''v''\<rparr>),
      x_mls_leave = (\<lambda>_ _. Inr \<lparr>leave_event = ''l'', self_demote_event = None\<rparr>),
      x_mls_repair = (\<lambda>_ _. Inr (''r'', [])),
      x_mls_create = (\<lambda>_ _. Inr (''w2'', ''w'')), x_late = (\<lambda>_. False)\<rparr>"

definition example_channels :: channels where
  "example_channels = (\<lambda>_. \<lparr>ch_queue = [], ch_capacity = 8, ch_closed = False\<rparr>)"

definition example_bots :: bot_table where
  "example_bots = \<lparr>bots = [(''pk1'', example_bot_state)], bot_id_to_pubkey = [(''a'', ''pk1'')]\<rparr>"

definition example_daemon :: daemon where
  "example_daemon =
     (dispatch_new example_bots \<lparr>tables = example_db, faults = []\<rparr> (diagnostics_new 0) example_channels 0)
       \<lparr>d_registry := [(''u'', example_handler)]\<rparr>"

definition example_event :: agent_event where
  "example_event = default_event\<lparr>ev_bot_id := ''a'', ev_event_id := ''e'', author := ''m'', rumor_id := ''r'',
     timestamp := 9\<rparr>"

definition example_ctx :: dispatch_ctx where
  "example_ctx = \<lparr>dc_event = example_event, dc_handlers = [example_handler], dc_npub = ''n1''\<rparr>"

lemma example_ctx_simps [simp]:
  "dc_event example_ctx = example_event" "dc_handlers example_ctx = [example_handler]"
  "dc_npub example_ctx = ''n1''" "dc_event_id example_ctx = ''e''"
  "ev_bot_id example_event = ''a''" "timestamp example_event = 9" "author example_event = ''m''"
  "rumor_id example_event = ''r''" "ev_event_id example_event = ''e''"
  by (simp_all add: example_ctx_def dc_event_id_def example_event_def default_event_def)

lemma example_daemon_pending [simp]: "d_pending example_daemon = []"
  by (simp add: example_daemon_def dispatch_new_def)

lemma example_find:
  "reg_find example_channels ''a'' DmReceived [(''u'', example_handler)] = [example_handler]"
  by (simp add: reg_find_def example_handler_def example_conn_def is_connected_def is_alive_def
      example_channels_def hm_values_def matches_def)

lemma example_bot [simp]: "get_bot_by_id example_bots ''a'' = Some example_bot_state"
  by (simp add: get_bot_by_id_def example_bots_def)

lemma example_admitted:
  "fst (dispatch_admit example_env example_event example_daemon) = Inr (Some example_ctx)"
  by (simp add: dispatch_admit_def find_bot_then example_daemon_def dispatch_new_def clear_restored_def
      example_find) (simp add: example_event_def example_ctx_def default_event_def example_find example_bot_state_def example_cfg_def)

definition example_response :: json where
  "example_response = JObject [(''event_id'', JString ''e''), (''action'', JString ''reply''), (''content'', JString ''hi'')]"

definition example_router :: router where
  "example_router = \<lparr>rt_daemon = snd (handle_response (Some ''u'') (Some example_response)
       (snd (dispatch_open example_env example_ctx (snd (dispatch_admit example_env example_event example_daemon))))),
     rt_waiting = [], rt_running = [(''e'', example_ctx)]\<rparr>"

lemma example_reachable: "router_reachable example_daemon example_router"
proof -
  let ?r0 = "\<lparr>rt_daemon = example_daemon, rt_waiting = [], rt_running = []\<rparr>"
  let ?d1 = "snd (dispatch_admit example_env example_event example_daemon)"
  have 1: "router_reachable example_daemon ?r0" by (rule rt_start) simp
  have "router_step ?r0 \<lparr>rt_daemon = ?d1, rt_waiting = [example_ctx], rt_running = []\<rparr>"
  proof -
    have "dispatch_admit example_env example_event (rt_daemon ?r0) = (Inr (Some example_ctx), ?d1)"
      using example_admitted by (cases "dispatch_admit example_env example_event example_daemon") simp
    from admit [OF this] show ?thesis by simp
  qed
  from rt_next [OF 1 this] have 2: "router_reachable example_daemon \<lparr>rt_daemon = ?d1, rt_waiting = [example_ctx], rt_running = []\<rparr>" .
  from open_dispatch [of example_ctx "\<lparr>rt_daemon = ?d1, rt_waiting = [example_ctx], rt_running = []\<rparr>" example_env]
  have "router_step \<lparr>rt_daemon = ?d1, rt_waiting = [example_ctx], rt_running = []\<rparr>
    \<lparr>rt_daemon = snd (dispatch_open example_env example_ctx ?d1), rt_waiting = [], rt_running = [(''e'', example_ctx)]\<rparr>"
    by (simp add: hm_insert_def)
  from rt_next [OF 2 this] respond [of "\<lparr>rt_daemon = snd (dispatch_open example_env example_ctx ?d1), rt_waiting = [], rt_running = [(''e'', example_ctx)]\<rparr>"
     "Some ''u''" "Some example_response"]
  show ?thesis by (auto simp: example_router_def intro: rt_next)
qed

definition example_pending :: pending_dispatch where
  "example_pending = \<lparr>pd_channel = [(''u'', Reply ''hi'')], pd_handler_ids = {''u''}, pd_counts = [(''u'', 1)], pd_max = 1\<rparr>"

lemma example_pending_entry:
  "hm_get (d_pending (rt_daemon example_router)) ''e'' = Some example_pending"
proof -
  have "d_pending (snd (dispatch_open example_env example_ctx (snd (dispatch_admit example_env example_event example_daemon)))) =
    [(''e'', \<lparr>pd_channel = [], pd_handler_ids = {''u''}, pd_counts = [], pd_max = MAX_RESPONSES_PER_HANDLER\<rparr>)]"
    using keeps_pendingD [OF pend_admit, of example_env example_event example_daemon]
    by (simp add: dispatch_open_pending hm_insert_def example_handler_def)
  then show ?thesis
    by (simp add: example_router_def handle_response_def required_params_def required_string_def str_field_def
        example_response_def action_from_value_def pd_accept_def MAX_RESPONSES_PER_HANDLER_def hm_insert_def example_pending_def)
qed

section \<open>Answering\<close>



text \<open>
  C11: All that finishing a dispatch publishes is answers: direct messages to the author of the
  event, with the content of a collected response and quoting the event exactly for a reply, signed
  with the key of the bot the event was for, and each on behalf of a responding handler that still
  holds the bot's \<open>SendMessages\<close> capability; the bots and the registrations do not change.
\<close>

theorem dispatch_publishes_only_answers:
  assumes "collect_responses (length (dc_handlers ctx)) [] arrived = (rs, df)"
    and "dispatch_finish env env_of arrived ctx d = (res, d')"
  shows "d_bots d' = d_bots d \<and> d_registry d' = d_registry d \<and>
    (\<exists>cs. d_calls d' = d_calls d @ cs \<and> (\<forall>c \<in> set cs. \<exists>hid content pk.
       bot_key d (ev_bot_id (dc_event ctx)) pk \<and>
       holds_capability (Some hid) (ev_bot_id (dc_event ctx)) ''SendMessages'' d \<and>
       ((hid, Reply content) \<in> set rs \<and>
          c = SendDm pk (author (dc_event ctx)) content (Some (rumor_id (dc_event ctx))) \<or>
        (hid, SendDmAction content) \<in> set rs \<and> c = SendDm pk (author (dc_event ctx)) content None)))"
  using dispatch_finish_answers [OF assms(1), of d env env_of] assms(2)
  by (simp add: answering_def only_calls_def answers_def)

theorem dispatch_publishes_only_answers_witness:
  "\<exists>cs. d_calls (snd (dispatch_finish example_env (\<lambda>_. example_env) [(''u'', Reply ''hi'')] example_ctx example_daemon)) =
      d_calls example_daemon @ cs \<and> (\<forall>c \<in> set cs. c = SendDm ''pk1'' ''m'' ''hi'' (Some ''r''))"
  using dispatch_publishes_only_answers [of example_ctx "[(''u'', Reply ''hi'')]" "[(''u'', Reply ''hi'')]" False
      example_env "\<lambda>_. example_env" example_daemon _ "snd (dispatch_finish example_env (\<lambda>_. example_env) [(''u'', Reply ''hi'')] example_ctx example_daemon)", OF _ prod.collapse [symmetric]]
  by (auto simp: bot_key_def example_daemon_def dispatch_new_def example_bot_state_def)



section \<open>Group messages\<close>

lemma mentioned_bots_spec:
  "distinct acc \<Longrightarrow> distinct (mentioned_bots m acc ns) \<and>
   set (mentioned_bots m acc ns) = set acc \<union> {b. \<exists>n \<in> set ns. hm_get m n = Some b}"
  by (induction ns arbitrary: acc) (auto split: option.splits)

text \<open>Notifications one after the other change the channels only, and never fail together.\<close>

lemma notify_all:
  "\<exists>chs. for_each (\<lambda>h. andthen (attempt (notify (f h))) (\<lambda>_. ret ())) hs d = (Inr (), d\<lparr>d_chans := chs\<rparr>)"
proof (induction hs arbitrary: d)
  case Nil
  have "d = d\<lparr>d_chans := d_chans d\<rparr>" by simp
  then show ?case by (metis act_apply(1) for_each.simps(1))
next
  case (Cons h hs)
  obtain r chs where n: "notify (f h) d = (r, d\<lparr>d_chans := chs\<rparr>)"
    by (cases "f h (d_chans d)") (simp add: notify_def)
  from Cons.IH [of "d\<lparr>d_chans := chs\<rparr>"] n show ?case by (simp add: andthen_def)
qed



section \<open>The reaper\<close>

lemma unregister_registry:
  "d_registry (snd (unregister_handler hid d)) = hm_remove hid (d_registry d)"
proof -
  have "hm_remove hid reg = reg" if "hm_get reg hid = None" for reg :: registry
    using that by (simp add: hm_remove_def delete_id map_of_eq_None_iff)
  then show ?thesis
    by (auto simp: unregister_handler_def andthen_def on_store_def diag_def reg_unregister_def hm_contains_def
        split: prod.splits sum.splits if_splits)
qed

lemma reap_stale_registry:
  "d_registry (snd (for_each (\<lambda>hid. andthen (attempt (unregister_handler hid)) (\<lambda>_. ret ())) ids d)) =
     fold hm_remove ids (d_registry d)"
  by (induction ids arbitrary: d) (simp_all add: andthen_def unregister_registry)

lemma hm_get_fold_remove:
  "hm_get (fold hm_remove ks m) k = (if k \<in> set ks then None else hm_get m k)"
  by (induction ks arbitrary: m) auto

lemma registry_values:
  assumes "registry_ok cfgs reg"
  shows "h \<in> set (hm_values reg) \<longleftrightarrow> hm_get reg (h_id h) = Some h"
  using assms by (auto simp: registry_ok_def hm_values_iff)



section \<open>Restored squads\<close>

lemma load_all_squads:
  assumes "db_ok db"
  shows "r \<in> set (load_all_mls_groups b db) \<Longrightarrow>
      \<exists>s. squads db (b, mg_group_name r) = Some s \<and> sq_wire s = mg_wire_id r \<and> sq_lost s = mg_state_lost_at r"
    and "squads db (b, n) = Some s \<Longrightarrow> \<exists>r \<in> set (load_all_mls_groups b db).
      mg_group_name r = n \<and> mg_wire_id r = sq_wire s \<and> mg_state_lost_at r = sq_lost s"
proof -
  show "\<exists>s. squads db (b, mg_group_name r) = Some s \<and> sq_wire s = mg_wire_id r \<and> sq_lost s = mg_state_lost_at r"
    if "r \<in> set (load_all_mls_groups b db)"
    using load_all_named [OF assms that] by (auto simp: squad_named_def)
  assume "squads db (b, n) = Some s"
  then obtain g where "((b, n), g) \<in> set (groups db)" "sq_wire s = g_wire_id g" "sq_lost s = g_state_lost_at g"
    using assms by (auto simp: squads_def db_ok_def hm_get_iff_in)
  then show "\<exists>r \<in> set (load_all_mls_groups b db). mg_group_name r = n \<and> mg_wire_id r = sq_wire s \<and> mg_state_lost_at r = sq_lost s"
    by (force simp: load_all_mls_groups_def mk_group_row_def)
qed

lemma wire_unique_squads:
  "db_ok db \<Longrightarrow> squads db (b, n) = Some s \<Longrightarrow> squads db (b, n') = Some s' \<Longrightarrow> sq_wire s = sq_wire s' \<Longrightarrow> n = n'"
  by (auto simp: squads_def db_ok_def wire_unique_def)

text \<open>
  C14: A Welcome for a squad whose engine state a reset lost clears the mark of that squad and of no
  other; if the database fails, nothing has changed.
\<close>

theorem welcome_restores:
  assumes "db_reachable (tables (d_store d))" and "ev_type ev = MlsWelcomeReceived" and "chat_id ev = Some w"
    and "clear_restored ev d = (res, d')"
  shows "squads (tables (d_store d')) =
    (if res = Inr () then (\<lambda>k. map_option (\<lambda>s. if fst k = ev_bot_id ev \<and> sq_wire s = w then s\<lparr>sq_lost := None\<rparr> else s)
       (squads (tables (d_store d)) k))
     else squads (tables (d_store d)))"
proof -
  let ?b = "ev_bot_id ev" and ?db = "tables (d_store d)"
  have ok: "db_ok ?db" using assms(1) by (rule db_reachable_ok)
  have keep: "map_option (\<lambda>s. if fst k = ?b \<and> sq_wire s = w then s\<lparr>sq_lost := None\<rparr> else s) (squads ?db k) = squads ?db k"
    if none: "find (\<lambda>g. mg_wire_id g = w \<and> mg_state_lost_at g \<noteq> None) (load_all_mls_groups ?b ?db) = None" for k
  proof (cases "squads ?db k")
    case (Some s)
    moreover have "sq_lost s = None" if "fst k = ?b" "sq_wire s = w"
    proof -
      have "squads ?db (?b, snd k) = Some s" using Some that by (cases k) simp
      with load_all_squads(2) [OF ok] none that show ?thesis by (metis (mono_tags, lifting) find_None_iff)
    qed
    ultimately show ?thesis by simp
  qed simp
  have change: "spec_lost ?b (mg_group_name g) None (squads ?db) k =
      map_option (\<lambda>s. if fst k = ?b \<and> sq_wire s = w then s\<lparr>sq_lost := None\<rparr> else s) (squads ?db k)"
    if "find (\<lambda>g. mg_wire_id g = w \<and> mg_state_lost_at g \<noteq> None) (load_all_mls_groups ?b ?db) = Some g" for g k
  proof -
    have "g \<in> set (load_all_mls_groups ?b ?db)" "mg_wire_id g = w"
      using that by (auto simp: find_Some_iff)
    with load_all_squads(1) [OF ok this(1)] obtain s where s: "squads ?db (?b, mg_group_name g) = Some s" "sq_wire s = w"
      by auto
    show ?thesis
    proof (cases "k = (?b, mg_group_name g)")
      case True
      with s show ?thesis by (simp add: spec_lost_def)
    next
      case False
      have "\<not> (fst k = ?b \<and> sq_wire s' = w)" if "squads ?db k = Some s'" for s'
        using wire_unique_squads [OF ok s(1), of "snd k" s'] False s(2) that by (cases k) auto
      with False show ?thesis by (cases "squads ?db k") (auto simp: spec_lost_def)
    qed
  qed
  obtain r s1 where load: "db_read (load_all_mls_groups ?b) (d_store d) = (r, s1)" by fastforce
  show ?thesis
  proof (cases r)
    case (Inl e)
    with load assms(2-4) show ?thesis
      using db_act_cases [of "\<lambda>db. (Inr (load_all_mls_groups ?b db), db)" "d_store d"]
      by (auto simp: clear_restored_def on_store_def andthen_def db_read_def)
  next
    case (Inr gs)
    have gs: "gs = load_all_mls_groups ?b ?db" "tables s1 = ?db"
      using db_read_Inr [OF load [unfolded Inr]] by simp_all
    show ?thesis
    proof (cases "find (\<lambda>g. mg_wire_id g = w \<and> mg_state_lost_at g \<noteq> None) gs")
      case None
      then have "(\<lambda>k. map_option (\<lambda>s. if fst k = ?b \<and> sq_wire s = w then s\<lparr>sq_lost := None\<rparr> else s) (squads ?db k)) = squads ?db"
        unfolding gs(1) by (intro ext keep)
      moreover have "res = Inr ()" "d_store d' = s1"
        using load Inr assms(2-4) None by (auto simp: clear_restored_def on_store_def andthen_def)
      ultimately show ?thesis using gs(2) by simp
    next
      case (Some g)
      obtain r2 s2 where clear: "db_act (clear_mls_group_state_lost ?b (mg_group_name g)) s1 = (r2, s2)" by fastforce
      then have "(\<exists>e. r2 = Inl e \<and> tables s2 = ?db) \<or>
          (r2 = Inr () \<and> tables s2 = set_state_lost ?b (mg_group_name g) None ?db)"
        using keeps_cursors_store [OF clear] gs(2) by (simp add: clear_mls_group_state_lost_def)
      moreover have "squads (set_state_lost ?b (mg_group_name g) None ?db) =
          (\<lambda>k. map_option (\<lambda>s. if fst k = ?b \<and> sq_wire s = w then s\<lparr>sq_lost := None\<rparr> else s) (squads ?db k))"
        unfolding set_state_lost_squads using Some gs(1) by (intro ext change) simp
      moreover have "res = r2" "d_store d' = s2"
        using load Inr assms(2-4) Some clear by (auto simp: clear_restored_def on_store_def andthen_def)
      ultimately show ?thesis by auto
    qed
  qed
qed

theorem welcome_restores_witness:
  "\<exists>s. squads (tables (d_store (snd (clear_restored
       (example_event\<lparr>ev_type := MlsWelcomeReceived, chat_id := Some ''w1''\<rparr>) example_daemon)))) (''a'', ''team'') = Some s"
  using welcome_restores [OF _ _ _ prod.collapse [symmetric],
      of example_daemon "example_event\<lparr>ev_type := MlsWelcomeReceived, chat_id := Some ''w1''\<rparr>" "''w1''"]
    db_reachable_example
  by (simp add: example_daemon_def dispatch_new_def squads_def example_db_group)


end
