(* ===== verification/MessageProperties.thy ===== *)
theory MessageProperties
  imports DispatchAuth DispatchProperties
begin

text \<open>
  Properties of the JSON-RPC router and of the squad requests: what a message may cause, what it is
  answered, and what a failed invitation or creation leaves behind.
\<close>

lemma on_store_no_fault:
  "faults (d_store d) = [] \<Longrightarrow>
     on_store (db_act f) d = (fst (f (tables (d_store d))), d\<lparr>d_store := \<lparr>tables = snd (f (tables (d_store d))), faults = []\<rparr>\<rparr>)"
  by (simp add: on_store_def db_act_no_fault)

section \<open>An example squad\<close>

definition example_squad_daemon :: daemon where
  "example_squad_daemon = example_daemon\<lparr>d_bots := \<lparr>bots = [(''pk1'', example_bot_state\<lparr>bs_mls := True\<rparr>)],
     bot_id_to_pubkey = [(''a'', ''pk1'')]\<rparr>\<rparr>"

lemma example_squad_simps [simp]:
  "d_store example_squad_daemon = \<lparr>tables = example_db, faults = []\<rparr>"
  "get_bot_by_id (d_bots example_squad_daemon) ''a'' = Some (example_bot_state\<lparr>bs_mls := True\<rparr>)"
  by (simp_all add: example_squad_daemon_def example_daemon_def dispatch_new_def get_bot_by_id_def)

definition example_pf :: mls_group_preflight where
  "example_pf = \<lparr>pf_bot = example_bot_state\<lparr>bs_mls := True\<rparr>, pf_creator_npub = ''n1'', pf_freshness = 300,
     pf_relays = [], pf_group_name = ''team'', pf_recipient_pk = ''m2'', pf_recipient_npub = ''m2''\<rparr>"

definition example_invited :: daemon where
  "example_invited = example_squad_daemon\<lparr>d_store := \<lparr>tables = example_db\<lparr>members := [(''a'', ''team'', ''m1''), (''a'', ''team'', ''m2'')]\<rparr>,
     faults = []\<rparr>\<rparr>"

lemma team_name: "validate_group_name ''team'' = Inr ''team''"
  by (simp add: validate_group_name_def trim_ascii_def is_ascii_whitespace_def is_ascii_control_def)

lemma example_invite_begin:
  "invite_begin example_env ''a'' ''team'' ''m2'' None example_squad_daemon = (Inr (Inr (example_pf, ''w1'')), example_invited)"
proof -
  have row: "load_mls_group ''a'' ''team'' example_db = Some (mk_group_row ''a'' ''team'' (row_of plain_codec (example_row ''team'' ''w1'')) [''m1''])"
    by (simp add: load_mls_group_def example_db_group group_members_def)
  have bot: "find_bot ''a'' example_squad_daemon = (Inr (example_bot_state\<lparr>bs_mls := True\<rparr>), example_squad_daemon)"
    by (simp add: find_bot_Inr)
  have eta: "example_squad_daemon\<lparr>d_store := \<lparr>tables = example_db, faults = []\<rparr>\<rparr> = example_squad_daemon"
    by (simp add: example_squad_daemon_def example_daemon_def dispatch_new_def)
  have pf: "extract_mls_group_inputs example_env ''a'' ''team'' ''m2'' example_squad_daemon = (Inr example_pf, example_squad_daemon)"
    unfolding extract_mls_group_inputs_def
    by (simp add: andthen_def bot team_name parse_recipient_def bot_engine_def)
      (simp add: example_env_def example_pf_def example_bot_state_def example_cfg_def bs_npub_def)
  show ?thesis
    by (simp add: invite_begin_def require_mls_agent_capability_def andthen_def pf on_store_no_fault db_read_def ok_or_def eta)
      (simp add: example_pf_def row mk_group_row_def row_of_def example_row_def is_bot_invited_def example_db_group
        update_mls_group_invite_def hm_contains_def row_insert_ignore_def example_invited_def eta
        on_store_no_fault andthen_def)
qed

section \<open>Messages\<close>

text \<open>The requests that call no service, whatever else they change.\<close>

definition calls_kept :: "daemon \<Rightarrow> daemon \<Rightarrow> bool" where
  "calls_kept d d' \<longleftrightarrow> d_calls d' = d_calls d"

interpretation kept: action_rel calls_kept
  by unfold_locales (simp_all add: calls_kept_def)

lemma kept_blocks:
  "kept.obeys (diag f)" "kept.obeys (on_store m)" "kept.obeys (notify n)" "kept.obeys (on_registry g)"
  "kept.obeys (closed_connection env c)"
  by (auto simp: kept.obeys_def calls_kept_def diag_def on_store_def notify_def on_registry_def
      closed_connection_def split: prod.splits option.splits)

lemma kept_unregister: "kept.obeys (unregister_handler hid)"
proof -
  have "kept.obeys (\<lambda>d. case reg_unregister hid (d_registry d) of (r, reg) \<Rightarrow> (r, d\<lparr>d_registry := reg\<rparr>))"
    by (rule kept.obeysI) (simp add: calls_kept_def split: prod.splits)
  then show ?thesis
    unfolding unregister_handler_def
    by (rule kept.obeys_andthen) (intro kept.obeys_intros kept_blocks kept.obeys_modify, simp_all add: calls_kept_def)
qed

lemma kept_settle: "kept.obeys (settle_registration env hid)"
  unfolding settle_registration_def notify_bot_unavailable_on_registration_def unavailable_reason_def
  by (intro kept.obeys_intros kept_blocks)

lemma kept_register: "kept.obeys (handle_register env p c)"
  unfolding handle_register_def
  by (intro kept.obeys_intros kept_blocks kept_settle kept.obeys_modify) (simp add: calls_kept_def)

lemma kept_reconnect: "kept.obeys (handle_reconnect env p c)"
  unfolding handle_reconnect_def
  by (intro kept.obeys_intros kept_blocks kept_settle)

lemma kept_admin: "kept.obeys (require_admin_or_self c t)"
  unfolding require_admin_or_self_def by (intro kept.obeys_intros)

lemma kept_simple:
  "kept.obeys (handle_unregister h p)" "kept.obeys (handle_admin_unregister_handler h p)"
  "kept.obeys (handle_list_handlers env h)" "kept.obeys (handle_metrics env)" "kept.obeys (handle_health env)"
  "kept.obeys (handle_version env)" "kept.obeys (handle_response h p)"
  unfolding handle_unregister_def handle_admin_unregister_handler_def handle_list_handlers_def
    handle_metrics_def handle_health_def handle_version_def handle_response_def
  by (intro kept.obeys_intros kept_unregister kept_admin kept.obeys_modify; simp add: calls_kept_def)+

lemma kept_error: "kept.obeys (handle_error env h p)"
proof (rule kept.obeysI)
  fix d
  have "silent (handle_error env h p)"
    unfolding handle_error_def by (intro silent_andthen silent_blocks silent_gate)
  then show "calls_kept d (snd (handle_error env h p d))"
    using quiet.obeysD by (fastforce simp: calls_kept_def same_calls_def)
qed

text \<open>Every method either calls nothing or calls under its right.\<close>

lemma right_agent_create: "requires_right (\<lambda>b d. h = None \<or> holds_capability h b ''CreateMlsGroup'' d)
    (handle_agent_create_mls_group env h p)"
  unfolding handle_agent_create_mls_group_def
  by (intro right_of_res) (rule right_create)

lemma right_agent_invite: "requires_right (\<lambda>b d. h = None \<or> holds_capability h b ''InviteToMlsGroup'' d)
    (handle_agent_invite_to_mls_group env h p)"
  unfolding handle_agent_invite_to_mls_group_def
  by (intro right_of_res) (rule right_invite)

lemma method_right_capability:
  "method_right M_AgentSendDm h = (\<lambda>b. holds_capability h b ''SendMessages'')"
  "method_right M_AgentSendReaction h = (\<lambda>b. holds_capability h b ''SendReactions'')"
  "method_right M_AgentSendAttachment h = (\<lambda>b. holds_capability h b ''SendAttachments'')"
  "method_right M_AgentSetProfile h = (\<lambda>b. holds_capability h b ''ManageProfile'')"
  "method_right M_AgentSendGroupMessage h = (\<lambda>b. holds_capability h b ''SendGroupMessages'')"
  "method_right M_AgentSendGroupReaction h = (\<lambda>b. holds_capability h b ''SendGroupReactions'')"
  "method_right M_AgentSendGroupAttachment h = (\<lambda>b. holds_capability h b ''SendGroupAttachments'')"
  "method_right M_AgentPublishKeyPackage h = (\<lambda>b. holds_capability h b ''SendGroupMessages'')"
  "method_right M_AgentExitMlsGroup h = (\<lambda>b. holds_capability h b ''ExitMlsGroup'')"
  "method_right M_AgentDeleteMlsGroup h = (\<lambda>b. holds_capability h b ''ExitMlsGroup'')"
  by (simp_all add: fun_eq_iff)

lemma method_right_other:
  "method_right M_AgentIsSquadMember h =
     (\<lambda>b d. holds_capability h b ''ReceiveGroupMessages'' d \<or> holds_capability h b ''SendGroupMessages'' d)"
  "method_right M_AgentCreateMlsGroup h = (\<lambda>b d. h = None \<or> holds_capability h b ''CreateMlsGroup'' d)"
  "method_right M_AgentInviteToMlsGroup h = (\<lambda>b d. h = None \<or> holds_capability h b ''InviteToMlsGroup'' d)"
  "method_right M_AdminSendTestDm h = (\<lambda>b. is_admin h)"
  "method_right M_AdminCreateMlsGroup h = (\<lambda>b. is_admin h)"
  "method_right M_AdminInviteToMlsGroup h = (\<lambda>b. is_admin h)"
  "method_right M_AdminRepairMlsGroupAdmins h = (\<lambda>b. is_admin h)"
  by (simp_all add: fun_eq_iff)

lemmas capability_requests = send_dm_msg_requires [unfolded requires_is_right]
  send_reaction_requires [unfolded requires_is_right] send_attachment_requires [unfolded requires_is_right]
  set_profile_requires [unfolded requires_is_right] send_group_message_requires [unfolded requires_is_right]
  send_group_reaction_requires [unfolded requires_is_right]
  send_group_attachment_requires [unfolded requires_is_right]
  publish_key_package_requires [unfolded requires_is_right] right_exit right_delete right_admin_test_dm
  right_admin_create right_admin_invite right_admin_repair right_member right_agent_create right_agent_invite

lemma run_method_calls:
  "requires_right (method_right m h) (run_method env m p h c) \<or> kept.obeys (run_method env m p h c)"
  by (cases m)
    (simp_all only: run_method_def rpc_method.case method_right_capability method_right_other
      capability_requests kept_register kept_reconnect kept_simple kept_error kept.obeys_pure simp_thms)

lemma handle_message_state:
  "snd (handle_message env msg hid conn d) =
     (case Option.bind (msg_method msg) (\<lambda>name. case parse_method name of Inr m \<Rightarrow> Some m | Inl _ \<Rightarrow> None) of
        None \<Rightarrow> d
      | Some m \<Rightarrow> snd (run_method env m (msg_params msg) hid conn d))"
  by (auto simp: handle_message_def split: option.split sum.split)

text \<open>
  C1: Nothing is published or done in an engine on behalf of a bot without the right to it: if a
  message causes any call, then it names a method, its sender holds that method's right over one
  bot, and every call uses the key of that bot. For each method the right is the capability the
  method is for (membership queries need either group capability, administrative methods the
  \<open>Admin\<close> capability of the caller's registration); the only messages that call without a
  registered sender are an agent's creation of and invitation to a squad.
\<close>

theorem only_authorized_calls:
  assumes "handle_message env msg hid conn d = (r, d')"
  shows "d_calls d' = d_calls d \<or>
    (\<exists>name m b cs. msg_method msg = Some name \<and> parse_method name = Inr m \<and> method_right m hid b d \<and>
       d_calls d' = d_calls d @ cs \<and> (\<forall>c \<in> set cs. bot_key d b (call_signer c)))"
proof (cases "Option.bind (msg_method msg) (\<lambda>name. case parse_method name of Inr m \<Rightarrow> Some m | Inl _ \<Rightarrow> None)")
  case None
  with handle_message_state [of env msg hid conn d] assms show ?thesis by simp
next
  case (Some m)
  then obtain name where name: "msg_method msg = Some name"
      "(case parse_method name of Inr m \<Rightarrow> Some m | Inl _ \<Rightarrow> None) = Some m"
    by (auto simp: Option.bind_eq_Some_conv)
  then have m: "msg_method msg = Some name" "parse_method name = Inr m"
    by (cases "parse_method name"; simp)+
  have d': "d' = snd (run_method env m (msg_params msg) hid conn d)"
    using handle_message_state [of env msg hid conn d] assms Some by simp
  from run_method_calls [of m hid env "msg_params msg" conn] show ?thesis
  proof
    assume "kept.obeys (run_method env m (msg_params msg) hid conn)"
    then show ?thesis using kept.obeysD by (fastforce simp: d' calls_kept_def)
  next
    assume "requires_right (method_right m hid) (run_method env m (msg_params msg) hid conn)"
    then obtain b where "gated (method_right m hid b) b d d'"
      unfolding requires_right_def d' by blast
    with m show ?thesis by (auto simp: gated_def acts_for_def only_calls_def)
  qed
qed

theorem only_authorized_calls_witness:
  "d_calls (snd (handle_message example_env (mk_request JNull ''agent.send_reaction'' None) (Some ''u'') None example_squad_daemon)) =
     d_calls example_squad_daemon"
proof -
  have "\<not> holds_capability (Some ''u'') b ''SendReactions'' example_squad_daemon" for b
    by (simp add: holds_capability_def example_squad_daemon_def example_daemon_def dispatch_new_def example_handler_def
        h_is_authorized_def)
  then show ?thesis
    using only_authorized_calls [OF prod.collapse [symmetric], of example_env "mk_request JNull ''agent.send_reaction'' None"
        "Some ''u''" None example_squad_daemon]
    by (auto simp: mk_request_def parse_method_def)
qed


section \<open>Invitations\<close>

text \<open>Operations that leave the database alone.\<close>

definition keeps_store :: "daemon \<Rightarrow> daemon \<Rightarrow> bool" where
  "keeps_store d d' \<longleftrightarrow> d_store d' = d_store d"

interpretation stored: action_rel keeps_store
  by unfold_locales (simp_all add: keeps_store_def)

lemma stored_blocks:
  "stored.obeys (diag f)" "stored.obeys (check_rate env h b)" "stored.obeys (do_call x conv c)"
  "stored.obeys (mls_add_call env c)" "stored.obeys (deadline env n)"
  by (auto simp: stored.obeys_def keeps_store_def diag_def check_rate_def do_call_def mls_add_call_def deadline_def Let_def
      split: prod.splits)

lemma stored_invite_mls: "stored.obeys (invite_mls env pf w)"
proof -
  have "stored.obeys (add_failed env pf w e)" for e
    unfolding add_failed_def by (cases e) (simp_all, (intro stored.obeys_intros stored_blocks)+)
  then show ?thesis
    unfolding invite_mls_def publish_added_def Let_def by (intro stored.obeys_intros stored_blocks)
qed

lemma stored_preflight:
  "stored.obeys (require_mls_agent_capability env h b cap)" "stored.obeys (extract_mls_group_inputs env b n r)"
  unfolding require_mls_agent_capability_def extract_mls_group_inputs_def find_bot_def
  by (intro stored.obeys_intros stored_blocks)+

lemma storedD: "stored.obeys m \<Longrightarrow> m d = (r, d') \<Longrightarrow> d_store d' = d_store d"
  using stored.obeysD [of m d] by (simp add: keeps_store_def)

lemma extract_Inr:
  assumes "extract_mls_group_inputs env b n r d = (Inr pf, d')"
  shows "d' = d \<and> validate_group_name n = Inr (pf_group_name pf) \<and> parse_recipient env r = Inr (pf_recipient_pk pf) \<and>
    e_bech32 env (pf_recipient_pk pf) = Inr (pf_recipient_npub pf) \<and> get_bot_by_id (d_bots d) b = Some (pf_bot pf) \<and>
    bot_engine (pf_bot pf) = Inr ()"
  using assms unfolding extract_mls_group_inputs_def
  by (auto simp: find_bot_Inr elim!: andthen_Inr_E split: sum.splits)

text \<open>The part under the lock: what it answers, and the row it writes.\<close>

lemma store_eta: "faults s = [] \<Longrightarrow> \<lparr>tables = tables s, faults = []\<rparr> = s"
  by (cases s) simp

lemma invite_begin_run:
  assumes no_fault: "faults (d_store d) = []" and run: "invite_begin env b n r h d = (res, d')"
  shows "case res of
      Inl _ \<Rightarrow> d_store d' = d_store d
    | Inr (Inl w) \<Rightarrow> d_store d' = d_store d \<and> (\<exists>n' pk m. validate_group_name n = Inr n' \<and> parse_recipient env r = Inr pk \<and>
        e_bech32 env pk = Inr m \<and> is_bot_invited b n' m (tables (d_store d)))
    | Inr (Inr (pf, w)) \<Rightarrow> validate_group_name n = Inr (pf_group_name pf) \<and> parse_recipient env r = Inr (pf_recipient_pk pf) \<and>
        e_bech32 env (pf_recipient_pk pf) = Inr (pf_recipient_npub pf) \<and>
        \<not> is_bot_invited b (pf_group_name pf) (pf_recipient_npub pf) (tables (d_store d)) \<and>
        update_mls_group_invite b (pf_group_name pf) (pf_recipient_npub pf) (tables (d_store d)) = (Inr True, tables (d_store d')) \<and>
        faults (d_store d') = [] \<and> get_bot_by_id (d_bots d') b = Some (pf_bot pf) \<and> bot_engine (pf_bot pf) = Inr ()"
proof -
  obtain q d1 where q: "require_mls_agent_capability env h b ''InviteToMlsGroup'' d = (q, d1)" by fastforce
  have s1: "d_store d1 = d_store d" using stored_preflight(1) q by (rule storedD)
  show ?thesis
  proof (cases q)
    case (Inl e)
    with run q s1 show ?thesis by (auto simp: invite_begin_def andthen_apply_Inl)
  next
    case (Inr u)
    obtain x d2 where x: "extract_mls_group_inputs env b n r d1 = (x, d2)" by fastforce
    have s2: "d_store d2 = d_store d" using storedD [OF stored_preflight(2) x] s1 by simp
    show ?thesis
    proof (cases x)
      case (Inl e)
      with run q Inr x s2 show ?thesis by (auto simp: invite_begin_def andthen_apply_Inr andthen_apply_Inl)
    next
      case pf: (Inr pf)
      note ex = extract_Inr [OF x [unfolded pf]]
      have f2: "faults (d_store d2) = []" using s2 no_fault by simp
      show ?thesis
        using run q Inr x pf ex s2 f2 store_eta [OF no_fault]
        by (auto simp: invite_begin_def andthen_apply_Inr db_read_def andthen_def on_store_no_fault update_mls_group_invite_def
            ok_or_def split: option.splits if_splits)
    qed
  qed
qed

lemma invite_written:
  assumes "\<not> is_bot_invited b n m db" and "update_mls_group_invite b n m db = (Inr True, db1)"
  shows "db1 = db\<lparr>members := members db @ [(b, n, m)]\<rparr>"
    and "snd (delete_mls_group_member b n m db1) = db"
proof -
  show db1: "db1 = db\<lparr>members := members db @ [(b, n, m)]\<rparr>"
    using assms by (auto simp: update_mls_group_invite_def is_bot_invited_def row_insert_ignore_def split: if_splits)
  have "filter (\<lambda>r. r \<noteq> (b, n, m)) (members db) = members db"
    using assms(1) by (auto simp: is_bot_invited_def filter_id_conv)
  then show "snd (delete_mls_group_member b n m db1) = db"
    by (simp add: db1 delete_mls_group_member_def)
qed



text \<open>
  C5: A success can be withdrawn: while an invitation of a recipient is under way, a second one of
  the same recipient to the same squad is answered with success at once, without any call; if the
  first then fails, its rollback removes the membership that the second one reported.
\<close>

theorem reported_invitation_withdrawn:
  assumes no_fault: "faults (d_store d) = []"
    and first: "invite_begin env b n r h d = (Inr (Inr (pf, w)), d1)"
    and codec: "e_parse_key env2 = e_parse_key env" "e_bech32 env2 = e_bech32 env"
    and second: "do_invite_to_mls_group env2 b n r None d1 = (res2, d2)"
    and settled: "invite_settle b pf w (Inl e) d2 = (res, d3)"
  shows "(\<exists>w2. res2 = Inr (wire_response w2)) \<and> d_calls d2 = d_calls d1 \<and> res = Inl e \<and>
    \<not> is_bot_invited b (pf_group_name pf) (pf_recipient_npub pf) (tables (d_store d3))"
proof -
  have begun: "validate_group_name n = Inr (pf_group_name pf)" "parse_recipient env r = Inr (pf_recipient_pk pf)"
      "e_bech32 env (pf_recipient_pk pf) = Inr (pf_recipient_npub pf)"
      "\<not> is_bot_invited b (pf_group_name pf) (pf_recipient_npub pf) (tables (d_store d))"
      "update_mls_group_invite b (pf_group_name pf) (pf_recipient_npub pf) (tables (d_store d)) = (Inr True, tables (d_store d1))"
      "faults (d_store d1) = []" "get_bot_by_id (d_bots d1) b = Some (pf_bot pf)" "bot_engine (pf_bot pf) = Inr ()"
    using invite_begin_run [OF no_fault first] by simp_all
  have d1: "tables (d_store d1) = tables (d_store d)\<lparr>members := members (tables (d_store d)) @
      [(b, pf_group_name pf, pf_recipient_npub pf)]\<rparr>"
    using begun(4,5) by (rule invite_written(1))
  have parsed: "parse_recipient env2 r = Inr (pf_recipient_pk pf)"
    using begun(2) by (simp add: parse_recipient_def codec)
  have "hm_contains (groups (tables (d_store d))) (b, pf_group_name pf)"
    using begun(5) by (simp add: update_mls_group_invite_def split: if_splits)
  then obtain row where row: "load_mls_group b (pf_group_name pf) (tables (d_store d1)) = Some row"
    by (auto simp: d1 load_mls_group_def hm_contains_def)
  have bot: "find_bot b d1 = (Inr (pf_bot pf), d1)" using begun(7) by (simp add: find_bot_Inr)
  have there: "is_bot_invited b (pf_group_name pf) (pf_recipient_npub pf) (tables (d_store d1))"
    by (simp add: d1 is_bot_invited_def)
  have "do_invite_to_mls_group env2 b n r None d1 = (Inr (wire_response (mg_wire_id row)), d1)"
    using begun(1,3,6,8) row there store_eta [OF begun(6)]
    by (simp add: bot do_invite_to_mls_group_def invite_begin_def require_mls_agent_capability_def
        extract_mls_group_inputs_def andthen_assoc parsed codec andthen_def on_store_no_fault
        db_read_def ok_or_def)
  with second have "res2 = Inr (wire_response (mg_wire_id row))" "d2 = d1" by simp_all
  moreover from settled \<open>d2 = d1\<close> have "res = Inl e" "tables (d_store d3) = tables (d_store d)"
    using invite_written(2) [OF begun(4,5)] begun(6) by (auto simp: invite_settle_def on_store_no_fault)
  ultimately show ?thesis using begun(4) by auto
qed

theorem reported_invitation_withdrawn_witness:
  "\<not> is_bot_invited ''a'' ''team'' ''m2'' (tables (d_store (snd (invite_settle ''a'' example_pf ''w1'' (Inl OperationTimedOut)
     (snd (do_invite_to_mls_group example_env ''a'' ''team'' ''m2'' None example_invited))))))"
  using reported_invitation_withdrawn [OF _ example_invite_begin refl refl prod.collapse [symmetric] prod.collapse [symmetric]]
  by (simp add: example_pf_def)

section \<open>Creations\<close>

text \<open>
  C6: Two creations can collide: if the name was taken after the check, when every call still
  succeeds, the request is refused as \<open>MlsGroupAlreadyExists\<close> and stores nothing, but by then the
  engine has the squad and the recipient has been sent its Welcome.
\<close>

theorem losing_creation_already_welcomed:
  assumes ontime: "\<And>n. \<not> x_late env n" and calls: "\<And>cs c. x_mls_create env cs c = Inr (w, wel)" "\<And>cs c. x_text env cs c = Inr e"
    and no_fault: "faults (d_store d) = []" and taken: "hm_contains (groups (tables (d_store d))) (b, pf_group_name pf)"
    and run: "create_finish env b pf as d = (res, d')"
  shows "res = Inl MlsGroupAlreadyExists \<and> d_store d' = d_store d \<and>
    SendWelcome (bs_public_key (pf_bot pf)) (pf_recipient_pk pf) wel \<in> set (d_calls d')"
proof -
  have "insert_mls_group (e_codec env) (created_row b pf w) (tables (d_store d)) = (Inl group_key_failed, tables (d_store d))"
    using taken by (simp add: insert_mls_group_def insert_group_def created_row_def)
  then have "store_created env (created_row b pf w) x = (Inl MlsGroupAlreadyExists, x)" if "d_store x = d_store d" for x
  proof -
    have "x\<lparr>d_store := d_store d\<rparr> = x" using that by simp
    then show ?thesis
      using \<open>insert_mls_group _ _ _ = _\<close> that no_fault store_eta [OF no_fault]
      by (simp add: store_created_def on_store_no_fault group_key_failed_def group_text_def)
  qed
  then show ?thesis
    using run by (auto simp: create_finish_def Let_def deadline_def ontime calls andthen_def do_call_def)
qed

theorem losing_creation_already_welcomed_witness:
  "SendWelcome ''pk1'' ''m2'' ''w'' \<in> set (d_calls (snd (create_finish example_env ''a'' example_pf [] example_squad_daemon)))"
  using losing_creation_already_welcomed [of example_env "''w2''" "''w''" "''e1''" example_squad_daemon "''a''" example_pf "[]",
      OF _ _ _ _ _ prod.collapse [symmetric]]
  by (simp add: example_env_def example_pf_def example_bot_state_def hm_contains_def example_db_group)

section \<open>Registrations without bots\<close>

definition botless_admin :: json where
  "botless_admin = JObject [(''bot_ids'', JArray []), (''event_types'', JArray []), (''capabilities'', JArray [JString ''Admin''])]"

text \<open>
  C3: A client that asks for no bots at all is granted any capability it names, \<open>Admin\<close> included:
  whatever the configuration, such a registration succeeds, and with it the caller may send
  messages with the key of every configured bot.
\<close>

theorem botless_admin_sends:
  assumes "e_token env = Inr tok" and "faults (d_store d) = []"
    and "get_bot_by_id (d_bots d) b = Some bs"
    and "handle_register env (Some botless_admin) (Some conn) d = (res, d1)"
    and "handle_admin_send_test_dm env2 (Some (e_uuid env)) (Some (JObject [(''bot_id'', JString b),
        (''recipient'', JString r), (''content'', JString c)])) d1 = (res2, d2)"
  shows "(\<exists>v. res = Inr v) \<and> d_calls d2 = d_calls d1 @ [SendDm (bs_public_key bs) r c None]"
proof -
  define h where "h = \<lparr>h_id = e_uuid env, connection = Some conn, bot_ids = [], event_types = [],
    capabilities = [''Admin''], reconnect_token = tok, registered_at = e_utc env, last_seen = e_utc env,
    h_transport = cn_transport conn\<rparr>"
  have reg: "reg_register (e_uuid env) (e_token env) (e_utc env) conn [] [] [''Admin''] cfgs rg =
      (Inr (e_uuid env, tok), hm_insert (e_uuid env) h rg)" for cfgs rg
    using assms(1) by (simp add: reg_register_def validate_request_def h_def)
  have registered: "(\<exists>v. res = Inr v) \<and> d_bots d1 = d_bots d \<and> hm_get (d_registry d1) (e_uuid env) = Some h"
    using assms(2,4)
    by (auto simp: handle_register_def required_params_def ok_or_def list_param_def botless_admin_def closed_connection_def
        on_registry_def reg settle_registration_def notify_bot_unavailable_on_registration_def andthen_def on_store_no_fault
        save_handler_def diag_def h_def)
  then have "find_bot b d1 = (Inr bs, d1)" using assms(3) by (simp add: find_bot_Inr)
  with registered assms(5) show ?thesis
    by (auto simp: handle_admin_send_test_dm_def require_admin_or_self_def ok_or_def h_def required_params_def
        required_string_def send_test_dm_def do_call_def andthen_def split: sum.splits)
qed

theorem botless_admin_sends_witness:
  "d_calls (snd (handle_admin_send_test_dm example_env (Some ''u'') (Some (JObject [(''bot_id'', JString ''a''),
      (''recipient'', JString ''m''), (''content'', JString ''hi'')]))
      (snd (handle_register example_env (Some botless_admin) (Some example_conn) example_squad_daemon)))) =
    d_calls (snd (handle_register example_env (Some botless_admin) (Some example_conn) example_squad_daemon)) @
      [SendDm ''pk1'' ''m'' ''hi'' None]"
  using botless_admin_sends [of example_env "''t''" example_squad_daemon "''a''" "example_bot_state\<lparr>bs_mls := True\<rparr>",
      OF _ _ _ prod.collapse [symmetric] prod.collapse [symmetric]]
  by (simp add: example_env_def example_bot_state_def)



end
