(* ===== verification/TransportProperties.thy ===== *)
theory TransportProperties
  imports UnixSpec MessageProperties
begin

text \<open>
  Properties of the transports: what a connection is sent and in which order, whom its messages
  speak for, and what becomes of a registration when connections end.
\<close>

section \<open>A reconnection\<close>

definition reconnect_params_json :: "str \<Rightarrow> str \<Rightarrow> json" where
  "reconnect_params_json h tok = JObject [(''handler_id'', JString h), (''reconnect_token'', JString tok)]"

definition reconnect_request :: "json \<Rightarrow> str \<Rightarrow> str \<Rightarrow> message" where
  "reconnect_request i h tok = mk_request i ''handler.reconnect'' (Some (reconnect_params_json h tok))"

lemma reconnect_run:
  assumes "faults (d_store d) = []" and "hm_get (d_registry d) h = Some hr"
    and "\<not> is_connected (d_chans d) hr" and "e_hex_decode env tok = Some x"
    and "e_hex_decode env (reconnect_token hr) = Some x" and "BotUnavailable \<notin> set (event_types hr)"
  obtains v d' where "handle_message env (reconnect_request i h tok) hid (Some c) d = (Inr (Some (mk_response i (Some v))), d')"
    and "str_field v ''handler_id'' = Some h" and "d_chans d' = d_chans d" and "faults (d_store d') = []"
    and "hm_get (d_registry d') h = Some (hr\<lparr>connection := Some c, last_seen := e_utc env, h_transport := cn_transport c\<rparr>)"
proof -
  obtain v d' where run: "handle_reconnect env (Some (reconnect_params_json h tok)) (Some c) d = (Inr (Some v), d')"
      and v: "str_field v ''handler_id'' = Some h" and d': "d_chans d' = d_chans d" "faults (d_store d') = []"
      "hm_get (d_registry d') h = Some (hr\<lparr>connection := Some c, last_seen := e_utc env, h_transport := cn_transport c\<rparr>)"
    using assms
    by (auto simp: handle_reconnect_def required_params_def ok_or_def typed_params_def reconnect_params_json_def
        closed_connection_def on_registry_def reg_reconnect_def settle_registration_def andthen_def on_store_no_fault
        notify_bot_unavailable_on_registration_def save_handler_def registration_fields_def)
  have "parse_method ''handler.reconnect'' = Inr M_HandlerReconnect" by (simp add: parse_method_def)
  then have "handle_message env (reconnect_request i h tok) hid (Some c) d = (Inr (Some (mk_response i (Some v))), d')"
    using run by (simp add: handle_message_def reconnect_request_def mk_request_def run_method_def)
  from this v d' show thesis by (rule that)
qed

section \<open>An example server\<close>

text \<open>The frame \<open>R\<close> is a request to reconnect the handler \<open>u\<close>, every other is no JSON.\<close>

definition example_request :: message where
  "example_request = reconnect_request (JString ''1'') ''u'' ''t''"

definition example_tenv :: tenv where
  "example_tenv = \<lparr>te_utf8 = \<lambda>_. True,
     te_read_json = (\<lambda>s. if s = ''R'' then Inr (ser_message example_request) else Inl ''no json''),
     te_show_json = \<lambda>_. [], te_schemas = [(''handler.reconnect'', JArray [])],
     te_validator = \<lambda>_. Inl ''no schema'', te_max_frame = MAX_FRAME_BYTES\<rparr>"

text \<open>A daemon just restarted: the handler was restored and has no connection.\<close>

definition restarted_daemon :: daemon where
  "restarted_daemon = example_daemon\<lparr>d_registry := [(''u'', example_handler\<lparr>connection := None\<rparr>)]\<rparr>"

lemma example_wire: "wire_ok example_request"
  by (simp add: example_request_def reconnect_request_def mk_request_def reconnect_params_json_def)

lemma example_parse [simp]:
  "parse_message (te_show_json example_tenv) (te_read_json example_tenv ''R'') = Inr example_request"
  "parse_message (te_show_json example_tenv) (te_read_json example_tenv ''X'') = Inl (JsonRpcParseError ''no json'')"
  by (simp_all add: example_tenv_def parse_message_ser [OF example_wire]) (simp add: parse_message_def)

lemma example_valid [simp]: "validate_message example_tenv example_request = Inr ()"
  by (simp add: validate_message_def validate_params_def example_request_def reconnect_request_def
      mk_request_def example_tenv_def)

lemma example_request_id [simp]: "msg_id example_request = Some (JString ''1'')"
  by (simp add: example_request_def reconnect_request_def mk_request_def)

lemma example_frame [simp]:
  "frame_action example_tenv ''R'' = QueueFrame ''R''" "frame_action example_tenv ''X'' = QueueFrame ''X''"
  by (simp_all add: frame_action_def strip_newline_def example_tenv_def MAX_FRAME_BYTES_def)

text \<open>A first connection that has reconnected the handler.\<close>

definition fresh_conn :: uconn where
  "fresh_conn = \<lparr>uc_hid = None, uc_pending = [], uc_phase = Idle, uc_reading = Reading, uc_frames = [], uc_written = []\<rparr>"

lemma accept_run: "length (sv_conns s) < MAX_CONNECTIONS \<Longrightarrow> server_reachable te s \<Longrightarrow>
   server_reachable te (set_channel (sv_next s) \<lparr>ch_queue = [], ch_capacity = OUTBOUND_BUFFER, ch_closed = False\<rparr>
          (set_conn (sv_next s) fresh_conn (s\<lparr>sv_next := sv_next s + 1\<rparr>)))"
  by (erule r_step [OF _ s_accept]) (simp add: accept_conn_def fresh_conn_def)

lemma set_conn_twice [simp]: "set_conn n c (set_conn n c' s) = set_conn n c s"
  by (simp add: set_conn_def hm_insert_def)

lemma request_run:
  assumes "server_reachable example_tenv s" and "hm_get (sv_conns s) n = Some c" and "uc_reading c = Reading"
    and "uc_phase c = Idle" and "uc_pending c = []" and "sv_events s = []"
  shows "server_reachable example_tenv
     ((set_conn n (c\<lparr>uc_phase := Waiting (Some (JString ''1'')), uc_frames := uc_frames c @ [''R'']\<rparr>) s)
        \<lparr>sv_events := [TMessage n example_request (uc_hid c)]\<rparr>)"
proof -
  let ?s1 = "set_conn n (c\<lparr>uc_pending := [''R''], uc_frames := uc_frames c @ [''R'']\<rparr>) s"
  have r1: "server_reachable example_tenv ?s1"
    by (rule r_step [OF assms(1) s_read [where n = n and input = "Some ''R''"]])
      (use assms in \<open>simp add: read_conn_def OUTBOUND_BUFFER_def\<close>)
  have "drain_conn example_tenv n ?s1 =
      Some ((set_conn n (c\<lparr>uc_phase := Waiting (Some (JString ''1'')), uc_frames := uc_frames c @ [''R'']\<rparr>) s)
        \<lparr>sv_events := [TMessage n example_request (uc_hid c)]\<rparr>)"
    using assms by (cases c) (simp add: drain_conn_def EVENT_BUFFER_def)
  from r_step [OF r1 s_drain [OF this]] show ?thesis .
qed

lemma example_reconnect:
  assumes "faults (d_store d) = []" and "hm_get (d_registry d) ''u'' = Some hr" and "\<not> is_connected (d_chans d) hr"
    and "reconnect_token hr = ''t''" and "event_types hr = [DmReceived]"
  obtains v d' where "handle_message example_env example_request hid (Some (unix_connection n)) d =
      (Inr (Some (mk_response (JString ''1'') (Some v))), d')"
    and "str_field v ''handler_id'' = Some ''u''" and "d_chans d' = d_chans d" and "faults (d_store d') = []"
    and "hm_get (d_registry d') ''u'' =
      Some (hr\<lparr>connection := Some (unix_connection n), last_seen := 0, h_transport := ''unix''\<rparr>)"
proof -
  have dec: "e_hex_decode example_env = Some" "e_utc example_env = 0" by (simp_all add: example_env_def)
  obtain v d' where "handle_message example_env example_request hid (Some (unix_connection n)) d =
      (Inr (Some (mk_response (JString ''1'') (Some v))), d')"
    "str_field v ''handler_id'' = Some ''u''" "d_chans d' = d_chans d" "faults (d_store d') = []"
    "hm_get (d_registry d') ''u'' = Some (hr\<lparr>connection := Some (unix_connection n),
        last_seen := e_utc example_env, h_transport := cn_transport (unix_connection n)\<rparr>)"
    unfolding example_request_def
    by (rule reconnect_run [OF assms(1-3), where env = example_env and tok = "''t''" and x = "''t''"])
      (simp_all add: assms dec)
  then show thesis by (intro that) (simp_all add: dec unix_connection_def)
qed

text \<open>The first connection, once its request to reconnect has been answered.\<close>

lemma example_reconnected:
  obtains s c where "server_reachable example_tenv s" and "hm_get (sv_conns s) 0 = Some c" and "length (sv_conns s) = 1"
    and "uc_reading c = Reading" and "uc_phase c = Idle" and "uc_pending c = []" and "uc_hid c = Some ''u''"
    and "sv_events s = []" and "sv_disconnects s = []" and "sv_next s = 1" and "faults (d_store (sv_daemon s)) = []"
    and "hm_get (d_registry (sv_daemon s)) ''u'' =
      Some (example_handler\<lparr>connection := Some (unix_connection 0), last_seen := 0, h_transport := ''unix''\<rparr>)"
proof -
  let ?ch = "\<lparr>ch_queue = [], ch_capacity = OUTBOUND_BUFFER, ch_closed = False\<rparr>"
  have r0: "server_reachable example_tenv (server_start restarted_daemon 0)" by (rule r_start)
  define s1 where "s1 = set_channel 0 ?ch (set_conn 0 fresh_conn ((server_start restarted_daemon 0)\<lparr>sv_next := 1\<rparr>))"
  have r1: "server_reachable example_tenv s1"
    using accept_run [OF _ r0] by (simp add: s1_def server_start_def MAX_CONNECTIONS_def)
  let ?cw = "fresh_conn\<lparr>uc_phase := Waiting (Some (JString ''1'')), uc_frames := [''R'']\<rparr>"
  define s3 where "s3 = (set_conn 0 ?cw s1)\<lparr>sv_events := [TMessage 0 example_request None]\<rparr>"
  have r3: "server_reachable example_tenv s3"
    using request_run [OF r1, of 0 fresh_conn] by (simp add: s1_def s3_def fresh_conn_def server_start_def)
  have reg: "hm_get (d_registry (sv_daemon s3)) ''u'' = Some (example_handler\<lparr>connection := None\<rparr>)"
    and st: "faults (d_store (sv_daemon s3)) = []"
    by (simp_all add: s3_def s1_def server_start_def set_channel_def set_conn_def restarted_daemon_def
        example_daemon_def dispatch_new_def)
  obtain v d where run: "handle_message example_env example_request None (Some (unix_connection 0)) (sv_daemon s3) =
        (Inr (Some (mk_response (JString ''1'') (Some v))), d)"
      and v: "str_field v ''handler_id'' = Some ''u''" and d: "faults (d_store d) = []" "d_chans d = d_chans (sv_daemon s3)"
      "hm_get (d_registry d) ''u'' = Some (example_handler\<lparr>connection := Some (unix_connection 0), last_seen := 0, h_transport := ''unix''\<rparr>)"
    by (rule example_reconnect [OF st reg, where hid = None and n = 0])
      (simp_all add: is_connected_def example_handler_def)
  let ?m = "mk_response (JString ''1'') (Some v)"
  define s4 where "s4 = set_conn 0 (?cw\<lparr>uc_phase := Answered (Some ?m)\<rparr>)
    (s3\<lparr>sv_daemon := d, sv_events := [], sv_answers := [(0, example_request, Some ?m)]\<rparr>)"
  have "dispatch_consume example_env s3 = Some s4"
    using run by (simp add: dispatch_consume_def s3_def s4_def deliver_def transport_answer_def s1_def server_start_def
        Let_def set_conn_def set_channel_def)
  from r_step [OF r3 s_consume [OF this]] have r4: "server_reachable example_tenv s4" .
  let ?cs = "?cw\<lparr>uc_phase := Sending ?m, uc_hid := Some ''u''\<rparr>"
  define s5 where "s5 = set_conn 0 ?cs s4"
  have "adopt_conn 0 s4 = Some s5"
    using v by (simp add: adopt_conn_def s4_def s5_def mk_response_def fresh_conn_def)
  from r_step [OF r4 s_adopt [OF this]] have r5: "server_reachable example_tenv s5" .
  have ch: "sv_channel s5 0 = ?ch"
    using d(2) by (simp add: s5_def s4_def s3_def s1_def set_conn_def set_channel_def)
  define s6 where "s6 = set_channel 0 (?ch\<lparr>ch_queue := [?m]\<rparr>) (set_conn 0 (?cs\<lparr>uc_phase := Idle\<rparr>) s5)"
  have "send_conn 0 s5 = Some s6"
    using ch by (simp add: send_conn_def s6_def Let_def OUTBOUND_BUFFER_def) (simp add: s5_def)
  from r_step [OF r5 s_send [OF this]] have "server_reachable example_tenv s6" .
  then show thesis
    by (rule that [where c = "?cs\<lparr>uc_phase := Idle\<rparr>"])
      (use d in \<open>simp_all add: s6_def s5_def s4_def s3_def s1_def server_start_def set_conn_def set_channel_def
         fresh_conn_def hm_insert_def\<close>)
qed


section \<open>Answers in order\<close>

text \<open>
  C8: What a connection is sent in answer to its frames comes in the order of the frames, one answer
  for each message with an id and none for a notification, whatever other connections and tasks do
  in between; and once nothing is under way, no answer is missing.
\<close>

theorem answers_in_order:
  assumes "server_reachable te s" and "hm_get (sv_conns s) n = Some c"
  shows "\<exists>rest. answer_ids (from_queue (uc_written c)) @ rest = asked_ids te (uc_frames c) \<and>
     (\<not> ch_closed (sv_channel s n) \<and> ch_queue (sv_channel s n) = [] \<and> uc_phase c = Idle \<and> uc_pending c = [] \<longrightarrow>
        rest = [])"
proof -
  have ok: "conn_ok te (sv_channel s n) c"
    using server_okD(2) [OF server_reachable_ok] assms by blast
  show ?thesis
  proof (cases "ch_closed (sv_channel s n)")
    case True
    then show ?thesis using ok by (auto simp: conn_ok_def Let_def)
  next
    case False
    then have "answer_ids (from_queue (uc_written c)) @ answer_ids (ch_queue (sv_channel s n)) @
        phase_ids (uc_phase c) @ asked_ids te (uc_pending c) = asked_ids te (uc_frames c)"
      using ok by (simp add: conn_ok_def Let_def)
    then show ?thesis by (intro exI conjI impI, assumption) simp
  qed
qed

lemma example_answered:
  obtains s c where "server_reachable example_tenv s" and "hm_get (sv_conns s) 0 = Some c"
    and "uc_frames c = [''X'']" and "uc_phase c = Idle" and "uc_pending c = []"
    and "ch_queue (sv_channel s 0) = []" and "\<not> ch_closed (sv_channel s 0)"
proof -
  let ?m = "mk_error JNull (to_json_rpc_error (JsonRpcParseError ''no json''))"
  let ?c = "\<lparr>uc_hid = None, uc_pending = [], uc_phase = Idle, uc_reading = Reading, uc_frames = [], uc_written = []\<rparr>"
  let ?cf = "?c\<lparr>uc_frames := [''X'']\<rparr>"
  let ?ch = "\<lparr>ch_queue = [], ch_capacity = OUTBOUND_BUFFER, ch_closed = False\<rparr>"
  define s0 where "s0 = server_start restarted_daemon 0"
  define s1 where "s1 = set_channel 0 ?ch (set_conn 0 ?c (s0\<lparr>sv_next := 1\<rparr>))"
  define s2 where "s2 = set_conn 0 (?cf\<lparr>uc_pending := [''X'']\<rparr>) s1"
  define s3 where "s3 = set_conn 0 (?cf\<lparr>uc_phase := Answered (Some ?m)\<rparr>) s2"
  define s4 where "s4 = set_conn 0 (?cf\<lparr>uc_phase := Sending ?m\<rparr>) s3"
  define s5 where "s5 = set_channel 0 (?ch\<lparr>ch_queue := [?m]\<rparr>) (set_conn 0 ?cf s4)"
  define s6 where "s6 = set_channel 0 ?ch (set_conn 0 (?cf\<lparr>uc_written := [FromQueue ?m]\<rparr>) s5)"
  have buf: "(0::nat) < OUTBOUND_BUFFER" by (simp add: OUTBOUND_BUFFER_def)
  have r0: "server_reachable example_tenv s0" unfolding s0_def by (rule r_start)
  have r1: "server_reachable example_tenv s1"
    by (rule r_step [OF r0 s_accept]) (simp add: accept_conn_def s0_def server_start_def s1_def MAX_CONNECTIONS_def)
  have r2: "server_reachable example_tenv s2"
    by (rule r_step [OF r1 s_read [where n = 0 and input = "Some ''X''"]]) (simp add: read_conn_def s1_def s2_def buf)
  have r3: "server_reachable example_tenv s3"
    by (rule r_step [OF r2 s_drain [where n = 0]]) (simp add: drain_conn_def s2_def s3_def)
  have r4: "server_reachable example_tenv s4"
    by (rule r_step [OF r3 s_adopt [where n = 0]]) (simp add: adopt_conn_def s3_def s4_def mk_error_def)
  have r5: "server_reachable example_tenv s5"
    by (rule r_step [OF r4 s_send [where n = 0]]) (simp add: send_conn_def s5_def s4_def s3_def s2_def s1_def buf)
  have "server_reachable example_tenv s6"
    by (rule r_step [OF r5 s_write [where n = 0 and ok = True]]) (simp add: write_conn_def s5_def s6_def)
  then show thesis
    by (rule that [where c = "?cf\<lparr>uc_written := [FromQueue ?m]\<rparr>"]) (simp_all add: s6_def)
qed

theorem answers_in_order_witness:
  "\<exists>s c. server_reachable example_tenv s \<and> hm_get (sv_conns s) 0 = Some c \<and>
     answer_ids (from_queue (uc_written c)) = [JNull]"
proof -
  obtain s c where s: "server_reachable example_tenv s" and c: "hm_get (sv_conns s) 0 = Some c"
    and "uc_frames c = [''X'']" "uc_phase c = Idle" "uc_pending c = []"
    "ch_queue (sv_channel s 0) = []" "\<not> ch_closed (sv_channel s 0)"
    by (rule example_answered)
  with answers_in_order [OF s c] have "answer_ids (from_queue (uc_written c)) = [JNull]"
    by (simp add: frame_ids_def)
  with s c show ?thesis by blast
qed

section \<open>Whom a message speaks for\<close>


lemma example_spoken:
  obtains s where "server_reachable example_tenv s" and "sv_events s = [TMessage 0 example_request (Some ''u'')]"
proof -
  obtain s c where "server_reachable example_tenv s" "hm_get (sv_conns s) 0 = Some c" "uc_reading c = Reading"
    "uc_phase c = Idle" "uc_pending c = []" and h: "uc_hid c = Some ''u''" and "sv_events s = []"
    by (rule example_reconnected)
  then have "server_reachable example_tenv ((set_conn 0 (c\<lparr>uc_phase := Waiting (Some (JString ''1'')),
      uc_frames := uc_frames c @ [''R'']\<rparr>) s)\<lparr>sv_events := [TMessage 0 example_request (uc_hid c)]\<rparr>)"
    by (intro request_run)
  then show thesis by (rule that) (simp add: h)
qed


section \<open>Connections that end\<close>

lemma unregister_removes: "hm_get (d_registry (snd (unregister_handler h d))) h = None"
  by (auto simp: unregister_handler_def andthen_def reg_unregister_def hm_contains_def on_store_def diag_def
      split: prod.splits sum.splits)

text \<open>
  C9: A handler that reconnects as soon as its old connection is gone loses its registration all the
  same: the reconnection is answered with success, but the announcement of the old connection's end,
  which waits in a queue of its own, then removes the handler the new connection has taken over.
\<close>

theorem reconnection_undone:
  assumes "sv_events s = [TMessage b msg hb]" and "sv_disconnects s = [Some h]"
    and "hm_get (sv_conns s) b = Some c"
    and "handle_message env msg hb (Some (unix_connection b)) (sv_daemon s) = (Inr resp, d)"
    and "issued_id resp = Some h"
  shows "\<exists>s1 s2 s3 s4 c3. dispatch_consume env s = Some s1 \<and> forward_disconnect s1 = Some s2 \<and>
     adopt_conn b s2 = Some s3 \<and> hm_get (sv_conns s3) b = Some c3 \<and> uc_hid c3 = Some h \<and>
     dispatch_consume later s3 = Some s4 \<and> sv_conns s4 = sv_conns s3 \<and>
     hm_get (d_registry (sv_daemon s4)) h = None"
proof -
  let ?resp = "transport_answer (msg_id msg) (Inr resp)"
  let ?c1 = "c\<lparr>uc_phase := Answered resp\<rparr>"
  have resp: "?resp = resp" by (simp add: transport_answer_def)
  define s1 where "s1 = set_conn b ?c1 (s\<lparr>sv_daemon := d, sv_events := [], sv_answers := sv_answers s @ [(b, msg, resp)]\<rparr>)"
  define s2 where "s2 = s1\<lparr>sv_disconnects := [], sv_events := [TDisconnect (Some h)]\<rparr>"
  obtain c3 where adopt: "adopt_conn b s2 = Some (set_conn b c3 s2)" and c3: "uc_hid c3 = Some h"
    using assms(5) by (simp add: adopt_conn_def s2_def s1_def set_conn_def)
  have "dispatch_consume env s = Some s1"
    using assms by (simp add: dispatch_consume_def resp deliver_def s1_def)
  moreover have "forward_disconnect s1 = Some s2"
    using assms(2) by (simp add: forward_disconnect_def s1_def s2_def EVENT_BUFFER_def)
  moreover have "dispatch_consume later (set_conn b c3 s2) =
      Some ((set_conn b c3 s2)\<lparr>sv_daemon := snd (unregister_handler h (sv_daemon s2)), sv_events := []\<rparr>)"
    by (simp add: dispatch_consume_def s2_def)
  ultimately show ?thesis using adopt c3 unregister_removes by fastforce
qed


text \<open>The first connection ends, and the handler reconnects over a second one.\<close>

lemma example_takeover:
  obtains s c where "server_reachable example_tenv s" and "sv_events s = [TMessage 1 example_request None]"
    and "sv_disconnects s = [Some ''u'']" and "hm_get (sv_conns s) 1 = Some c"
    and "faults (d_store (sv_daemon s)) = []" and "ch_closed (sv_channel s 0)"
    and "hm_get (d_registry (sv_daemon s)) ''u'' =
      Some (example_handler\<lparr>connection := Some (unix_connection 0), last_seen := 0, h_transport := ''unix''\<rparr>)"
proof -
  let ?ch = "\<lparr>ch_queue = [], ch_capacity = OUTBOUND_BUFFER, ch_closed = False\<rparr>"
  obtain s6 c6 where r6: "server_reachable example_tenv s6" and c6: "hm_get (sv_conns s6) 0 = Some c6"
    and one: "length (sv_conns s6) = 1" and rd: "uc_reading c6 = Reading" and h: "uc_hid c6 = Some ''u''"
    and ev: "sv_events s6 = []" and dc: "sv_disconnects s6 = []" and nx: "sv_next s6 = 1"
    and st: "faults (d_store (sv_daemon s6)) = []"
    and reg: "hm_get (d_registry (sv_daemon s6)) ''u'' =
      Some (example_handler\<lparr>connection := Some (unix_connection 0), last_seen := 0, h_transport := ''unix''\<rparr>)"
    by (rule example_reconnected)
  have cs: "sv_conns s6 = [(0, c6)]"
    using one c6 by (cases "sv_conns s6") (auto split: if_splits)
  define s7 where "s7 = set_conn 0 (c6\<lparr>uc_reading := Ending (Some ''u'')\<rparr>) s6"
  have "read_conn example_tenv 0 None s6 = Some s7"
    using c6 rd h by (simp add: read_conn_def s7_def)
  from r_step [OF r6 s_read [OF this]] have r7: "server_reachable example_tenv s7" .
  define s8 where "s8 = (set_conn 0 (c6\<lparr>uc_reading := Announced\<rparr>) s7)\<lparr>sv_disconnects := [Some ''u'']\<rparr>"
  have "announce_conn 0 s7 = Some s8"
    using dc by (simp add: announce_conn_def s7_def s8_def EVENT_BUFFER_def)
  from r_step [OF r7 s_announce [OF this]] have r8: "server_reachable example_tenv s8" .
  define s9 where "s9 = set_channel 0 ((sv_channel s8 0)\<lparr>ch_closed := True\<rparr>) (s8\<lparr>sv_conns := []\<rparr>)"
  have "hm_get (sv_conns s8) 0 = Some (c6\<lparr>uc_reading := Announced\<rparr>)" by (simp add: s8_def)
  moreover have "hm_remove 0 (sv_conns s8) = []"
    using cs by (simp add: s8_def s7_def set_conn_def hm_insert_def hm_remove_def)
  ultimately have "abort_conn 0 s8 = Some s9" by (simp add: abort_conn_def s9_def)
  from r_step [OF r8 s_abort [OF this]] have r9: "server_reachable example_tenv s9" .
  have nx9: "sv_next s9 = 1" and cs9: "sv_conns s9 = []" and ev9: "sv_events s9 = []"
    using nx ev by (simp_all add: s9_def s8_def s7_def)
  define s10 where "s10 = set_channel 1 ?ch (set_conn 1 fresh_conn (s9\<lparr>sv_next := 2\<rparr>))"
  have r10: "server_reachable example_tenv s10"
    using accept_run [OF _ r9] by (simp add: s10_def nx9 cs9 MAX_CONNECTIONS_def numeral_2_eq_2)
  let ?c = "fresh_conn\<lparr>uc_phase := Waiting (Some (JString ''1'')), uc_frames := [''R'']\<rparr>"
  define s12 where "s12 = (set_conn 1 ?c s10)\<lparr>sv_events := [TMessage 1 example_request None]\<rparr>"
  have "server_reachable example_tenv s12"
    using request_run [OF r10, of 1 fresh_conn] by (simp add: s10_def s12_def fresh_conn_def ev9)
  then show thesis
    by (rule that [where c = ?c])
      (use st reg in \<open>simp_all add: s12_def s10_def s9_def s8_def s7_def set_conn_def set_channel_def\<close>)
qed

theorem reconnection_undone_witness:
  "\<exists>s s1 s2 s3 s4 c3. server_reachable example_tenv s \<and> dispatch_consume example_env s = Some s1 \<and>
     forward_disconnect s1 = Some s2 \<and> adopt_conn 1 s2 = Some s3 \<and> hm_get (sv_conns s3) 1 = Some c3 \<and>
     uc_hid c3 = Some ''u'' \<and> dispatch_consume example_env s3 = Some s4 \<and> sv_conns s4 = sv_conns s3 \<and>
     hm_get (d_registry (sv_daemon s4)) ''u'' = None"
proof -
  obtain s c where s: "server_reachable example_tenv s" "sv_events s = [TMessage 1 example_request None]"
    "sv_disconnects s = [Some ''u'']" "hm_get (sv_conns s) 1 = Some c"
    and st: "faults (d_store (sv_daemon s)) = []" and gone: "ch_closed (sv_channel s 0)"
    and reg: "hm_get (d_registry (sv_daemon s)) ''u'' =
      Some (example_handler\<lparr>connection := Some (unix_connection 0), last_seen := 0, h_transport := ''unix''\<rparr>)"
    by (rule example_takeover)
  obtain v d where run: "handle_message example_env example_request None (Some (unix_connection 1)) (sv_daemon s) =
      (Inr (Some (mk_response (JString ''1'') (Some v))), d)" and v: "str_field v ''handler_id'' = Some ''u''"
    by (rule example_reconnect [OF st reg, where hid = None and n = 1])
      (use gone in \<open>simp_all add: is_connected_def is_alive_def unix_connection_def example_handler_def\<close>)
  have "issued_id (Some (mk_response (JString ''1'') (Some v))) = Some ''u''"
    using v by (simp add: mk_response_def)
  from reconnection_undone [OF s(2-4) run this, where later = example_env] s(1) show ?thesis by blast
qed

end
