(* ===== verification/Spec2Isabelle.thy ===== *)
theory Spec2Isabelle
  imports WireProperties LimitProperties StateProperties TransportProperties
begin

text \<open>
  A verification library for \<open>pacto-bot-api\<close>, the daemon that holds Nostr bot keys and lets
  handler processes act for the bots over JSON-RPC.

  The program. Handlers connect to a Unix socket (or HTTP), exchange newline-separated JSON-RPC
  messages with the transport (\<open>src/transport\<close>), and register for bots, event types and
  capabilities. The router (\<open>src/dispatch.rs\<close>) answers their requests: it checks what the handler
  may do (\<open>src/handlers.rs\<close>, \<open>src/config.rs\<close>), how often (token buckets), and calls the Nostr client
  and the MLS engine with the key of the bot. Events that arrive for a bot are offered to the
  matching handlers; their responses are collected until a timeout, acted upon, and the cursor of
  the bot is moved (\<open>src/db.rs\<close>). Everything that outlives the process is in one SQLite file.

  Theories, from the bottom up.
  \<^item> \<open>Prelude\<close>, \<open>Decimal\<close>, \<open>F64\<close>, \<open>Json\<close>: machine integers, \<open>Result\<close> as a sum with \<open>rbind\<close> for the
    question-mark operator, hash maps, decimal text, double-precision rounding on rationals, JSON
    values and the accessors of \<open>serde_json\<close> the code calls.
  \<^item> \<open>Events\<close>, \<open>EventCodec\<close>: \<open>src/events.rs\<close>, with the derived serializer and deserializer.
  \<^item> \<open>Errors\<close>: \<open>src/errors.rs\<close> and the error type of \<open>src/mls.rs\<close>; \<open>Protocol\<close>: messages, frames, the
    method catalogue and the typed parameters of \<open>src/transport/protocol.rs\<close>.
  \<^item> \<open>Config\<close>: the records and checks of \<open>src/config.rs\<close>. \<open>Handlers\<close>: connections and the registry of
    \<open>src/handlers.rs\<close>. \<open>RateLimit\<close>, \<open>Dedup\<close>: token buckets, locks and the deduplication cache of
    \<open>src/dispatch.rs\<close>. \<open>Diagnostics\<close>: counters, activity windows, error ring and redaction of
    \<open>src/diagnostics.rs\<close>.
  \<^item> \<open>Database\<close>: each method of \<open>Database\<close> in \<open>src/db.rs\<close> as an operation on tables; \<open>DatabaseSpec\<close>: the
    invariant of the tables and the abstract squad directory; \<open>Actions\<close>: operations that change a
    state and may fail, with the locale of relations they keep; \<open>BotState\<close>, \<open>Reconcile\<close>:
    \<open>src/bot_state.rs\<close>, \<open>src/client_manager.rs\<close> and the flows that join bots, engines and tables.
  \<^item> \<open>DispatchState\<close>, \<open>DispatchSend\<close>, \<open>DispatchAdmin\<close>, \<open>DispatchMls\<close>, \<open>DispatchMessage\<close>: the state of the router
    and every request handler, in the order of \<open>src/dispatch.rs\<close>; \<open>DispatchEvent\<close>: the dispatch of
    events, group messages and Welcomes; \<open>Gating\<close>, \<open>DispatchAuth\<close>, \<open>DispatchEventSpec\<close>: which calls an
    operation can cause, and what holds of dispatches that run concurrently.
  \<^item> \<open>WireProperties\<close>, \<open>LimitProperties\<close>, \<open>StateProperties\<close>, \<open>DispatchProperties\<close>, \<open>MessageProperties\<close>: the
    properties, each after a text block with its number.

  State and effects. A component's state is a record with the fields of its Rust struct; an
  operation returns the new state. Locks are not state: an operation whose code holds one lock
  throughout is one step. Where the code releases the locks in between, the operation is split and
  the pieces are steps that others may come between: a dispatch is admitted, opened and finished
  (\<open>DispatchEvent\<close>, steps of \<open>router_step\<close>), a creation and an invitation begin, call the engine and
  settle (\<open>DispatchMls\<close>). Calls to other crates are appended to a log, \<open>call list\<close>, and answered by
  functions of that log, which are arguments: no theorem depends on what they answer, unless it
  says so.

  Parameters. The clock, random identifiers, the JSON text codec, hex and bech32 codecs, key
  parsing, counting graphemes and times as text are fields of \<open>env\<close>; the regular expressions and
  hash functions of other crates are arguments. Panics are \<open>None\<close> where the code can panic
  (\<open>redact_mls_paths\<close>); integers have their width where the code can wrap. Recursion is structural, or
  has a measure; nothing in the development runs on fuel.

  What the properties show. Authorization: a message causes calls only with the key of a bot over
  which its sender has the right its method needs, and the paths on which that fails. Answers: each
  message with an id is answered once. Squads: an invitation is all or nothing in the tables, the
  writes refine a directory of squads, and reconciliation with the engines marks exactly the
  squads they lost. Events: who is offered an event, what an answer can cause, when the cursor moves
  and what is seen again after a restart. Bounds: buckets, the cache, the ring and the windows stay
  within their limits. Wire and configuration: round trips of messages and events, the catalogue,
  and what an accepted configuration guarantees. Where the code does not keep what it promises the
  property states what it does.

  Not modelled. SQL text, migrations and files (the tables are what SQLite keeps); cryptography,
  the MLS library and the relay protocol of other crates, and the glue around them in \<open>src/mls.rs\<close>
  and \<open>src/nostr.rs\<close>; the schema validator; the command line, scaffolding and scenario tools; the
  tasks, timers and signals of \<open>src/main.rs\<close>, whose effects are the steps of the relations. The
  notifications of a dispatch are sent by tasks the code does not wait for; here they are sent in
  the order of the handlers.
\<close>

end
